(* ===== verification/Prelude.thy ===== *)
theory Prelude
  imports
    Main
    "HOL-Library.Word"
    "HOL-Library.AList"
    "HOL-Library.Char_ord"
    "HOL-Library.List_Lexorder"
    "HOL-Library.Signed_Division"
begin

unbundle bit_operations_syntax

section \<open>Prelude: Go values, errors, panics and integers\<close>

text \<open>
  What every component of the model shares: the outcome of a Go call (a value, an
  error value, or a panic), the error values the repository builds, Go's 64-bit
  \<^verbatim>\<open>int\<close> arithmetic, slices with their run-time bounds check, decimal printing, and the
  little-endian and big-endian assembly of bytes into words.

  A Go \<^verbatim>\<open>string\<close> is a sequence of bytes, so it is an Isabelle \<^typ>\<open>string\<close> (a \<^typ>\<open>char\<close> is
  one byte); a \<^verbatim>\<open>[]byte\<close> is a list of 8-bit words. A Go map is an association list with
  distinct keys, updated by \<^const>\<open>AList.update\<close> and read by \<^const>\<open>map_of\<close>.
\<close>

named_theorems outcome_simps \<open>rewrite rules for outcomes and their sequencing\<close>
named_theorems step_intros \<open>introduction rules of step relations\<close>
named_theorems inv_intros \<open>preservation lemmas of component invariants\<close>

type_synonym byte = "8 word"
type_synonym bytes = "byte list"

subsection \<open>Errors and outcomes\<close>

text \<open>
  \<open>EOF\<close> and \<open>UnexpectedEOF\<close> are \<^verbatim>\<open>io.EOF\<close> and \<^verbatim>\<open>io.ErrUnexpectedEOF\<close>; \<open>Errorf\<close> is an
  error made by \<^verbatim>\<open>fmt.Errorf\<close> without \<^verbatim>\<open>%w\<close>; \<open>Wrapf m e\<close> is \<^verbatim>\<open>fmt.Errorf("m: %w", e)\<close>;
  \<open>MySQLError n m\<close> is the driver's typed error with its error number.
\<close>

datatype go_error =
    EOF
  | UnexpectedEOF
  | Errorf string
  | Wrapf string go_error
  | MySQLError nat string

text \<open>A call returns a value, returns an error, or panics.\<close>

datatype 'a outcome = Ok 'a | Err go_error | Panic

fun bindo :: "'a outcome \<Rightarrow> ('a \<Rightarrow> 'b outcome) \<Rightarrow> 'b outcome" where
  "bindo (Ok x) f = f x"
| "bindo (Err e) f = Err e"
| "bindo Panic f = Panic"

text \<open>\<open>wrapo m\<close> is the \<^verbatim>\<open>if err != nil { return fmt.Errorf("m: %w", err) }\<close> of a caller.\<close>

fun wrapo :: "string \<Rightarrow> 'a outcome \<Rightarrow> 'a outcome" where
  "wrapo m (Ok x) = Ok x"
| "wrapo m (Err e) = Err (Wrapf m e)"
| "wrapo m Panic = Panic"

fun returns :: "'a outcome \<Rightarrow> bool" where
  "returns (Ok x) = True"
| "returns (Err e) = True"
| "returns Panic = False"

lemma bindo_Ok_iff [outcome_simps]: "bindo r f = Ok y \<longleftrightarrow> (\<exists>x. r = Ok x \<and> f x = Ok y)"
  by (cases r) auto

lemma bindo_Panic_iff [outcome_simps]:
  "bindo r f = Panic \<longleftrightarrow> r = Panic \<or> (\<exists>x. r = Ok x \<and> f x = Panic)"
  by (cases r) auto

lemma bindo_Err_iff [outcome_simps]:
  "bindo r f = Err e \<longleftrightarrow> r = Err e \<or> (\<exists>x. r = Ok x \<and> f x = Err e)"
  by (cases r) auto

lemma wrapo_Ok_iff [simp]: "wrapo m r = Ok x \<longleftrightarrow> r = Ok x"
  by (cases r) auto

lemma wrapo_Panic_iff [simp]: "wrapo m r = Panic \<longleftrightarrow> r = Panic"
  by (cases r) auto

lemma returns_iff: "returns r \<longleftrightarrow> r \<noteq> Panic"
  by (cases r) auto

text \<open>Mapping a fallible function over a list stops at the first error, as a Go loop with an
  early return does.\<close>

fun mapo :: "('a \<Rightarrow> 'b outcome) \<Rightarrow> 'a list \<Rightarrow> 'b list outcome" where
  "mapo f [] = Ok []"
| "mapo f (x # xs) = bindo (f x) (\<lambda>y. bindo (mapo f xs) (\<lambda>ys. Ok (y # ys)))"

lemma mapo_Ok: "(\<And>x. x \<in> set xs \<Longrightarrow> f x = Ok (g x)) \<Longrightarrow> mapo f xs = Ok (map g xs)"
  by (induction xs) auto

subsection \<open>Go integers\<close>

text \<open>\<^verbatim>\<open>int\<close> and \<^verbatim>\<open>int64\<close> are 64-bit two's complement; \<open>goint\<close> wraps a mathematical result.\<close>

definition goint :: "int \<Rightarrow> int" where
  "goint x = signed_take_bit 63 x"

lemma goint_id [simp]: "- (2 ^ 63) \<le> x \<Longrightarrow> x < 2 ^ 63 \<Longrightarrow> goint x = x"
  unfolding goint_def by (rule signed_take_bit_int_eq_self) auto

lemma goint_range: "- (2 ^ 63) \<le> goint x \<and> goint x < 2 ^ 63"
  using signed_take_bit_int_greater_eq_minus_exp [of 63 x]
    signed_take_bit_int_less_exp [of 63 x]
  unfolding goint_def by blast

text \<open>\<^verbatim>\<open>int(x)\<close> of a \<^verbatim>\<open>uint64\<close> reinterprets the bits.\<close>

definition int_of_u64 :: "64 word \<Rightarrow> int" where
  "int_of_u64 w = sint w"

lemma int_of_u64_small: "unat w < 2 ^ 63 \<Longrightarrow> int_of_u64 w = int (unat w)"
proof -
  assume "unat w < 2 ^ 63"
  then have hi: "uint w < 2 ^ 63"
    by (metis of_nat_less_iff of_nat_numeral of_nat_power uint_nat)
  have lo: "- (2 ^ 63) \<le> uint w"
    by (rule order_trans [OF _ uint_ge_0]) simp
  have "sint w = signed_take_bit 63 (uint w)"
    by (simp add: sint_uint)
  also have "\<dots> = uint w"
    by (rule signed_take_bit_int_eq_self [OF lo hi])
  finally have "sint w = uint w" .
  then show ?thesis by (simp add: int_of_u64_def)
qed

lemma goint_int [simp]: "n < 2 ^ 63 \<Longrightarrow> goint (int n) = int n"
proof (rule goint_id)
  assume "n < 2 ^ 63"
  then have "int n < int (2 ^ 63)" by (simp only: of_nat_less_iff)
  then show "int n < 2 ^ 63" by simp
  have "- (2 ^ 63) \<le> (0 :: int)" by simp
  also have "\<dots> \<le> int n" by simp
  finally show "- (2 ^ 63) \<le> int n" .
qed

lemma goint_minus: "goint (x - 2 ^ 64) = goint x"
proof -
  have "Suc 63 = 64" by simp
  then show ?thesis
    unfolding goint_def signed_take_bit_eq_iff_take_bit_eq
    by (simp only: take_bit_eq_mod minus_mod_self2)
qed

lemma goint_wrap: "2 ^ 63 \<le> x \<Longrightarrow> x < 2 ^ 64 + 2 ^ 63 \<Longrightarrow> goint x = x - 2 ^ 64"
  by (subst goint_minus [symmetric], rule goint_id) auto

lemma int_of_u64_eq:
  "int_of_u64 w = (if unat w < 2 ^ 63 then int (unat w) else int (unat w) - 2 ^ 64)"
proof (cases "unat w < 2 ^ 63")
  case True
  then show ?thesis by (simp add: int_of_u64_small)
next
  case False
  have hi: "uint w < 2 ^ 64" using uint_bounded [of w] by simp
  have lo: "2 ^ 63 \<le> uint w"
    using False by (metis linorder_not_less of_nat_less_iff of_nat_numeral of_nat_power uint_nat)
  have "sint w = signed_take_bit 63 (uint w)" by (simp add: sint_uint)
  also have "\<dots> = uint w - 2 ^ 64"
    using goint_wrap [of "uint w"] hi lo by (simp add: goint_def)
  finally have "sint w = int (unat w) - 2 ^ 64" by (simp only: uint_nat)
  with False show ?thesis by (simp only: int_of_u64_def if_False)
qed

lemma int_unat_u64_less: "int (unat (w :: 64 word)) < 2 ^ 64"
  using uint_bounded [of w] by simp

lemma int_of_u64_neg:
  assumes "2 ^ 63 \<le> unat w"
  shows "int_of_u64 w < 0" and "- (2 ^ 63) \<le> int_of_u64 w"
proof -
  obtain n where n: "n = unat w" by simp
  have i: "int_of_u64 w = int n - 2 ^ 64"
    using assms by (simp only: int_of_u64_eq n if_not_P linorder_not_less)
  have up: "int n < 2 ^ 64" unfolding n by (rule int_unat_u64_less)
  have "int (2 ^ 63) \<le> int n" using assms unfolding n by (simp only: of_nat_le_iff)
  then have lo: "2 ^ 63 \<le> int n" by simp
  show "int_of_u64 w < 0" using up by (simp add: i)
  show "- (2 ^ 63) \<le> int_of_u64 w" using lo by (simp add: i)
qed

lemma goint_huge:
  assumes "2 ^ 63 \<le> unat w" "int p < 2 ^ 62"
  shows "goint (int p + int_of_u64 w) < int p"
proof -
  obtain x y where x: "x = int p" and y: "y = int_of_u64 w" by simp
  have "y < 0" "- (2 ^ 63) \<le> y" using int_of_u64_neg [OF assms(1)] by (simp_all add: y)
  moreover have "0 \<le> x" "x < 2 ^ 62" using assms(2) by (simp_all add: x)
  ultimately have "goint (x + y) = x + y" by (intro goint_id) simp_all
  with \<open>y < 0\<close> show ?thesis by (simp add: x y)
qed

subsection \<open>Slices\<close>

text \<open>\<^verbatim>\<open>xs[lo:hi]\<close> panics unless \<open>0 \<le> lo \<le> hi \<le> len(xs)\<close>.\<close>

definition go_slice :: "'a list \<Rightarrow> int \<Rightarrow> int \<Rightarrow> 'a list outcome" where
  "go_slice xs lo hi =
     (if 0 \<le> lo \<and> lo \<le> hi \<and> hi \<le> int (length xs)
      then Ok (take (nat (hi - lo)) (drop (nat lo) xs)) else Panic)"

lemma go_slice_nat:
  "lo \<le> hi \<Longrightarrow> hi \<le> length xs \<Longrightarrow>
   go_slice xs (int lo) (int hi) = Ok (take (hi - lo) (drop lo xs))"
  by (simp add: go_slice_def nat_diff_distrib)

lemma go_slice_Panic: "hi < lo \<Longrightarrow> go_slice xs lo hi = Panic"
  by (simp add: go_slice_def)

text \<open>\<open>sub xs p n\<close> is \<^verbatim>\<open>xs[p:p+n]\<close> where the caller has checked the bound.\<close>

definition sub :: "'a list \<Rightarrow> nat \<Rightarrow> nat \<Rightarrow> 'a list" where
  "sub xs p n = take n (drop p xs)"

lemma sub_append [simp]: "length pre = p \<Longrightarrow> length mid = n \<Longrightarrow> sub (pre @ mid @ post) p n = mid"
  by (auto simp: sub_def)

lemma length_sub [simp]: "p + n \<le> length xs \<Longrightarrow> length (sub xs p n) = n"
  by (simp add: sub_def)

lemma sub_all [simp]: "sub xs 0 (length xs) = xs"
  by (simp add: sub_def)

subsection \<open>Strings and bytes\<close>

definition string_of_bytes :: "bytes \<Rightarrow> string" where
  "string_of_bytes bs = map (\<lambda>b. char_of (unat b)) bs"

definition bytes_of_string :: "string \<Rightarrow> bytes" where
  "bytes_of_string s = map (\<lambda>c. word_of_nat (of_char c)) s"

lemma bytes_of_string_of_bytes [simp]: "bytes_of_string (string_of_bytes bs) = bs"
proof -
  have "word_of_nat (of_char (char_of (unat b))) = b" for b :: byte
  proof -
    have "unat b < 256" using unsigned_less [of b] by simp
    then show ?thesis by simp
  qed
  then show ?thesis by (simp add: bytes_of_string_def string_of_bytes_def o_def)
qed

lemma string_of_bytes_of_string [simp]: "string_of_bytes (bytes_of_string s) = s"
proof -
  have "char_of (unat (word_of_nat (of_char c) :: byte)) = c" for c :: char
  proof -
    have "of_char c < (256 :: nat)" by (rule nat_of_char_less_256)
    then have "unat (word_of_nat (of_char c) :: byte) = of_char c"
      by (simp add: unat_of_nat)
    then show ?thesis by simp
  qed
  then show ?thesis by (simp add: bytes_of_string_def string_of_bytes_def o_def)
qed

lemma length_string_of_bytes [simp]: "length (string_of_bytes bs) = length bs"
  by (simp add: string_of_bytes_def)

lemma length_bytes_of_string [simp]: "length (bytes_of_string s) = length s"
  by (simp add: bytes_of_string_def)

lemma string_of_bytes_append [simp]:
  "string_of_bytes (a @ b) = string_of_bytes a @ string_of_bytes b"
  by (simp add: string_of_bytes_def)

subsection \<open>Assembling bytes\<close>

text \<open>
  \<open>le_word [b0, b1, \<dots>]\<close> is \<^verbatim>\<open>uintN(b0) | uintN(b1)<<8 | ...\<close>, the form the code writes
  out or loops over for every little-endian field (and \<^verbatim>\<open>binary.LittleEndian.UintN\<close>);
  \<open>be_word\<close> is the loop \<^verbatim>\<open>v = (v << 8) | uint64(b)\<close>. \<open>le_bytes n w\<close> is the inverse the
  round trips are stated with: the \<open>n\<close> low bytes of \<open>w\<close>, least significant first.
\<close>

fun le_word :: "bytes \<Rightarrow> 'a::len word" where
  "le_word [] = 0"
| "le_word (b # bs) = ucast b OR push_bit 8 (le_word bs)"

fun be_word_from :: "'a::len word \<Rightarrow> bytes \<Rightarrow> 'a word" where
  "be_word_from v [] = v"
| "be_word_from v (b # bs) = be_word_from (push_bit 8 v OR ucast b) bs"

fun le_bytes :: "nat \<Rightarrow> 'a::len word \<Rightarrow> bytes" where
  "le_bytes 0 w = []"
| "le_bytes (Suc n) w = ucast w # le_bytes n (drop_bit 8 w)"

lemma length_le_bytes [simp]: "length (le_bytes n w) = n"
  by (induction n arbitrary: w) auto

lemma le_word_step: "ucast (ucast w :: byte) OR push_bit 8 (drop_bit 8 w) = (w :: 'a::len word)"
proof (rule bit_word_eqI)
  fix k
  assume "k < LENGTH('a)"
  then show "bit (ucast (ucast w :: byte) OR push_bit 8 (drop_bit 8 w)) k = bit w k"
    by (cases "k < 8") (auto simp: bit_simps)
qed

lemma le_word_le_bytes: "LENGTH('a) \<le> 8 * n \<Longrightarrow> le_word (le_bytes n w) = (w :: 'a::len word)"
proof -
  have gen: "le_word (le_bytes n w) = (w :: 'a word)" if "\<forall>k \<ge> 8 * n. \<not> bit w k" for n and w :: "'a word"
    using that
  proof (induction n arbitrary: w)
    case 0
    then have "w = 0" by (intro bit_word_eqI) auto
    then show ?case by simp
  next
    case (Suc n)
    have "\<forall>k \<ge> 8 * n. \<not> bit (drop_bit 8 w) k"
      using Suc.prems by (auto simp: bit_simps)
    then have "le_word (le_bytes n (drop_bit 8 w)) = drop_bit 8 w" by (rule Suc.IH)
    then show ?case by (simp add: le_word_step)
  qed
  assume "LENGTH('a) \<le> 8 * n"
  then show ?thesis
    by (intro gen) (auto dest!: bit_imp_le_length)
qed

lemma le_word_le_bytes_small:
  "unat w < 256 ^ n \<Longrightarrow> le_word (le_bytes n w) = (w :: 'a::len word)"
proof (induction n arbitrary: w)
  case 0
  then show ?case by (simp add: unat_eq_0)
next
  case (Suc n)
  have "unat (drop_bit 8 w) = unat w div 256"
    by (simp only: unat_drop_bit_eq) (simp add: drop_bit_eq_div)
  also have "\<dots> < 256 ^ n"
    using Suc.prems by (simp add: div_less_iff_less_mult)
  finally have "le_word (le_bytes n (drop_bit 8 w)) = drop_bit 8 w" by (rule Suc.IH)
  then show ?case by (simp add: le_word_step)
qed

subsection \<open>Decimal printing\<close>

text \<open>\<^verbatim>\<open>%d\<close> of a natural number and of an integer.\<close>

definition digit_char :: "nat \<Rightarrow> char" where
  "digit_char d = char_of (48 + d)"

fun show_nat :: "nat \<Rightarrow> string" where
  "show_nat n = (if n < 10 then [digit_char n] else show_nat (n div 10) @ [digit_char (n mod 10)])"

declare show_nat.simps [simp del]

definition show_int :: "int \<Rightarrow> string" where
  "show_int i = (if i < 0 then CHR ''-'' # show_nat (nat (- i)) else show_nat (nat i))"

fun nat_of_digits :: "nat \<Rightarrow> string \<Rightarrow> nat" where
  "nat_of_digits acc [] = acc"
| "nat_of_digits acc (c # cs) = nat_of_digits (10 * acc + (of_char c - 48)) cs"

definition is_digit :: "char \<Rightarrow> bool" where
  "is_digit c \<longleftrightarrow> 48 \<le> (of_char c :: nat) \<and> (of_char c :: nat) \<le> 57"

lemma digit_char_is_digit: "d < 10 \<Longrightarrow> is_digit (digit_char d)"
  by (simp add: is_digit_def digit_char_def)

lemma show_nat_digits: "c \<in> set (show_nat n) \<Longrightarrow> is_digit c"
proof (induction n rule: show_nat.induct)
  case (1 n)
  show ?case
  proof (cases "n < 10")
    case True
    with "1.prems" show ?thesis by (simp add: show_nat.simps [of n] digit_char_is_digit)
  next
    case False
    with "1" show ?thesis
      by (auto simp: show_nat.simps [of n] digit_char_is_digit)
  qed
qed

lemma nat_of_digits_snoc:
  "nat_of_digits acc (cs @ [c]) = 10 * nat_of_digits acc cs + (of_char c - 48)"
  by (induction cs arbitrary: acc) auto

lemma nat_of_digits_show_nat: "nat_of_digits 0 (show_nat n) = n"
proof (induction n rule: show_nat.induct)
  case (1 n)
  show ?case
  proof (cases "n < 10")
    case True
    then show ?thesis by (simp add: show_nat.simps [of n] digit_char_def)
  next
    case False
    with "1" show ?thesis
      by (simp add: show_nat.simps [of n] nat_of_digits_snoc digit_char_def)
  qed
qed

lemma show_nat_inj: "show_nat m = show_nat n \<Longrightarrow> m = n"
  by (metis nat_of_digits_show_nat)

lemma show_nat_not_Nil [simp]: "show_nat n \<noteq> []"
  by (simp add: show_nat.simps [of n])

end
