(* ===== verification/Event.thy ===== *)
theory Event
  imports Prelude
begin

section \<open>Binlog events: header, types and byte readers\<close>

text \<open>
  The model of \<^verbatim>\<open>internal/parser/event.go\<close>: the event type codes, the 19-byte common
  header, and the little readers every payload parser is made of. A reader takes the data
  and a position and returns an outcome and the new position, as the Go functions return
  \<^verbatim>\<open>(value, pos, err)\<close>; the position is part of the result on errors too, because some
  callers keep it. A position is a \<^typ>\<open>nat\<close>: no caller passes a negative one. Lengths that
  come off the wire as \<^verbatim>\<open>uint64\<close> and are converted with \<^verbatim>\<open>int(...)\<close> stay 64-bit, so that the
  conversion can turn negative as it does in Go.
\<close>

type_synonym 'a reader = "bytes \<Rightarrow> nat \<Rightarrow> 'a outcome \<times> nat"

subsection \<open>Event types and header\<close>

type_synonym event_type = byte

abbreviation UnknownEvent :: event_type where "UnknownEvent \<equiv> 0"
abbreviation QueryEvent :: event_type where "QueryEvent \<equiv> 2"
abbreviation RotateEvent :: event_type where "RotateEvent \<equiv> 4"
abbreviation FormatDescriptionEvent :: event_type where "FormatDescriptionEvent \<equiv> 15"
abbreviation XidEvent :: event_type where "XidEvent \<equiv> 16"
abbreviation TableMapEvent :: event_type where "TableMapEvent \<equiv> 19"
abbreviation WriteRowsEventV1 :: event_type where "WriteRowsEventV1 \<equiv> 23"
abbreviation UpdateRowsEventV1 :: event_type where "UpdateRowsEventV1 \<equiv> 24"
abbreviation DeleteRowsEventV1 :: event_type where "DeleteRowsEventV1 \<equiv> 25"
abbreviation WriteRowsEventV2 :: event_type where "WriteRowsEventV2 \<equiv> 30"
abbreviation UpdateRowsEventV2 :: event_type where "UpdateRowsEventV2 \<equiv> 31"
abbreviation DeleteRowsEventV2 :: event_type where "DeleteRowsEventV2 \<equiv> 32"

definition EventType_String :: "event_type \<Rightarrow> string" where
  "EventType_String t =
     (if t = UnknownEvent then ''UNKNOWN''
      else if t = QueryEvent then ''QUERY''
      else if t = RotateEvent then ''ROTATE''
      else if t = XidEvent then ''XID''
      else if t = TableMapEvent then ''TABLE_MAP''
      else if t = WriteRowsEventV1 then ''WRITE_ROWS_V1''
      else if t = UpdateRowsEventV1 then ''UPDATE_ROWS_V1''
      else if t = DeleteRowsEventV1 then ''DELETE_ROWS_V1''
      else if t = WriteRowsEventV2 then ''WRITE_ROWS_V2''
      else if t = UpdateRowsEventV2 then ''UPDATE_ROWS_V2''
      else if t = DeleteRowsEventV2 then ''DELETE_ROWS_V2''
      else if t = FormatDescriptionEvent then ''FORMAT_DESCRIPTION''
      else ''EVENT('' @ show_nat (unat t) @ '')'')"

abbreviation EventHeaderSize :: nat where "EventHeaderSize \<equiv> 19"

record event_header =
  Timestamp :: "32 word"
  Type :: event_type
  ServerID :: "32 word"
  EventLen :: "32 word"
  NextPos :: "32 word"
  Flags :: "16 word"

definition ParseEventHeader :: "bytes \<Rightarrow> event_header outcome" where
  "ParseEventHeader data =
     (if length data < EventHeaderSize then Err UnexpectedEOF
      else Ok \<lparr>Timestamp = le_word (sub data 0 4),
               Type = data ! 4,
               ServerID = le_word (sub data 5 4),
               EventLen = le_word (sub data 9 4),
               NextPos = le_word (sub data 13 4),
               Flags = le_word (sub data 17 2)\<rparr>)"

subsection \<open>Fixed-width integers\<close>

definition readUint16 :: "(16 word) reader" where
  "readUint16 data pos =
     (if pos + 2 > length data then (Err UnexpectedEOF, pos)
      else (Ok (le_word (sub data pos 2)), pos + 2))"

definition readInt16 :: "int reader" where
  "readInt16 data pos =
     (if pos + 2 > length data then (Err UnexpectedEOF, pos)
      else (Ok (sint (le_word (sub data pos 2) :: 16 word)), pos + 2))"

definition readUint24 :: "(32 word) reader" where
  "readUint24 data pos =
     (if pos + 3 > length data then (Err UnexpectedEOF, pos)
      else (Ok (le_word (sub data pos 3)), pos + 3))"

definition readInt24 :: "int reader" where
  "readInt24 data pos =
     (if pos + 3 > length data then (Err UnexpectedEOF, pos)
      else let v = le_word (sub data pos 3) :: 32 word;
               v = (if v AND 0x800000 \<noteq> 0 then v OR 0xFF000000 else v)
           in (Ok (sint v), pos + 3))"

definition readUint32 :: "(32 word) reader" where
  "readUint32 data pos =
     (if pos + 4 > length data then (Err UnexpectedEOF, pos)
      else (Ok (le_word (sub data pos 4)), pos + 4))"

definition readInt32 :: "int reader" where
  "readInt32 data pos =
     (if pos + 4 > length data then (Err UnexpectedEOF, pos)
      else (Ok (sint (le_word (sub data pos 4) :: 32 word)), pos + 4))"

definition readUint64 :: "(64 word) reader" where
  "readUint64 data pos =
     (if pos + 8 > length data then (Err UnexpectedEOF, pos)
      else (Ok (le_word (sub data pos 8)), pos + 8))"

definition readInt64 :: "int reader" where
  "readInt64 data pos =
     (if pos + 8 > length data then (Err UnexpectedEOF, pos)
      else (Ok (sint (le_word (sub data pos 8) :: 64 word)), pos + 8))"

text \<open>A float is represented by its IEEE 754 bit pattern.\<close>

definition readFloat32 :: "(32 word) reader" where
  "readFloat32 data pos =
     (if pos + 4 > length data then (Err UnexpectedEOF, pos)
      else (Ok (le_word (sub data pos 4)), pos + 4))"

definition readFloat64 :: "(64 word) reader" where
  "readFloat64 data pos =
     (if pos + 8 > length data then (Err UnexpectedEOF, pos)
      else (Ok (le_word (sub data pos 8)), pos + 8))"

definition readUintBE :: "bytes \<Rightarrow> nat \<Rightarrow> nat \<Rightarrow> (64 word) outcome \<times> nat" where
  "readUintBE data pos n =
     (if pos + n > length data then (Err UnexpectedEOF, pos)
      else (Ok (be_word_from 0 (sub data pos n)), pos + n))"

subsection \<open>Length-encoded integers and strings\<close>

definition LengthEncodedInt :: "(64 word) reader" where
  "LengthEncodedInt data pos =
     (if pos \<ge> length data then (Err UnexpectedEOF, pos)
      else if data ! pos = 0xFB then (Ok 0, pos + 1)
      else if data ! pos = 0xFC then
        (if pos + 3 > length data then (Err UnexpectedEOF, pos)
         else (Ok (ucast (le_word (sub data (pos + 1) 2) :: 16 word)), pos + 3))
      else if data ! pos = 0xFD then
        (if pos + 4 > length data then (Err UnexpectedEOF, pos)
         else (Ok (ucast (le_word (sub data (pos + 1) 3) :: 32 word)), pos + 4))
      else if data ! pos = 0xFE then
        (if pos + 9 > length data then (Err UnexpectedEOF, pos)
         else (Ok (le_word (sub data (pos + 1) 8)), pos + 9))
      else (Ok (ucast (data ! pos)), pos + 1))"

text \<open>
  \<^verbatim>\<open>end := pos + int(length)\<close> is 64-bit arithmetic on an untrusted length: the sum can be
  negative, pass the check \<^verbatim>\<open>end > len(data)\<close>, and panic in the slice expression.
\<close>

definition LengthEncodedString :: "string reader" where
  "LengthEncodedString data pos =
     (case LengthEncodedInt data pos of
        (Err e, p) \<Rightarrow> (Err e, p)
      | (Panic, p) \<Rightarrow> (Panic, p)
      | (Ok len, p) \<Rightarrow>
          let e = goint (int p + int_of_u64 len) in
          if e > int (length data) then (Err UnexpectedEOF, p)
          else (bindo (go_slice data (int p) e) (\<lambda>bs. Ok (string_of_bytes bs)), nat e))"

text \<open>The loop of \<^verbatim>\<open>NullTerminatedString\<close>: the first position at or after \<open>pos\<close> that holds a
  zero byte, or the end of the data.\<close>

function null_end :: "bytes \<Rightarrow> nat \<Rightarrow> nat" where
  "null_end data e = (if e < length data \<and> data ! e \<noteq> 0 then null_end data (e + 1) else e)"
  by pat_completeness auto
termination
  by (relation "measure (\<lambda>(data, e). length data - e)") auto

declare null_end.simps [simp del]

definition NullTerminatedString :: "string reader" where
  "NullTerminatedString data pos =
     (let e = null_end data pos in
      if e \<ge> length data then (Err UnexpectedEOF, pos)
      else (Ok (string_of_bytes (sub data pos (e - pos))), e + 1))"

definition FixedLengthString :: "bytes \<Rightarrow> nat \<Rightarrow> int \<Rightarrow> string outcome \<times> nat" where
  "FixedLengthString data pos n =
     (let e = goint (int pos + n) in
      if e > int (length data) then (Err UnexpectedEOF, pos)
      else (bindo (go_slice data (int pos) e) (\<lambda>bs. Ok (string_of_bytes bs)), nat e))"

subsection \<open>Bitmaps\<close>

definition BitmapByteSize :: "int \<Rightarrow> int" where
  "BitmapByteSize n = goint (n + 7) sdiv 8"

definition IsBitSet :: "bytes \<Rightarrow> nat \<Rightarrow> bool" where
  "IsBitSet bitmap b =
     (let byteIdx = b div 8; bitIdx = b mod 8 in
      if byteIdx \<ge> length bitmap then False
      else bitmap ! byteIdx AND push_bit bitIdx 1 \<noteq> 0)"

fun PopCount :: "bytes \<Rightarrow> nat \<Rightarrow> nat" where
  "PopCount bitmap 0 = 0"
| "PopCount bitmap (Suc n) = PopCount bitmap n + (if IsBitSet bitmap n then 1 else 0)"

subsection \<open>The contract of a reader\<close>

text \<open>
  What the payload parsers rely on when they call a reader: it never panics, a failed
  read leaves the position where it was, a successful one moves it forward inside the
  data, and reading back an encoded value gives the value and the position after it.
  The client lemmas are the two steps a parser takes: skip over one field and read the
  next, and fail on data that ends too early.
\<close>

locale field_reader =
  fixes rd :: "'a reader" and enc :: "'a \<Rightarrow> bytes" and encodable :: "'a \<Rightarrow> bool"
  assumes no_panic: "fst (rd data pos) \<noteq> Panic"
    and advances: "rd data pos = (Ok v, pos') \<Longrightarrow> pos < pos' \<and> pos' \<le> length data"
    and err_stays: "rd data pos = (Err e, pos') \<Longrightarrow> pos' = pos"
    and decodes: "encodable v \<Longrightarrow>
      rd (pre @ enc v @ post) (length pre) = (Ok v, length pre + length (enc v))"
begin

lemma at_start: "encodable v \<Longrightarrow> rd (enc v @ post) 0 = (Ok v, length (enc v))"
  using decodes [of v "[]" post] by simp

lemma at_end: "fst (rd data (length data)) \<noteq> Ok v"
  using advances [of data "length data" v "snd (rd data (length data))"]
  by (metis leD prod.collapse)

lemma enc_nonempty: "encodable v \<Longrightarrow> enc v \<noteq> []"
  using at_start [of v "[]"] advances [of "enc v @ []" 0 v "length (enc v)"] by auto

lemma outcome_cases:
  obtains (read) v pos' where "rd data pos = (Ok v, pos')" "pos < pos'" "pos' \<le> length data"
  | (failed) e where "rd data pos = (Err e, pos)"
proof (cases "fst (rd data pos)")
  case (Ok v)
  then have "rd data pos = (Ok v, snd (rd data pos))" by (simp add: prod_eq_iff)
  with advances show ?thesis by (blast intro: read)
next
  case (Err e)
  then have "rd data pos = (Err e, snd (rd data pos))" by (simp add: prod_eq_iff)
  with err_stays show ?thesis by (metis failed)
next
  case Panic
  with no_panic show ?thesis by blast
qed

text \<open>Two encoded fields in a row are read one after the other.\<close>

lemma read_two:
  assumes "encodable v" "encodable w"
  shows "rd (enc v @ enc w @ post) 0 = (Ok v, length (enc v))"
    and "rd (enc v @ enc w @ post) (length (enc v)) = (Ok w, length (enc v) + length (enc w))"
  using at_start [OF assms(1), of "enc w @ post"] decodes [OF assms(2), of "enc v" post] by auto

end

subsection \<open>The readers meet the contract\<close>

lemma ucast_ucast_small:
  fixes v :: "'b::len word"
  assumes "unat v < 2 ^ LENGTH('a::len)"
  shows "ucast (ucast v :: 'a word) = v"
proof (rule word_unat_eq_iff [THEN iffD2])
  have "unat (ucast v :: 'a word) = unat v"
    using assms by (simp add: unsigned_ucast_eq unsigned_take_bit_eq take_bit_nat_eq_self)
  moreover have "unat v < 2 ^ LENGTH('b)" by (rule unsigned_less)
  ultimately show "unat (ucast (ucast v :: 'a word) :: 'b word) = unat v"
    by (simp add: unsigned_ucast_eq unsigned_take_bit_eq take_bit_nat_eq_self)
qed

lemma le_bytes_bits:
  "\<forall>j < 8 * k. bit x j \<longleftrightarrow> bit y j \<Longrightarrow> le_bytes k (x :: 'a::len word) = le_bytes k (y :: 'b::len word)"
proof (induction k arbitrary: x y)
  case 0
  then show ?case by simp
next
  case (Suc k)
  have "ucast x = (ucast y :: byte)"
    by (rule bit_word_eqI) (use Suc.prems in \<open>auto simp: bit_simps\<close>)
  moreover have "le_bytes k (drop_bit 8 x) = le_bytes k (drop_bit 8 y)"
    by (rule Suc.IH) (use Suc.prems in \<open>auto simp: bit_simps\<close>)
  ultimately show ?case by simp
qed

lemma le_bytes_ucast:
  "8 * k \<le> LENGTH('a::len) \<Longrightarrow> le_bytes k (v :: 64 word) = le_bytes k (ucast v :: 'a word)"
  by (rule le_bytes_bits) (auto simp: bit_simps dest: bit_imp_le_length)

text \<open>A reader of a field of fixed width \<open>n\<close> meets the contract when decoding inverts encoding.\<close>

lemma fixed_width_reader:
  assumes rd: "\<And>data pos. rd data pos =
      (if pos + n > length data then (Err UnexpectedEOF, pos) else (Ok (f (sub data pos n)), pos + n))"
    and n: "0 < n"
    and inverse: "\<And>v. ok v \<Longrightarrow> length (enc v) = n \<and> f (enc v) = v"
  shows "field_reader rd enc ok"
proof
  show "fst (rd data pos) \<noteq> Panic" for data pos by (simp add: rd)
  show "pos < pos' \<and> pos' \<le> length data" if "rd data pos = (Ok v, pos')" for data pos v pos'
    using that n by (auto simp: rd split: if_splits)
  show "pos' = pos" if "rd data pos = (Err e, pos')" for data pos e pos'
    using that by (auto simp: rd split: if_splits)
  show "rd (pre @ enc v @ post) (length pre) = (Ok v, length pre + length (enc v))" if "ok v" for pre v post
    using inverse [OF that] by (simp add: rd)
qed

interpretation u16: field_reader readUint16 "le_bytes 2" "\<lambda>_. True"
  by (rule fixed_width_reader [where n = 2 and f = le_word])
    (simp_all add: readUint16_def le_word_le_bytes)

interpretation u24: field_reader readUint24 "le_bytes 3" "\<lambda>v. unat v < 2 ^ 24"
  by (rule fixed_width_reader [where n = 3 and f = le_word])
    (simp_all add: readUint24_def le_word_le_bytes_small)

interpretation u32: field_reader readUint32 "le_bytes 4" "\<lambda>_. True"
  by (rule fixed_width_reader [where n = 4 and f = le_word])
    (simp_all add: readUint32_def le_word_le_bytes)

interpretation u64: field_reader readUint64 "le_bytes 8" "\<lambda>_. True"
  by (rule fixed_width_reader [where n = 8 and f = le_word])
    (simp_all add: readUint64_def le_word_le_bytes)

interpretation f32: field_reader readFloat32 "le_bytes 4" "\<lambda>_. True"
  by (rule fixed_width_reader [where n = 4 and f = le_word])
    (simp_all add: readFloat32_def le_word_le_bytes)

interpretation f64: field_reader readFloat64 "le_bytes 8" "\<lambda>_. True"
  by (rule fixed_width_reader [where n = 8 and f = le_word])
    (simp_all add: readFloat64_def le_word_le_bytes)

subsection \<open>Signed readers\<close>

text \<open>The two's complement encoding of a signed field of \<open>n\<close> bytes.\<close>

definition int_bytes :: "nat \<Rightarrow> int \<Rightarrow> bytes" where
  "int_bytes n i = le_bytes n (word_of_int i :: 64 word)"

lemma length_int_bytes [simp]: "length (int_bytes n i) = n"
  by (simp add: int_bytes_def)

lemma le_word_int_bytes:
  assumes "8 * n = LENGTH('a::len)" "LENGTH('a) \<le> 64"
  shows "le_word (int_bytes n i) = (word_of_int i :: 'a word)"
proof -
  have "int_bytes n i = le_bytes n (word_of_int i :: 'a word)"
    unfolding int_bytes_def
    by (rule le_bytes_bits) (use assms in \<open>auto simp: bit_simps\<close>)
  with assms show ?thesis by (simp add: le_word_le_bytes)
qed

lemma sint_word_of_int_id:
  "- (2 ^ (LENGTH('a::len) - Suc 0)) \<le> i \<Longrightarrow> i < 2 ^ (LENGTH('a) - Suc 0) \<Longrightarrow>
   sint (word_of_int i :: 'a word) = i"
  by (simp add: sint_sbintrunc' signed_take_bit_int_eq_self)

abbreviation fits_signed :: "nat \<Rightarrow> int \<Rightarrow> bool" where
  "fits_signed w i \<equiv> - (2 ^ (w - 1)) \<le> i \<and> i < 2 ^ (w - 1)"

lemma sint_le_word_int_bytes:
  "8 * n = LENGTH('a::len) \<Longrightarrow> LENGTH('a) \<le> 64 \<Longrightarrow> fits_signed LENGTH('a) i \<Longrightarrow>
   sint (le_word (int_bytes n i) :: 'a word) = i"
  by (simp add: le_word_int_bytes sint_word_of_int_id)

interpretation i16: field_reader readInt16 "int_bytes 2" "fits_signed 16"
  by (rule fixed_width_reader [where n = 2 and f = "\<lambda>bs. sint (le_word bs :: 16 word)"])
    (simp_all add: readInt16_def sint_le_word_int_bytes)

interpretation i32: field_reader readInt32 "int_bytes 4" "fits_signed 32"
  by (rule fixed_width_reader [where n = 4 and f = "\<lambda>bs. sint (le_word bs :: 32 word)"])
    (simp_all add: readInt32_def sint_le_word_int_bytes)

interpretation i64: field_reader readInt64 "int_bytes 8" "fits_signed 64"
  by (rule fixed_width_reader [where n = 8 and f = "\<lambda>bs. sint (le_word bs :: 64 word)"])
    (simp_all add: readInt64_def sint_le_word_int_bytes)

text \<open>Sign extension of a 24-bit field: bit 23 is copied to the eight bits above it.\<close>

lemma sign_extend_24:
  assumes "fits_signed 24 i"
  shows "(let v = take_bit 24 (word_of_int i :: 32 word) in
          if v AND 0x800000 \<noteq> 0 then v OR 0xFF000000 else v) = word_of_int i"
proof -
  let ?v = "take_bit 24 (word_of_int i :: 32 word)"
  have i: "signed_take_bit 23 i = i"
    using assms by (simp add: signed_take_bit_int_eq_self)
  have high: "bit i j = bit i 23" if "23 \<le> j" for j
    using that by (subst (1 2) i [symmetric]) (auto simp: bit_signed_take_bit_iff min_def)
  have test: "?v AND 0x800000 \<noteq> 0 \<longleftrightarrow> bit i 23"
  proof -
    have "(0x800000 :: 32 word) = 2 ^ 23" by simp
    then show ?thesis
      by (simp only: and_exp_eq_0_iff_not_bit) (simp add: bit_simps)
  qed
  have ones: "(0xFF000000 :: 32 word) = push_bit 24 (mask 8)"
    by (simp add: mask_numeral)
  show ?thesis
  proof (cases "bit i 23")
    case True
    have "?v OR 0xFF000000 = word_of_int i"
      unfolding ones
    proof (rule bit_word_eqI)
      fix k
      assume "k < LENGTH(32)"
      then show "bit (?v OR push_bit 24 (mask 8)) k = bit (word_of_int i :: 32 word) k"
        using True high [of k] by (cases "k < 24") (auto simp: bit_simps)
    qed
    with True test show ?thesis by (simp add: Let_def)
  next
    case False
    have "?v = word_of_int i"
    proof (rule bit_word_eqI)
      fix k
      assume "k < LENGTH(32)"
      then show "bit ?v k = bit (word_of_int i :: 32 word) k"
        using False high [of k] by (cases "k < 24") (auto simp: bit_simps)
    qed
    with False test show ?thesis by (simp add: Let_def)
  qed
qed

lemma le_word_le_bytes_3: "le_word (le_bytes 3 (w :: 32 word)) = take_bit 24 w"
proof -
  have "le_bytes 3 w = le_bytes 3 (take_bit 24 w)"
    by (rule le_bytes_bits) (auto simp: bit_simps)
  moreover have "unat (take_bit 24 w) < 256 ^ 3"
    using take_bit_nat_less_exp [of 24 "unat w"] by (simp add: unsigned_take_bit_eq)
  ultimately show ?thesis by (simp add: le_word_le_bytes_small)
qed

interpretation i24: field_reader readInt24 "int_bytes 3" "fits_signed 24"
proof (rule fixed_width_reader [where n = 3 and f = "\<lambda>bs. sint
    (let v = le_word bs :: 32 word in if v AND 0x800000 \<noteq> 0 then v OR 0xFF000000 else v)"])
  fix v
  assume v: "fits_signed 24 v"
  have "int_bytes 3 v = le_bytes 3 (word_of_int v :: 32 word)"
    unfolding int_bytes_def by (rule le_bytes_bits) (auto simp: bit_simps)
  then have "le_word (int_bytes 3 v) = take_bit 24 (word_of_int v :: 32 word)"
    by (simp add: le_word_le_bytes_3)
  moreover have "sint (word_of_int v :: 32 word) = v"
    using v by (intro sint_word_of_int_id) simp_all
  ultimately show "length (int_bytes 3 v) = 3 \<and> sint
      (let v = le_word (int_bytes 3 v) :: 32 word in
       if v AND 0x800000 \<noteq> 0 then v OR 0xFF000000 else v) = v"
    using sign_extend_24 [OF v] by simp
qed (simp_all add: readInt24_def Let_def)

subsection \<open>Packed integers\<close>

text \<open>The encoding of a packed integer, the shortest form for each value.\<close>

definition len_enc :: "64 word \<Rightarrow> bytes" where
  "len_enc v =
     (if unat v < 251 then [ucast v]
      else if unat v < 2 ^ 16 then 0xFC # le_bytes 2 v
      else if unat v < 2 ^ 24 then 0xFD # le_bytes 3 v
      else 0xFE # le_bytes 8 v)"

lemma ucast_le_word_small:
  fixes v :: "64 word"
  assumes "8 * k \<le> LENGTH('a::len)" "LENGTH('a) \<le> 64" "unat v < 2 ^ (8 * k)"
  shows "ucast (le_word (le_bytes k v) :: 'a word) = v"
proof -
  have less: "unat v < 2 ^ LENGTH('a)"
    using assms(1,3) by (meson less_le_trans one_le_numeral power_increasing)
  then have "unat (ucast v :: 'a word) = unat v"
    by (simp add: unsigned_ucast_eq unsigned_take_bit_eq take_bit_nat_eq_self)
  then have "unat (ucast v :: 'a word) < 256 ^ k"
    using assms(3) by (simp add: power_mult)
  then have "le_word (le_bytes k v) = (ucast v :: 'a word)"
    using le_bytes_ucast [OF assms(1), of v] by (simp add: le_word_le_bytes_small)
  with less show ?thesis by (simp add: ucast_ucast_small)
qed

lemma sub_after_cons [simp]:
  "length bs = n \<Longrightarrow> sub (pre @ b # bs @ post) (Suc (length pre)) n = bs"
  using sub_append [of "pre @ [b]" "Suc (length pre)" bs n post] by simp

interpretation packed: field_reader LengthEncodedInt len_enc "\<lambda>_. True"
proof
  show "fst (LengthEncodedInt data pos) \<noteq> Panic" for data pos
    by (simp add: LengthEncodedInt_def)
  show "pos < pos' \<and> pos' \<le> length data" if "LengthEncodedInt data pos = (Ok v, pos')" for data pos v pos'
    using that by (auto simp: LengthEncodedInt_def split: if_splits)
  show "pos' = pos" if "LengthEncodedInt data pos = (Err e, pos')" for data pos e pos'
    using that by (auto simp: LengthEncodedInt_def split: if_splits)
  show "LengthEncodedInt (pre @ len_enc v @ post) (length pre) = (Ok v, length pre + length (len_enc v))"
    for pre post v
  proof -
    consider "unat v < 251" | "251 \<le> unat v" "unat v < 2 ^ 16"
      | "2 ^ 16 \<le> unat v" "unat v < 2 ^ 24" | "2 ^ 24 \<le> unat v"
      by linarith
    then show ?thesis
    proof cases
      case 1
      have "unat (ucast v :: byte) = unat v"
        using 1 by (simp add: unsigned_ucast_eq unsigned_take_bit_eq take_bit_nat_eq_self)
      then have "\<forall>m \<in> {0xFB, 0xFC, 0xFD, 0xFE}. ucast v \<noteq> (m :: byte)"
        using 1 by auto
      moreover have "ucast (ucast v :: byte) = v"
        using 1 by (intro ucast_ucast_small) simp
      ultimately show ?thesis
        using 1 by (simp add: LengthEncodedInt_def len_enc_def)
    next
      case 2
      have "ucast (le_word (le_bytes 2 v) :: 16 word) = v"
        by (rule ucast_le_word_small) (use 2 in simp_all)
      with 2 show ?thesis
        by (simp add: LengthEncodedInt_def len_enc_def)
    next
      case 3
      have "ucast (le_word (le_bytes 3 v) :: 32 word) = v"
        by (rule ucast_le_word_small) (use 3 in simp_all)
      with 3 show ?thesis
        by (simp add: LengthEncodedInt_def len_enc_def)
    next
      case 4
      then show ?thesis
        by (simp add: LengthEncodedInt_def len_enc_def le_word_le_bytes)
    qed
  qed
qed

subsection \<open>Strings\<close>

definition str_enc :: "string \<Rightarrow> bytes" where
  "str_enc s = len_enc (word_of_nat (length s)) @ bytes_of_string s"

lemma word_of_nat_small: "n < 2 ^ 63 \<Longrightarrow> unat (word_of_nat n :: 64 word) = n"
  by (simp add: unat_of_nat)

lemma LengthEncodedString_roundtrip:
  assumes "length (pre @ str_enc s @ post) < 2 ^ 63"
  shows "LengthEncodedString (pre @ str_enc s @ post) (length pre) =
    (Ok s, length pre + length (str_enc s))"
proof -
  let ?w = "word_of_nat (length s) :: 64 word"
  let ?p = "length pre + length (len_enc ?w)"
  have len: "length s < 2 ^ 63" "?p + length s < 2 ^ 63" using assms by (simp_all add: str_enc_def)
  have read: "LengthEncodedInt (pre @ str_enc s @ post) (length pre) = (Ok ?w, ?p)"
    using packed.decodes [where v = ?w and pre = pre and post = "bytes_of_string s @ post"] by (simp add: str_enc_def)
  have e: "int_of_u64 ?w = int (length s)"
    using len(1) by (simp add: int_of_u64_small word_of_nat_small)
  have g: "goint (int ?p + int (length s)) = int (?p + length s)"
    using len(2) by (subst goint_id) (simp_all flip: of_nat_add)
  have "go_slice (pre @ str_enc s @ post) (int ?p) (int (?p + length s)) = Ok (bytes_of_string s)"
    by (subst go_slice_nat) (simp_all add: str_enc_def)
  then show ?thesis
    by (simp only: LengthEncodedString_def read e g prod.case outcome.case Let_def)
      (simp add: str_enc_def)
qed

text \<open>The slice expression panics exactly when the position plus the length leaves the
  64-bit range: the sum turns negative and passes the check against the data's length.\<close>

lemma LengthEncodedString_Panic_iff:
  assumes "length data < 2 ^ 62"
  shows "fst (LengthEncodedString data pos) = Panic \<longleftrightarrow>
    (\<exists>len p. LengthEncodedInt data pos = (Ok len, p) \<and> 2 ^ 63 \<le> p + unat len)"
proof (cases rule: packed.outcome_cases [of data pos])
  case (read len p)
  let ?e = "goint (int p + int_of_u64 len)"
  have p: "int p < 2 ^ 62" using read(3) assms by simp
  have u: "int (unat len) < 2 ^ 64"
    by (rule int_unat_u64_less)
  show ?thesis
  proof (cases "2 ^ 63 \<le> p + unat len")
    case True
    then have big: "2 ^ 63 \<le> int p + int (unat len)"
      by (metis of_nat_add of_nat_le_iff of_nat_numeral of_nat_power)
    have "?e = int p + int (unat len) - 2 ^ 64"
      using big p u by (auto simp: int_of_u64_eq goint_wrap)
    then have "?e < int p" using u by simp
    with True read show ?thesis
      by (auto simp: LengthEncodedString_def go_slice_Panic)
  next
    case False
    then have "unat len < 2 ^ 63" "p + unat len < 2 ^ 63" by simp_all
    then have "?e = int (p + unat len)"
      using goint_int [of "p + unat len"] by (simp only: int_of_u64_small of_nat_add)
    then obtain m where "?e = int m" "p \<le> m" by (metis le_add1)
    with False read show ?thesis
      by (simp add: LengthEncodedString_def go_slice_nat Let_def)
  qed
next
  case (failed e)
  then show ?thesis by (simp add: LengthEncodedString_def)
qed

subsection \<open>Bitmaps and terminated strings\<close>

lemma PopCount_card: "PopCount bm n = card {i. i < n \<and> IsBitSet bm i}"
proof (induction n)
  case 0
  then show ?case by simp
next
  case (Suc n)
  have "{i. i < Suc n \<and> IsBitSet bm i} =
    {i. i < n \<and> IsBitSet bm i} \<union> (if IsBitSet bm n then {n} else {})"
    by (auto simp: less_Suc_eq)
  with Suc.IH show ?case by simp
qed

lemma IsBitSet_bit: "IsBitSet bm k \<longleftrightarrow> k div 8 < length bm \<and> bit (bm ! (k div 8)) (k mod 8)"
proof -
  have "x AND push_bit j 1 \<noteq> 0 \<longleftrightarrow> bit x j" for x :: byte and j
    by (simp add: push_bit_eq_mult and_exp_eq_0_iff_not_bit)
  then show ?thesis by (simp add: IsBitSet_def Let_def)
qed

lemma null_end_found:
  "0 \<notin> set s \<Longrightarrow> null_end (pre @ s @ 0 # post) (length pre) = length pre + length s"
proof (induction s arbitrary: pre)
  case Nil
  then show ?case by (simp add: null_end.simps)
next
  case (Cons b s)
  then have "null_end ((pre @ [b]) @ s @ 0 # post) (length (pre @ [b])) = length (pre @ [b]) + length s"
    by (intro Cons.IH) simp
  moreover have "null_end (pre @ (b # s) @ 0 # post) (length pre) =
      null_end (pre @ (b # s) @ 0 # post) (length pre + 1)"
    using Cons.prems by (subst null_end.simps) (simp add: nth_append)
  ultimately show ?case by simp
qed

lemma NullTerminatedString_reads:
  "0 \<notin> set (bytes_of_string s) \<Longrightarrow>
   NullTerminatedString (pre @ bytes_of_string s @ 0 # post) (length pre) =
   (Ok s, length pre + length s + 1)"
  using null_end_found [of "bytes_of_string s" pre post]
  by (simp add: NullTerminatedString_def)

subsection \<open>Properties\<close>

text \<open>A packed integer of any 64-bit value, wherever it stands in the data, is read back with the
  position after it.\<close>

theorem packed_int_roundtrip:
  "LengthEncodedInt (pre @ len_enc v @ post) (length pre) = (Ok v, length pre + length (len_enc v))"
  by (rule packed.decodes) simp

text \<open>A length-encoded string crashes the reader exactly when its length field, added to the
  position after it, reaches \<open>2\<^sup>6\<^sup>3\<close>: the sum turns negative, passes the bound check and the slice
  expression panics. Every other length is read or reported as an unexpected end.\<close>

theorem lenenc_string_panics_iff:
  assumes "length data < 2 ^ 62"
  shows "fst (LengthEncodedString data pos) = Panic \<longleftrightarrow>
    (\<exists>len p. LengthEncodedInt data pos = (Ok len, p) \<and> 2 ^ 63 \<le> p + unat len)"
  by (rule LengthEncodedString_Panic_iff [OF assms])

lemma lenenc_string_panics_iff_witness:
  "fst (LengthEncodedString (0xFE # replicate 8 0xFF) 0) = Panic"
proof -
  have "LengthEncodedInt (0xFE # replicate 8 0xFF) 0 = (Ok 0xFFFFFFFFFFFFFFFF, 9)"
    by code_simp
  moreover have "(2 :: nat) ^ 63 \<le> 9 + unat (0xFFFFFFFFFFFFFFFF :: 64 word)"
    by simp
  moreover have "length (0xFE # replicate 8 0xFF :: bytes) < 2 ^ 62" by simp
  ultimately show ?thesis
    using lenenc_string_panics_iff [of "0xFE # replicate 8 0xFF" 0] by blast
qed

end
