(* ===== verification/Keyed_Store.thy ===== *)
theory Keyed_Store
  imports Prelude
begin

section \<open>The contract of a keyed store\<close>

text \<open>
  Several components keep a Go map from an identifier to an entry and only ever look up,
  insert, replace and delete: the table-map registry of the parser, the connection and
  pending tables of the hub, the operation, organisation, agent and user stores of the
  server. What their clients rely on is stated once, as the laws of \<open>keyed_store\<close>, and
  every component that keeps such a map interprets it on its own operations.
\<close>

locale keyed_store =
  fixes put :: "'k \<Rightarrow> 'v \<Rightarrow> 's \<Rightarrow> 's"
    and del :: "'k \<Rightarrow> 's \<Rightarrow> 's"
    and get :: "'s \<Rightarrow> 'k \<Rightarrow> 'v option"
    and wf :: "'s \<Rightarrow> bool"
  assumes get_put: "get (put k v s) = (get s)(k \<mapsto> v)"
    and get_del: "get (del k s) = (get s)(k := None)"
    and wf_put: "wf s \<Longrightarrow> wf (put k v s)"
    and wf_del: "wf s \<Longrightarrow> wf (del k s)"
begin

lemma get_put_same [simp]: "get (put k v s) k = Some v"
  by (simp add: get_put)

lemma get_put_other [simp]: "k \<noteq> k' \<Longrightarrow> get (put k v s) k' = get s k'"
  by (simp add: get_put)

lemma get_del_same [simp]: "get (del k s) k = None"
  by (simp add: get_del)

lemma get_del_other [simp]: "k \<noteq> k' \<Longrightarrow> get (del k s) k' = get s k'"
  by (simp add: get_del)

lemma dom_put: "dom (get (put k v s)) = insert k (dom (get s))"
  by (simp add: get_put)

lemma dom_del: "dom (get (del k s)) = dom (get s) - {k}"
  by (simp add: get_del)

text \<open>A sequence of insertions leaves the last value of each key.\<close>

lemma get_fold_put:
  "get (fold (\<lambda>(k, v). put k v) kvs s) = get s ++ map_of (rev kvs)"
proof (induction kvs arbitrary: s)
  case Nil
  then show ?case by simp
next
  case (Cons kv kvs)
  then show ?case by (cases kv) (auto simp: get_put map_add_def fun_eq_iff split: option.splits)
qed

lemma wf_fold_put: "wf s \<Longrightarrow> wf (fold (\<lambda>(k, v). put k v) kvs s)"
  by (induction kvs arbitrary: s) (auto simp: wf_put)

end

text \<open>Go's own map, as an association list with distinct keys.\<close>

abbreviation go_map_wf :: "('k \<times> 'v) list \<Rightarrow> bool" where
  "go_map_wf m \<equiv> distinct (map fst m)"

lemma map_of_AList_update: "map_of (AList.update k v m) = (map_of m)(k \<mapsto> v)"
  by (rule ext) (simp add: AList.update_conv)

lemma map_of_AList_delete: "map_of (AList.delete k m) = (map_of m)(k := None)"
  by (rule ext) (simp add: AList.delete_conv)

lemma go_map_wf_update: "go_map_wf m \<Longrightarrow> go_map_wf (AList.update k v m)"
  by (rule AList.distinct_update)

lemma go_map_wf_delete: "go_map_wf m \<Longrightarrow> go_map_wf (AList.delete k m)"
  by (rule AList.distinct_delete)

lemma set_update_subset: "set (AList.update k v m) \<subseteq> insert (k, v) (set m)"
  by (induction m) auto

lemma set_delete_subset: "set (AList.delete k m) \<subseteq> set m"
  by (auto simp: AList.delete_eq)

lemmas go_map_simps = map_of_AList_update map_of_AList_delete go_map_wf_update go_map_wf_delete

interpretation go_map: keyed_store AList.update AList.delete map_of go_map_wf
  by unfold_locales (simp_all add: go_map_simps)

lemma map_of_filter_key:
  "map_of (filter (\<lambda>kv. P (fst kv)) m) k = (if P k then map_of m k else None)"
  by (induction m) auto

lemma go_map_mem: "go_map_wf m \<Longrightarrow> (k, v) \<in> set m \<longleftrightarrow> map_of m k = Some v"
  by simp


text \<open>
  Stores whose entries carry their own key (an operation its ID, a table map its table ID):
  \<open>save\<close> files an entry under its key. The extra law is that an entry is always found under
  the key it carries.
\<close>

locale entity_store =
  fixes save :: "'v \<Rightarrow> 's \<Rightarrow> 's"
    and remove :: "'k \<Rightarrow> 's \<Rightarrow> 's"
    and get :: "'s \<Rightarrow> 'k \<Rightarrow> 'v option"
    and key :: "'v \<Rightarrow> 'k"
    and wf :: "'s \<Rightarrow> bool"
  assumes get_save: "get (save v s) = (get s)(key v \<mapsto> v)"
    and get_remove: "get (remove k s) = (get s)(k := None)"
    and own_key: "wf s \<Longrightarrow> get s k = Some v \<Longrightarrow> key v = k"
    and wf_save: "wf s \<Longrightarrow> wf (save v s)"
    and wf_remove: "wf s \<Longrightarrow> wf (remove k s)"
begin

lemma save_same [simp]: "get (save v s) (key v) = Some v"
  by (simp add: get_save)

lemma save_other [simp]: "k \<noteq> key v \<Longrightarrow> get (save v s) k = get s k"
  by (simp add: get_save)

lemma found_distinct: "wf s \<Longrightarrow> get s k = Some v \<Longrightarrow> get s k' = Some v \<Longrightarrow> k = k'"
  using own_key by blast

text \<open>An update in place: read, modify without changing the key, save.\<close>

lemma modify_frame:
  assumes "wf s" "get s k = Some v" "key (f v) = key v"
  shows "get (save (f v) s) = (get s)(k \<mapsto> f v)"
  using assms own_key [of s k v] by (simp add: get_save)

end

text \<open>A Go map whose entries carry their key is such a store.\<close>

definition entity_wf :: "('v \<Rightarrow> 'k) \<Rightarrow> ('k \<times> 'v) list \<Rightarrow> bool" where
  "entity_wf key s \<longleftrightarrow> go_map_wf s \<and> (\<forall>(k, v) \<in> set s. key v = k)"

lemma entity_wf_Nil [simp]: "entity_wf key []"
  by (simp add: entity_wf_def)

lemma entity_store_alist:
  "entity_store (\<lambda>v. AList.update (key v) v) AList.delete map_of key (entity_wf key)"
proof
  fix v :: 'a and s :: "('b \<times> 'a) list" and k :: 'b
  show "map_of (AList.update (key v) v s) = (map_of s)(key v \<mapsto> v)"
    and "map_of (AList.delete k s) = (map_of s)(k := None)"
    by (simp_all add: go_map_simps)
  show "key v = k" if "entity_wf key s" "map_of s k = Some v"
    using that by (auto simp: entity_wf_def dest: map_of_SomeD)
  show "entity_wf key (AList.update (key v) v s)" if "entity_wf key s"
    using that set_update_subset [of "key v" v s] by (fastforce simp: entity_wf_def go_map_simps)
  show "entity_wf key (AList.delete k s)" if "entity_wf key s"
    using that set_delete_subset [of k s] by (auto simp: entity_wf_def go_map_simps)
qed

end
