(* ===== verification/Go_Values.thy ===== *)
theory Go_Values
  imports Prelude
begin

section \<open>Column values, times and number formatting\<close>

text \<open>
  What the standard library gives the parsers and formatters: \<^verbatim>\<open>fmt\<close> padding of decimals,
  \<^verbatim>\<open>time.Time\<close> in UTC with its calendar, and the dynamic values a column can hold
  (\<^verbatim>\<open>interface{}\<close> with the types the code stores in it).
\<close>

subsection \<open>Padding\<close>

text \<open>\<^verbatim>\<open>%0wd\<close> of a non-negative number.\<close>

definition pad0 :: "nat \<Rightarrow> nat \<Rightarrow> string" where
  "pad0 w n = (let s = show_nat n in replicate (w - length s) (CHR ''0'') @ s)"

lemma length_pad0: "w \<le> length (pad0 w n)"
  by (simp add: pad0_def Let_def)

lemma pad0_digits: "c \<in> set (pad0 w n) \<Longrightarrow> is_digit c"
  by (auto simp: pad0_def Let_def is_digit_def dest: show_nat_digits split: if_splits)

text \<open>\<^verbatim>\<open>strings.Join\<close>.\<close>

fun join :: "string \<Rightarrow> string list \<Rightarrow> string" where
  "join sep [] = []"
| "join sep [s] = s"
| "join sep (s # t # ss) = s @ sep @ join sep (t # ss)"

lemma join_Cons: "ss \<noteq> [] \<Longrightarrow> join sep (s # ss) = s @ sep @ join sep ss"
  by (cases ss) auto

subsection \<open>Time\<close>

text \<open>
  A \<^verbatim>\<open>time.Time\<close> is the number of nanoseconds since the Unix epoch, in UTC. The zero
  \<^verbatim>\<open>time.Time\<close> is January 1 of year 1.
\<close>

type_synonym go_time = int

abbreviation (input) nanos_per_sec :: int where "nanos_per_sec \<equiv> 1000000000"

definition Unix :: "int \<Rightarrow> int \<Rightarrow> go_time" where
  "Unix secs nsec = secs * nanos_per_sec + nsec"

definition zero_time :: go_time where
  "zero_time = Unix (- 62135596800) 0"

definition IsZero :: "go_time \<Rightarrow> bool" where
  "IsZero t \<longleftrightarrow> t = zero_time"

text \<open>Civil date of a day number (days since 1970-01-01), in the proleptic Gregorian calendar.\<close>

definition civil_of_days :: "int \<Rightarrow> int \<times> nat \<times> nat" where
  "civil_of_days days =
     (let z = days + 719468;
          era = z div 146097;
          doe = z mod 146097;
          yoe = (doe - doe div 1460 + doe div 36524 - doe div 146096) div 365;
          doy = doe - (365 * yoe + yoe div 4 - yoe div 100);
          mp = (5 * doy + 2) div 153;
          d = doy - (153 * mp + 2) div 5 + 1;
          m = (if mp < 10 then mp + 3 else mp - 9);
          y = yoe + era * 400 + (if m \<le> 2 then 1 else 0)
      in (y, nat m, nat d))"

definition show_year :: "int \<Rightarrow> string" where
  "show_year y = (if y < 0 then CHR ''-'' # pad0 4 (nat (- y)) else pad0 4 (nat y))"

text \<open>\<^verbatim>\<open>t.Format("2006-01-02 15:04:05")\<close>.\<close>

definition format_datetime :: "go_time \<Rightarrow> string" where
  "format_datetime t =
     (let secs = t div nanos_per_sec;
          (y, m, d) = civil_of_days (secs div 86400);
          s = nat (secs mod 86400)
      in show_year y @ ''-'' @ pad0 2 m @ ''-'' @ pad0 2 d @ '' '' @
         pad0 2 (s div 3600) @ '':'' @ pad0 2 (s div 60 mod 60) @ '':'' @ pad0 2 (s mod 60))"

text \<open>The same with a layout ending in \<^verbatim>\<open>.000\<close> of \<open>k \<le> 9\<close> zeros: the fraction is cut, not rounded.\<close>

definition format_datetime_frac :: "nat \<Rightarrow> go_time \<Rightarrow> string" where
  "format_datetime_frac k t =
     format_datetime t @ ''.'' @ take k (pad0 9 (nat (t mod nanos_per_sec)))"

lemma epoch_date: "civil_of_days 0 = (1970, 1, 1)"
  by code_simp

lemma leap_day: "civil_of_days 19782 = (2024, 2, 29)"
  by code_simp

subsection \<open>Dynamic values\<close>

text \<open>
  The values a column holds: \<^verbatim>\<open>nil\<close>, \<^verbatim>\<open>int64\<close>, \<^verbatim>\<open>float64\<close> (its bit pattern), \<^verbatim>\<open>string\<close>,
  \<^verbatim>\<open>[]byte\<close> and \<^verbatim>\<open>time.Time\<close>; \<open>VOther\<close> is a value of any other type, by its \<^verbatim>\<open>%v\<close> text.
\<close>

datatype gval =
    VNull
  | VInt int
  | VFloat "64 word"
  | VString string
  | VBytes bytes
  | VTime go_time
  | VOther string

text \<open>\<^verbatim>\<open>map[string]interface{}\<close>.\<close>

type_synonym row = "(string \<times> gval) list"

text \<open>\<^verbatim>\<open>float64(v)\<close> of a \<^verbatim>\<open>float32\<close>, on bit patterns: exact for every number, and a NaN
  becomes quiet.\<close>

fun top_bit :: "nat \<Rightarrow> nat \<Rightarrow> nat" where
  "top_bit 0 m = 0"
| "top_bit (Suc k) m = (if 2 ^ Suc k \<le> m then Suc k else top_bit k m)"

definition float64_of_float32 :: "32 word \<Rightarrow> 64 word" where
  "float64_of_float32 w =
     (let neg = (if bit w 31 then push_bit 63 1 else 0);
          e = unat (drop_bit 23 w AND 0xFF);
          m = unat (w AND 0x7FFFFF)
      in if e = 255 then
           (if m = 0 then neg OR 0x7FF0000000000000
            else neg OR 0x7FF8000000000000 OR push_bit 29 (word_of_nat m))
         else if e = 0 then
           (if m = 0 then neg
            else let k = top_bit 22 m in
              neg OR push_bit 52 (word_of_nat (k + 874)) OR
              push_bit (52 - k) (word_of_nat (m - 2 ^ k)))
         else neg OR push_bit 52 (word_of_nat (e + 896)) OR push_bit 29 (word_of_nat m))"

lemma float64_of_float32_one: "float64_of_float32 0x3F800000 = 0x3FF0000000000000"
  by code_simp

end
