(* ===== verification/Table_Map.thy ===== *)
theory Table_Map
  imports Event Keyed_Store
begin

section \<open>Table maps\<close>

text \<open>
  The model of \<^verbatim>\<open>internal/parser/table_map.go\<close>: column metadata, the TABLE_MAP event parser
  and the registry of table maps by table id.
\<close>

subsection \<open>Column types\<close>

abbreviation MYSQL_TYPE_DECIMAL :: byte where "MYSQL_TYPE_DECIMAL \<equiv> 0"
abbreviation MYSQL_TYPE_TINY :: byte where "MYSQL_TYPE_TINY \<equiv> 1"
abbreviation MYSQL_TYPE_SHORT :: byte where "MYSQL_TYPE_SHORT \<equiv> 2"
abbreviation MYSQL_TYPE_LONG :: byte where "MYSQL_TYPE_LONG \<equiv> 3"
abbreviation MYSQL_TYPE_FLOAT :: byte where "MYSQL_TYPE_FLOAT \<equiv> 4"
abbreviation MYSQL_TYPE_DOUBLE :: byte where "MYSQL_TYPE_DOUBLE \<equiv> 5"
abbreviation MYSQL_TYPE_NULL :: byte where "MYSQL_TYPE_NULL \<equiv> 6"
abbreviation MYSQL_TYPE_TIMESTAMP :: byte where "MYSQL_TYPE_TIMESTAMP \<equiv> 7"
abbreviation MYSQL_TYPE_LONGLONG :: byte where "MYSQL_TYPE_LONGLONG \<equiv> 8"
abbreviation MYSQL_TYPE_INT24 :: byte where "MYSQL_TYPE_INT24 \<equiv> 9"
abbreviation MYSQL_TYPE_DATE :: byte where "MYSQL_TYPE_DATE \<equiv> 10"
abbreviation MYSQL_TYPE_TIME :: byte where "MYSQL_TYPE_TIME \<equiv> 11"
abbreviation MYSQL_TYPE_DATETIME :: byte where "MYSQL_TYPE_DATETIME \<equiv> 12"
abbreviation MYSQL_TYPE_YEAR :: byte where "MYSQL_TYPE_YEAR \<equiv> 13"
abbreviation MYSQL_TYPE_NEWDATE :: byte where "MYSQL_TYPE_NEWDATE \<equiv> 14"
abbreviation MYSQL_TYPE_VARCHAR :: byte where "MYSQL_TYPE_VARCHAR \<equiv> 15"
abbreviation MYSQL_TYPE_BIT :: byte where "MYSQL_TYPE_BIT \<equiv> 16"
abbreviation MYSQL_TYPE_TIMESTAMP2 :: byte where "MYSQL_TYPE_TIMESTAMP2 \<equiv> 17"
abbreviation MYSQL_TYPE_DATETIME2 :: byte where "MYSQL_TYPE_DATETIME2 \<equiv> 18"
abbreviation MYSQL_TYPE_TIME2 :: byte where "MYSQL_TYPE_TIME2 \<equiv> 19"
abbreviation MYSQL_TYPE_JSON :: byte where "MYSQL_TYPE_JSON \<equiv> 245"
abbreviation MYSQL_TYPE_NEWDECIMAL :: byte where "MYSQL_TYPE_NEWDECIMAL \<equiv> 246"
abbreviation MYSQL_TYPE_ENUM :: byte where "MYSQL_TYPE_ENUM \<equiv> 247"
abbreviation MYSQL_TYPE_SET :: byte where "MYSQL_TYPE_SET \<equiv> 248"
abbreviation MYSQL_TYPE_TINY_BLOB :: byte where "MYSQL_TYPE_TINY_BLOB \<equiv> 249"
abbreviation MYSQL_TYPE_MEDIUM_BLOB :: byte where "MYSQL_TYPE_MEDIUM_BLOB \<equiv> 250"
abbreviation MYSQL_TYPE_LONG_BLOB :: byte where "MYSQL_TYPE_LONG_BLOB \<equiv> 251"
abbreviation MYSQL_TYPE_BLOB :: byte where "MYSQL_TYPE_BLOB \<equiv> 252"
abbreviation MYSQL_TYPE_VAR_STRING :: byte where "MYSQL_TYPE_VAR_STRING \<equiv> 253"
abbreviation MYSQL_TYPE_STRING :: byte where "MYSQL_TYPE_STRING \<equiv> 254"
abbreviation MYSQL_TYPE_GEOMETRY :: byte where "MYSQL_TYPE_GEOMETRY \<equiv> 255"

subsection \<open>Column metadata\<close>

record column_meta =
  cm_Type :: byte
  cm_Precision :: int
  cm_Scale :: int
  cm_Length :: int
  cm_Signed :: bool
  cm_FSP :: int
  cm_BitBits :: int
  cm_BitBytes :: int
  cm_RealType :: byte
  cm_EnumSetSize :: int

definition zero_meta :: "byte \<Rightarrow> column_meta" where
  "zero_meta t = \<lparr>cm_Type = t, cm_Precision = 0, cm_Scale = 0, cm_Length = 0, cm_Signed = False,
     cm_FSP = 0, cm_BitBits = 0, cm_BitBytes = 0, cm_RealType = 0, cm_EnumSetSize = 0\<rparr>"

abbreviation int_at :: "bytes \<Rightarrow> nat \<Rightarrow> int" where
  "int_at bs i \<equiv> int (unat (bs ! i))"

definition parseColumnMetadata :: "bytes \<Rightarrow> nat \<Rightarrow> byte \<Rightarrow> column_meta \<Rightarrow> column_meta \<times> nat" where
  "parseColumnMetadata mb p t m =
     (if t \<in> {MYSQL_TYPE_DECIMAL, MYSQL_TYPE_NEWDECIMAL} then
        (if p + 2 \<le> length mb
         then (m\<lparr>cm_Precision := int_at mb p, cm_Scale := int_at mb (p + 1)\<rparr>, p + 2)
         else (m, p))
      else if t = MYSQL_TYPE_TINY then (m\<lparr>cm_Length := 4\<rparr>, p)
      else if t = MYSQL_TYPE_SHORT then (m\<lparr>cm_Length := 6\<rparr>, p)
      else if t = MYSQL_TYPE_LONG then (m\<lparr>cm_Length := 11\<rparr>, p)
      else if t \<in> {MYSQL_TYPE_FLOAT, MYSQL_TYPE_DOUBLE} then
        (if p < length mb then (m\<lparr>cm_Length := int_at mb p\<rparr>, p + 1) else (m, p))
      else if t \<in> {MYSQL_TYPE_TIMESTAMP, MYSQL_TYPE_DATE, MYSQL_TYPE_TIME, MYSQL_TYPE_DATETIME,
                   MYSQL_TYPE_NEWDATE, MYSQL_TYPE_YEAR} then (m, p)
      else if t = MYSQL_TYPE_LONGLONG then (m\<lparr>cm_Length := 20\<rparr>, p)
      else if t = MYSQL_TYPE_INT24 then (m\<lparr>cm_Length := 8\<rparr>, p)
      else if t \<in> {MYSQL_TYPE_VARCHAR, MYSQL_TYPE_VAR_STRING} then
        (if p + 2 \<le> length mb
         then (m\<lparr>cm_Length := int_at mb p OR push_bit 8 (int_at mb (p + 1))\<rparr>, p + 2)
         else (m, p))
      else if t = MYSQL_TYPE_BIT then
        (if p + 2 \<le> length mb
         then (let bits = (if int_at mb p = 0 then 8 else int_at mb p) in
               (m\<lparr>cm_BitBits := int_at mb p, cm_BitBytes := int_at mb (p + 1),
                  cm_Length := (int_at mb (p + 1) - 1) * 8 + bits\<rparr>, p + 2))
         else (m, p))
      else if t \<in> {MYSQL_TYPE_TIMESTAMP2, MYSQL_TYPE_DATETIME2, MYSQL_TYPE_TIME2} then
        (if p < length mb then (m\<lparr>cm_FSP := int_at mb p\<rparr>, p + 1) else (m, p))
      else if t \<in> {MYSQL_TYPE_TINY_BLOB, MYSQL_TYPE_BLOB, MYSQL_TYPE_MEDIUM_BLOB,
                   MYSQL_TYPE_LONG_BLOB, MYSQL_TYPE_JSON, MYSQL_TYPE_GEOMETRY} then
        (if p < length mb then (m\<lparr>cm_Length := int_at mb p\<rparr>, p + 1) else (m, p))
      else if t \<in> {MYSQL_TYPE_ENUM, MYSQL_TYPE_SET} then
        (if p + 2 \<le> length mb
         then (m\<lparr>cm_EnumSetSize := int_at mb (p + 1), cm_Length := int_at mb p\<rparr>, p + 2)
         else (m, p))
      else if t = MYSQL_TYPE_STRING then
        (if p + 2 \<le> length mb
         then (let m' = m\<lparr>cm_RealType := mb ! (p + 1), cm_Length := int_at mb p\<rparr> in
               (if mb ! (p + 1) = MYSQL_TYPE_ENUM \<or> mb ! (p + 1) = MYSQL_TYPE_SET
                then m'\<lparr>cm_EnumSetSize := int_at mb p\<rparr> else m', p + 2))
         else (m, p))
      else if p + 2 \<le> length mb then (m, p + 2)
      else if p < length mb then (m, p + 1)
      else (m, p))"

text \<open>The loop over the columns, threading the metadata position.\<close>

fun parseColumnMetas :: "bytes \<Rightarrow> nat \<Rightarrow> bytes \<Rightarrow> column_meta list" where
  "parseColumnMetas mb p [] = []"
| "parseColumnMetas mb p (t # ts) =
     (let (m, p') = parseColumnMetadata mb p t (zero_meta t) in m # parseColumnMetas mb p' ts)"

subsection \<open>The TABLE_MAP event\<close>

record table_map =
  tm_TableID :: "64 word"
  tm_Database :: string
  tm_Table :: string
  tm_ColumnCount :: "64 word"
  tm_ColumnTypes :: bytes
  tm_ColumnMeta :: "column_meta list"

text \<open>\<^verbatim>\<open>make([]T, n)\<close> with \<open>n\<close> of type \<^verbatim>\<open>uint64\<close> panics when \<open>n\<close> elements exceed the address
  space (48 bits on the platforms the agent is built for).\<close>

definition go_make :: "nat \<Rightarrow> 64 word \<Rightarrow> unit outcome" where
  "go_make elemSize n = (if elemSize * unat n > 2 ^ 48 then Panic else Ok ())"

text \<open>A database or table name: a length byte, the name, a terminator that is skipped.\<close>

definition parseName :: "bytes \<Rightarrow> nat \<Rightarrow> (string \<times> nat) outcome" where
  "parseName payload pos =
     (if pos \<ge> length payload then Err UnexpectedEOF
      else let n = unat (payload ! pos) in
        if pos + 1 + n + 1 > length payload then Err UnexpectedEOF
        else Ok (string_of_bytes (sub payload (pos + 1) n), pos + 1 + n + 1))"

text \<open>
  A region of \<^verbatim>\<open>int(n)\<close> bytes with \<open>n\<close> off the wire: the bound check
  \<^verbatim>\<open>pos+int(n) > len(payload)\<close> and the slice \<^verbatim>\<open>payload[pos:pos+int(n)]\<close>.
\<close>

definition take_region :: "bytes \<Rightarrow> nat \<Rightarrow> 64 word \<Rightarrow> (bytes \<times> nat) outcome" where
  "take_region payload pos n =
     (let e = goint (int pos + int_of_u64 n) in
      if e > int (length payload) then Err UnexpectedEOF
      else bindo (go_slice payload (int pos) e) (\<lambda>bs. Ok (bs, nat e)))"

definition ParseTableMap :: "bytes \<Rightarrow> table_map outcome" where
  "ParseTableMap payload =
     (if 8 > length payload then Err UnexpectedEOF
      else let tableID = le_word (sub payload 0 6) in
        bindo (parseName payload 8) (\<lambda>(database, pos).
        bindo (parseName payload pos) (\<lambda>(table, pos).
        case LengthEncodedInt payload pos of
          (Err e, _) \<Rightarrow> Err (Wrapf ''column count'' e)
        | (Panic, _) \<Rightarrow> Panic
        | (Ok colCount, pos) \<Rightarrow>
          if goint (int pos + int_of_u64 colCount) > int (length payload) then Err UnexpectedEOF
          else bindo (go_make 1 colCount) (\<lambda>_.
            bindo (take_region payload pos colCount) (\<lambda>(colTypes, pos).
            case LengthEncodedInt payload pos of
              (Err e, _) \<Rightarrow> Err (Wrapf ''column metadata length'' e)
            | (Panic, _) \<Rightarrow> Panic
            | (Ok metaLength, pos) \<Rightarrow>
              bindo (take_region payload pos metaLength) (\<lambda>(metaBytes, pos).
              bindo (go_make 88 colCount) (\<lambda>_.
              Ok \<lparr>tm_TableID = tableID, tm_Database = database, tm_Table = table,
                  tm_ColumnCount = colCount, tm_ColumnTypes = colTypes,
                  tm_ColumnMeta = parseColumnMetas metaBytes 0 colTypes\<rparr>)))))))"

subsection \<open>The registry\<close>

text \<open>\<^verbatim>\<open>TableMapRegistry.maps\<close>: the latest table map announced for each table id.\<close>

type_synonym table_registry = "(64 word \<times> table_map) list"

definition NewTableMapRegistry :: table_registry where
  "NewTableMapRegistry = []"

definition Registry_Set :: "table_map \<Rightarrow> table_registry \<Rightarrow> table_registry" where
  "Registry_Set tm r = AList.update (tm_TableID tm) tm r"

definition Registry_Get :: "table_registry \<Rightarrow> 64 word \<Rightarrow> table_map option" where
  "Registry_Get r i = map_of r i"

definition Registry_Delete :: "64 word \<Rightarrow> table_registry \<Rightarrow> table_registry" where
  "Registry_Delete i r = AList.delete i r"

definition registry_wf :: "table_registry \<Rightarrow> bool" where
  "registry_wf r \<longleftrightarrow> go_map_wf r \<and> (\<forall>(i, tm) \<in> set r. tm_TableID tm = i)"

interpretation registry: entity_store Registry_Set Registry_Delete Registry_Get tm_TableID registry_wf
proof
  show "Registry_Get (Registry_Set tm r) = (Registry_Get r)(tm_TableID tm \<mapsto> tm)" for tm r
    by (simp add: Registry_Get_def Registry_Set_def fun_eq_iff update_conv)
  show "Registry_Get (Registry_Delete i r) = (Registry_Get r)(i := None)" for i r
    by (simp add: Registry_Get_def Registry_Delete_def fun_eq_iff delete_conv)
  show "tm_TableID tm = i" if "registry_wf r" "Registry_Get r i = Some tm" for r i tm
    using that by (auto simp: registry_wf_def Registry_Get_def dest: map_of_SomeD)
  show "registry_wf (Registry_Set tm r)" if "registry_wf r" for tm r
    using that set_update_subset [of "tm_TableID tm" tm r]
    by (auto simp: registry_wf_def Registry_Set_def go_map_wf_update)
  show "registry_wf (Registry_Delete i r)" if "registry_wf r" for i r
    using that by (auto simp: registry_wf_def Registry_Delete_def go_map_wf_delete dest: set_delete_subset [THEN subsetD])
qed

subsection \<open>Reading back an encoded table map\<close>

definition name_enc :: "string \<Rightarrow> bytes" where
  "name_enc s = word_of_nat (length s) # bytes_of_string s @ [0]"

lemma parseName_enc:
  assumes "length s < 256"
  shows "parseName (pre @ name_enc s @ post) (length pre) = Ok (s, length pre + length (name_enc s))"
proof -
  have n: "unat (word_of_nat (length s) :: byte) = length s"
    using assms by (simp add: unat_of_nat)
  have "sub (pre @ name_enc s @ post) (length pre + 1) (length s) = bytes_of_string s"
    using sub_append [of "pre @ [word_of_nat (length s)]" "length pre + 1" "bytes_of_string s"
        "length s" "0 # post"]
    by (simp add: name_enc_def)
  then show ?thesis
    using n by (simp add: parseName_def name_enc_def Let_def nth_append)
qed

lemma take_region_split:
  assumes "length (pre @ bs @ post) < 2 ^ 63" "unat n = length bs"
  shows "take_region (pre @ bs @ post) (length pre) n = Ok (bs, length pre + length bs)"
proof -
  have "unat n < 2 ^ 63" using assms by simp
  then have i: "int_of_u64 n = int (length bs)" by (simp add: int_of_u64_small assms(2))
  have e: "goint (int (length pre) + int_of_u64 n) = int (length pre + length bs)"
    using assms(1) goint_int [of "length pre + length bs"] by (simp add: i)
  then show ?thesis
    unfolding take_region_def e Let_def by (simp add: go_slice_def)
qed

definition table_map_enc ::
  "64 word \<Rightarrow> 16 word \<Rightarrow> string \<Rightarrow> string \<Rightarrow> bytes \<Rightarrow> bytes \<Rightarrow> bytes \<Rightarrow> bytes" where
  "table_map_enc tid flags db tbl types meta nullable =
     le_bytes 6 tid @ le_bytes 2 flags @ name_enc db @ name_enc tbl @
     len_enc (word_of_nat (length types)) @ types @
     len_enc (word_of_nat (length meta)) @ meta @ nullable"

lemma table_id_enc: "unat tid < 2 ^ 48 \<Longrightarrow> le_word (sub (le_bytes 6 (tid :: 64 word) @ rest) 0 6) = tid"
  using sub_append [of "[]" 0 "le_bytes 6 tid" 6 rest] by (simp add: le_word_le_bytes_small)

lemma parseName_at: "length s < 256 \<Longrightarrow> data = pre @ name_enc s @ post \<Longrightarrow> p = length pre \<Longrightarrow>
    parseName data p = Ok (s, length pre + length (name_enc s))"
  by (simp add: parseName_enc)

lemma packed_at: "data = pre @ len_enc v @ post \<Longrightarrow> p = length pre \<Longrightarrow>
    LengthEncodedInt data p = (Ok v, length pre + length (len_enc v))"
  using packed.decodes [where v = v and pre = pre and post = post] by simp

lemma take_region_at: "length data < 2 ^ 63 \<Longrightarrow> unat n = length bs \<Longrightarrow> data = pre @ bs @ post \<Longrightarrow>
    p = length pre \<Longrightarrow> take_region data p n = Ok (bs, length pre + length bs)"
  using take_region_split [of pre bs post n] by simp

lemma take_region_check:
  "take_region data p n = Ok x \<Longrightarrow> \<not> int (length data) < goint (int p + int_of_u64 n)"
  by (auto simp: take_region_def Let_def split: if_splits)

text \<open>The TABLE_MAP parser reads back the table id, the names, the column types and the
  metadata of every encoded event with names of at most 255 bytes.\<close>

theorem ParseTableMap_roundtrip:
  assumes "unat tid < 2 ^ 48" "length db < 256" "length tbl < 256"
    and size: "length (table_map_enc tid flags db tbl types meta nullable) < 2 ^ 40"
  shows "ParseTableMap (table_map_enc tid flags db tbl types meta nullable) =
    Ok \<lparr>tm_TableID = tid, tm_Database = db, tm_Table = tbl,
        tm_ColumnCount = word_of_nat (length types), tm_ColumnTypes = types,
        tm_ColumnMeta = parseColumnMetas meta 0 types\<rparr>"
proof -
  let ?d = "table_map_enc tid flags db tbl types meta nullable"
  let ?cc = "word_of_nat (length types) :: 64 word" and ?mc = "word_of_nat (length meta) :: 64 word"
  let ?h = "le_bytes 6 tid @ le_bytes 2 flags"
  have lens: "length types < 2 ^ 40" "length meta < 2 ^ 40"
    using size by (simp_all add: table_map_enc_def)
  have cc: "unat ?cc = length types" and mc: "unat ?mc = length meta"
    using lens by (simp_all add: unat_of_nat)
  have big: "length ?d < 2 ^ 63" using size by simp
  have tid: "le_word (sub ?d 0 6) = tid"
    using assms(1) by (simp add: table_map_enc_def table_id_enc)
  let ?p1 = "8 + length (name_enc db)" and ?p2 = "8 + length (name_enc db) + length (name_enc tbl)"
  let ?p3 = "?p2 + length (len_enc ?cc)"
  let ?p4 = "?p3 + length types"
  let ?p5 = "?p4 + length (len_enc ?mc)"
  have n1: "parseName ?d 8 = Ok (db, ?p1)"
    using parseName_at [OF assms(2), of ?d ?h _ 8] by (simp add: table_map_enc_def)
  have n2: "parseName ?d ?p1 = Ok (tbl, ?p2)"
    using parseName_at [OF assms(3), of ?d "?h @ name_enc db" _ ?p1] by (simp add: table_map_enc_def)
  have c1: "LengthEncodedInt ?d ?p2 = (Ok ?cc, ?p3)"
    using packed_at [of ?d "?h @ name_enc db @ name_enc tbl" ?cc _ ?p2]
    by (simp add: table_map_enc_def)
  have r1: "take_region ?d ?p3 ?cc = Ok (types, ?p4)"
    using take_region_at [OF big cc, of "?h @ name_enc db @ name_enc tbl @ len_enc ?cc" _ ?p3]
    by (simp add: table_map_enc_def)
  have c2: "LengthEncodedInt ?d ?p4 = (Ok ?mc, ?p5)"
    using packed_at [of ?d "?h @ name_enc db @ name_enc tbl @ len_enc ?cc @ types" ?mc _ ?p4]
    by (simp add: table_map_enc_def)
  have r2: "take_region ?d ?p5 ?mc = Ok (meta, ?p5 + length meta)"
    using take_region_at [OF big mc,
        of "?h @ name_enc db @ name_enc tbl @ len_enc ?cc @ types @ len_enc ?mc" _ ?p5]
    by (simp add: table_map_enc_def)
  have mk: "go_make 1 ?cc = Ok ()" "go_make 88 ?cc = Ok ()"
    using lens by (simp_all add: go_make_def cc)
  have chk: "\<not> int (length ?d) < goint (int ?p3 + int_of_u64 ?cc)"
    by (rule take_region_check [OF r1])
  have "\<not> 8 > length ?d" by (simp add: table_map_enc_def)
  then show ?thesis
    unfolding ParseTableMap_def
    by (simp only: if_False Let_def tid n1 n2 bindo.simps prod.case c1 outcome.case chk mk r1 c2 r2)
qed

lemma ParseTableMap_roundtrip_witness:
  "ParseTableMap (table_map_enc 7 1 ''shop'' ''orders'' [MYSQL_TYPE_LONG, MYSQL_TYPE_VARCHAR] [80, 0] [0]) =
    Ok \<lparr>tm_TableID = 7, tm_Database = ''shop'', tm_Table = ''orders'', tm_ColumnCount = 2,
        tm_ColumnTypes = [MYSQL_TYPE_LONG, MYSQL_TYPE_VARCHAR],
        tm_ColumnMeta = parseColumnMetas [80, 0] 0 [MYSQL_TYPE_LONG, MYSQL_TYPE_VARCHAR]\<rparr>"
proof -
  have "length (table_map_enc 7 (1 :: 16 word) ''shop'' ''orders'' [MYSQL_TYPE_LONG, MYSQL_TYPE_VARCHAR] [80, 0] [0]) < 2 ^ 40"
    by (simp add: table_map_enc_def name_enc_def len_enc_def)
  from ParseTableMap_roundtrip [OF _ _ _ this] show ?thesis by simp
qed

text \<open>A column count of \<open>2\<^sup>6\<^sup>3\<close> or more turns negative in the bound check of the TABLE_MAP
  parser, passes it, and crashes the parser in \<^verbatim>\<open>make\<close>.\<close>

theorem ParseTableMap_Panic:
  assumes "length db < 256" "length tbl < 256" "2 ^ 63 \<le> unat c"
    and size: "length (le_bytes 6 tid @ le_bytes 2 flags @ name_enc db @ name_enc tbl @ len_enc c @ rest) < 2 ^ 62"
  shows "ParseTableMap (le_bytes 6 (tid :: 64 word) @ le_bytes 2 (flags :: 16 word) @ name_enc db @
    name_enc tbl @ len_enc c @ rest) = Panic"
proof -
  let ?h = "le_bytes 6 tid @ le_bytes 2 flags"
  let ?d = "le_bytes 6 tid @ le_bytes 2 flags @ name_enc db @ name_enc tbl @ len_enc c @ rest"
  let ?p1 = "8 + length (name_enc db)" and ?p2 = "8 + length (name_enc db) + length (name_enc tbl)"
  let ?p3 = "?p2 + length (len_enc c)"
  have n1: "parseName ?d 8 = Ok (db, ?p1)"
    using parseName_at [OF assms(1), of ?d ?h _ 8] by simp
  have n2: "parseName ?d ?p1 = Ok (tbl, ?p2)"
    using parseName_at [OF assms(2), of ?d "?h @ name_enc db" _ ?p1] by simp
  have c1: "LengthEncodedInt ?d ?p2 = (Ok c, ?p3)"
    using packed_at [of ?d "?h @ name_enc db @ name_enc tbl" c _ ?p2] by simp
  have p3: "int ?p3 < 2 ^ 62"
    using size by simp
  have "goint (int ?p3 + int_of_u64 c) < int ?p3"
    by (rule goint_huge [OF assms(3) p3])
  then have chk: "\<not> int (length ?d) < goint (int ?p3 + int_of_u64 c)"
    by simp
  have mk: "go_make 1 c = Panic" using assms(3) by (simp add: go_make_def)
  have "\<not> 8 > length ?d" by simp
  then show ?thesis
    unfolding ParseTableMap_def
    by (simp only: if_False Let_def n1 n2 bindo.simps prod.case c1 outcome.case chk mk)
qed

lemma ParseTableMap_Panic_witness:
  "ParseTableMap (le_bytes 6 (7 :: 64 word) @ le_bytes 2 (1 :: 16 word) @ name_enc ''d'' @ name_enc ''t'' @
    len_enc 0x8000000000000000 @ [3]) = Panic"
  by (rule ParseTableMap_Panic) (simp_all add: name_enc_def len_enc_def)

end
