(* ===== verification/Rows_Event.thy ===== *)
theory Rows_Event
  imports Table_Map Go_Values
begin

section \<open>Row events\<close>

text \<open>
  The model of \<^verbatim>\<open>internal/parser/rows_event.go\<close>: the readers of the column types, the row
  image (a null bitmap and the values of the columns present), and the three row-event
  parsers. Column readers return the position on errors too, because \<^verbatim>\<open>readColumnValue\<close>
  goes on from it after storing \<^verbatim>\<open>nil\<close>. The loop over the rows of an event may not end,
  so it is a \<open>partial_function\<close>: \<^const>\<open>None\<close> is a parser that never returns.
\<close>

subsection \<open>Integers\<close>

definition safeReadValue :: "bytes \<Rightarrow> nat \<Rightarrow> nat \<Rightarrow> gval outcome \<times> nat" where
  "safeReadValue data pos n =
     (if pos + n > length data then (Err UnexpectedEOF, pos)
      else let v = le_word (sub data pos n) :: 64 word;
               v = (if n < 8 \<and> v AND push_bit (8 * n - 1) 1 \<noteq> 0
                    then v OR push_bit (8 * n) (NOT 0) else v)
           in (Ok (VInt (sint v)), pos + n))"

definition readTiny :: "gval reader" where
  "readTiny data pos =
     (if pos + 1 > length data then (Err UnexpectedEOF, pos)
      else (Ok (VInt (sint (data ! pos))), pos + 1))"

subsection \<open>Strings, blobs, bits, enums and sets\<close>

definition parseVarchar :: "gval reader" where
  "parseVarchar data pos =
     (if pos + 2 > length data then (Err UnexpectedEOF, pos)
      else let n = unat (le_word (sub data pos 2) :: 16 word) in
        if pos + 2 + n > length data then (Err UnexpectedEOF, pos + 2)
        else (Ok (VString (string_of_bytes (sub data (pos + 2) n))), pos + 2 + n))"

definition parseEnum :: "bytes \<Rightarrow> nat \<Rightarrow> column_meta \<Rightarrow> gval outcome \<times> nat" where
  "parseEnum data pos m =
     (let size = (if cm_EnumSetSize m \<le> 0 then 1 else nat (cm_EnumSetSize m)) in
      if pos + size > length data then (Err UnexpectedEOF, pos)
      else (Ok (VInt (sint (le_word (sub data pos size) :: 64 word))), pos + size))"

definition parseSet :: "bytes \<Rightarrow> nat \<Rightarrow> column_meta \<Rightarrow> gval outcome \<times> nat" where
  "parseSet data pos m =
     (let size = (if cm_EnumSetSize m \<le> 0 then 1 else nat (cm_EnumSetSize m)) in
      if pos + size > length data then (Err UnexpectedEOF, pos)
      else (Ok (VBytes (sub data pos size)), pos + size))"

definition parseString :: "bytes \<Rightarrow> nat \<Rightarrow> column_meta \<Rightarrow> gval outcome \<times> nat" where
  "parseString data pos m =
     (if cm_RealType m = MYSQL_TYPE_ENUM then parseEnum data pos m
      else if cm_RealType m = MYSQL_TYPE_SET then parseSet data pos m
      else if pos \<ge> length data then (Err UnexpectedEOF, pos)
      else let n = unat (data ! pos) in
        if pos + 1 + n > length data then (Err UnexpectedEOF, pos + 1)
        else (Ok (VString (string_of_bytes (sub data (pos + 1) n))), pos + 1 + n))"

definition parseBlob :: "bytes \<Rightarrow> nat \<Rightarrow> nat \<Rightarrow> gval outcome \<times> nat" where
  "parseBlob data pos lenBytes =
     (if pos + lenBytes > length data then (Err UnexpectedEOF, pos)
      else let n = unat (le_word (sub data pos lenBytes) :: 64 word) in
        if pos + lenBytes + n > length data then (Err UnexpectedEOF, pos + lenBytes)
        else (Ok (VBytes (sub data (pos + lenBytes) n)), pos + lenBytes + n))"

text \<open>The mask of an incomplete last byte is applied to the whole value.\<close>

definition parseBit :: "bytes \<Rightarrow> nat \<Rightarrow> column_meta \<Rightarrow> gval outcome \<times> nat" where
  "parseBit data pos m =
     (let byteCount = (if cm_BitBytes m \<le> 0 then 1 else nat (cm_BitBytes m)) in
      if pos + byteCount > length data then (Err UnexpectedEOF, pos)
      else if byteCount \<le> 8 then
        (let v = le_word (sub data pos byteCount) :: 64 word;
             bitsInLast = cm_BitBits m;
             v = (if bitsInLast > 0 \<and> bitsInLast < 8
                  then v AND (push_bit (nat bitsInLast) 1 - 1) else v)
         in (Ok (VInt (sint v)), pos + byteCount))
      else (Ok (VBytes (sub data pos byteCount)), pos + byteCount))"

subsection \<open>Dates and times\<close>

definition parseDate :: "gval reader" where
  "parseDate data pos =
     (if pos + 4 > length data then (Err UnexpectedEOF, pos)
      else let v = unat (le_word (sub data pos 4) :: 64 word) in
        if v = 0 then (Ok (VString ''0000-00-00''), pos + 4)
        else (Ok (VString (pad0 4 (v div 10000) @ ''-'' @ pad0 2 (v div 100 mod 100) @ ''-'' @
                pad0 2 (v mod 100))), pos + 4))"

definition show_hms :: "nat \<Rightarrow> nat \<Rightarrow> nat \<Rightarrow> string" where
  "show_hms h m s = pad0 2 h @ '':'' @ pad0 2 m @ '':'' @ pad0 2 s"

definition show_ymd_hms :: "nat \<Rightarrow> nat \<Rightarrow> nat \<Rightarrow> nat \<Rightarrow> nat \<Rightarrow> nat \<Rightarrow> string" where
  "show_ymd_hms y mo d h m s =
     pad0 4 y @ ''-'' @ pad0 2 mo @ ''-'' @ pad0 2 d @ '' '' @ show_hms h m s"

definition parseOldTime :: "gval reader" where
  "parseOldTime data pos =
     (if pos + 3 > length data then (Err UnexpectedEOF, pos)
      else let v = unat (le_word (sub data pos 3) :: 64 word) in
        (Ok (VString (show_hms (v div 10000) (v div 100 mod 100) (v mod 100))), pos + 3))"

definition parseOldTimestamp :: "gval reader" where
  "parseOldTimestamp data pos =
     (if pos + 4 > length data then (Err UnexpectedEOF, pos)
      else let secs = unat (le_word (sub data pos 4) :: 64 word) in
        if secs = 0 then (Ok (VString ''0000-00-00 00:00:00''), pos + 4)
        else (Ok (VString (format_datetime (Unix (int secs) 0))), pos + 4))"

definition parseOldDatetime :: "gval reader" where
  "parseOldDatetime data pos =
     (if pos + 8 > length data then (Err UnexpectedEOF, pos)
      else let v = unat (le_word (sub data pos 8) :: 64 word) in
        if v = 0 then (Ok (VString ''0000-00-00 00:00:00''), pos + 8)
        else let d = v div 1000000; t = v mod 1000000 in
          (Ok (VString (show_ymd_hms (d div 10000) (d div 100 mod 100) (d mod 100)
                 (t div 10000) (t div 100 mod 100) (t mod 100))), pos + 8))"

definition readFractionalPart :: "bytes \<Rightarrow> nat \<Rightarrow> int \<Rightarrow> nat outcome \<times> nat" where
  "readFractionalPart data pos fsp =
     (if fsp < 1 then (Ok 0, pos)
      else let fracLen = (if fsp \<ge> 5 then 3 else if fsp \<ge> 3 then 2 else 1) in
        if pos + fracLen > length data then (Err UnexpectedEOF, pos)
        else let v = unat (le_word (sub data pos fracLen) :: 64 word) in
          (Ok (if fracLen = 1 then v * 10000000 else if fracLen = 2 then v * 100000
               else v * 1000), pos + fracLen))"

definition fractionalFormat :: "int \<Rightarrow> nat" where
  "fractionalFormat fsp = (if 1 \<le> fsp \<and> fsp \<le> 6 then nat fsp else 6)"

definition parseTimestamp2 :: "bytes \<Rightarrow> nat \<Rightarrow> int \<Rightarrow> gval outcome \<times> nat" where
  "parseTimestamp2 data pos fsp =
     (if pos + 4 > length data then (Err UnexpectedEOF, pos)
      else let secs = unat (le_word (sub data pos 4) :: 64 word) in
        case readFractionalPart data (pos + 4) fsp of
          (Err e, p) \<Rightarrow> (Err e, p)
        | (Panic, p) \<Rightarrow> (Panic, p)
        | (Ok frac, p) \<Rightarrow>
            if secs = 0 \<and> frac = 0 then (Ok (VString ''0000-00-00 00:00:00''), p)
            else let t = Unix (int secs) (int frac) in
              if fsp = 0 then (Ok (VString (format_datetime t)), p)
              else (Ok (VString (format_datetime_frac (fractionalFormat fsp) t)), p))"

text \<open>\<^verbatim>\<open>fracStr := fmt.Sprintf("%09d", fracNanos)\<close> and the slice \<^verbatim>\<open>fracStr[:fsp]\<close>.\<close>

definition frac_digits :: "nat \<Rightarrow> int \<Rightarrow> string outcome" where
  "frac_digits frac fsp = go_slice (pad0 9 frac) 0 fsp"

definition parseDatetime2 :: "bytes \<Rightarrow> nat \<Rightarrow> int \<Rightarrow> gval outcome \<times> nat" where
  "parseDatetime2 data pos fsp =
     (if pos + 5 > length data then (Err UnexpectedEOF, pos)
      else case readUintBE data pos 5 of
        (Err e, p) \<Rightarrow> (Err e, p)
      | (Panic, p) \<Rightarrow> (Panic, p)
      | (Ok intPart, p) \<Rightarrow>
        (let ym = unat (drop_bit 22 intPart AND 0x1FFFF);
             day = unat (drop_bit 17 intPart AND 0x1F);
             hour = unat (drop_bit 12 intPart AND 0x1F);
             minute = unat (drop_bit 6 intPart AND 0x3F);
             sec = unat (intPart AND 0x3F);
             year = ym div 13;
             month = ym mod 13
         in case readFractionalPart data p fsp of
              (Err e, p) \<Rightarrow> (Err e, p)
            | (Panic, p) \<Rightarrow> (Panic, p)
            | (Ok frac, p) \<Rightarrow>
                if year = 0 \<and> month = 0 \<and> day = 0 \<and> hour = 0 \<and> minute = 0 \<and> sec = 0
                then (Ok (VString ''0000-00-00 00:00:00''), p)
                else if fsp = 0 then (Ok (VString (show_ymd_hms year month day hour minute sec)), p)
                else (bindo (frac_digits frac fsp) (\<lambda>fs.
                        Ok (VString (show_ymd_hms year month day hour minute sec @ ''.'' @ fs))), p)))"

definition parseTime2 :: "bytes \<Rightarrow> nat \<Rightarrow> int \<Rightarrow> gval outcome \<times> nat" where
  "parseTime2 data pos fsp =
     (if pos + 3 > length data then (Err UnexpectedEOF, pos)
      else case readUintBE data pos 3 of
        (Err e, p) \<Rightarrow> (Err e, p)
      | (Panic, p) \<Rightarrow> (Panic, p)
      | (Ok intPart, p) \<Rightarrow>
        (let neg = (drop_bit 23 intPart AND 1 = 1);
             intPart = (if neg then NOT intPart AND 0x7FFFFF else intPart);
             hour = unat (drop_bit 12 intPart AND 0x7FF);
             minute = unat (drop_bit 6 intPart AND 0x3F);
             sec = unat (intPart AND 0x3F);
             sgn = (if neg then ''-'' else [])
         in case readFractionalPart data p fsp of
              (Err e, p) \<Rightarrow> (Err e, p)
            | (Panic, p) \<Rightarrow> (Panic, p)
            | (Ok frac, p) \<Rightarrow>
                if hour = 0 \<and> minute = 0 \<and> sec = 0 then (Ok (VString ''00:00:00''), p)
                else if fsp = 0 then (Ok (VString (sgn @ show_hms hour minute sec)), p)
                else (bindo (frac_digits frac fsp) (\<lambda>fs.
                        Ok (VString (sgn @ show_hms hour minute sec @ ''.'' @ fs))), p)))"

subsection \<open>Decimals\<close>

text \<open>One group: the \<open>k\<close> digits \<^verbatim>\<open>groupVal / pow % 10\<close> for \<^verbatim>\<open>pow\<close> from \<open>10\<^sup>k\<^sup>-\<^sup>1\<close> down to 1.\<close>

fun group_digits :: "nat \<Rightarrow> nat \<Rightarrow> nat list" where
  "group_digits 0 v = []"
| "group_digits (Suc d) v = v div 10 ^ d mod 10 # group_digits d v"

definition group_value :: "bool \<Rightarrow> bytes \<Rightarrow> nat" where
  "group_value neg bs = (let v = le_word bs :: 32 word in unat (if neg then NOT v else v))"

text \<open>The groups of the integral or the fractional part: every group has nine digits, the last
  one \<open>len mod 9\<close> when that is positive.\<close>

fun read_groups :: "bool \<Rightarrow> bytes \<Rightarrow> nat \<Rightarrow> nat \<Rightarrow> nat \<Rightarrow> nat list" where
  "read_groups neg data pos 0 len = []"
| "read_groups neg data pos (Suc g) len =
     (let k = (if g = 0 \<and> len mod 9 > 0 then len mod 9 else 9) in
      group_digits k (group_value neg (sub data pos 4)) @ read_groups neg data (pos + 4) g len)"

definition parseDecimalSimple :: "nat \<Rightarrow> int \<Rightarrow> int \<Rightarrow> gval outcome \<times> nat" where
  "parseDecimalSimple pos precision scale =
     (Ok (VString (''<decimal('' @ show_int precision @ '','' @ show_int scale @ '')>'')), pos)"

definition parseDecimal :: "bytes \<Rightarrow> nat \<Rightarrow> column_meta \<Rightarrow> gval outcome \<times> nat" where
  "parseDecimal data pos m =
     (let precision = (if cm_Precision m \<le> 0 then 10 else cm_Precision m);
          scale = (if cm_Scale m < 0 then 0 else cm_Scale m);
          integralLen = precision - scale;
          fracLen = scale;
          intGroups = (integralLen + 9 - 1) sdiv 9;
          fracGroups = (fracLen + 9 - 1) sdiv 9;
          totalBytes = 1 + (intGroups + fracGroups) * 4
      in if int pos + totalBytes > int (length data)
         then parseDecimalSimple pos precision scale
         else if integralLen < 0 then (Panic, pos)
         else let neg = (data ! pos AND 0x80 \<noteq> 0);
                  intDigits = read_groups neg data (pos + 1) (nat intGroups) (nat integralLen);
                  fracPos = pos + 1 + 4 * nat intGroups;
                  fracDigits = read_groups neg data fracPos (nat fracGroups) (nat fracLen)
              in (Ok (VString ((if neg then ''-'' else []) @
                    (if intDigits = [] then ''0'' else concat (map show_nat intDigits)) @
                    (if fracDigits = [] then [] else ''.'' @ concat (map show_nat fracDigits)))),
                  fracPos + 4 * nat fracGroups))"

subsection \<open>One column\<close>

definition colName :: "nat \<Rightarrow> string" where
  "colName i = ''col_'' @ show_nat i"

text \<open>The switch of \<^verbatim>\<open>readColumnValue\<close>. The cases guarded by \<^verbatim>\<open>if pos+n <= len(data)\<close> leave the
  value \<^verbatim>\<open>nil\<close> and the position unchanged when the data is short.\<close>

definition guarded :: "bytes \<Rightarrow> nat \<Rightarrow> nat \<Rightarrow> (bytes \<Rightarrow> nat \<Rightarrow> gval outcome \<times> nat) \<Rightarrow> gval outcome \<times> nat" where
  "guarded data pos n rd = (if pos + n \<le> length data then rd data pos else (Ok VNull, pos))"

definition map_read :: "('a \<Rightarrow> 'b) \<Rightarrow> 'a reader \<Rightarrow> 'b reader" where
  "map_read f rd data pos = (case rd data pos of
      (Ok v, p) \<Rightarrow> (Ok (f v), p) | (Err e, p) \<Rightarrow> (Err e, p) | (Panic, p) \<Rightarrow> (Panic, p))"

definition column_value :: "bytes \<Rightarrow> nat \<Rightarrow> byte \<Rightarrow> column_meta \<Rightarrow> gval outcome \<times> nat" where
  "column_value data pos t m =
     (if t = MYSQL_TYPE_TINY then readTiny data pos
      else if t = MYSQL_TYPE_SHORT then safeReadValue data pos 2
      else if t = MYSQL_TYPE_LONG then safeReadValue data pos 4
      else if t = MYSQL_TYPE_LONGLONG then guarded data pos 8 (map_read VInt readInt64)
      else if t = MYSQL_TYPE_INT24 then guarded data pos 3 (map_read VInt readInt24)
      else if t = MYSQL_TYPE_FLOAT then
        guarded data pos 4 (map_read (\<lambda>w. VFloat (float64_of_float32 w)) readFloat32)
      else if t = MYSQL_TYPE_DOUBLE then guarded data pos 8 (map_read VFloat readFloat64)
      else if t = MYSQL_TYPE_NULL then (Ok VNull, pos)
      else if t \<in> {MYSQL_TYPE_DECIMAL, MYSQL_TYPE_NEWDECIMAL} then parseDecimal data pos m
      else if t = MYSQL_TYPE_TIMESTAMP then parseOldTimestamp data pos
      else if t = MYSQL_TYPE_TIMESTAMP2 then parseTimestamp2 data pos (cm_FSP m)
      else if t = MYSQL_TYPE_DATETIME then parseOldDatetime data pos
      else if t = MYSQL_TYPE_DATETIME2 then parseDatetime2 data pos (cm_FSP m)
      else if t \<in> {MYSQL_TYPE_DATE, MYSQL_TYPE_NEWDATE} then parseDate data pos
      else if t = MYSQL_TYPE_TIME then parseOldTime data pos
      else if t = MYSQL_TYPE_TIME2 then parseTime2 data pos (cm_FSP m)
      else if t = MYSQL_TYPE_YEAR then
        (if pos + 1 > length data then (Err UnexpectedEOF, pos)
         else (Ok (VInt (1900 + int_at data pos)), pos + 1))
      else if t \<in> {MYSQL_TYPE_VARCHAR, MYSQL_TYPE_VAR_STRING} then parseVarchar data pos
      else if t = MYSQL_TYPE_STRING then parseString data pos m
      else if t = MYSQL_TYPE_BIT then parseBit data pos m
      else if t = MYSQL_TYPE_ENUM then parseEnum data pos m
      else if t = MYSQL_TYPE_SET then parseSet data pos m
      else if t = MYSQL_TYPE_TINY_BLOB then parseBlob data pos 1
      else if t = MYSQL_TYPE_BLOB then parseBlob data pos 2
      else if t = MYSQL_TYPE_MEDIUM_BLOB then parseBlob data pos 3
      else if t \<in> {MYSQL_TYPE_LONG_BLOB, MYSQL_TYPE_JSON, MYSQL_TYPE_GEOMETRY} then
        parseBlob data pos 4
      else if pos + 4 \<le> length data then (Ok VNull, pos + 4)
      else (Ok VNull, length data))"

definition readColumnValue ::
  "bytes \<Rightarrow> nat \<Rightarrow> byte \<Rightarrow> column_meta \<Rightarrow> row \<Rightarrow> nat \<Rightarrow> (row \<times> nat) outcome" where
  "readColumnValue data pos t m values i =
     (case column_value data pos t m of
        (Ok v, p) \<Rightarrow> Ok (AList.update (colName i) v values, p)
      | (Err e, p) \<Rightarrow> Ok (AList.update (colName i) VNull values, p)
      | (Panic, p) \<Rightarrow> Panic)"

subsection \<open>One row image\<close>

text \<open>\<^verbatim>\<open>colType\<close> and \<^verbatim>\<open>colMeta\<close> stay zero when the table map is unknown or too short.\<close>

definition column_type :: "table_map option \<Rightarrow> nat \<Rightarrow> byte \<times> column_meta" where
  "column_type tm i = (case tm of
      None \<Rightarrow> (0, zero_meta 0)
    | Some t \<Rightarrow> if i < length (tm_ColumnTypes t) then (tm_ColumnTypes t ! i, tm_ColumnMeta t ! i)
        else (0, zero_meta 0))"

text \<open>The loop over the columns with the given indices.\<close>

fun row_columns :: "table_map option \<Rightarrow> bytes \<Rightarrow> bytes \<Rightarrow> bytes \<Rightarrow> nat list \<Rightarrow> row \<Rightarrow> nat \<Rightarrow>
    (row \<times> nat) outcome" where
  "row_columns tm data present nulls [] values pos = Ok (values, pos)"
| "row_columns tm data present nulls (i # is) values pos =
     (if \<not> IsBitSet present i then row_columns tm data present nulls is values pos
      else if IsBitSet nulls i then
        row_columns tm data present nulls is (AList.update (colName i) VNull values) pos
      else (let (t, m) = column_type tm i in
        bindo (readColumnValue data pos t m values i) (\<lambda>(values, pos).
          row_columns tm data present nulls is values pos)))"

text \<open>\<^verbatim>\<open>RowData\<close>: the two images, \<^const>\<open>None\<close> for a nil map.\<close>

record row_data =
  rd_Before :: "row option"
  rd_After :: "row option"

text \<open>\<^verbatim>\<open>RowEventParser\<close>: the registry (or nil) and the table id of the event being parsed.\<close>

record row_event_parser =
  rp_registry :: "table_registry option"
  rp_currentTableID :: "64 word"

definition lookupTableMap :: "row_event_parser \<Rightarrow> table_map option" where
  "lookupTableMap p = (case rp_registry p of
      None \<Rightarrow> None | Some r \<Rightarrow> Registry_Get r (rp_currentTableID p))"

definition parseRowAfter :: "row_event_parser \<Rightarrow> bytes \<Rightarrow> nat \<Rightarrow> 64 word \<Rightarrow> bytes \<Rightarrow>
    row_data outcome \<times> nat" where
  "parseRowAfter p payload pos colCount present =
     (let n = int_of_u64 colCount; bitmapBytes = BitmapByteSize n in
      if int pos + bitmapBytes > int (length payload) then (Err UnexpectedEOF, pos)
      else case go_slice payload (int pos) (int pos + bitmapBytes) of
        Err e \<Rightarrow> (Err e, pos)
      | Panic \<Rightarrow> (Panic, pos)
      | Ok nulls \<Rightarrow>
          (case row_columns (lookupTableMap p) payload present nulls [0..<nat n] []
                 (nat (int pos + bitmapBytes)) of
             Ok (values, pos') \<Rightarrow> (Ok \<lparr>rd_Before = None, rd_After = Some values\<rparr>, pos')
           | Err e \<Rightarrow> (Err e, pos)
           | Panic \<Rightarrow> (Panic, pos)))"

definition parseRow :: "row_event_parser \<Rightarrow> bytes \<Rightarrow> nat \<Rightarrow> 64 word \<Rightarrow> bytes \<Rightarrow> bool \<Rightarrow>
    row_data outcome \<times> nat" where
  "parseRow p payload pos colCount present isAfter = parseRowAfter p payload pos colCount present"

subsection \<open>The event parsers\<close>

record row_event_data =
  red_TableID :: "64 word"
  red_Flags :: "16 word"
  red_ColumnCount :: "64 word"
  red_Rows :: "row_data list"

definition parseRowPostHeader :: "bytes \<Rightarrow> bool \<Rightarrow> (nat \<times> 64 word \<times> 16 word) outcome" where
  "parseRowPostHeader payload v2 =
     (if 6 > length payload then Err UnexpectedEOF
      else let tableID = le_word (sub payload 0 6) in
      if 8 > length payload then Err UnexpectedEOF
      else let flags = le_word (sub payload 6 2) in
      if \<not> v2 then Ok (8, tableID, flags)
      else if 10 > length payload then Err UnexpectedEOF
      else let extraLen = unat (le_word (sub payload 8 2) :: 16 word) in
        if extraLen < 2 then Err (Errorf (''invalid extra_data_length: '' @ show_nat extraLen))
        else if 8 + extraLen > length payload then Err UnexpectedEOF
        else Ok (8 + extraLen, tableID, flags))"

text \<open>The loop \<^verbatim>\<open>for pos < len(payload)\<close> over the rows, with \<open>rd\<close> reading one row.\<close>

partial_function (option) rows_loop ::
  "(nat \<Rightarrow> row_data outcome \<times> nat) \<Rightarrow> nat \<Rightarrow> nat \<Rightarrow> row_data list \<Rightarrow> row_data list outcome option" where
  "rows_loop rd len pos rows =
     (if pos < len then
        (case rd pos of
           (Ok row, newPos) \<Rightarrow> rows_loop rd len newPos (rows @ [row])
         | (Err e, _) \<Rightarrow> Some (Err e)
         | (Panic, _) \<Rightarrow> Some Panic)
      else Some (Ok rows))"

declare rows_loop.simps [code]

definition row_at :: "string \<Rightarrow> nat \<Rightarrow> 'a outcome \<times> nat \<Rightarrow> 'a outcome \<times> nat" where
  "row_at what pos r = (wrapo (what @ show_nat pos) (fst r), snd r)"

text \<open>
  The parts of an event body before the rows: the column count and \<open>k\<close> columns-present
  bitmaps (one, or two for UPDATE), with the size check of all of them first.
\<close>

definition bitmap_slice :: "bytes \<Rightarrow> nat \<Rightarrow> int \<Rightarrow> (bytes \<times> nat) outcome" where
  "bitmap_slice payload pos n =
     bindo (go_slice payload (int pos) (int pos + n)) (\<lambda>bm. Ok (bm, nat (int pos + n)))"

definition rows_result :: "64 word \<Rightarrow> 16 word \<Rightarrow> 64 word \<Rightarrow> row_data list outcome \<Rightarrow>
    row_event_data outcome" where
  "rows_result tableID flags colCount r =
     bindo r (\<lambda>rows. Ok \<lparr>red_TableID = tableID, red_Flags = flags, red_ColumnCount = colCount,
                        red_Rows = rows\<rparr>)"

definition ParseWriteRowsEvent :: "row_event_parser \<Rightarrow> bytes \<Rightarrow> bool \<Rightarrow>
    row_event_data outcome option \<times> row_event_parser" where
  "ParseWriteRowsEvent p payload v2 =
     (case parseRowPostHeader payload v2 of
        Err e \<Rightarrow> (Some (Err e), p)
      | Panic \<Rightarrow> (Some Panic, p)
      | Ok (pos, tableID, flags) \<Rightarrow>
        (let p = p\<lparr>rp_currentTableID := tableID\<rparr> in
         (case LengthEncodedInt payload pos of
            (Err e, _) \<Rightarrow> Some (Err (Wrapf ''column count'' e))
          | (Panic, _) \<Rightarrow> Some Panic
          | (Ok colCount, pos) \<Rightarrow>
            (let n = BitmapByteSize (int_of_u64 colCount) in
             if int pos + n > int (length payload) then Some (Err UnexpectedEOF)
             else (case bitmap_slice payload pos n of
                 Err e \<Rightarrow> Some (Err e)
               | Panic \<Rightarrow> Some Panic
               | Ok (present, pos) \<Rightarrow>
                 map_option (rows_result tableID flags colCount)
                   (rows_loop (\<lambda>pos. row_at ''row at offset '' pos
                      (parseRow p payload pos colCount present False)) (length payload) pos []))), p)))"

definition ParseDeleteRowsEvent :: "row_event_parser \<Rightarrow> bytes \<Rightarrow> bool \<Rightarrow>
    row_event_data outcome option \<times> row_event_parser" where
  "ParseDeleteRowsEvent p payload v2 =
     (case parseRowPostHeader payload v2 of
        Err e \<Rightarrow> (Some (Err e), p)
      | Panic \<Rightarrow> (Some Panic, p)
      | Ok (pos, tableID, flags) \<Rightarrow>
        (let p = p\<lparr>rp_currentTableID := tableID\<rparr> in
         (case LengthEncodedInt payload pos of
            (Err e, _) \<Rightarrow> Some (Err (Wrapf ''column count'' e))
          | (Panic, _) \<Rightarrow> Some Panic
          | (Ok colCount, pos) \<Rightarrow>
            (let n = BitmapByteSize (int_of_u64 colCount) in
             if int pos + n > int (length payload) then Some (Err UnexpectedEOF)
             else (case bitmap_slice payload pos n of
                 Err e \<Rightarrow> Some (Err e)
               | Panic \<Rightarrow> Some Panic
               | Ok (present, pos) \<Rightarrow>
                 map_option (rows_result tableID flags colCount)
                   (rows_loop (\<lambda>pos. row_at ''row at offset '' pos
                      (parseRowAfter p payload pos colCount present)) (length payload) pos []))), p)))"

text \<open>One iteration of the UPDATE loop: the before image, then the after image.\<close>

definition parseRowPair :: "row_event_parser \<Rightarrow> bytes \<Rightarrow> 64 word \<Rightarrow> bytes \<Rightarrow> bytes \<Rightarrow> nat \<Rightarrow>
    row_data outcome \<times> nat" where
  "parseRowPair p payload colCount beforeBitmap afterBitmap pos =
     (case row_at ''before row at offset '' pos (parseRowAfter p payload pos colCount beforeBitmap) of
        (Err e, q) \<Rightarrow> (Err e, q)
      | (Panic, q) \<Rightarrow> (Panic, q)
      | (Ok beforeRow, newPos) \<Rightarrow>
        (case parseRowAfter p payload newPos colCount afterBitmap of
           (Err e, q) \<Rightarrow> (Err (Wrapf (''after row at offset '' @ show_nat q) e), q)
         | (Panic, q) \<Rightarrow> (Panic, q)
         | (Ok afterRow, q) \<Rightarrow> (Ok \<lparr>rd_Before = rd_After beforeRow, rd_After = rd_After afterRow\<rparr>, q)))"

definition ParseUpdateRowsEvent :: "row_event_parser \<Rightarrow> bytes \<Rightarrow> bool \<Rightarrow>
    row_event_data outcome option \<times> row_event_parser" where
  "ParseUpdateRowsEvent p payload v2 =
     (case parseRowPostHeader payload v2 of
        Err e \<Rightarrow> (Some (Err e), p)
      | Panic \<Rightarrow> (Some Panic, p)
      | Ok (pos, tableID, flags) \<Rightarrow>
        (let p = p\<lparr>rp_currentTableID := tableID\<rparr> in
         (case LengthEncodedInt payload pos of
            (Err e, _) \<Rightarrow> Some (Err (Wrapf ''column count'' e))
          | (Panic, _) \<Rightarrow> Some Panic
          | (Ok colCount, pos) \<Rightarrow>
            (let n = BitmapByteSize (int_of_u64 colCount) in
             if int pos + n * 2 > int (length payload) then Some (Err UnexpectedEOF)
             else (case bindo (bitmap_slice payload pos n) (\<lambda>(before, pos).
                        bindo (bitmap_slice payload pos n) (\<lambda>(after, pos). Ok (before, after, pos))) of
                 Err e \<Rightarrow> Some (Err e)
               | Panic \<Rightarrow> Some Panic
               | Ok (beforeBitmap, afterBitmap, pos) \<Rightarrow>
                 map_option (rows_result tableID flags colCount)
                   (rows_loop (parseRowPair p payload colCount beforeBitmap afterBitmap)
                      (length payload) pos []))), p)))"

end
