(* ===== verification/Row_Bounds.thy ===== *)
theory Row_Bounds
  imports Rows_Event
begin

section \<open>Row events: positions, panics and the row loop\<close>

text \<open>
  Every column reader moves the position forward and stays inside the data, and panics only
  on metadata that no table has; a row image with at least one column consumes its null
  bitmap, so the loop over the rows ends. The laws of a row reader are the locale
  \<open>row_reader\<close>, interpreted on the single-image reader (INSERT, DELETE) and on the pair
  reader (UPDATE).
\<close>

subsection \<open>Column readers stay inside the data\<close>

definition stays_inside :: "bytes \<Rightarrow> nat \<Rightarrow> 'a outcome \<times> nat \<Rightarrow> bool" where
  "stays_inside data pos r \<longleftrightarrow> fst r \<noteq> Panic \<longrightarrow> pos \<le> snd r \<and> snd r \<le> length data"

lemma safeReadValue_inside [inv_intros]:
  "pos \<le> length data \<Longrightarrow> stays_inside data pos (safeReadValue data pos n)"
  by (simp add: stays_inside_def safeReadValue_def Let_def)

lemma readTiny_inside [inv_intros]:
  "pos \<le> length data \<Longrightarrow> stays_inside data pos (readTiny data pos)"
  by (simp add: stays_inside_def readTiny_def)

lemma parseVarchar_inside [inv_intros]:
  "pos \<le> length data \<Longrightarrow> stays_inside data pos (parseVarchar data pos)"
  by (simp add: stays_inside_def parseVarchar_def Let_def)

lemma parseEnum_inside [inv_intros]:
  "pos \<le> length data \<Longrightarrow> stays_inside data pos (parseEnum data pos m)"
  by (simp add: stays_inside_def parseEnum_def Let_def)

lemma parseSet_inside [inv_intros]:
  "pos \<le> length data \<Longrightarrow> stays_inside data pos (parseSet data pos m)"
  by (simp add: stays_inside_def parseSet_def Let_def)

lemma parseString_inside [inv_intros]:
  "pos \<le> length data \<Longrightarrow> stays_inside data pos (parseString data pos m)"
  using parseEnum_inside [of pos data m] parseSet_inside [of pos data m]
  by (auto simp: parseString_def Let_def) (auto simp: stays_inside_def)

lemma parseBlob_inside [inv_intros]:
  "pos \<le> length data \<Longrightarrow> stays_inside data pos (parseBlob data pos n)"
  by (simp add: stays_inside_def parseBlob_def Let_def)

lemma parseBit_inside [inv_intros]:
  "pos \<le> length data \<Longrightarrow> stays_inside data pos (parseBit data pos m)"
  by (simp add: stays_inside_def parseBit_def Let_def)

lemma parseDate_inside [inv_intros]:
  "pos \<le> length data \<Longrightarrow> stays_inside data pos (parseDate data pos)"
  by (simp add: stays_inside_def parseDate_def Let_def)

lemma parseOldTime_inside [inv_intros]:
  "pos \<le> length data \<Longrightarrow> stays_inside data pos (parseOldTime data pos)"
  by (simp add: stays_inside_def parseOldTime_def Let_def)

lemma parseOldTimestamp_inside [inv_intros]:
  "pos \<le> length data \<Longrightarrow> stays_inside data pos (parseOldTimestamp data pos)"
  by (simp add: stays_inside_def parseOldTimestamp_def Let_def)

lemma parseOldDatetime_inside [inv_intros]:
  "pos \<le> length data \<Longrightarrow> stays_inside data pos (parseOldDatetime data pos)"
  by (simp add: stays_inside_def parseOldDatetime_def Let_def)

lemma readFractionalPart_inside:
  "pos \<le> length data \<Longrightarrow> readFractionalPart data pos fsp = (r, p) \<Longrightarrow> pos \<le> p \<and> p \<le> length data"
  by (auto simp: readFractionalPart_def Let_def split: if_splits)

lemma readUintBE_inside:
  "pos \<le> length data \<Longrightarrow> readUintBE data pos n = (r, p) \<Longrightarrow> pos \<le> p \<and> p \<le> length data"
  by (auto simp: readUintBE_def split: if_splits)

lemma parseTimestamp2_inside [inv_intros]:
  "pos \<le> length data \<Longrightarrow> stays_inside data pos (parseTimestamp2 data pos fsp)"
  by (auto simp: stays_inside_def parseTimestamp2_def Let_def split: prod.splits outcome.splits
      dest: readFractionalPart_inside [rotated])

lemma parseDatetime2_inside [inv_intros]:
  assumes "pos \<le> length data"
  shows "stays_inside data pos (parseDatetime2 data pos fsp)"
proof (cases "readUintBE data pos 5")
  case (Pair r q)
  note q = readUintBE_inside [OF assms Pair]
  obtain f p where f: "readFractionalPart data q fsp = (f, p)" by fastforce
  note p = readFractionalPart_inside [OF conjunct2 [OF q] f]
  show ?thesis
    using assms q p by (cases r; cases f)
      (auto simp: parseDatetime2_def Pair f stays_inside_def Let_def)
qed

lemma parseTime2_inside [inv_intros]:
  assumes "pos \<le> length data"
  shows "stays_inside data pos (parseTime2 data pos fsp)"
proof (cases "readUintBE data pos 3")
  case (Pair r q)
  note q = readUintBE_inside [OF assms Pair]
  obtain f p where f: "readFractionalPart data q fsp = (f, p)" by fastforce
  note p = readFractionalPart_inside [OF conjunct2 [OF q] f]
  show ?thesis
    using assms q p by (cases r; cases f)
      (auto simp: parseTime2_def Pair f stays_inside_def Let_def)
qed

lemma parseDecimal_inside [inv_intros]:
  assumes "pos \<le> length data"
  shows "stays_inside data pos (parseDecimal data pos m)"
proof -
  define pr where "pr = (if cm_Precision m \<le> 0 then 10 else cm_Precision m)"
  define sc where "sc = (if cm_Scale m < 0 then 0 else cm_Scale m)"
  have sc: "0 \<le> sc" by (simp add: sc_def)
  define ig where "ig = (pr - sc + 9 - 1) sdiv 9"
  define fg where "fg = (sc + 9 - 1) sdiv 9"
  have fg: "0 \<le> fg" using sc by (simp add: fg_def signed_divide_int_def sgn_if)
  have ig: "0 \<le> ig" if "0 \<le> pr - sc" using that by (simp add: ig_def signed_divide_int_def sgn_if)
  show ?thesis
    using assms fg ig unfolding parseDecimal_def Let_def pr_def [symmetric] sc_def [symmetric]
      ig_def [symmetric] fg_def [symmetric]
    by (auto simp: stays_inside_def parseDecimalSimple_def)
qed

lemma map_read_inside:
  "stays_inside data pos (rd data pos) \<Longrightarrow> stays_inside data pos (map_read f rd data pos)"
  by (auto simp: stays_inside_def map_read_def split: prod.splits outcome.splits)

lemma guarded_inside:
  "pos \<le> length data \<Longrightarrow> stays_inside data pos (rd data pos) \<Longrightarrow>
   stays_inside data pos (guarded data pos n rd)"
  by (auto simp: stays_inside_def guarded_def)

lemma fixed_readers_inside [inv_intros]:
  assumes "pos \<le> length data"
  shows "stays_inside data pos (readInt64 data pos)" "stays_inside data pos (readInt24 data pos)"
    "stays_inside data pos (readFloat32 data pos)" "stays_inside data pos (readFloat64 data pos)"
  using assms
  by (auto simp: stays_inside_def readInt64_def readInt24_def readFloat32_def readFloat64_def Let_def)

lemma column_value_inside:
  assumes "pos \<le> length data"
  shows "stays_inside data pos (column_value data pos t m)"
proof -
  have if_inside: "stays_inside data pos (if b then x else y)"
    if "b \<Longrightarrow> stays_inside data pos x" "\<not> b \<Longrightarrow> stays_inside data pos y"
    for b and x y :: "gval outcome \<times> nat"
    using that by simp
  show ?thesis
    unfolding column_value_def
    by (intro if_inside inv_intros guarded_inside map_read_inside assms)
      (use assms in \<open>simp_all add: stays_inside_def\<close>)
qed

subsection \<open>Which metadata makes a reader panic\<close>

text \<open>The precision and scale of a decimal as \<^verbatim>\<open>parseDecimal\<close> takes them, and the metadata every
  real table has: a scale within the precision, at most nine fractional digits.\<close>

definition eff_precision :: "column_meta \<Rightarrow> int" where
  "eff_precision m = (if cm_Precision m \<le> 0 then 10 else cm_Precision m)"

definition eff_scale :: "column_meta \<Rightarrow> int" where
  "eff_scale m = (if cm_Scale m < 0 then 0 else cm_Scale m)"

definition decimal_bytes :: "column_meta \<Rightarrow> int" where
  "decimal_bytes m =
     1 + ((eff_precision m - eff_scale m + 9 - 1) sdiv 9 + (eff_scale m + 9 - 1) sdiv 9) * 4"

definition meta_ok :: "column_meta \<Rightarrow> bool" where
  "meta_ok m \<longleftrightarrow> eff_scale m \<le> eff_precision m \<and> 0 \<le> cm_FSP m \<and> cm_FSP m \<le> 9"

lemma parseDecimal_Panic_iff:
  "fst (parseDecimal data pos m) = Panic \<longleftrightarrow>
   eff_precision m < eff_scale m \<and> int pos + decimal_bytes m \<le> int (length data)"
  unfolding parseDecimal_def decimal_bytes_def Let_def eff_precision_def [symmetric]
    eff_scale_def [symmetric]
  by (simp add: parseDecimalSimple_def)

lemma frac_digits_Panic_iff:
  "frac_digits frac fsp = Panic \<longleftrightarrow> fsp < 0 \<or> int (length (pad0 9 frac)) < fsp"
  by (auto simp: frac_digits_def go_slice_def)

lemma frac_digits_ok: "0 \<le> fsp \<Longrightarrow> fsp \<le> 9 \<Longrightarrow> frac_digits frac fsp \<noteq> Panic"
  using length_pad0 [of 9 frac] by (simp add: frac_digits_Panic_iff)

lemma readFractionalPart_no_Panic: "readFractionalPart data pos fsp \<noteq> (Panic, p)"
  by (auto simp: readFractionalPart_def Let_def)

lemma readUintBE_no_Panic: "readUintBE data pos n \<noteq> (Panic, p)"
  by (auto simp: readUintBE_def)

lemma temporal_no_Panic:
  assumes "meta_ok m"
  shows "fst (parseTimestamp2 data pos (cm_FSP m)) \<noteq> Panic"
    "fst (parseDatetime2 data pos (cm_FSP m)) \<noteq> Panic"
    "fst (parseTime2 data pos (cm_FSP m)) \<noteq> Panic"
  using assms frac_digits_ok [of "cm_FSP m"]
  by (auto simp: meta_ok_def parseTimestamp2_def parseDatetime2_def parseTime2_def Let_def
      bindo_Panic_iff readFractionalPart_no_Panic readUintBE_no_Panic
      split: prod.splits outcome.splits)

lemma simple_readers_no_Panic [simp]:
  "fst (readTiny data pos) \<noteq> Panic" "fst (safeReadValue data pos n) \<noteq> Panic"
  "fst (readInt64 data pos) \<noteq> Panic" "fst (readInt24 data pos) \<noteq> Panic"
  "fst (readFloat32 data pos) \<noteq> Panic" "fst (readFloat64 data pos) \<noteq> Panic"
  "fst (parseOldTimestamp data pos) \<noteq> Panic" "fst (parseOldDatetime data pos) \<noteq> Panic"
  "fst (parseDate data pos) \<noteq> Panic" "fst (parseOldTime data pos) \<noteq> Panic"
  "fst (parseVarchar data pos) \<noteq> Panic" "fst (parseBlob data pos n) \<noteq> Panic"
  "fst (parseBit data pos m) \<noteq> Panic" "fst (parseEnum data pos m) \<noteq> Panic"
  "fst (parseSet data pos m) \<noteq> Panic"
  by (simp_all add: readTiny_def safeReadValue_def readInt64_def readInt24_def readFloat32_def
      readFloat64_def parseOldTimestamp_def parseOldDatetime_def parseDate_def parseOldTime_def
      parseVarchar_def parseBlob_def parseBit_def parseEnum_def parseSet_def Let_def)

lemma parseString_no_Panic [simp]: "fst (parseString data pos m) \<noteq> Panic"
  by (simp add: parseString_def Let_def)

lemma map_read_no_Panic: "fst (map_read f rd data pos) = Panic \<longleftrightarrow> fst (rd data pos) = Panic"
  by (auto simp: map_read_def split: prod.splits outcome.splits)

lemma column_value_no_Panic:
  assumes "meta_ok m"
  shows "fst (column_value data pos t m) \<noteq> Panic"
proof -
  have "fst (parseDecimal data pos m) \<noteq> Panic"
    using assms by (simp add: parseDecimal_Panic_iff meta_ok_def)
  moreover have if_ok: "fst (if b then x else y) \<noteq> Panic"
    if "fst x \<noteq> Panic" "fst y \<noteq> Panic" for b and x y :: "gval outcome \<times> nat"
    using that by simp
  ultimately show ?thesis
    unfolding column_value_def guarded_def
    by (intro if_ok temporal_no_Panic assms) (simp_all add: map_read_no_Panic)
qed

subsection \<open>Row images\<close>

definition table_meta_ok :: "table_map option \<Rightarrow> bool" where
  "table_meta_ok tm \<longleftrightarrow> (\<forall>i. meta_ok (snd (column_type tm i)))"

lemma meta_ok_zero [simp]: "meta_ok (zero_meta t)"
  by (simp add: meta_ok_def eff_scale_def eff_precision_def zero_meta_def)

lemma table_meta_ok_None [simp]: "table_meta_ok None"
  by (simp add: table_meta_ok_def column_type_def)

lemma table_meta_ok_Some:
  assumes "length (tm_ColumnTypes tm) = length (tm_ColumnMeta tm)" "list_all meta_ok (tm_ColumnMeta tm)"
  shows "table_meta_ok (Some tm)"
  using assms by (auto simp: table_meta_ok_def column_type_def list_all_length)

lemma readColumnValue_cases:
  assumes "pos \<le> length data"
  obtains (panic) "readColumnValue data pos t m vals i = Panic" "\<not> meta_ok m"
  | (stored) v p where "readColumnValue data pos t m vals i = Ok (AList.update (colName i) v vals, p)"
      "pos \<le> p" "p \<le> length data"
proof -
  obtain r p where rp: "column_value data pos t m = (r, p)" by fastforce
  show ?thesis
  proof (cases "r = Panic")
    case True
    with rp column_value_no_Panic [of m data pos t] show ?thesis
      by (intro panic) (auto simp: readColumnValue_def)
  next
    case False
    with rp column_value_inside [OF assms, of t m] have "pos \<le> p" "p \<le> length data"
      by (auto simp: stays_inside_def)
    with False rp show ?thesis
      by (cases r) (auto simp: readColumnValue_def intro: stored)
  qed
qed

lemma row_columns_inside:
  "pos \<le> length data \<Longrightarrow> row_columns tm data present nulls ixs vals pos = Ok (vs, p) \<Longrightarrow>
   pos \<le> p \<and> p \<le> length data"
proof (induction ixs arbitrary: vals pos)
  case Nil
  then show ?case by simp
next
  case (Cons i ixs)
  obtain t m where tm: "column_type tm i = (t, m)" by fastforce
  show ?case
  proof (rule readColumnValue_cases [OF Cons.prems(1), of t m vals i])
    assume "readColumnValue data pos t m vals i = Panic"
    then show ?thesis
      using Cons.prems Cons.IH [of pos] tm by (auto split: if_splits)
  next
    fix v q
    assume "readColumnValue data pos t m vals i = Ok (AList.update (colName i) v vals, q)"
      "pos \<le> q" "q \<le> length data"
    then show ?thesis
      using Cons.prems Cons.IH [of pos] Cons.IH [of q] tm by (fastforce split: if_splits)
  qed
qed

lemma row_columns_no_Err: "row_columns tm data present nulls ixs vals pos \<noteq> Err e"
  by (induction ixs arbitrary: vals pos)
    (auto simp: readColumnValue_def bindo_Err_iff split: prod.splits outcome.splits)

lemma row_columns_no_Panic:
  "table_meta_ok tm \<Longrightarrow> row_columns tm data present nulls ixs vals pos \<noteq> Panic"
proof (induction ixs arbitrary: vals pos)
  case Nil
  then show ?case by simp
next
  case (Cons i ixs)
  have "fst (column_value data pos (fst (column_type tm i)) (snd (column_type tm i))) \<noteq> Panic"
    using Cons.prems by (intro column_value_no_Panic) (simp add: table_meta_ok_def)
  then show ?case
    using Cons.IH [OF Cons.prems]
    by (auto simp: readColumnValue_def bindo_Panic_iff split: prod.splits outcome.splits)
qed

lemma BitmapByteSize_eq:
  assumes "0 \<le> n" "n + 7 < 2 ^ 63"
  shows "BitmapByteSize n = (n + 7) div 8"
proof -
  have "goint (n + 7) = n + 7" using assms by (intro goint_id) simp_all
  then show ?thesis
    using assms by (simp add: BitmapByteSize_def signed_divide_int_def sgn_if)
qed

lemma BitmapByteSize_nat: "n < 2 ^ 62 \<Longrightarrow> BitmapByteSize (int n) = int ((n + 7) div 8)"
  by (subst BitmapByteSize_eq) (simp_all add: zdiv_int)

text \<open>For a positive column count the bitmap is not empty, or its size has wrapped and is negative.\<close>

lemma BitmapByteSize_sign:
  assumes "0 < n" "n < 2 ^ 63"
  shows "0 < BitmapByteSize n \<or> BitmapByteSize n < 0"
proof (cases "n + 7 < 2 ^ 63")
  case True
  then show ?thesis using assms by (simp add: BitmapByteSize_eq pos_imp_zdiv_pos_iff)
next
  case False
  then have "goint (n + 7) = n + 7 - 2 ^ 64"
    using assms by (intro goint_wrap) simp_all
  moreover define x where "x = - (n + 7 - 2 ^ 64)"
  moreover have x: "8 \<le> x" using assms by (simp add: x_def)
  ultimately have "BitmapByteSize n = (- x) sdiv 8" by (simp add: BitmapByteSize_def)
  also have "\<dots> = - (x div 8)" using x by (simp add: signed_divide_int_def sgn_if)
  also have "\<dots> < 0" using x by (simp add: pos_imp_zdiv_pos_iff)
  finally show ?thesis ..
qed

lemma int_of_u64_less: "int_of_u64 w < 2 ^ 63"
  using sint_less [of w] by (simp add: int_of_u64_def)

lemma parseRowAfter_progress:
  assumes "pos \<le> length data" "0 < int_of_u64 c" "parseRowAfter p data pos c present = (Ok r, q)"
  shows "pos < q \<and> q \<le> length data"
proof -
  let ?n = "BitmapByteSize (int_of_u64 c)"
  have chk: "int pos + ?n \<le> int (length data)" and sl: "0 \<le> ?n"
    using assms(3) by (auto simp: parseRowAfter_def Let_def go_slice_def split: if_splits)
  with BitmapByteSize_sign [OF assms(2) int_of_u64_less] have pos: "0 < ?n" by auto
  obtain vs where "row_columns (lookupTableMap p) data present
      (take (nat ?n) (drop pos data)) [0..<nat (int_of_u64 c)] [] (nat (int pos + ?n)) = Ok (vs, q)"
    using assms(3) chk sl
    by (auto simp: parseRowAfter_def Let_def go_slice_def split: if_splits outcome.splits)
  moreover obtain b where "?n = int b" using sl nonneg_int_cases by blast
  ultimately show ?thesis
    using row_columns_inside [of "pos + b" data] chk pos by (fastforce simp: nat_add_distrib)
qed

lemma parseRowAfter_no_Panic:
  assumes "table_meta_ok (lookupTableMap p)" "0 \<le> int_of_u64 c" "int_of_u64 c < 2 ^ 62"
  shows "fst (parseRowAfter p data pos c present) \<noteq> Panic"
proof -
  have "0 \<le> BitmapByteSize (int_of_u64 c)"
    using assms(2,3) by (subst BitmapByteSize_eq) simp_all
  with row_columns_no_Panic [OF assms(1)] show ?thesis
    by (auto simp: parseRowAfter_def Let_def go_slice_def split: outcome.splits)
qed

subsection \<open>The loop over the rows\<close>

text \<open>
  \<open>live\<close> says that a row consumes at least one byte (the event has columns, as many as its
  bitmap says). Then the loop
  ends; and whatever is encoded row by row is read back row by row.
\<close>

locale progressing_reader =
  fixes rd :: "bytes \<Rightarrow> nat \<Rightarrow> row_data outcome \<times> nat" and live :: bool
  assumes progress: "live \<Longrightarrow> pos \<le> length data \<Longrightarrow> rd data pos = (Ok r, q) \<Longrightarrow> pos < q \<and> q \<le> length data"
begin

lemma loop_returns:
  assumes "live" "pos \<le> length data"
  shows "\<exists>r. rows_loop (rd data) (length data) pos rows = Some r"
  using assms(2)
proof (induction "length data - pos" arbitrary: pos rows rule: less_induct)
  case less
  show ?case
  proof (cases "pos < length data")
    case True
    obtain r q where rq: "rd data pos = (r, q)" by fastforce
    show ?thesis
    proof (cases r)
      case (Ok row)
      with progress [OF assms(1) less.prems] rq have q: "pos < q" "q \<le> length data" by auto
      with True have "length data - q < length data - pos" by simp
      from less.hyps [OF this q(2)] True rq Ok show ?thesis
        by (subst rows_loop.simps) simp
    qed (use True rq in \<open>subst rows_loop.simps, simp\<close>)+
  qed (subst rows_loop.simps, simp)
qed

end

locale row_reader = progressing_reader rd live
  for rd :: "bytes \<Rightarrow> nat \<Rightarrow> row_data outcome \<times> nat" and live :: bool +
  fixes enc :: "'v \<Rightarrow> bytes" and dec :: "'v \<Rightarrow> row_data" and ok :: "'v \<Rightarrow> bool"
  assumes decodes: "live \<Longrightarrow> ok v \<Longrightarrow> length (pre @ enc v @ post) < 2 ^ 40 \<Longrightarrow>
      rd (pre @ enc v @ post) (length pre) = (Ok (dec v), length pre + length (enc v))"
begin

lemma loop_reads:
  assumes "live" "list_all ok vs" "length (pre @ concat (map enc vs)) < 2 ^ 40"
  shows "rows_loop (rd (pre @ concat (map enc vs))) (length (pre @ concat (map enc vs)))
    (length pre) rows = Some (Ok (rows @ map dec vs))"
  using assms(2,3)
proof (induction vs arbitrary: pre rows)
  case Nil
  then show ?case by (subst rows_loop.simps) simp
next
  case (Cons v vs)
  let ?d = "pre @ enc v @ concat (map enc vs)"
  have rd: "rd ?d (length pre) = (Ok (dec v), length pre + length (enc v))"
    using Cons.prems assms(1) by (intro decodes) simp_all
  with progress [OF assms(1), of "length pre" ?d] have "enc v \<noteq> []" by auto
  moreover have "rows_loop (rd ((pre @ enc v) @ concat (map enc vs)))
      (length ((pre @ enc v) @ concat (map enc vs))) (length (pre @ enc v)) (rows @ [dec v]) =
      Some (Ok ((rows @ [dec v]) @ map dec vs))"
    using Cons.prems by (intro Cons.IH) simp_all
  ultimately show ?case
    using rd by (subst rows_loop.simps) simp
qed

end

text \<open>Facts about every run of the loop that returns, by induction on the run.\<close>

lemma rows_loop_induct [consumes 1, case_names step]:
  assumes "rows_loop rd len pos rows = Some r"
    and "\<And>pos rows r. (\<And>row q. pos < len \<Longrightarrow> rd pos = (Ok row, q) \<Longrightarrow> rows_loop rd len q (rows @ [row]) = Some r \<and>
        P q (rows @ [row]) r) \<Longrightarrow>
      (\<And>e q. pos < len \<Longrightarrow> rd pos = (Err e, q) \<Longrightarrow> r = Err e) \<Longrightarrow>
      (\<And>q. pos < len \<Longrightarrow> rd pos = (Panic, q) \<Longrightarrow> r = Panic) \<Longrightarrow>
      (\<not> pos < len \<Longrightarrow> r = Ok rows) \<Longrightarrow> P pos rows r"
  shows "P pos rows r"
proof -
  have "(rd', len') = (rd, len) \<longrightarrow> rows_loop rd len pos rows = Some r \<and> P pos rows r"
    if "rows_loop rd' len' pos rows = Some r" for rd' len' pos rows r
  proof (rule rows_loop.raw_induct [where P = "\<lambda>rd' len' pos rows r. (rd', len') = (rd, len) \<longrightarrow>
        rows_loop rd len pos rows = Some r \<and> P pos rows r", OF _ that], rule impI)
    fix f rd' len' pos rows r
    assume IH: "\<And>rd' len' pos rows r. f rd' len' pos rows = Some r \<Longrightarrow>
        (rd', len') = (rd, len) \<longrightarrow> rows_loop rd len pos rows = Some r \<and> P pos rows r"
      and eq: "(if pos < len' then case rd' pos of
          (Ok row, newPos) \<Rightarrow> f rd' len' newPos (rows @ [row])
        | (Err e, newPos) \<Rightarrow> Some (Err e) | (Panic, newPos) \<Rightarrow> Some Panic
        else Some (Ok rows)) = Some r"
      and same: "(rd', len') = (rd, len)"
    have run: "rows_loop rd len pos rows = Some r"
      using eq IH same by (subst rows_loop.simps) (auto split: prod.splits outcome.splits if_splits)
    moreover have "P pos rows r"
      by (rule assms(2)) (use eq IH same in \<open>auto split: prod.splits outcome.splits if_splits\<close>)
    ultimately show "rows_loop rd len pos rows = Some r \<and> P pos rows r" ..
  qed
  from this [OF assms(1)] show ?thesis by simp
qed

lemma rows_loop_no_Panic:
  assumes "rows_loop rd len pos rows = Some r" "\<And>pos. fst (rd pos) \<noteq> Panic"
  shows "r \<noteq> Panic"
  using assms(1)
proof (induction rule: rows_loop_induct)
  case (step pos rows r)
  show ?case
    using step assms(2) [of pos] by (cases "rd pos"; cases "fst (rd pos)"; cases "pos < len") auto
qed

lemma rows_loop_all:
  assumes "rows_loop rd len pos rows = Some r" "\<And>pos row q. rd pos = (Ok row, q) \<Longrightarrow> P row"
    and "list_all P rows" "r = Ok rs"
  shows "list_all P rs"
  using assms(1,3,4)
proof (induction rule: rows_loop_induct)
  case (step pos rows r)
  show ?case
    using step assms(2) [of pos]
    by (cases "rd pos"; cases "fst (rd pos)"; cases "pos < len") auto
qed

lemma rows_loop_stuck:
  assumes "pos < len" "\<And>rows. \<exists>row. rd pos = (Ok row, pos)"
  shows "rows_loop rd len pos rows = None"
proof (rule ccontr)
  assume "rows_loop rd len pos rows \<noteq> None"
  then obtain r where "rows_loop rd len pos rows = Some r" by blast
  then have "\<not> (pos < len \<and> (\<exists>row. rd pos = (Ok row, pos)))"
    by (induction rule: rows_loop_induct) blast
  with assms show False by blast
qed

subsection \<open>Properties\<close>

text \<open>C34. On the metadata of a real table (a scale within the precision, at most nine fractional
  digits) no column reader panics, and each leaves the position between where it started and
  the end of the data, whatever the bytes are.\<close>

theorem column_value_safe:
  assumes "pos \<le> length data" "meta_ok m"
  shows "fst (column_value data pos t m) \<noteq> Panic \<and> pos \<le> snd (column_value data pos t m) \<and>
    snd (column_value data pos t m) \<le> length data"
  using column_value_inside [OF assms(1), of t m] column_value_no_Panic [OF assms(2), of data pos t]
  by (simp add: stays_inside_def)

lemma column_value_safe_witness:
  "fst (column_value [5, 65] 0 MYSQL_TYPE_VARCHAR (zero_meta MYSQL_TYPE_VARCHAR)) \<noteq> Panic"
  using column_value_safe [of 0 "[5, 65]" "zero_meta MYSQL_TYPE_VARCHAR" MYSQL_TYPE_VARCHAR] by simp

text \<open>\<^verbatim>\<open>parseDecimal\<close> panics exactly on a scale greater than the precision with enough bytes
  left for its size computation: the capacity of the digit slice is negative then.\<close>

theorem parseDecimal_panics_iff:
  "fst (parseDecimal data pos m) = Panic \<longleftrightarrow>
   eff_precision m < eff_scale m \<and> int pos + decimal_bytes m \<le> int (length data)"
  by (rule parseDecimal_Panic_iff)

end
