(* ===== verification/Row_Codec.thy ===== *)
theory Row_Codec
  imports Row_Bounds
begin

section \<open>Row images: reading back what was encoded\<close>

text \<open>
  The inverse of the row readers, written from MySQL's row format as the code reads it:
  bitmaps, column values, row images and whole row events. It is the specification the
  round trips are stated with; nothing in the program encodes row events.
\<close>

subsection \<open>Bitmaps\<close>

function bitmap_of :: "bool list \<Rightarrow> bytes" where
  "bitmap_of bs = (if bs = [] then [] else horner_sum of_bool 2 (take 8 bs) # bitmap_of (drop 8 bs))"
  by pat_completeness auto
termination by (relation "measure length") auto

declare bitmap_of.simps [simp del]

lemma bitmap_of_Nil [simp]: "bitmap_of [] = []"
  by (simp add: bitmap_of.simps)

lemma length_bitmap_of: "length (bitmap_of bs) = (length bs + 7) div 8"
proof (induction bs rule: bitmap_of.induct)
  case (1 bs)
  show ?case
  proof (cases "bs = []")
    case False
    have "length (bitmap_of bs) = Suc ((length bs - 8 + 7) div 8)"
      using 1 [OF False] False by (simp add: bitmap_of.simps [of bs])
    also have "\<dots> = (length bs + 7) div 8"
      using False by (cases "8 \<le> length bs") (auto simp: neq_Nil_conv Suc_div_eq_add3_div div_if [of "_ + 7"])
    finally show ?thesis .
  qed simp
qed

lemma IsBitSet_bitmap_of: "IsBitSet (bitmap_of bs) i \<longleftrightarrow> i < length bs \<and> bs ! i"
proof (induction bs arbitrary: i rule: bitmap_of.induct)
  case (1 bs)
  show ?case
  proof (cases "bs = []")
    case True
    then show ?thesis by (simp add: IsBitSet_def)
  next
    case False
    show ?thesis
    proof (cases "i < 8")
      case True
      then show ?thesis
        using False by (simp add: IsBitSet_bit bitmap_of.simps [of bs] bit_horner_sum_bit_word_iff min_def)
    next
      case False
      then obtain j where j: "i = j + 8" by (metis add.commute le_Suc_ex linorder_not_less)
      have "i div 8 = Suc (j div 8)" "i mod 8 = j mod 8" by (simp_all add: j)
      then have "IsBitSet (bitmap_of bs) i \<longleftrightarrow> IsBitSet (bitmap_of (drop 8 bs)) j"
        using \<open>bs \<noteq> []\<close> by (simp add: IsBitSet_bit bitmap_of.simps [of bs])
      with 1 [OF \<open>bs \<noteq> []\<close>, of j] show ?thesis
        by (cases "j + 8 < length bs") (auto simp: j add.commute less_diff_conv)
    qed
  qed
qed

subsection \<open>Column values\<close>

text \<open>The bytes of a non-null value in a column of a type, \<^const>\<open>None\<close> when the column cannot
  hold it (or the type is not covered: decimals, bits and the temporal types are read by
  their own readers below).\<close>

definition int_col :: "nat \<Rightarrow> int \<Rightarrow> bytes option" where
  "int_col n i = (if fits_signed (8 * n) i then Some (int_bytes n i) else None)"

definition prefixed :: "nat \<Rightarrow> bytes \<Rightarrow> bytes option" where
  "prefixed n bs =
     (if length bs < 256 ^ n then Some (le_bytes n (word_of_nat (length bs) :: 64 word) @ bs) else None)"

fun col_enc :: "byte \<Rightarrow> column_meta \<Rightarrow> gval \<Rightarrow> bytes option" where
  "col_enc t m (VInt i) =
     (if t = MYSQL_TYPE_TINY then int_col 1 i
      else if t = MYSQL_TYPE_SHORT then int_col 2 i
      else if t = MYSQL_TYPE_LONG then int_col 4 i
      else if t = MYSQL_TYPE_LONGLONG then int_col 8 i
      else if t = MYSQL_TYPE_INT24 then int_col 3 i
      else if t = MYSQL_TYPE_YEAR then
        (if 1900 \<le> i \<and> i < 2156 then Some [word_of_int (i - 1900)] else None)
      else None)"
| "col_enc t m (VFloat w) = (if t = MYSQL_TYPE_DOUBLE then Some (le_bytes 8 w) else None)"
| "col_enc t m (VString s) =
     (if t = MYSQL_TYPE_VARCHAR \<or> t = MYSQL_TYPE_VAR_STRING then prefixed 2 (bytes_of_string s)
      else if t = MYSQL_TYPE_STRING \<and> cm_RealType m \<noteq> MYSQL_TYPE_ENUM \<and> cm_RealType m \<noteq> MYSQL_TYPE_SET
      then prefixed 1 (bytes_of_string s)
      else None)"
| "col_enc t m (VBytes bs) =
     (if t = MYSQL_TYPE_TINY_BLOB then prefixed 1 bs
      else if t = MYSQL_TYPE_BLOB then prefixed 2 bs
      else if t = MYSQL_TYPE_MEDIUM_BLOB then prefixed 3 bs
      else if t = MYSQL_TYPE_LONG_BLOB \<or> t = MYSQL_TYPE_JSON \<or> t = MYSQL_TYPE_GEOMETRY then prefixed 4 bs
      else if t = MYSQL_TYPE_SET then
        (if 0 < cm_EnumSetSize m \<and> int (length bs) = cm_EnumSetSize m then Some bs else None)
      else None)"
| "col_enc t m _ = None"

lemma int_colD: "int_col n i = Some bs \<Longrightarrow> fits_signed (8 * n) i \<and> bs = int_bytes n i"
  by (simp add: int_col_def split: if_splits)

lemma sign_extend_bytes:
  assumes "0 < n" "n < 8" "fits_signed (8 * n) i"
  shows "(let v = le_word (int_bytes n i) :: 64 word in
      sint (if n < 8 \<and> v AND push_bit (8 * n - 1) 1 \<noteq> 0 then v OR push_bit (8 * n) (NOT 0) else v)) = i"
proof -
  let ?v = "take_bit (8 * n) (word_of_int i :: 64 word)"
  have v: "le_word (int_bytes n i) = ?v"
  proof -
    have "int_bytes n i = le_bytes n ?v"
      unfolding int_bytes_def by (rule le_bytes_bits) (auto simp: bit_simps)
    moreover have "unat ?v < 256 ^ n"
      using take_bit_nat_less_exp [of "8 * n" "unat (word_of_int i :: 64 word)"]
      by (simp add: unsigned_take_bit_eq power_mult)
    ultimately show ?thesis by (simp add: le_word_le_bytes_small)
  qed
  have ext: "signed_take_bit (8 * n - 1) i = i"
    using assms by (intro signed_take_bit_int_eq_self) auto
  have high: "bit i j = bit i (8 * n - 1)" if "8 * n - 1 \<le> j" for j
    using that by (subst (1 2) ext [symmetric]) (auto simp: bit_signed_take_bit_iff min_def)
  have test: "?v AND push_bit (8 * n - 1) 1 \<noteq> 0 \<longleftrightarrow> bit i (8 * n - 1)"
    using assms by (simp add: push_bit_eq_mult and_exp_eq_0_iff_not_bit bit_simps) auto
  have "sint (word_of_int i :: 64 word) = i"
  proof (rule sint_word_of_int_id)
    have "(2 :: int) ^ (8 * n - 1) \<le> 2 ^ 63" using assms by (intro power_increasing) auto
    with assms(3) show "- (2 ^ (LENGTH(64) - Suc 0)) \<le> i" "i < 2 ^ (LENGTH(64) - Suc 0)" by simp_all
  qed
  moreover have "(if ?v AND push_bit (8 * n - 1) 1 \<noteq> 0 then ?v OR push_bit (8 * n) (NOT 0) else ?v) =
      word_of_int i"
  proof (rule bit_word_eqI)
    fix k
    assume k: "k < LENGTH(64)"
    show "bit (if ?v AND push_bit (8 * n - 1) 1 \<noteq> 0 then ?v OR push_bit (8 * n) (NOT 0) else ?v) k =
        bit (word_of_int i :: 64 word) k"
      unfolding test using k high [of k] by (cases "k < 8 * n") (auto simp: bit_simps)
  qed
  ultimately show ?thesis using assms by (simp add: v Let_def)
qed

lemma safeReadValue_enc:
  assumes "0 < n" "n < 8" "fits_signed (8 * n) i"
  shows "safeReadValue (pre @ int_bytes n i @ post) (length pre) n = (Ok (VInt i), length pre + n)"
  using sign_extend_bytes [OF assms] by (simp add: safeReadValue_def Let_def)

lemma prefixedD:
  assumes "prefixed n bs = Some e" "n < 8"
  shows "e = le_bytes n (word_of_nat (length bs) :: 64 word) @ bs"
    and "unat (le_word (le_bytes n (word_of_nat (length bs) :: 64 word)) :: 64 word) = length bs"
    and "length bs < 256 ^ n"
proof -
  show e: "e = le_bytes n (word_of_nat (length bs) :: 64 word) @ bs" and l: "length bs < 256 ^ n"
    using assms by (auto simp: prefixed_def split: if_splits)
  have "(256 :: nat) ^ n \<le> 256 ^ 7" using assms(2) by (intro power_increasing) auto
  with l have "length bs < 2 ^ 64" by simp
  then have "unat (word_of_nat (length bs) :: 64 word) = length bs" by (simp add: unat_of_nat)
  with l show "unat (le_word (le_bytes n (word_of_nat (length bs) :: 64 word)) :: 64 word) = length bs"
    by (simp add: le_word_le_bytes_small)
qed

lemma sub_second: "length a = n \<Longrightarrow> length b = m \<Longrightarrow> p = length pre + n \<Longrightarrow> sub (pre @ a @ b @ post) p m = b"
  using sub_append [of "pre @ a" p b m post] by simp

lemma parseBlob_enc:
  assumes "prefixed n bs = Some e" "n < 8"
  shows "parseBlob (pre @ e @ post) (length pre) n = (Ok (VBytes bs), length pre + length e)"
  using prefixedD [OF assms] by (simp add: parseBlob_def Let_def sub_second)

lemma parseVarchar_enc:
  assumes "prefixed 2 (bytes_of_string s) = Some e"
  shows "parseVarchar (pre @ e @ post) (length pre) = (Ok (VString s), length pre + length e)"
proof -
  let ?w = "word_of_nat (length s) :: 64 word"
  have e: "e = le_bytes 2 ?w @ bytes_of_string s" and l: "length s < 2 ^ 16"
    using prefixedD [OF assms] by simp_all
  have "le_bytes 2 ?w = le_bytes 2 (word_of_nat (length s) :: 16 word)"
    by (rule le_bytes_bits) (simp add: bit_simps)
  then have "unat (le_word (le_bytes 2 ?w) :: 16 word) = length s"
    using l by (simp add: le_word_le_bytes unat_of_nat)
  then show ?thesis by (simp add: e parseVarchar_def Let_def sub_second)
qed

lemma parseString_enc:
  assumes "prefixed 1 (bytes_of_string s) = Some e" "cm_RealType m \<noteq> MYSQL_TYPE_ENUM"
    "cm_RealType m \<noteq> MYSQL_TYPE_SET"
  shows "parseString (pre @ e @ post) (length pre) m = (Ok (VString s), length pre + length e)"
proof -
  have "le_bytes 1 (word_of_nat (length s) :: 64 word) = le_bytes 1 (word_of_nat (length s) :: byte)"
    by (rule le_bytes_bits) (simp add: bit_simps)
  then have e: "e = word_of_nat (length s) # bytes_of_string s" and l: "length s < 256"
    using prefixedD [OF assms(1)] by simp_all
  have "unat (word_of_nat (length s) :: byte) = length s" using l by (simp add: unat_of_nat)
  with assms(2,3) show ?thesis
    by (simp add: e parseString_def Let_def nth_append)
qed

lemma parseSet_enc:
  assumes "0 < cm_EnumSetSize m" "int (length b) = cm_EnumSetSize m"
  shows "parseSet (pre @ b @ post) (length pre) m = (Ok (VBytes b), length pre + length b)"
proof -
  have "nat (cm_EnumSetSize m) = length b" using assms by simp
  with assms show ?thesis by (simp add: parseSet_def)
qed

lemma int_column_enc:
  assumes "col_enc t m (VInt i) = Some bs"
  shows "column_value (pre @ bs @ post) (length pre) t m = (Ok (VInt i), length pre + length bs)"
proof -
  consider "t = MYSQL_TYPE_TINY" "int_col 1 i = Some bs" | "t = MYSQL_TYPE_SHORT" "int_col 2 i = Some bs"
    | "t = MYSQL_TYPE_LONG" "int_col 4 i = Some bs" | "t = MYSQL_TYPE_LONGLONG" "int_col 8 i = Some bs"
    | "t = MYSQL_TYPE_INT24" "int_col 3 i = Some bs"
    | "t = MYSQL_TYPE_YEAR" "1900 \<le> i" "i < 2156" "bs = [word_of_int (i - 1900)]"
    using assms by (auto split: if_splits)
  then show ?thesis
  proof cases
    case 1
    have "int_bytes 1 i = le_bytes 1 (word_of_int i :: byte)"
      unfolding int_bytes_def by (rule le_bytes_bits) (simp add: bit_simps)
    then have "int_bytes 1 i = [word_of_int i]" by simp
    with 1 int_colD [OF 1(2)] show ?thesis
      by (simp add: column_value_def readTiny_def sint_word_of_int_id)
  next
    case 2
    with int_colD [OF 2(2)] show ?thesis by (simp add: column_value_def safeReadValue_enc)
  next
    case 3
    with int_colD [OF 3(2)] show ?thesis by (simp add: column_value_def safeReadValue_enc)
  next
    case 4
    with int_colD [OF 4(2)] i64.decodes [of i pre post] show ?thesis
      by (simp add: column_value_def guarded_def map_read_def)
  next
    case 5
    with int_colD [OF 5(2)] i24.decodes [of i pre post] show ?thesis
      by (simp add: column_value_def guarded_def map_read_def)
  next
    case 6
    define x where "x = i - 1900"
    have x: "i = 1900 + x" "0 \<le> x" "x < 256" using 6 by (simp_all add: x_def)
    have "uint (word_of_int x :: byte) = x"
      using x by (simp add: uint_word_of_int take_bit_int_eq_self)
    with 6 x show ?thesis by (simp add: column_value_def)
  qed
qed

theorem column_value_enc:
  assumes "col_enc t m v = Some bs"
  shows "column_value (pre @ bs @ post) (length pre) t m = (Ok v, length pre + length bs)"
proof (cases v)
  case (VInt i)
  with assms int_column_enc show ?thesis by simp
next
  case (VFloat w)
  then have "t = MYSQL_TYPE_DOUBLE" "bs = le_bytes 8 w" using assms by (auto split: if_splits)
  with VFloat f64.decodes [where v = w and pre = pre and post = post] show ?thesis
    by (simp add: column_value_def guarded_def map_read_def)
next
  case (VString s)
  with assms parseVarchar_enc [of s bs pre post] parseString_enc [of s bs m pre post] show ?thesis
    by (auto simp: column_value_def split: if_splits)
next
  case (VBytes b)
  with assms parseBlob_enc [of _ b bs pre post] parseSet_enc [of m b pre post] show ?thesis
    by (auto simp: column_value_def split: if_splits)
qed (use assms in auto)

subsection \<open>Row images\<close>

text \<open>The column types of a table, as \<^verbatim>\<open>parseRowAfter\<close> looks them up.\<close>

definition row_types :: "table_map option \<Rightarrow> nat \<Rightarrow> (byte \<times> column_meta) list" where
  "row_types tm n = map (column_type tm) [0..<n]"

fun cols_enc :: "(byte \<times> column_meta) list \<Rightarrow> bool list \<Rightarrow> gval list \<Rightarrow> bytes option" where
  "cols_enc [] [] [] = Some []"
| "cols_enc ((t, m) # ts) (here # present) (v # vs) =
     (if \<not> here \<or> v = VNull then cols_enc ts present vs
      else (case col_enc t m v of
          None \<Rightarrow> None
        | Some bs \<Rightarrow> map_option (append bs) (cols_enc ts present vs)))"
| "cols_enc _ _ _ = None"

text \<open>The map \<^verbatim>\<open>parseRowAfter\<close> builds: the columns present, keyed by their position.\<close>

fun row_values :: "nat \<Rightarrow> bool list \<Rightarrow> gval list \<Rightarrow> row" where
  "row_values i (here # present) (v # vs) =
     (if here then (colName i, v) # row_values (Suc i) present vs else row_values (Suc i) present vs)"
| "row_values i _ _ = []"

definition row_image_enc :: "(byte \<times> column_meta) list \<Rightarrow> bool list \<Rightarrow> gval list \<Rightarrow> bytes" where
  "row_image_enc ts present vs =
     bitmap_of (map (\<lambda>v. v = VNull) vs) @ (case cols_enc ts present vs of None \<Rightarrow> [] | Some bs \<Rightarrow> bs)"

definition row_image_ok :: "(byte \<times> column_meta) list \<Rightarrow> bool list \<Rightarrow> gval list \<Rightarrow> bool" where
  "row_image_ok ts present vs \<longleftrightarrow> cols_enc ts present vs \<noteq> None"

lemma cols_enc_lengths:
  "cols_enc ts present vs \<noteq> None \<Longrightarrow> length ts = length present \<and> length vs = length present"
  by (induction ts present vs rule: cols_enc.induct) (auto split: if_splits option.splits)

lemma colName_inj: "colName i = colName j \<longleftrightarrow> i = j"
  by (auto simp: colName_def dest: show_nat_inj)

lemma AList_update_new: "k \<notin> fst ` set m \<Longrightarrow> AList.update k v m = m @ [(k, v)]"
  by (induction m) auto

lemma row_columns_enc:
  assumes "cols_enc ts present vs = Some bs"
    and "ts = map (column_type tm) [i..<i + length ts]"
    and "\<And>k. k < length present \<Longrightarrow> IsBitSet pbm (i + k) = present ! k"
    and "\<And>k. k < length vs \<Longrightarrow> IsBitSet nbm (i + k) = (vs ! k = VNull)"
    and "\<And>k. k \<ge> i \<Longrightarrow> colName k \<notin> fst ` set acc"
  shows "row_columns tm (pre @ bs @ post) pbm nbm [i..<i + length ts] acc (length pre) =
    Ok (acc @ row_values i present vs, length pre + length bs)"
  using assms
proof (induction ts present vs arbitrary: bs i acc pre rule: cols_enc.induct)
  case 1
  then show ?case by simp
next
  case (2 t m ts here present v vs)
  have upt: "[i..<i + length ((t, m) # ts)] = i # [Suc i..<Suc i + length ts]"
    by (simp add: upt_rec)
  have tys: "column_type tm i = (t, m)" "ts = map (column_type tm) [Suc i..<Suc i + length ts]"
    using "2.prems"(2) unfolding upt by simp_all
  have bits: "IsBitSet pbm i = here" "IsBitSet nbm i = (v = VNull)"
    using "2.prems"(3) [of 0] "2.prems"(4) [of 0] by simp_all
  have rest: "IsBitSet pbm (Suc i + k) = present ! k" if "k < length present" for k
    using "2.prems"(3) [of "Suc k"] that by simp
  have rest': "IsBitSet nbm (Suc i + k) = (vs ! k = VNull)" if "k < length vs" for k
    using "2.prems"(4) [of "Suc k"] that by simp
  have fresh: "colName k \<notin> fst ` set (acc @ [(colName i, w)])" if "Suc i \<le> k" for k w
    using "2.prems"(5) [of k] that by (auto simp: colName_inj)
  have fresh0: "colName k \<notin> fst ` set acc" if "Suc i \<le> k" for k
    using "2.prems"(5) [of k] that by simp
  have new: "AList.update (colName i) w acc = acc @ [(colName i, w)]" for w
    using "2.prems"(5) [of i] by (intro AList_update_new) simp
  show ?case
  proof (cases "\<not> here \<or> v = VNull")
    case True
    then have enc: "cols_enc ts present vs = Some bs" using "2.prems"(1) by simp
    show ?thesis
    proof (cases here)
      case False
      with "2.IH"(1) [OF True enc tys(2) rest rest' fresh0] show ?thesis
        unfolding upt by (simp add: bits)
    next
      case here: True
      with True have "v = VNull" by simp
      with here "2.IH"(1) [OF True enc tys(2) rest rest' fresh] show ?thesis
        unfolding upt by (simp add: bits new)
    qed
  next
    case False
    then obtain b bs' where b: "col_enc t m v = Some b" "cols_enc ts present vs = Some bs'" "bs = b @ bs'"
      using "2.prems"(1) by (auto split: option.splits)
    have "column_value (pre @ b @ bs' @ post) (length pre) t m = (Ok v, length (pre @ b))"
      using column_value_enc [OF b(1)] by simp
    moreover have "row_columns tm ((pre @ b) @ bs' @ post) pbm nbm [Suc i..<Suc i + length ts]
        (acc @ [(colName i, v)]) (length (pre @ b)) =
        Ok ((acc @ [(colName i, v)]) @ row_values (Suc i) present vs, length (pre @ b) + length bs')"
      by (rule "2.IH"(2) [OF False b(1,2) tys(2) rest rest' fresh])
    ultimately show ?thesis
      using False unfolding upt by (simp add: bits tys(1) new readColumnValue_def b(3))
  qed
qed simp_all

lemma go_slice_front: "go_slice (pre @ mid @ post) (int (length pre)) (int (length pre) + int (length mid)) = Ok mid"
  by (simp add: go_slice_def)

lemma parseRowAfter_enc:
  assumes ok: "row_image_ok (row_types (lookupTableMap p) (length present)) present vs"
    and c: "int_of_u64 c = int (length present)" "length present < 2 ^ 40"
  shows "parseRowAfter p (pre @ row_image_enc (row_types (lookupTableMap p) (length present)) present vs @ post)
      (length pre) c (bitmap_of present) =
    (Ok \<lparr>rd_Before = None, rd_After = Some (row_values 0 present vs)\<rparr>,
     length pre + length (row_image_enc (row_types (lookupTableMap p) (length present)) present vs))"
proof -
  let ?ts = "row_types (lookupTableMap p) (length present)"
  let ?nb = "bitmap_of (map (\<lambda>v. v = VNull) vs)"
  obtain bs where bs: "cols_enc ?ts present vs = Some bs" using ok by (auto simp: row_image_ok_def)
  with cols_enc_lengths [of ?ts present vs] have len: "length vs = length present" by simp
  have enc: "row_image_enc ?ts present vs = ?nb @ bs" by (simp add: row_image_enc_def bs)
  have nb: "BitmapByteSize (int (length present)) = int (length ?nb)"
    using c(2) by (simp add: BitmapByteSize_nat length_bitmap_of len)
  have ts: "length ?ts = length present" by (simp add: row_types_def)
  have "row_columns (lookupTableMap p) ((pre @ ?nb) @ bs @ post) (bitmap_of present) ?nb
      [0..<0 + length ?ts] [] (length (pre @ ?nb)) =
      Ok ([] @ row_values 0 present vs, length (pre @ ?nb) + length bs)"
    by (rule row_columns_enc [OF bs]) (simp_all add: row_types_def IsBitSet_bitmap_of)
  then have cols: "row_columns (lookupTableMap p) (pre @ ?nb @ bs @ post) (bitmap_of present) ?nb
      [0..<length present] [] (length pre + length ?nb) =
      Ok (row_values 0 present vs, length pre + length ?nb + length bs)"
    by (simp add: ts)
  have sl: "go_slice (pre @ ?nb @ bs @ post) (int (length pre)) (int (length pre) + int (length ?nb)) = Ok ?nb"
    by (rule go_slice_front)
  have n: "nat (int (length pre) + int (length ?nb)) = length pre + length ?nb" by simp
  show ?thesis
    unfolding parseRowAfter_def enc Let_def c(1) nb append_assoc sl n
    by (simp add: cols)
qed

subsection \<open>The row readers meet the contract\<close>

abbreviation live_event :: "64 word \<Rightarrow> nat \<Rightarrow> bool" where
  "live_event c n \<equiv> int_of_u64 c = int n \<and> 0 < n \<and> n < 2 ^ 40"

interpretation image_progress: progressing_reader
  "\<lambda>data pos. row_at msg pos (parseRowAfter p data pos c present)" "0 < int_of_u64 c"
  for p c present msg
  by unfold_locales (use parseRowAfter_progress in \<open>force simp: row_at_def prod_eq_iff\<close>)

interpretation pair_progress: progressing_reader
  "\<lambda>data. parseRowPair p data c before after" "0 < int_of_u64 c"
  for p c before after
proof
  show "pos < q \<and> q \<le> length data"
    if live: "0 < int_of_u64 c" and pos: "pos \<le> length data"
      and rd: "parseRowPair p data c before after pos = (Ok r, q)" for data pos r q
  proof -
    obtain x' k where xk: "parseRowAfter p data pos c before = (x', k)" by fastforce
    with rd obtain x where x: "parseRowAfter p data pos c before = (Ok x, k)"
      by (cases x') (auto simp: parseRowPair_def row_at_def)
    with rd obtain y where y: "parseRowAfter p data k c after = (Ok y, q)"
      by (auto simp: parseRowPair_def row_at_def split: prod.splits outcome.splits)
    from parseRowAfter_progress [OF pos live x] parseRowAfter_progress [OF _ live y]
    show ?thesis by force
  qed
qed

interpretation single_image: row_reader
  "\<lambda>data pos. row_at msg pos (parseRowAfter p data pos c (bitmap_of present))"
  "live_event c (length present)"
  "row_image_enc (row_types (lookupTableMap p) (length present)) present"
  "\<lambda>vs. \<lparr>rd_Before = None, rd_After = Some (row_values 0 present vs)\<rparr>"
  "row_image_ok (row_types (lookupTableMap p) (length present)) present"
  for p c present msg
proof
  show "pos < q \<and> q \<le> length data"
    if "live_event c (length present)" "pos \<le> length data"
      "row_at msg pos (parseRowAfter p data pos c (bitmap_of present)) = (Ok r, q)" for data pos r q
    by (rule image_progress.progress [OF _ that(2,3)]) (use that(1) in simp)
qed (simp add: row_at_def parseRowAfter_enc)

text \<open>A row of an UPDATE: the values before, then the values after.\<close>

definition row_pair_enc :: "(byte \<times> column_meta) list \<Rightarrow> bool list \<Rightarrow> bool list \<Rightarrow>
    gval list \<times> gval list \<Rightarrow> bytes" where
  "row_pair_enc ts before after r = row_image_enc ts before (fst r) @ row_image_enc ts after (snd r)"

interpretation image_pair: row_reader
  "\<lambda>data. parseRowPair p data c (bitmap_of before) (bitmap_of after)"
  "live_event c (length before) \<and> length after = length before"
  "row_pair_enc (row_types (lookupTableMap p) (length before)) before after"
  "\<lambda>r. \<lparr>rd_Before = Some (row_values 0 before (fst r)), rd_After = Some (row_values 0 after (snd r))\<rparr>"
  "\<lambda>r. row_image_ok (row_types (lookupTableMap p) (length before)) before (fst r) \<and>
       row_image_ok (row_types (lookupTableMap p) (length before)) after (snd r)"
  for p c before after
proof
  show "pos < q \<and> q \<le> length data"
    if "live_event c (length before) \<and> length after = length before" "pos \<le> length data"
      "parseRowPair p data c (bitmap_of before) (bitmap_of after) pos = (Ok r, q)" for data pos r q
    by (rule pair_progress.progress [OF _ that(2,3)]) (use that(1) in simp)
  show "parseRowPair p (pre @ row_pair_enc (row_types (lookupTableMap p) (length before)) before after r @ post) c
      (bitmap_of before) (bitmap_of after) (length pre) =
    (Ok \<lparr>rd_Before = Some (row_values 0 before (fst r)), rd_After = Some (row_values 0 after (snd r))\<rparr>,
     length pre + length (row_pair_enc (row_types (lookupTableMap p) (length before)) before after r))"
    if live: "live_event c (length before) \<and> length after = length before"
      and ok: "row_image_ok (row_types (lookupTableMap p) (length before)) before (fst r) \<and>
       row_image_ok (row_types (lookupTableMap p) (length before)) after (snd r)" for r pre post
  proof -
    let ?ts = "row_types (lookupTableMap p) (length before)"
    let ?b = "row_image_enc ?ts before (fst r)" and ?a = "row_image_enc ?ts after (snd r)"
    have "parseRowAfter p (pre @ ?b @ ?a @ post) (length pre) c (bitmap_of before) =
        (Ok \<lparr>rd_Before = None, rd_After = Some (row_values 0 before (fst r))\<rparr>, length pre + length ?b)"
      using live ok by (intro parseRowAfter_enc) simp_all
    moreover have "parseRowAfter p ((pre @ ?b) @ ?a @ post) (length (pre @ ?b)) c (bitmap_of after) =
        (Ok \<lparr>rd_Before = None, rd_After = Some (row_values 0 after (snd r))\<rparr>, length (pre @ ?b) + length ?a)"
      using live ok parseRowAfter_enc [of p after "snd r" c "pre @ ?b" post] by simp
    ultimately show ?thesis
      by (simp add: parseRowPair_def row_pair_enc_def row_at_def)
  qed
qed

subsection \<open>Properties\<close>

text \<open>C10. Every value a column of a covered type can hold (integers, doubles, strings, blobs, years
  and sets) is read back from its bytes, at any place in the data, with the position after it.\<close>

theorem column_value_roundtrip:
  assumes "col_enc t m v = Some bs"
  shows "column_value (pre @ bs @ post) (length pre) t m = (Ok v, length pre + length bs)"
  by (rule column_value_enc [OF assms])

lemma column_value_roundtrip_witness:
  "column_value ([9] @ int_bytes 4 (- 5) @ [1, 2]) (length [9 :: byte]) MYSQL_TYPE_LONG (zero_meta MYSQL_TYPE_LONG) =
    (Ok (VInt (- 5)), length [9 :: byte] + length (int_bytes 4 (- 5)))"
  by (rule column_value_roundtrip) (simp add: int_col_def)

end
