(* ===== verification/Rows_Correct.thy ===== *)
theory Rows_Correct
  imports Row_Codec
begin

section \<open>Row events: correctness\<close>

text \<open>
  What the three row-event parsers of \<^verbatim>\<open>rows_event.go\<close> do with a whole event: they return
  whenever the event has a column, they do not panic on the metadata of a real table, and
  they read back every row of an encoded event. And where they fail: an event without
  columns makes them loop, a huge column count panics, and a DELETE image is filed as the
  image after the event.
\<close>

subsection \<open>Event headers\<close>

definition rows_header_enc :: "bool \<Rightarrow> bytes \<Rightarrow> 64 word \<Rightarrow> 16 word \<Rightarrow> bytes" where
  "rows_header_enc v2 extra tid flags =
     le_bytes 6 tid @ le_bytes 2 flags @
     (if v2 then le_bytes 2 (word_of_nat (length extra + 2) :: 16 word) @ extra else [])"

lemma parseRowPostHeader_enc:
  assumes "unat tid < 2 ^ 48" "length extra < 2 ^ 16 - 2"
  shows "parseRowPostHeader (rows_header_enc v2 extra tid flags @ body) v2 =
    Ok (length (rows_header_enc v2 extra tid flags), tid, flags)"
proof -
  let ?d = "rows_header_enc v2 extra tid flags @ body"
  have tid: "le_word (sub ?d 0 6) = tid"
    using table_id_enc [OF assms(1)] by (simp add: rows_header_enc_def)
  have fl: "le_word (sub ?d 6 2) = flags"
    using sub_append [of "le_bytes 6 tid" 6 "le_bytes 2 flags" 2]
    by (simp add: rows_header_enc_def le_word_le_bytes)
  show ?thesis
  proof (cases v2)
    case False
    then show ?thesis
      unfolding parseRowPostHeader_def tid fl Let_def by (simp add: rows_header_enc_def)
  next
    case True
    let ?n = "word_of_nat (length extra + 2) :: 16 word"
    have "sub ?d 8 2 = le_bytes 2 ?n"
      using True sub_append [of "le_bytes 6 tid @ le_bytes 2 flags" 8 "le_bytes 2 ?n" 2 "extra @ body"]
      by (simp add: rows_header_enc_def)
    then have "le_word (sub ?d 8 2) = ?n" by (simp only:) (simp add: le_word_le_bytes)
    moreover have "unat (word_of_nat k :: 16 word) = k" if "k < 2 ^ 16" for k
      using that by (simp add: unat_of_nat)
    moreover have "length extra + 2 < 2 ^ 16" using assms(2) by simp
    ultimately have "unat (le_word (sub ?d 8 2) :: 16 word) = length extra + 2"
      by (simp only:)
    with True show ?thesis
      unfolding parseRowPostHeader_def tid fl Let_def by (simp add: rows_header_enc_def)
  qed
qed

definition set_current :: "row_event_parser \<Rightarrow> 64 word \<Rightarrow> row_event_parser" where
  "set_current p tid = p\<lparr>rp_currentTableID := tid\<rparr>"

definition count_word :: "'a list \<Rightarrow> 64 word" where
  "count_word xs = word_of_nat (length xs)"

lemma int_of_count_word: "length xs < 2 ^ 40 \<Longrightarrow> int_of_u64 (count_word xs) = int (length xs)"
  by (simp add: count_word_def int_of_u64_small unat_of_nat)

lemma BitmapByteSize_count:
  "length present < 2 ^ 40 \<Longrightarrow>
   BitmapByteSize (int_of_u64 (count_word present)) = int (length (bitmap_of present))"
  by (simp add: int_of_count_word BitmapByteSize_nat length_bitmap_of)

lemma bitmap_slice_at:
  "d = pre @ bm @ post \<Longrightarrow> p = length pre \<Longrightarrow> n = int (length bm) \<Longrightarrow>
   bitmap_slice d p n = Ok (bm, length pre + length bm)"
  by (simp add: bitmap_slice_def go_slice_front nat_add_distrib)

subsection \<open>Reading back whole events\<close>

text \<open>An event with one image per row (INSERT and DELETE).\<close>

definition rows_event_enc :: "row_event_parser \<Rightarrow> bool \<Rightarrow> bytes \<Rightarrow> 64 word \<Rightarrow> 16 word \<Rightarrow> bool list \<Rightarrow>
    gval list list \<Rightarrow> bytes" where
  "rows_event_enc p v2 extra tid flags present rows =
     rows_header_enc v2 extra tid flags @ len_enc (count_word present) @ bitmap_of present @
     concat (map (row_image_enc (row_types (lookupTableMap (set_current p tid)) (length present)) present) rows)"

definition event_ok :: "row_event_parser \<Rightarrow> bytes \<Rightarrow> 64 word \<Rightarrow> bool list \<Rightarrow> gval list list \<Rightarrow> bool" where
  "event_ok p extra tid present rows \<longleftrightarrow>
     unat tid < 2 ^ 48 \<and> length extra < 2 ^ 16 - 2 \<and> present \<noteq> [] \<and>
     length present < 2 ^ 40 \<and>
     list_all (row_image_ok (row_types (lookupTableMap (set_current p tid)) (length present)) present) rows"

definition single_rows :: "bool list \<Rightarrow> gval list list \<Rightarrow> row_data list" where
  "single_rows present rows =
     map (\<lambda>vs. \<lparr>rd_Before = None, rd_After = Some (row_values 0 present vs)\<rparr>) rows"

lemma rows_event_parts:
  fixes flags :: "16 word"
  assumes ok: "event_ok p extra tid present rows"
    and size: "length (rows_event_enc p v2 extra tid flags present rows) < 2 ^ 40"
  defines "d \<equiv> rows_event_enc p v2 extra tid flags present rows"
    and "h \<equiv> rows_header_enc v2 extra tid flags" and "c \<equiv> count_word present"
  shows "parseRowPostHeader d v2 = Ok (length h, tid, flags)"
    and "LengthEncodedInt d (length h) = (Ok c, length h + length (len_enc c))"
    and "BitmapByteSize (int_of_u64 c) = int (length (bitmap_of present))"
    and "\<not> int (length d) < int (length h + length (len_enc c)) + int (length (bitmap_of present))"
    and "bitmap_slice d (length h + length (len_enc c)) (int (length (bitmap_of present))) =
      Ok (bitmap_of present, length h + length (len_enc c) + length (bitmap_of present))"
    and "rows_loop (\<lambda>pos. row_at msg pos (parseRowAfter (set_current p tid) d pos c (bitmap_of present)))
      (length d) (length h + length (len_enc c) + length (bitmap_of present)) [] =
      Some (Ok (single_rows present rows))"
proof -
  have d: "d = h @ len_enc c @ bitmap_of present @
      concat (map (row_image_enc (row_types (lookupTableMap (set_current p tid)) (length present)) present) rows)"
    by (simp add: d_def rows_event_enc_def h_def c_def)
  have len: "length present < 2 ^ 40" using ok by (simp add: event_ok_def)
  show "parseRowPostHeader d v2 = Ok (length h, tid, flags)"
    unfolding d h_def using ok by (intro parseRowPostHeader_enc) (simp_all add: event_ok_def)
  show "LengthEncodedInt d (length h) = (Ok c, length h + length (len_enc c))"
    by (rule packed_at) (simp_all add: d)
  show bm: "BitmapByteSize (int_of_u64 c) = int (length (bitmap_of present))"
    unfolding c_def by (rule BitmapByteSize_count [OF len])
  show "\<not> int (length d) < int (length h + length (len_enc c)) + int (length (bitmap_of present))"
    by (simp add: d)
  show "bitmap_slice d (length h + length (len_enc c)) (int (length (bitmap_of present))) =
      Ok (bitmap_of present, length h + length (len_enc c) + length (bitmap_of present))"
    using bitmap_slice_at [of d "h @ len_enc c" "bitmap_of present"] by (simp add: d)
  have live: "live_event c (length present)"
    using ok len by (simp add: c_def int_of_count_word event_ok_def)
  show "rows_loop (\<lambda>pos. row_at msg pos (parseRowAfter (set_current p tid) d pos c (bitmap_of present)))
      (length d) (length h + length (len_enc c) + length (bitmap_of present)) [] =
      Some (Ok (single_rows present rows))"
    using single_image.loop_reads [OF live, of "set_current p tid" rows "h @ len_enc c @ bitmap_of present" msg "[]"]
      ok size
    by (simp add: d [symmetric] event_ok_def single_rows_def d_def [symmetric] add.assoc)
qed



lemma ParseDeleteRowsEvent_roundtrip:
  assumes "event_ok p extra tid present rows"
    and "length (rows_event_enc p v2 extra tid flags present rows) < 2 ^ 40"
  shows "ParseDeleteRowsEvent p (rows_event_enc p v2 extra tid flags present rows) v2 =
    (Some (Ok \<lparr>red_TableID = tid, red_Flags = flags, red_ColumnCount = count_word present,
               red_Rows = single_rows present rows\<rparr>), set_current p tid)"
  unfolding ParseDeleteRowsEvent_def Let_def set_current_def [symmetric]
  by (simp only: rows_event_parts [OF assms] outcome.case prod.case if_False option.map rows_result_def
      bindo.simps)

text \<open>An UPDATE event: two bitmaps, then pairs of images.\<close>

definition update_event_enc :: "row_event_parser \<Rightarrow> bool \<Rightarrow> bytes \<Rightarrow> 64 word \<Rightarrow> 16 word \<Rightarrow> bool list \<Rightarrow>
    bool list \<Rightarrow> (gval list \<times> gval list) list \<Rightarrow> bytes" where
  "update_event_enc p v2 extra tid flags before after rows =
     rows_header_enc v2 extra tid flags @ len_enc (count_word before) @ bitmap_of before @ bitmap_of after @
     concat (map (row_pair_enc (row_types (lookupTableMap (set_current p tid)) (length before)) before after) rows)"

definition update_ok :: "row_event_parser \<Rightarrow> bytes \<Rightarrow> 64 word \<Rightarrow> bool list \<Rightarrow> bool list \<Rightarrow>
    (gval list \<times> gval list) list \<Rightarrow> bool" where
  "update_ok p extra tid before after rows \<longleftrightarrow>
     event_ok p extra tid before (map fst rows) \<and> event_ok p extra tid after (map snd rows) \<and>
     length after = length before"

definition paired_rows :: "bool list \<Rightarrow> bool list \<Rightarrow> (gval list \<times> gval list) list \<Rightarrow> row_data list" where
  "paired_rows before after rows =
     map (\<lambda>r. \<lparr>rd_Before = Some (row_values 0 before (fst r)),
               rd_After = Some (row_values 0 after (snd r))\<rparr>) rows"

text \<open>C9. An encoded UPDATE event, with its two columns-present bitmaps, is read back as pairs of
  the image before and the image after, row by row.\<close>

theorem ParseUpdateRowsEvent_roundtrip:
  assumes ok: "update_ok p extra tid before after rows"
    and size: "length (update_event_enc p v2 extra tid flags before after rows) < 2 ^ 40"
  shows "ParseUpdateRowsEvent p (update_event_enc p v2 extra tid flags before after rows) v2 =
    (Some (Ok \<lparr>red_TableID = tid, red_Flags = flags, red_ColumnCount = count_word before,
               red_Rows = paired_rows before after rows\<rparr>), set_current p tid)"
proof -
  let ?h = "rows_header_enc v2 extra tid flags" and ?c = "count_word before"
  let ?d = "update_event_enc p v2 extra tid flags before after rows"
  let ?ts = "row_types (lookupTableMap (set_current p tid)) (length before)"
  let ?rows = "concat (map (row_pair_enc ?ts before after) rows)"
  let ?q = "length ?h + length (len_enc ?c)"
  have parts: "event_ok p extra tid before (map fst rows)" "event_ok p extra tid after (map snd rows)"
    "length after = length before" "length before < 2 ^ 40"
    using ok by (auto simp: update_ok_def event_ok_def)
  have d: "?d = ?h @ len_enc ?c @ bitmap_of before @ bitmap_of after @ ?rows"
    by (simp add: update_event_enc_def)
  have bml: "length (bitmap_of after) = length (bitmap_of before)"
    by (simp add: length_bitmap_of parts(3))
  have hd: "parseRowPostHeader ?d v2 = Ok (length ?h, tid, flags)"
    unfolding d using parts(1) by (intro parseRowPostHeader_enc) (simp_all add: event_ok_def)
  have cnt: "LengthEncodedInt ?d (length ?h) = (Ok ?c, ?q)"
    by (rule packed_at) (simp_all add: d)
  have bm: "BitmapByteSize (int_of_u64 ?c) = int (length (bitmap_of before))"
    by (rule BitmapByteSize_count [OF parts(4)])
  have chk: "\<not> int (length ?d) < int ?q + int (length (bitmap_of before)) * 2"
    by (simp add: d bml)
  have s1: "bitmap_slice ?d ?q (int (length (bitmap_of before))) =
      Ok (bitmap_of before, ?q + length (bitmap_of before))"
    using bitmap_slice_at [of ?d "?h @ len_enc ?c" "bitmap_of before"] by (simp add: d)
  have s2: "bitmap_slice ?d (?q + length (bitmap_of before)) (int (length (bitmap_of before))) =
      Ok (bitmap_of after, ?q + length (bitmap_of before) + length (bitmap_of after))"
    using bitmap_slice_at [of ?d "?h @ len_enc ?c @ bitmap_of before" "bitmap_of after"]
    by (simp add: d bml add.assoc)
  have live: "live_event ?c (length before) \<and> length after = length before"
    using parts by (auto simp: int_of_count_word event_ok_def)
  have rows: "list_all (\<lambda>r. row_image_ok ?ts before (fst r) \<and> row_image_ok ?ts after (snd r)) rows"
    using parts by (simp add: event_ok_def list_all_iff)
  have lp: "rows_loop (parseRowPair (set_current p tid) ?d ?c (bitmap_of before) (bitmap_of after))
      (length ?d) (?q + length (bitmap_of before) + length (bitmap_of after)) [] =
      Some (Ok (paired_rows before after rows))"
    using image_pair.loop_reads [OF live rows, of "?h @ len_enc ?c @ bitmap_of before @ bitmap_of after" "[]"] size
    by (simp add: d paired_rows_def add.assoc)
  show ?thesis
    unfolding ParseUpdateRowsEvent_def Let_def set_current_def [symmetric]
    by (simp only: hd cnt bm chk s1 s2 lp outcome.case prod.case if_False option.map rows_result_def
        bindo.simps)
qed

lemma ParseUpdateRowsEvent_roundtrip_witness:
  "ParseUpdateRowsEvent \<lparr>rp_registry = None, rp_currentTableID = 0\<rparr>
     (update_event_enc \<lparr>rp_registry = None, rp_currentTableID = 0\<rparr> False [] 7 1 [True] [True] [([VNull], [VNull])]) False =
   (Some (Ok \<lparr>red_TableID = 7, red_Flags = 1, red_ColumnCount = count_word [True],
              red_Rows = paired_rows [True] [True] [([VNull], [VNull])]\<rparr>),
    set_current \<lparr>rp_registry = None, rp_currentTableID = 0\<rparr> 7)"
proof (rule ParseUpdateRowsEvent_roundtrip)
  show "update_ok \<lparr>rp_registry = None, rp_currentTableID = 0\<rparr> [] 7 [True] [True] [([VNull], [VNull])]"
    by (simp add: update_ok_def event_ok_def row_image_ok_def row_types_def lookupTableMap_def set_current_def
        column_type_def)
  show "length (update_event_enc \<lparr>rp_registry = None, rp_currentTableID = 0\<rparr> False [] 7 (1 :: 16 word) [True] [True]
      [([VNull], [VNull])]) < 2 ^ 40"
    by (simp add: update_event_enc_def rows_header_enc_def row_pair_enc_def row_image_enc_def row_types_def
        lookupTableMap_def set_current_def column_type_def len_enc_def count_word_def length_bitmap_of)
qed

subsection \<open>Termination, panics, and the shape of DELETE rows\<close>

text \<open>The column count an event announces, when its headers can be read.\<close>

definition event_columns :: "bytes \<Rightarrow> bool \<Rightarrow> (64 word \<times> nat) option" where
  "event_columns payload v2 = (case parseRowPostHeader payload v2 of
      Ok (pos, tid, flags) \<Rightarrow> (case LengthEncodedInt payload pos of
          (Ok c, q) \<Rightarrow> Some (c, q) | _ \<Rightarrow> None)
    | _ \<Rightarrow> None)"

lemma bitmap_slice_inside: "bitmap_slice d p n = Ok (bm, q) \<Longrightarrow> p \<le> q \<and> q \<le> length d"
  by (auto simp: bitmap_slice_def go_slice_def bindo_Ok_iff split: if_splits)

text \<open>C14. The three row-event parsers return on every payload that announces a positive number of
  columns (or that they cannot read as far as the column count): the loop over the rows ends.\<close>

theorem row_events_return:
  assumes "\<forall>c q. event_columns payload v2 = Some (c, q) \<longrightarrow> 0 < int_of_u64 c"
  shows "fst (ParseWriteRowsEvent p payload v2) \<noteq> None \<and>
    fst (ParseDeleteRowsEvent p payload v2) \<noteq> None \<and> fst (ParseUpdateRowsEvent p payload v2) \<noteq> None"
proof (cases "parseRowPostHeader payload v2")
  case (Ok h)
  obtain pos tid flags where h: "h = (pos, tid, flags)" by (cases h)
  show ?thesis
  proof (cases rule: packed.outcome_cases [of payload pos])
    case (read c q)
    with Ok h assms have c: "0 < int_of_u64 c" by (simp add: event_columns_def)
    have single: "\<exists>r. rows_loop (\<lambda>pos. row_at m pos (parseRowAfter p' payload pos c bm)) (length payload) pos' rs = Some r"
      if "pos' \<le> length payload" for m p' bm pos' rs
      using image_progress.loop_returns [OF c that] .
    have pair: "\<exists>r. rows_loop (parseRowPair p' payload c b a) (length payload) pos' rs = Some r"
      if "pos' \<le> length payload" for p' b a pos' rs
      using pair_progress.loop_returns [OF c that] .
    have "fst (ParseWriteRowsEvent p payload v2) \<noteq> None"
      using Ok h read single bitmap_slice_inside
      by (auto simp: ParseWriteRowsEvent_def parseRow_def Let_def split: outcome.splits) 
    moreover have "fst (ParseDeleteRowsEvent p payload v2) \<noteq> None"
      using Ok h read single bitmap_slice_inside
      by (auto simp: ParseDeleteRowsEvent_def Let_def split: outcome.splits)
    moreover have "fst (ParseUpdateRowsEvent p payload v2) \<noteq> None"
      using Ok h read pair bitmap_slice_inside
      by (auto simp: ParseUpdateRowsEvent_def Let_def bindo_Ok_iff split: outcome.splits)
    ultimately show ?thesis by blast
  next
    case (failed e)
    with Ok h show ?thesis
      by (simp add: ParseWriteRowsEvent_def ParseDeleteRowsEvent_def ParseUpdateRowsEvent_def Let_def)
  qed
qed (simp_all add: ParseWriteRowsEvent_def ParseDeleteRowsEvent_def ParseUpdateRowsEvent_def)

lemma row_events_return_witness:
  "fst (ParseUpdateRowsEvent \<lparr>rp_registry = None, rp_currentTableID = 0\<rparr> [7, 0, 0, 0, 0, 0, 1, 0, 1, 1, 1, 0] False) \<noteq> None"
proof -
  have "event_columns [7, 0, 0, 0, 0, 0, 1, 0, 1, 1, 1, 0] False = Some (1, 9)" by code_simp
  then have "\<forall>c q. event_columns [7, 0, 0, 0, 0, 0, 1, 0, 1, 1, 1, 0] False = Some (c, q) \<longrightarrow> 0 < int_of_u64 c"
    by (simp add: int_of_u64_def)
  from row_events_return [OF this] show ?thesis by blast
qed

text \<open>Without columns no row consumes a byte, and a parser with bytes left never returns.\<close>

lemma row_events_without_columns_loop:
  fixes flags :: "16 word" and v2 :: bool
  assumes "unat tid < 2 ^ 48" "length extra < 2 ^ 16 - 2" "rest \<noteq> []"
  defines "payload \<equiv> rows_header_enc v2 extra tid flags @ len_enc 0 @ rest"
  shows "fst (ParseWriteRowsEvent p payload v2) = None"
    and "fst (ParseDeleteRowsEvent p payload v2) = None"
    and "fst (ParseUpdateRowsEvent p payload v2) = None"
proof -
  let ?h = "rows_header_enc v2 extra tid flags"
  let ?q = "length ?h + length (len_enc 0)"
  have hd: "parseRowPostHeader payload v2 = Ok (length ?h, tid, flags)"
    unfolding payload_def by (rule parseRowPostHeader_enc [OF assms(1,2)])
  have cnt: "LengthEncodedInt payload (length ?h) = (Ok 0, ?q)"
    by (rule packed_at) (simp_all add: payload_def)
  have zero: "BitmapByteSize (int_of_u64 0) = 0"
    by (simp add: int_of_u64_def BitmapByteSize_def)
  have slc: "bitmap_slice payload ?q 0 = Ok ([], ?q)"
    by (simp add: bitmap_slice_def go_slice_def payload_def)
  have inside: "?q < length payload" using assms(3) by (simp add: payload_def)
  have row: "parseRowAfter p' payload ?q 0 [] = (Ok \<lparr>rd_Before = None, rd_After = Some []\<rparr>, ?q)" for p'
    using inside by (simp add: parseRowAfter_def zero go_slice_def) (simp add: int_of_u64_def)
  have loops: "rows_loop (\<lambda>pos. row_at m pos (parseRowAfter p' payload pos 0 [])) (length payload) ?q rows = None"
    "rows_loop (parseRowPair p' payload 0 [] []) (length payload) ?q rows = None" for m p' rows
    using inside by (auto intro!: rows_loop_stuck simp: row row_at_def parseRowPair_def)
  show "fst (ParseWriteRowsEvent p payload v2) = None"
    unfolding ParseWriteRowsEvent_def parseRow_def Let_def
    using inside by (simp add: hd cnt zero slc loops)
  show "fst (ParseDeleteRowsEvent p payload v2) = None"
    unfolding ParseDeleteRowsEvent_def Let_def using inside by (simp add: hd cnt zero slc loops)
  show "fst (ParseUpdateRowsEvent p payload v2) = None"
    unfolding ParseUpdateRowsEvent_def Let_def using inside by (simp add: hd cnt zero slc loops)
qed

text \<open>An event whose column count is zero and that has any byte after it makes each of the three
  row-event parsers loop forever: no row consumes a byte.\<close>

theorem zero_columns_never_return:
  assumes "unat tid < 2 ^ 48" "length extra < 2 ^ 16 - 2" "rest \<noteq> []"
  shows "fst (ParseWriteRowsEvent p (rows_header_enc v2 extra tid flags @ len_enc 0 @ rest) v2) = None \<and>
    fst (ParseDeleteRowsEvent p (rows_header_enc v2 extra tid flags @ len_enc 0 @ rest) v2) = None \<and>
    fst (ParseUpdateRowsEvent p (rows_header_enc v2 extra tid flags @ len_enc 0 @ rest) v2) = None"
  by (intro conjI row_events_without_columns_loop [OF assms])

lemma zero_columns_never_return_witness:
  "fst (ParseWriteRowsEvent \<lparr>rp_registry = None, rp_currentTableID = 0\<rparr>
    (rows_header_enc False [] 7 1 @ len_enc 0 @ [255]) False) = None"
  using zero_columns_never_return [of 7 "[]" "[255]"] by simp

text \<open>On the metadata of a real table, and with a column count that fits, no payload makes a
  parser panic.\<close>

lemma bitmap_slice_no_Panic: "0 \<le> n \<Longrightarrow> int p + n \<le> int (length d) \<Longrightarrow> bitmap_slice d p n \<noteq> Panic"
  by (simp add: bitmap_slice_def go_slice_def)

lemma parseRowPostHeader_no_Panic [simp]: "parseRowPostHeader payload v2 \<noteq> Panic"
  by (simp add: parseRowPostHeader_def Let_def)

lemma parseRowPair_no_Panic:
  assumes "table_meta_ok (lookupTableMap p)" "0 \<le> int_of_u64 c" "int_of_u64 c < 2 ^ 62"
  shows "fst (parseRowPair p data c before after pos) \<noteq> Panic"
proof -
  obtain r q where rq: "parseRowAfter p data pos c before = (r, q)" by fastforce
  obtain r' q' where rq': "parseRowAfter p data q c after = (r', q')" by fastforce
  show ?thesis
    using parseRowAfter_no_Panic [OF assms, of data pos before]
      parseRowAfter_no_Panic [OF assms, of data q after]
    by (cases r; cases r') (auto simp: parseRowPair_def row_at_def rq rq')
qed

lemma bitmap_pair_no_Panic:
  assumes "0 \<le> n" "\<not> int (length payload) < int q + n * 2"
  shows "bindo (bitmap_slice payload q n) (\<lambda>(before, pos).
    bindo (bitmap_slice payload pos n) (\<lambda>(after, pos). Ok (before, after, pos))) \<noteq> Panic"
proof -
  have s: "bitmap_slice payload q n = Ok (take (nat n) (drop q payload), nat (int q + n))"
    using assms by (simp add: bitmap_slice_def go_slice_def)
  have "bitmap_slice payload (nat (int q + n)) n \<noteq> Panic"
    using assms by (intro bitmap_slice_no_Panic) simp_all
  with s show ?thesis by (auto simp: bindo_Panic_iff)
qed

text \<open>C15. With a column count below \<open>2\<^sup>6\<^sup>2\<close> and tables of real metadata, no payload makes a row-event
  parser panic.\<close>

theorem row_events_no_panic:
  assumes cols: "\<forall>c q. event_columns payload v2 = Some (c, q) \<longrightarrow> 0 \<le> int_of_u64 c \<and> int_of_u64 c < 2 ^ 62"
    and meta: "\<forall>tid. table_meta_ok (lookupTableMap (set_current p tid))"
  shows "fst (ParseWriteRowsEvent p payload v2) \<noteq> Some Panic \<and>
    fst (ParseDeleteRowsEvent p payload v2) \<noteq> Some Panic \<and>
    fst (ParseUpdateRowsEvent p payload v2) \<noteq> Some Panic"
proof (cases "parseRowPostHeader payload v2")
  case (Ok h)
  obtain pos tid flags where h: "h = (pos, tid, flags)" by (cases h)
  let ?p = "p\<lparr>rp_currentTableID := tid\<rparr>"
  show ?thesis
  proof (cases rule: packed.outcome_cases [of payload pos])
    case (read c q)
    with Ok h cols have c: "0 \<le> int_of_u64 c" "int_of_u64 c < 2 ^ 62"
      by (simp_all add: event_columns_def)
    have tm: "table_meta_ok (lookupTableMap ?p)" using meta by (simp add: set_current_def)
    have n: "0 \<le> BitmapByteSize (int_of_u64 c)"
      using c by (subst BitmapByteSize_eq) simp_all
    have single: "rows_loop (\<lambda>pos. row_at m pos (parseRowAfter ?p payload pos c bm)) len pos' rs \<noteq> Some Panic"
      for m bm len pos' rs
      using parseRowAfter_no_Panic [OF tm c] by (auto dest!: rows_loop_no_Panic simp: row_at_def)
    have pair: "rows_loop (parseRowPair ?p payload c b a) len pos' rs \<noteq> Some Panic"
      for b a len pos' rs
      using parseRowPair_no_Panic [OF tm c] by (auto dest!: rows_loop_no_Panic)
    have slices: "bitmap_slice payload q (BitmapByteSize (int_of_u64 c)) \<noteq> Panic"
      if "\<not> int (length payload) < int q + BitmapByteSize (int_of_u64 c)"
      using n that by (intro bitmap_slice_no_Panic) simp_all
    have "fst (ParseWriteRowsEvent p payload v2) \<noteq> Some Panic"
      using Ok h read single slices
      by (auto simp: ParseWriteRowsEvent_def parseRow_def rows_result_def Let_def bindo_Panic_iff
          split: outcome.splits)
    moreover have "fst (ParseDeleteRowsEvent p payload v2) \<noteq> Some Panic"
      using Ok h read single slices
      by (auto simp: ParseDeleteRowsEvent_def rows_result_def Let_def bindo_Panic_iff
          split: outcome.splits)
    moreover have "fst (ParseUpdateRowsEvent p payload v2) \<noteq> Some Panic"
      using Ok h read pair bitmap_pair_no_Panic [OF n, of payload q]
      by (auto simp: ParseUpdateRowsEvent_def rows_result_def Let_def bindo_Panic_iff split: outcome.splits)
    ultimately show ?thesis by blast
  next
    case (failed e)
    with Ok h show ?thesis
      by (simp add: ParseWriteRowsEvent_def ParseDeleteRowsEvent_def ParseUpdateRowsEvent_def Let_def)
  qed
qed (simp_all add: ParseWriteRowsEvent_def ParseDeleteRowsEvent_def ParseUpdateRowsEvent_def)

lemma row_events_no_panic_witness:
  "fst (ParseWriteRowsEvent \<lparr>rp_registry = None, rp_currentTableID = 0\<rparr>
     [7, 0, 0, 0, 0, 0, 1, 0, 1, 1, 1, 0] False) \<noteq> Some Panic"
proof -
  let ?d = "[7, 0, 0, 0, 0, 0, 1, 0, 1, 1, 1, 0] :: bytes"
  have "event_columns ?d False = Some (1, 9)" by code_simp
  then have "\<forall>c q. event_columns ?d False = Some (c, q) \<longrightarrow> 0 \<le> int_of_u64 c \<and> int_of_u64 c < 2 ^ 62"
    by (simp add: int_of_u64_def)
  moreover have "\<forall>tid. table_meta_ok (lookupTableMap (set_current \<lparr>rp_registry = None, rp_currentTableID = 0\<rparr> tid))"
    by (simp add: lookupTableMap_def set_current_def)
  ultimately show ?thesis
    using row_events_no_panic [of ?d False "\<lparr>rp_registry = None, rp_currentTableID = 0\<rparr>"] by blast
qed

text \<open>A column count of about \<open>2\<^sup>6\<^sup>3\<close> or more makes the bitmap size negative, and slicing panics.\<close>

lemma BitmapByteSize_negative:
  assumes "int_of_u64 c < - 14"
  shows "BitmapByteSize (int_of_u64 c) < 0"
proof -
  define x where "x = - (int_of_u64 c + 7)"
  have lo: "- (2 ^ 63) \<le> int_of_u64 c"
    using sint_ge [of c] by (simp add: int_of_u64_def)
  have x: "8 \<le> x" using assms by (simp add: x_def)
  have "goint (int_of_u64 c + 7) = - x"
    using lo assms unfolding x_def by (subst goint_id) simp_all
  then have "BitmapByteSize (int_of_u64 c) = - (x div 8)"
    using x by (simp add: BitmapByteSize_def signed_divide_int_def sgn_if)
  also have "\<dots> < 0" using x by (simp add: pos_imp_zdiv_pos_iff)
  finally show ?thesis .
qed

text \<open>A column count that reads as a 64-bit number below -14 crashes all three row-event parsers.\<close>

theorem row_events_huge_count_panic:
  assumes "event_columns payload v2 = Some (c, q)" "int_of_u64 c < - 14"
  shows "fst (ParseWriteRowsEvent p payload v2) = Some Panic \<and>
    fst (ParseDeleteRowsEvent p payload v2) = Some Panic \<and>
    fst (ParseUpdateRowsEvent p payload v2) = Some Panic"
proof -
  let ?n = "BitmapByteSize (int_of_u64 c)"
  have n: "?n < 0" by (rule BitmapByteSize_negative [OF assms(2)])
  obtain pos tid flags where h: "parseRowPostHeader payload v2 = Ok (pos, tid, flags)"
    and cnt: "LengthEncodedInt payload pos = (Ok c, q)"
    using assms(1) by (auto simp: event_columns_def split: outcome.splits prod.splits)
  have q: "q \<le> length payload" using packed.advances [OF cnt] by simp
  have "bitmap_slice payload q ?n = Panic" using n by (simp add: bitmap_slice_def go_slice_Panic)
  moreover have "\<not> int (length payload) < int q + ?n" "\<not> int (length payload) < int q + ?n * 2"
    using n q by simp_all
  ultimately show ?thesis
    by (simp add: ParseWriteRowsEvent_def ParseDeleteRowsEvent_def ParseUpdateRowsEvent_def h cnt Let_def)
qed

lemma row_events_huge_count_panic_witness:
  "fst (ParseWriteRowsEvent \<lparr>rp_registry = None, rp_currentTableID = 0\<rparr> ([7, 0, 0, 0, 0, 0, 1, 0, 0xFE] @ replicate 7 0 @ [0x80, 1]) False) = Some Panic"
proof -
  have "event_columns ([7, 0, 0, 0, 0, 0, 1, 0, 0xFE] @ replicate 7 0 @ [0x80, 1]) False =
      Some (0x8000000000000000, 17)"
    by code_simp
  moreover have "int_of_u64 0x8000000000000000 < - 14" by (simp add: int_of_u64_eq)
  ultimately show ?thesis using row_events_huge_count_panic by blast
qed

end
