(* ===== verification/Connector_Types.thy ===== *)
theory Connector_Types
  imports Go_Values
begin

section \<open>Connector data types\<close>

text \<open>
  The model of \<^verbatim>\<open>internal/connector/types.go\<close>: connection settings and their data source
  name, requests and results of parsing, row events, execution options and results, and
  the preflight report.
\<close>

record conn_config =
  cc_Host :: string
  cc_Port :: int
  cc_User :: string
  cc_Password :: string
  cc_Database :: string
  cc_Params :: "(string \<times> string) list"

text \<open>
  \<^verbatim>\<open>itoa\<close>: the digits of \<^verbatim>\<open>i\<close> from the last, after \<^verbatim>\<open>i = -i\<close> for a negative number; the
  negation of the smallest \<^verbatim>\<open>int\<close> is itself.
\<close>

function itoa_digits :: "int \<Rightarrow> string \<Rightarrow> string" where
  "itoa_digits i buf = (if i > 0 then itoa_digits (i div 10) (digit_char (nat (i mod 10)) # buf) else buf)"
  by pat_completeness auto
termination by (relation "measure (\<lambda>(i, buf). nat i)") auto

declare itoa_digits.simps [simp del]

definition itoa :: "int \<Rightarrow> string" where
  "itoa i =
     (if i = 0 then ''0''
      else let neg = i < 0; i = (if neg then goint (- i) else i); s = itoa_digits i [] in
        if neg then CHR ''-'' # s else s)"

text \<open>The parameters in the order the map is ranged over (which Go leaves open).\<close>

fun dsn_params :: "bool \<Rightarrow> (string \<times> string) list \<Rightarrow> string" where
  "dsn_params first [] = []"
| "dsn_params first ((k, v) # ps) =
     (if first then ''?'' else ''&'') @ k @ ''='' @ v @ dsn_params False ps"

definition DSN :: "conn_config \<Rightarrow> string" where
  "DSN c =
     (let host = (if cc_Host c = [] then ''127.0.0.1'' else cc_Host c);
          port = (if cc_Port c = 0 then 3306 else cc_Port c)
      in cc_User c @ '':'' @ cc_Password c @ ''@tcp('' @ host @ '':'' @ itoa port @ '')/'' @
         cc_Database c @ dsn_params True (cc_Params c))"

record binlog_file =
  bf_Name :: string
  bf_Size :: int
  bf_Earliest :: go_time

text \<open>\<^verbatim>\<open>EventType\<close> is a string type with three named values.\<close>

type_synonym row_event_type = string

abbreviation InsertEvent :: row_event_type where "InsertEvent \<equiv> ''INSERT''"
abbreviation UpdateEvent :: row_event_type where "UpdateEvent \<equiv> ''UPDATE''"
abbreviation DeleteEvent :: row_event_type where "DeleteEvent \<equiv> ''DELETE''"

record row_event =
  re_Type :: row_event_type
  re_Database :: string
  re_Table :: string
  re_Timestamp :: go_time
  re_Before :: "row option"
  re_After :: "row option"
  re_PrimaryKey :: "row option"

record parse_result =
  pr_Events :: "row_event list"
  pr_TotalRows :: int
  pr_Errors :: "string list"

record exec_options =
  eo_BatchSize :: int
  eo_DryRun :: bool

record exec_result =
  er_RowsAffected :: int
  er_BatchesCompleted :: nat
  er_Errors :: "string list"

datatype preflight_status = PreflightPass | PreflightWarn | PreflightFail

record preflight_check =
  pc_Name :: string
  pc_Status :: preflight_status
  pc_Message :: string

record preflight_result =
  pf_Status :: preflight_status
  pf_Version :: string
  pf_Checks :: "preflight_check list"

subsection \<open>Decimal conversion\<close>

lemma itoa_digits_show_nat: "0 < n \<Longrightarrow> itoa_digits (int n) buf = show_nat n @ buf"
proof (induction n arbitrary: buf rule: less_induct)
  case (less n)
  show ?case
  proof (cases "n < 10")
    case True
    with less.prems show ?thesis
      by (simp add: itoa_digits.simps [of "int n"] itoa_digits.simps [of 0] show_nat.simps [of n])
  next
    case False
    have "int n div 10 = int (n div 10)" "nat (int n mod 10) = n mod 10"
      by (simp_all add: zdiv_int nat_mod_distrib)
    with less.IH [of "n div 10" "digit_char (n mod 10) # buf"] False show ?thesis
      by (simp add: itoa_digits.simps [of "int n"] show_nat.simps [of n])
  qed
qed

lemma itoa_show_int:
  assumes "- (2 ^ 63) < i" "i < 2 ^ 63"
  shows "itoa i = show_int i"
proof -
  have neg: "goint (- i) = - i" using assms by (intro goint_id) simp_all
  consider "i = 0" | "0 < i" | "i < 0" by linarith
  then show ?thesis
  proof cases
    case 1
    moreover have "digit_char 0 = CHR ''0''" by code_simp
    ultimately show ?thesis by (simp add: itoa_def show_int_def show_nat.simps)
  next
    case 2
    then show ?thesis
      using itoa_digits_show_nat [of "nat i" "[]"] by (simp add: itoa_def show_int_def)
  next
    case 3
    then show ?thesis
      using itoa_digits_show_nat [of "nat (- i)" "[]"] neg by (simp add: itoa_def show_int_def Let_def)
  qed
qed

lemma itoa_min: "itoa (- (2 ^ 63)) = ''-''"
proof -
  have "goint (2 ^ 63) = - (2 ^ 63)" using goint_wrap [of "2 ^ 63"] by simp
  then show ?thesis by (simp add: itoa_def itoa_digits.simps)
qed

end
