(* ===== verification/Sql_Format.thy ===== *)
theory Sql_Format
  imports Connector_Types
begin

section \<open>SQL literals\<close>

text \<open>
  The model of \<^verbatim>\<open>internal/parser/sql.go\<close>. The \<^verbatim>\<open>%g\<close> rendering of a float is a parameter
  \<open>g\<close> on its bit pattern; everything else is executable.
\<close>

definition escapeString :: "string \<Rightarrow> string" where
  "escapeString s = concat (map (\<lambda>c. if c = CHR 0x27 then [CHR 0x27, CHR 0x27] else [c]) s)"

definition isPrintableBinary :: "bytes \<Rightarrow> bool" where
  "isPrintableBinary b \<longleftrightarrow>
     list_all (\<lambda>c. 0x20 \<le> c \<and> c \<le> 0x7E \<or> c = 9 \<or> c = 10 \<or> c = 13) b"

definition hex_digit :: "nat \<Rightarrow> char" where
  "hex_digit d = (if d < 10 then char_of (48 + d) else char_of (55 + d))"

definition hexEncode :: "bytes \<Rightarrow> string" where
  "hexEncode b = concat (map (\<lambda>x. [hex_digit (unat x div 16), hex_digit (unat x mod 16)]) b)"

abbreviation quote :: "string \<Rightarrow> string" where
  "quote s \<equiv> CHR 0x27 # s @ [CHR 0x27]"

fun FormatColumnValue :: "(64 word \<Rightarrow> string) \<Rightarrow> gval \<Rightarrow> string outcome" where
  "FormatColumnValue g VNull = Ok ''NULL''"
| "FormatColumnValue g (VInt i) = Ok (show_int i)"
| "FormatColumnValue g (VFloat w) = Ok (g w)"
| "FormatColumnValue g (VString s) = Ok (quote (escapeString s))"
| "FormatColumnValue g (VBytes b) =
     Ok (if isPrintableBinary b then quote (escapeString (string_of_bytes b))
         else CHR ''X'' # quote (hexEncode b))"
| "FormatColumnValue g (VTime t) = Ok (quote (format_datetime t))"
| "FormatColumnValue g (VOther s) = Ok (quote (escapeString s))"

text \<open>The function never returns an error: this is the text it returns.\<close>

definition literal :: "(64 word \<Rightarrow> string) \<Rightarrow> gval \<Rightarrow> string" where
  "literal g v = (case FormatColumnValue g v of Ok s \<Rightarrow> s | _ \<Rightarrow> [])"

lemma FormatColumnValue_literal [simp]: "FormatColumnValue g v = Ok (literal g v)"
  by (cases v) (simp_all add: literal_def)

subsection \<open>Reading a literal back\<close>

text \<open>
  The body of a single-quoted literal after its opening quote, as a server with
  \<^verbatim>\<open>NO_BACKSLASH_ESCAPES\<close> reads it (\<open>escapes = False\<close>) and as one in MySQL's default mode
  does (\<open>escapes = True\<close>, where a backslash takes the next character literally; the named
  escapes make no difference to where the literal ends). The result is the value and the rest.
\<close>

fun read_quoted :: "bool \<Rightarrow> string \<Rightarrow> (string \<times> string) option" where
  "read_quoted esc [] = None"
| "read_quoted esc (c # cs) =
     (if c = CHR 0x27 then
        (case cs of
           [] \<Rightarrow> Some ([], [])
         | d # ds \<Rightarrow> if d = CHR 0x27 then map_option (apfst (Cons c)) (read_quoted esc ds)
                   else Some ([], d # ds))
      else if esc \<and> c = CHR 0x5C then
        (case cs of [] \<Rightarrow> None | d # ds \<Rightarrow> map_option (apfst (Cons d)) (read_quoted esc ds))
      else map_option (apfst (Cons c)) (read_quoted esc cs))"

lemma escapeString_simps [simp]:
  "escapeString [] = []"
  "escapeString (c # s) = (if c = CHR 0x27 then [CHR 0x27, CHR 0x27] else [c]) @ escapeString s"
  by (simp_all add: escapeString_def)

definition no_quote_first :: "string \<Rightarrow> bool" where
  "no_quote_first rest \<longleftrightarrow> (case rest of [] \<Rightarrow> True | c # _ \<Rightarrow> c \<noteq> CHR 0x27)"

lemma read_quoted_escape:
  assumes "no_quote_first rest" "esc \<Longrightarrow> CHR 0x5C \<notin> set s"
  shows "read_quoted esc (escapeString s @ CHR 0x27 # rest) = Some (s, rest)"
  using assms by (induction s) (auto simp: no_quote_first_def split: list.splits)

text \<open>In the default mode a value that ends in an odd run of backslashes swallows its closing
  quote.\<close>

lemma read_quoted_trailing_backslash:
  "CHR 0x5C \<notin> set s \<Longrightarrow>
   read_quoted True (escapeString (s @ [CHR 0x5C]) @ CHR 0x27 # rest) =
   map_option (apfst (\<lambda>t. s @ CHR 0x27 # t)) (read_quoted True rest)"
  by (cases "read_quoted True rest"; induction s) auto

subsection \<open>Hexadecimal literals\<close>

definition hex_value :: "char \<Rightarrow> nat" where
  "hex_value c = (let n = of_char c in if n < 58 then n - 48 else n - 55)"

fun unhex :: "string \<Rightarrow> bytes" where
  "unhex (a # b # cs) = word_of_nat (16 * hex_value a + hex_value b) # unhex cs"
| "unhex _ = []"

lemma hex_value_digit: "d < 16 \<Longrightarrow> hex_value (hex_digit d) = d"
  by (simp add: hex_value_def hex_digit_def)

lemma unhex_hexEncode: "unhex (hexEncode b) = b"
proof (induction b)
  case Nil
  then show ?case by (simp add: hexEncode_def)
next
  case (Cons x b)
  have "unat x < 256" using unsigned_less [of x] by simp
  then have "unat x div 16 < 16" by (simp add: div_less_iff_less_mult)
  moreover have "unat x mod 16 < 16" by simp
  ultimately have "word_of_nat (16 * hex_value (hex_digit (unat x div 16)) +
      hex_value (hex_digit (unat x mod 16))) = x"
    by (simp only: hex_value_digit mult_div_mod_eq) simp
  then show ?case using Cons.IH by (simp add: hexEncode_def del: of_nat_add of_nat_mult)
qed

subsection \<open>Properties\<close>

text \<open>A string literal the formatter writes is read back as the string, and the statement goes on
  right after its closing quote: under NO_BACKSLASH_ESCAPES for every string, in MySQL's default
  mode for every string without a backslash.\<close>

theorem string_literal_roundtrip:
  assumes "no_quote_first rest" "esc \<Longrightarrow> CHR 0x5C \<notin> set s"
  shows "FormatColumnValue g (VString s) = Ok (CHR 0x27 # escapeString s @ [CHR 0x27]) \<and>
    read_quoted esc (escapeString s @ [CHR 0x27] @ rest) = Some (s, rest)"
proof
  show "read_quoted esc (escapeString s @ [CHR 0x27] @ rest) = Some (s, rest)"
    using read_quoted_escape [OF assms] by (simp only: append_Cons append_Nil)
qed (rule FormatColumnValue.simps(4))

lemma string_literal_roundtrip_witness:
  "read_quoted True (escapeString ''it's'' @ [CHR 0x27] @ '';'') = Some (''it's'', '';'')"
  using string_literal_roundtrip [of "'';''" True "''it's''"] by (simp add: no_quote_first_def)

text \<open>In MySQL's default mode a value that ends in a backslash escapes its own closing quote: the
  literal goes on into the rest of the statement, which is read as data until the next quote.\<close>

theorem trailing_backslash_swallows_quote:
  assumes "CHR 0x5C \<notin> set s"
  shows "read_quoted True (escapeString (s @ [CHR 0x5C]) @ CHR 0x27 # rest) =
    map_option (apfst (\<lambda>t. s @ CHR 0x27 # t)) (read_quoted True rest)"
  by (rule read_quoted_trailing_backslash [OF assms])

lemma trailing_backslash_swallows_quote_witness:
  "read_quoted True (escapeString (''C:'' @ [CHR 0x5C]) @ CHR 0x27 # '', x = 1;'') = None"
  using trailing_backslash_swallows_quote [of "''C:''" "'', x = 1;''"] by simp

end
