(* ===== verification/Reverse.thy ===== *)
theory Reverse
  imports Sql_Format Keyed_Store
begin

section \<open>Reverse SQL\<close>

text \<open>
  The model of \<^verbatim>\<open>internal/parser/reverse.go\<close>: the statement that undoes a row event, built as
  text the way the code builds it, and the batch in reverse order of the events.
\<close>

subsection \<open>Statement text\<close>

text \<open>\<^verbatim>\<open>sort.Strings\<close> of the keys: bytewise lexicographic order.\<close>

definition sortedKeys :: "row \<Rightarrow> string list" where
  "sortedKeys m = sort (map fst m)"

definition backtick :: "string \<Rightarrow> string" where
  "backtick c = CHR 0x60 # c @ [CHR 0x60]"

definition buildCondition :: "(64 word \<Rightarrow> string) \<Rightarrow> string \<Rightarrow> gval \<Rightarrow> string outcome" where
  "buildCondition g col v =
     (if v = VNull then Ok (backtick col @ '' IS NULL'')
      else bindo (FormatColumnValue g v) (\<lambda>s. Ok (backtick col @ '' = '' @ s)))"

text \<open>The loop over the columns; a column the image does not have is skipped.\<close>

fun buildConditions :: "(64 word \<Rightarrow> string) \<Rightarrow> row \<Rightarrow> string list \<Rightarrow> string list outcome" where
  "buildConditions g vals [] = Ok []"
| "buildConditions g vals (col # cols) =
     (case map_of vals col of
        None \<Rightarrow> buildConditions g vals cols
      | Some v \<Rightarrow> bindo (wrapo (''column '' @ col) (buildCondition g col v)) (\<lambda>c.
          bindo (buildConditions g vals cols) (\<lambda>cs. Ok (c # cs))))"

definition buildWhereClause :: "(64 word \<Rightarrow> string) \<Rightarrow> row \<Rightarrow> string list \<Rightarrow> string outcome" where
  "buildWhereClause g vals pkColumns =
     (let columns = (if pkColumns \<noteq> [] then pkColumns else sortedKeys vals) in
      bindo (buildConditions g vals columns) (\<lambda>conditions.
        if conditions = [] then Err (Errorf ''no columns available for WHERE clause'')
        else Ok ('' WHERE '' @ join '' AND '' conditions)))"

text \<open>\<^verbatim>\<open>m[c]\<close> for a key of the map.\<close>

definition at :: "row \<Rightarrow> string \<Rightarrow> gval" where
  "at m c = (case map_of m c of None \<Rightarrow> VNull | Some v \<Rightarrow> v)"

definition reverseInsert :: "(64 word \<Rightarrow> string) \<Rightarrow> row_event \<Rightarrow> string list \<Rightarrow> string outcome" where
  "reverseInsert g ev pkColumns =
     (case re_After ev of
        None \<Rightarrow> Err (Errorf ''INSERT event has no After image'')
      | Some after \<Rightarrow> bindo (buildWhereClause g after pkColumns) (\<lambda>w.
          Ok (''DELETE FROM '' @ backtick (re_Table ev) @ w @ '' LIMIT 1;'')))"

definition column_values :: "(64 word \<Rightarrow> string) \<Rightarrow> row \<Rightarrow> string list \<Rightarrow> string list outcome" where
  "column_values g m cols = mapo (\<lambda>c. wrapo (''column '' @ c) (FormatColumnValue g (at m c))) cols"

definition reverseDelete :: "(64 word \<Rightarrow> string) \<Rightarrow> row_event \<Rightarrow> string outcome" where
  "reverseDelete g ev =
     (case re_Before ev of
        None \<Rightarrow> Err (Errorf ''DELETE event has no Before image'')
      | Some before \<Rightarrow>
          let cols = sortedKeys before in
          bindo (column_values g before cols) (\<lambda>vs.
            Ok (''INSERT INTO '' @ backtick (re_Table ev) @ '' ('' @ join '', '' (map backtick cols) @
                '') VALUES ('' @ join '', '' vs @ '');'')))"

definition reverseUpdate :: "(64 word \<Rightarrow> string) \<Rightarrow> row_event \<Rightarrow> string list \<Rightarrow> string outcome" where
  "reverseUpdate g ev pkColumns =
     (case re_Before ev of
        None \<Rightarrow> Err (Errorf ''UPDATE event has no Before image'')
      | Some before \<Rightarrow>
     (case re_After ev of
        None \<Rightarrow> Err (Errorf ''UPDATE event has no After image'')
      | Some after \<Rightarrow>
          let cols = sortedKeys before in
          bindo (column_values g before cols) (\<lambda>vs.
          bindo (buildWhereClause g after pkColumns) (\<lambda>w.
            Ok (''UPDATE '' @ backtick (re_Table ev) @ '' SET '' @
                join '', '' (map (\<lambda>(c, v). backtick c @ '' = '' @ v) (zip cols vs)) @ w @ '' LIMIT 1;'')))))"

definition ReverseSQL :: "(64 word \<Rightarrow> string) \<Rightarrow> row_event \<Rightarrow> string list \<Rightarrow> string outcome" where
  "ReverseSQL g ev pkColumns =
     (if re_Type ev = InsertEvent then reverseInsert g ev pkColumns
      else if re_Type ev = DeleteEvent then reverseDelete g ev
      else if re_Type ev = UpdateEvent then reverseUpdate g ev pkColumns
      else Err (Errorf (''unsupported event type: '' @ re_Type ev)))"

text \<open>
  The loop of \<^verbatim>\<open>ReverseSQLBatch\<close> from the last event down; on an error it returns the
  statements made so far with the error.
\<close>

fun reverse_from :: "(64 word \<Rightarrow> string) \<Rightarrow> string list \<Rightarrow> (nat \<times> row_event) list \<Rightarrow> string list \<Rightarrow>
    string list \<times> go_error option" where
  "reverse_from g pks [] stmts = (stmts, None)"
| "reverse_from g pks ((i, ev) # evs) stmts =
     (case ReverseSQL g ev pks of
        Ok sql \<Rightarrow> reverse_from g pks evs (stmts @ [sql])
      | Err e \<Rightarrow> (stmts, Some (Wrapf (''event '' @ show_nat i) e))
      | Panic \<Rightarrow> (stmts, None))"

definition ReverseSQLBatch :: "(64 word \<Rightarrow> string) \<Rightarrow> row_event list \<Rightarrow> string list \<Rightarrow>
    string list \<times> go_error option" where
  "ReverseSQLBatch g events pks = reverse_from g pks (rev (zip [0..<length events] events)) []"

subsection \<open>The statements as data\<close>

text \<open>What a generated statement says: its table, its conditions and its assignments.\<close>

datatype sql_stmt =
    Delete_One string "(string \<times> gval) list"
  | Insert_Row string "(string \<times> gval) list"
  | Update_One string "(string \<times> gval) list" "(string \<times> gval) list"

definition render_cond :: "(64 word \<Rightarrow> string) \<Rightarrow> string \<times> gval \<Rightarrow> string" where
  "render_cond g cv = (if snd cv = VNull then backtick (fst cv) @ '' IS NULL''
     else backtick (fst cv) @ '' = '' @ literal g (snd cv))"

definition render_where :: "(64 word \<Rightarrow> string) \<Rightarrow> (string \<times> gval) list \<Rightarrow> string" where
  "render_where g conds = '' WHERE '' @ join '' AND '' (map (render_cond g) conds)"

fun render :: "(64 word \<Rightarrow> string) \<Rightarrow> sql_stmt \<Rightarrow> string" where
  "render g (Delete_One t conds) =
     ''DELETE FROM '' @ backtick t @ render_where g conds @ '' LIMIT 1;''"
| "render g (Insert_Row t cols) =
     ''INSERT INTO '' @ backtick t @ '' ('' @ join '', '' (map (backtick \<circ> fst) cols) @ '') VALUES ('' @
     join '', '' (map (literal g \<circ> snd) cols) @ '');''"
| "render g (Update_One t sets conds) =
     ''UPDATE '' @ backtick t @ '' SET '' @
     join '', '' (map (\<lambda>(c, v). backtick c @ '' = '' @ literal g v) sets) @ render_where g conds @ '' LIMIT 1;''"

text \<open>The columns a WHERE clause tests and the values it tests them against.\<close>

definition where_conds :: "row \<Rightarrow> string list \<Rightarrow> (string \<times> gval) list" where
  "where_conds vals pks =
     List.map_filter (\<lambda>c. map_option (Pair c) (map_of vals c)) (if pks \<noteq> [] then pks else sortedKeys vals)"

definition sorted_row :: "row \<Rightarrow> (string \<times> gval) list" where
  "sorted_row m = map (\<lambda>c. (c, at m c)) (sortedKeys m)"

text \<open>The undo statement of an event, \<^const>\<open>None\<close> where \<^verbatim>\<open>ReverseSQL\<close> reports an error.\<close>

definition undo :: "row_event \<Rightarrow> string list \<Rightarrow> sql_stmt option" where
  "undo ev pks =
     (if re_Type ev = InsertEvent then
        (case re_After ev of
           Some after \<Rightarrow> if where_conds after pks = [] then None
             else Some (Delete_One (re_Table ev) (where_conds after pks))
         | None \<Rightarrow> None)
      else if re_Type ev = DeleteEvent then
        map_option (\<lambda>before. Insert_Row (re_Table ev) (sorted_row before)) (re_Before ev)
      else if re_Type ev = UpdateEvent then
        (case (re_Before ev, re_After ev) of
           (Some before, Some after) \<Rightarrow> if where_conds after pks = [] then None
             else Some (Update_One (re_Table ev) (sorted_row before) (where_conds after pks))
         | _ \<Rightarrow> None)
      else None)"

lemma buildConditions_eq:
  "buildConditions g vals cols =
   Ok (map (render_cond g) (List.map_filter (\<lambda>c. map_option (Pair c) (map_of vals c)) cols))"
  by (induction cols)
    (auto simp: map_filter_simps buildCondition_def render_cond_def split: option.splits)

lemma buildWhereClause_eq:
  "buildWhereClause g vals pks =
   (if where_conds vals pks = [] then Err (Errorf ''no columns available for WHERE clause'')
    else Ok (render_where g (where_conds vals pks)))"
  by (simp add: buildWhereClause_def buildConditions_eq where_conds_def render_where_def Let_def)

lemma column_values_eq: "column_values g m cols = Ok (map (\<lambda>c. literal g (at m c)) cols)"
  unfolding column_values_def by (rule mapo_Ok) simp

lemma reverseInsert_eq: "re_Type ev = InsertEvent \<Longrightarrow>
  (case undo ev pks of Some st \<Rightarrow> reverseInsert g ev pks = Ok (render g st)
   | None \<Rightarrow> \<exists>e. reverseInsert g ev pks = Err e)"
  by (auto simp: undo_def reverseInsert_def buildWhereClause_eq split: option.splits)

lemma reverseDelete_eq: "re_Type ev = DeleteEvent \<Longrightarrow>
  (case undo ev pks of Some st \<Rightarrow> reverseDelete g ev = Ok (render g st)
   | None \<Rightarrow> \<exists>e. reverseDelete g ev = Err e)"
  by (auto simp: undo_def reverseDelete_def column_values_eq sorted_row_def comp_def Let_def
      split: option.splits)

lemma reverseUpdate_eq: "re_Type ev = UpdateEvent \<Longrightarrow>
  (case undo ev pks of Some st \<Rightarrow> reverseUpdate g ev pks = Ok (render g st)
   | None \<Rightarrow> \<exists>e. reverseUpdate g ev pks = Err e)"
  by (auto simp: undo_def reverseUpdate_def buildWhereClause_eq column_values_eq sorted_row_def
      zip_map2 zip_same_conv_map comp_def Let_def split: option.splits)

lemma ReverseSQL_undo:
  "(case undo ev pks of Some st \<Rightarrow> ReverseSQL g ev pks = Ok (render g st)
    | None \<Rightarrow> \<exists>e. ReverseSQL g ev pks = Err e)"
proof -
  consider "re_Type ev = InsertEvent" | "re_Type ev = DeleteEvent" | "re_Type ev = UpdateEvent"
    | "re_Type ev \<notin> {InsertEvent, DeleteEvent, UpdateEvent}"
    by blast
  then show ?thesis
  proof cases
    case 1
    have eq: "ReverseSQL g ev pks = reverseInsert g ev pks" by (simp add: ReverseSQL_def 1)
    show ?thesis unfolding eq by (rule reverseInsert_eq [OF 1])
  next
    case 2
    have eq: "ReverseSQL g ev pks = reverseDelete g ev" by (simp add: ReverseSQL_def 2)
    show ?thesis unfolding eq by (rule reverseDelete_eq [OF 2])
  next
    case 3
    have eq: "ReverseSQL g ev pks = reverseUpdate g ev pks" by (simp add: ReverseSQL_def 3)
    show ?thesis unfolding eq by (rule reverseUpdate_eq [OF 3])
  next
    case 4
    then show ?thesis by (simp add: ReverseSQL_def undo_def)
  qed
qed

lemma ReverseSQL_Ok_iff: "ReverseSQL g ev pks = Ok s \<longleftrightarrow> (\<exists>st. undo ev pks = Some st \<and> s = render g st)"
  using ReverseSQL_undo [where g = g and ev = ev and pks = pks] by (auto split: option.splits)

lemma ReverseSQL_no_Panic: "ReverseSQL g ev pks \<noteq> Panic"
  using ReverseSQL_undo [where g = g and ev = ev and pks = pks] by (auto split: option.splits)

lemma reverse_from_all:
  "list_all (\<lambda>(i, ev). undo ev pks \<noteq> None) evs \<Longrightarrow>
   reverse_from g pks evs stmts = (stmts @ map (\<lambda>(i, ev). render g (the (undo ev pks))) evs, None)"
proof (induction evs arbitrary: stmts)
  case Nil
  then show ?case by simp
next
  case (Cons ie evs)
  obtain i ev where ie: "ie = (i, ev)" by (cases ie)
  with Cons.prems obtain st where "undo ev pks = Some st" by auto
  with ReverseSQL_undo [where g = g and ev = ev and pks = pks] Cons ie show ?case by simp
qed

lemma ReverseSQLBatch_eq:
  assumes "list_all (\<lambda>ev. undo ev pks \<noteq> None) events"
  shows "ReverseSQLBatch g events pks = (map (\<lambda>ev. render g (the (undo ev pks))) (rev events), None)"
proof -
  let ?ies = "rev (zip [0..<length events] events)"
  have snd: "map snd ?ies = rev events" by (simp add: rev_map flip: rev_map)
  have "list_all (\<lambda>(i, ev). undo ev pks \<noteq> None) ?ies"
    using assms by (auto simp: list_all_iff dest: set_zip_rightD)
  from reverse_from_all [OF this, of g "[]"] show ?thesis
    by (simp add: ReverseSQLBatch_def snd [symmetric] case_prod_unfold comp_def)
qed

end
