(* ===== verification/Undo.thy ===== *)
theory Undo
  imports Reverse "HOL-Library.Multiset"
begin

section \<open>What the reverse statements do to a database\<close>

text \<open>
  The contract of \<^verbatim>\<open>ReverseSQL\<close>: run against the database after an event, the statement
  restores the database before it, and the batch of \<^verbatim>\<open>ReverseSQLBatch\<close> undoes a whole
  history. A table is a multiset of rows; a row maps column names to values. \<open>LIMIT 1\<close> lets
  the server choose any one matching row, so executing a statement is a relation.
  Equality of a column with a literal is equality of values (a server compares a float
  with its printed literal, which this semantics does not model).
\<close>

subsection \<open>Databases and statements\<close>

type_synonym db_row = "string \<rightharpoonup> gval"
type_synonym db = "string \<Rightarrow> db_row multiset"

definition row_matches :: "(string \<times> gval) list \<Rightarrow> db_row \<Rightarrow> bool" where
  "row_matches conds r \<longleftrightarrow> list_all (\<lambda>(c, v). r c = Some v) conds"

inductive exec_stmt :: "sql_stmt \<Rightarrow> db \<Rightarrow> db \<Rightarrow> bool" where
  delete_hit: "r \<in># D t \<Longrightarrow> row_matches conds r \<Longrightarrow>
    exec_stmt (Delete_One t conds) D (D(t := D t - {#r#}))"
| delete_miss: "\<forall>r \<in># D t. \<not> row_matches conds r \<Longrightarrow> exec_stmt (Delete_One t conds) D D"
| insert: "exec_stmt (Insert_Row t cols) D (D(t := add_mset (map_of cols) (D t)))"
| update_hit: "r \<in># D t \<Longrightarrow> row_matches conds r \<Longrightarrow>
    exec_stmt (Update_One t sets conds) D (D(t := add_mset (r ++ map_of sets) (D t - {#r#})))"
| update_miss: "\<forall>r \<in># D t. \<not> row_matches conds r \<Longrightarrow> exec_stmt (Update_One t sets conds) D D"

inductive_cases exec_DeleteE: "exec_stmt (Delete_One t conds) D D'"
inductive_cases exec_InsertE: "exec_stmt (Insert_Row t cols) D D'"
inductive_cases exec_UpdateE: "exec_stmt (Update_One t sets conds) D D'"

fun exec_all :: "sql_stmt list \<Rightarrow> db \<Rightarrow> db \<Rightarrow> bool" where
  "exec_all [] D D' \<longleftrightarrow> D' = D"
| "exec_all (st # sts) D D' \<longleftrightarrow> (\<exists>E. exec_stmt st D E \<and> exec_all sts E D')"

lemma exec_all_append:
  "exec_all (xs @ ys) D D' \<longleftrightarrow> (\<exists>E. exec_all xs D E \<and> exec_all ys E D')"
  by (induction xs arbitrary: D) auto

text \<open>A statement always has an outcome.\<close>

lemma exec_stmt_total: "\<exists>D'. exec_stmt st D D'"
proof (cases st)
  case (Delete_One t conds)
  then show ?thesis using delete_hit [of _ D t conds] delete_miss [of D t conds] by blast
next
  case (Insert_Row t cols)
  then show ?thesis using exec_stmt.insert by blast
next
  case (Update_One t sets conds)
  then show ?thesis using update_hit [of _ D t conds sets] update_miss [of D t conds sets] by blast
qed

subsection \<open>Events\<close>

text \<open>What a row event did to the database.\<close>

inductive happens :: "row_event \<Rightarrow> db \<Rightarrow> db \<Rightarrow> bool" where
  insert: "re_Type ev = InsertEvent \<Longrightarrow> re_After ev = Some a \<Longrightarrow>
    happens ev D (D(re_Table ev := add_mset (map_of a) (D (re_Table ev))))"
| delete: "re_Type ev = DeleteEvent \<Longrightarrow> re_Before ev = Some b \<Longrightarrow> map_of b \<in># D (re_Table ev) \<Longrightarrow>
    happens ev D (D(re_Table ev := D (re_Table ev) - {#map_of b#}))"
| update: "re_Type ev = UpdateEvent \<Longrightarrow> re_Before ev = Some b \<Longrightarrow> re_After ev = Some a \<Longrightarrow>
    map_of b \<in># D (re_Table ev) \<Longrightarrow>
    happens ev D (D(re_Table ev := add_mset (map_of a) (D (re_Table ev) - {#map_of b#})))"

lemma happens_InsertEvent:
  "re_Type ev = InsertEvent \<Longrightarrow> happens ev D E \<longleftrightarrow>
    (\<exists>a. re_After ev = Some a \<and> E = D(re_Table ev := add_mset (map_of a) (D (re_Table ev))))"
  by (subst happens.simps) auto

lemma happens_DeleteEvent:
  "re_Type ev = DeleteEvent \<Longrightarrow> happens ev D E \<longleftrightarrow>
    (\<exists>b. re_Before ev = Some b \<and> map_of b \<in># D (re_Table ev) \<and>
       E = D(re_Table ev := D (re_Table ev) - {#map_of b#}))"
  by (subst happens.simps) auto

fun history :: "row_event list \<Rightarrow> db \<Rightarrow> db \<Rightarrow> bool" where
  "history [] D D' \<longleftrightarrow> D' = D"
| "history (ev # evs) D D' \<longleftrightarrow> (\<exists>E. happens ev D E \<and> history evs E D')"

text \<open>
  The images of an event are full (binlog_row_image=FULL): both have the columns of the
  table; and in the database after the event, the columns the WHERE clause tests single out
  the image after it. Both hold for a table with a primary key and full images.
\<close>

definition full_images :: "row_event \<Rightarrow> bool" where
  "full_images ev \<longleftrightarrow> (\<forall>b a. re_Before ev = Some b \<and> re_After ev = Some a \<longrightarrow>
     fst ` set b = fst ` set a)"

definition identifies :: "string list \<Rightarrow> row \<Rightarrow> db_row multiset \<Rightarrow> bool" where
  "identifies pks a T \<longleftrightarrow> where_conds a pks \<noteq> [] \<and>
     (\<forall>r \<in># T. row_matches (where_conds a pks) r \<longrightarrow> r = map_of a)"

fun undoable :: "string list \<Rightarrow> row_event list \<Rightarrow> db \<Rightarrow> bool" where
  "undoable pks [] D \<longleftrightarrow> True"
| "undoable pks (ev # evs) D \<longleftrightarrow> full_images ev \<and>
     (\<forall>E. happens ev D E \<longrightarrow> (\<forall>a. re_After ev = Some a \<and> re_Type ev \<noteq> DeleteEvent \<longrightarrow>
        identifies pks a (E (re_Table ev))) \<and> undoable pks evs E)"

subsection \<open>Keys of an image\<close>

lemma set_sortedKeys [simp]: "set (sortedKeys m) = fst ` set m"
  by (simp add: sortedKeys_def)

lemma at_map_of: "c \<in> fst ` set m \<Longrightarrow> map_of m c = Some (at m c)"
  by (auto simp: at_def map_of_eq_None_iff split: option.splits)

lemma map_of_sorted_row [simp]: "map_of (sorted_row m) = map_of m"
proof
  fix c
  have "map_of (map (\<lambda>c. (c, at m c)) cs) c = (if c \<in> set cs then Some (at m c) else None)" for cs
    by (induction cs) auto
  then show "map_of (sorted_row m) c = map_of m c"
    by (auto simp: sorted_row_def at_map_of map_of_eq_None_iff [symmetric])
qed

lemma where_conds_image: "(c, v) \<in> set (where_conds a pks) \<Longrightarrow> map_of a c = Some v"
  by (auto simp: where_conds_def List.map_filter_def split: option.splits if_splits)

lemma after_matches: "row_matches (where_conds a pks) (map_of a)"
  by (auto simp: row_matches_def list_all_iff dest: where_conds_image)

text \<open>Without key columns every column of the image is tested, so a row with the columns of
  the image matches only if it is the image.\<close>

lemma identifies_all_columns:
  assumes "a \<noteq> []" "\<forall>r \<in># T. dom r = fst ` set a"
  shows "identifies [] a T"
proof -
  have conds: "where_conds a [] = map (\<lambda>c. (c, at a c)) (sortedKeys a)"
  proof -
    have "List.map_filter (\<lambda>c. map_option (Pair c) (map_of a c)) cs = map (\<lambda>c. (c, at a c)) cs"
      if "set cs \<subseteq> fst ` set a" for cs
      using that by (induction cs) (auto simp: map_filter_simps at_map_of)
    then show ?thesis by (simp add: where_conds_def)
  qed
  have "r = map_of a" if r: "r \<in># T" "row_matches (where_conds a []) r" for r
  proof
    fix c
    show "r c = map_of a c"
    proof (cases "c \<in> fst ` set a")
      case True
      with r(2) show ?thesis
        by (auto simp: conds row_matches_def list_all_iff at_map_of)
    next
      case False
      then have "c \<notin> dom r" using r(1) assms(2) by simp
      moreover have "map_of a c = None" using False by (simp add: map_of_eq_None_iff)
      ultimately show ?thesis by (simp add: domIff)
    qed
  qed
  moreover have "where_conds a [] \<noteq> []"
    using assms(1) by (simp add: conds sortedKeys_def flip: length_greater_0_conv)
  ultimately show ?thesis by (simp add: identifies_def)
qed

text \<open>With the columns of a unique key, all present in the image.\<close>

lemma identifies_key:
  assumes "pks \<noteq> []" "set pks \<subseteq> fst ` set a" "map_of a \<in># T"
    and "\<forall>r \<in># T. \<forall>s \<in># T. (\<forall>c \<in> set pks. r c = s c) \<longrightarrow> r = s"
  shows "identifies pks a T"
proof -
  have conds: "where_conds a pks = map (\<lambda>c. (c, at a c)) pks"
  proof -
    have "List.map_filter (\<lambda>c. map_option (Pair c) (map_of a c)) cs = map (\<lambda>c. (c, at a c)) cs"
      if "set cs \<subseteq> fst ` set a" for cs
      using that by (induction cs) (auto simp: map_filter_simps at_map_of)
    with assms(1,2) show ?thesis by (simp add: where_conds_def)
  qed
  have "r = map_of a" if r: "r \<in># T" "row_matches (where_conds a pks) r" for r
  proof -
    have "\<forall>c \<in> set pks. r c = map_of a c"
      using r(2) assms(2) by (auto simp: conds row_matches_def list_all_iff at_map_of subset_iff)
    with r(1) assms(3,4) show ?thesis by blast
  qed
  with assms(1) show ?thesis by (simp add: identifies_def conds)
qed

subsection \<open>One event\<close>

lemma override_all: "dom f \<subseteq> dom g \<Longrightarrow> f ++ g = g"
  by (auto simp: map_add_def fun_eq_iff domIff split: option.splits)

text \<open>A statement whose conditions identify an image that is in the table acts on that image.\<close>

lemma delete_identified:
  assumes "identifies pks a (E t)" "map_of a \<in># E t" "exec_stmt (Delete_One t (where_conds a pks)) E D'"
  shows "D' = E(t := E t - {#map_of a#})"
  using assms(3)
proof (rule exec_DeleteE)
  fix r
  assume "r \<in># E t" "row_matches (where_conds a pks) r" and D': "D' = E(t := E t - {#r#})"
  with assms(1) have "r = map_of a" by (simp add: identifies_def)
  with D' show ?thesis by simp
next
  assume "\<forall>r \<in># E t. \<not> row_matches (where_conds a pks) r"
  with assms(2) after_matches [of a pks] show ?thesis by blast
qed

lemma update_identified:
  assumes "identifies pks a (E t)" "map_of a \<in># E t" "exec_stmt (Update_One t sets (where_conds a pks)) E D'"
  shows "D' = E(t := add_mset (map_of a ++ map_of sets) (E t - {#map_of a#}))"
  using assms(3)
proof (rule exec_UpdateE)
  fix r
  assume "r \<in># E t" "row_matches (where_conds a pks) r" and D': "D' = E(t := add_mset (r ++ map_of sets) (E t - {#r#}))"
  with assms(1) have "r = map_of a" by (simp add: identifies_def)
  with D' show ?thesis by simp
next
  assume "\<forall>r \<in># E t. \<not> row_matches (where_conds a pks) r"
  with assms(2) after_matches [of a pks] show ?thesis by blast
qed

theorem undo_reverts:
  assumes h: "happens ev D E" and img: "full_images ev"
    and ident: "\<And>a. re_After ev = Some a \<Longrightarrow> re_Type ev \<noteq> DeleteEvent \<Longrightarrow> identifies pks a (E (re_Table ev))"
  shows "\<exists>st. undo ev pks = Some st \<and> (\<forall>D'. exec_stmt st E D' \<longrightarrow> D' = D)"
  using h
proof cases
  case (insert a)
  have i: "identifies pks a (E (re_Table ev))" using ident insert by simp
  have "D' = D" if "exec_stmt (Delete_One (re_Table ev) (where_conds a pks)) E D'" for D'
    using delete_identified [OF i _ that] insert(1) by simp
  with i insert(2,3) show ?thesis by (simp add: undo_def identifies_def)
next
  case (delete b)
  have "D' = D" if "exec_stmt (Insert_Row (re_Table ev) (sorted_row b)) E D'" for D'
    using that
  proof (rule exec_InsertE)
    assume "D' = E(re_Table ev := add_mset (map_of (sorted_row b)) (E (re_Table ev)))"
    with delete(1,4) show ?thesis by simp
  qed
  with delete(2,3) show ?thesis by (simp add: undo_def)
next
  case (update b a)
  have i: "identifies pks a (E (re_Table ev))" using ident update by simp
  have "fst ` set b = fst ` set a" using img update by (simp add: full_images_def)
  then have restored: "map_of a ++ map_of b = map_of b"
    by (intro override_all) (simp add: dom_map_of_conv_image_fst)
  have "D' = D" if "exec_stmt (Update_One (re_Table ev) (sorted_row b) (where_conds a pks)) E D'" for D'
    using update_identified [OF i _ that] update(1,5) restored by simp
  with i update(2-4) show ?thesis by (simp add: undo_def identifies_def)
qed

subsection \<open>A history\<close>

lemma undo_history:
  assumes "history evs D E" "undoable pks evs D"
  shows "list_all (\<lambda>ev. undo ev pks \<noteq> None) evs \<and>
    (\<forall>D'. exec_all (map (\<lambda>ev. the (undo ev pks)) (rev evs)) E D' \<longrightarrow> D' = D)"
  using assms
proof (induction evs arbitrary: D)
  case Nil
  then show ?case by simp
next
  case (Cons ev evs)
  then obtain F where F: "happens ev D F" "history evs F E" by auto
  with Cons.prems(2) have u: "undoable pks evs F" and img: "full_images ev"
    and ident: "\<And>a. re_After ev = Some a \<Longrightarrow> re_Type ev \<noteq> DeleteEvent \<Longrightarrow> identifies pks a (F (re_Table ev))"
    by auto
  obtain st where st: "undo ev pks = Some st" "\<forall>D'. exec_stmt st F D' \<longrightarrow> D' = D"
    using undo_reverts [OF F(1) img ident] by blast
  from Cons.IH [OF F(2) u] st show ?case by (auto simp: exec_all_append)
qed

text \<open>A batch of statements always has an outcome.\<close>

lemma exec_all_total: "\<exists>D'. exec_all sts D D'"
proof (induction sts arbitrary: D)
  case Nil
  show ?case by (rule exI [of _ D]) simp
next
  case (Cons st sts)
  obtain E where "exec_stmt st D E" using exec_stmt_total by blast
  then show ?case using Cons.IH [of E] by auto
qed

subsection \<open>Properties\<close>

text \<open>C31. \<^verbatim>\<open>ReverseSQL\<close> refines the abstract undo of an event: it returns the text of the undo
  statement where there is one and an error otherwise, and it never panics.\<close>

theorem ReverseSQL_refines_undo:
  "(case undo ev pks of Some st \<Rightarrow> ReverseSQL g ev pks = Ok (render g st)
    | None \<Rightarrow> \<exists>e. ReverseSQL g ev pks = Err e)"
  by (rule ReverseSQL_undo)


definition sample_event :: "row_event_type \<Rightarrow> row option \<Rightarrow> row option \<Rightarrow> row_event" where
  "sample_event t b a = \<lparr>re_Type = t, re_Database = ''d'', re_Table = ''t'', re_Timestamp = 0,
     re_Before = b, re_After = a, re_PrimaryKey = None\<rparr>"


end
