(* ===== verification/Hex.thy ===== *)
theory Hex
  imports Prelude
begin

section \<open>Hexadecimal\<close>

text \<open>
  \<^verbatim>\<open>encoding/hex\<close>: two lower-case digits per byte, and decoding, which takes digits of either case and
  fails on anything else and on an odd length.
\<close>

definition hex_lower :: "bytes \<Rightarrow> string" where
  "hex_lower b = concat (map (\<lambda>x. map (\<lambda>d. if d < 10 then char_of (48 + d) else char_of (87 + d))
     [unat x div 16, unat x mod 16]) b)"

definition hex_nibble :: "byte \<Rightarrow> byte option" where
  "hex_nibble c =
     (if 48 \<le> c \<and> c \<le> 57 then Some (c - 48) else if 97 \<le> c \<and> c \<le> 102 then Some (c - 87)
      else if 65 \<le> c \<and> c \<le> 70 then Some (c - 55) else None)"

definition hex_encode :: "bytes \<Rightarrow> bytes" where
  "hex_encode bs = concat (map (\<lambda>x. map (\<lambda>d. if d < 10 then d + 48 else d + 87) [x div 16, x mod 16]) bs)"

fun hex_decode :: "bytes \<Rightarrow> bytes outcome" where
  "hex_decode [] = Ok []"
| "hex_decode [c] = Err (Errorf ''encoding/hex: odd length hex string'')"
| "hex_decode (c # d # cs) =
     (case (hex_nibble c, hex_nibble d) of
        (Some x, Some y) \<Rightarrow> bindo (hex_decode cs) (\<lambda>bs. Ok ((16 * x + y) # bs))
      | _ \<Rightarrow> Err (Errorf ''encoding/hex: invalid byte''))"

lemma hex_nibble_digit: "d < 16 \<Longrightarrow> hex_nibble (if d < 10 then d + 48 else d + 87) = Some d"
proof -
  assume "d < 16"
  then have "unat d < 16" by (simp add: word_less_nat_alt)
  then have "unat d \<in> set [0..<16]" by simp
  moreover have "\<forall>n \<in> set [0..<16]. hex_nibble (if (word_of_nat n :: byte) < 10 then word_of_nat n + 48 else word_of_nat n + 87) = Some (word_of_nat n)"
    by code_simp
  ultimately have "hex_nibble (if (word_of_nat (unat d) :: byte) < 10 then word_of_nat (unat d) + 48 else word_of_nat (unat d) + 87) =
      Some (word_of_nat (unat d))" by blast
  then show ?thesis by (auto split: if_splits)
qed

lemma hex_roundtrip [simp]: "hex_decode (hex_encode bs) = Ok bs"
proof (induction bs)
  case (Cons x bs)
  have "x mod 16 < 16" by (simp add: word_less_nat_alt unat_mod)
  moreover have "x div 16 < 16"
  proof -
    have "unat x < 256" using unsigned_less [of x] by simp
    then show ?thesis by (simp add: word_less_nat_alt unat_div)
  qed
  moreover have "16 * (x div 16) + x mod 16 = x" by (rule mult_div_mod_eq)
  ultimately show ?case using Cons.IH by (simp add: hex_encode_def hex_nibble_digit del: if_split)
qed (simp add: hex_encode_def)

end
