(* ===== verification/Binlog_Reader.thy ===== *)
theory Binlog_Reader
  imports Hex Event Sql_Format
begin

section \<open>Reading binlog files\<close>

text \<open>
  The model of \<^verbatim>\<open>internal/parser/reader.go\<close>: the reader's state, opening a file and checking
  its magic number, and reading one event with its CRC32. An open file is its contents and
  the offset of the next read; the file system is a parameter that gives the contents of a
  path or the error of \<^verbatim>\<open>os.Open\<close>. Reads of an open regular file fail only by ending.
\<close>

subsection \<open>CRC-32 (IEEE)\<close>

fun crc_bits :: "nat \<Rightarrow> 32 word \<Rightarrow> 32 word" where
  "crc_bits 0 c = c"
| "crc_bits (Suc n) c = crc_bits n (if bit c 0 then drop_bit 1 c XOR 0xEDB88320 else drop_bit 1 c)"

definition crc32 :: "bytes \<Rightarrow> 32 word" where
  "crc32 data = NOT (foldl (\<lambda>c b. crc_bits 8 (c XOR ucast b)) (NOT 0) data)"

subsection \<open>The reader\<close>

record binlog_reader =
  br_file :: "(bytes \<times> nat) option"
  br_path :: string
  br_position :: "32 word"
  br_checksumCRC :: bool

definition NewBinlogReader :: binlog_reader where
  "NewBinlogReader = \<lparr>br_file = None, br_path = [], br_position = 0, br_checksumCRC = False\<rparr>"

text \<open>\<^verbatim>\<open>io.ReadFull\<close> of \<open>n\<close> bytes: the bytes, or \<^verbatim>\<open>EOF\<close> when there are none, or
  \<^verbatim>\<open>ErrUnexpectedEOF\<close> when there are fewer; the offset moves over what was read.\<close>

definition ReadFull :: "bytes \<times> nat \<Rightarrow> nat \<Rightarrow> bytes outcome \<times> (bytes \<times> nat)" where
  "ReadFull f n =
     (let avail = drop (snd f) (fst f) in
      if n \<le> length avail then (Ok (take n avail), (fst f, snd f + n))
      else if avail = [] then (Err EOF, f)
      else (Err UnexpectedEOF, (fst f, length (fst f))))"

definition BinlogMagic :: bytes where
  "BinlogMagic = [0xFE, 0x62, 0x69, 0x6E]"

type_synonym file_system = "string \<Rightarrow> bytes outcome"

definition Reader_Open :: "file_system \<Rightarrow> string \<Rightarrow> binlog_reader \<Rightarrow> unit outcome \<times> binlog_reader" where
  "Reader_Open fs path r =
     (case fs path of
        Err e \<Rightarrow> (Err (Wrapf (''open binlog '' @ path) e), r)
      | Panic \<Rightarrow> (Panic, r)
      | Ok content \<Rightarrow>
        (let r = r\<lparr>br_path := path, br_position := 0\<rparr> in
         case ReadFull (content, 0) 4 of
           (Err e, _) \<Rightarrow> (Err (Wrapf ''read binlog magic'' e), r\<lparr>br_file := None\<rparr>)
         | (Panic, _) \<Rightarrow> (Panic, r)
         | (Ok magic, f) \<Rightarrow>
             if magic \<noteq> BinlogMagic then
               (Err (Errorf (''invalid binlog magic: got '' @ hex_lower magic @ '', expected fe62696e'')),
                r\<lparr>br_file := None\<rparr>)
             else (Ok (), r\<lparr>br_file := Some f, br_position := 4\<rparr>)))"

definition Reader_Close :: "binlog_reader \<Rightarrow> binlog_reader" where
  "Reader_Close r =
     (if br_file r = None then r
      else r\<lparr>br_file := None, br_path := [], br_position := 0, br_checksumCRC := False\<rparr>)"

definition Reader_Seek :: "32 word \<Rightarrow> binlog_reader \<Rightarrow> unit outcome \<times> binlog_reader" where
  "Reader_Seek pos r =
     (case br_file r of
        None \<Rightarrow> (Err (Errorf ''binlog not open''), r)
      | Some f \<Rightarrow> (Ok (), r\<lparr>br_file := Some (fst f, unat pos), br_position := pos\<rparr>))"

definition EnableChecksum :: "binlog_reader \<Rightarrow> binlog_reader" where
  "EnableChecksum r = r\<lparr>br_checksumCRC := True\<rparr>"

definition IsOpen :: "binlog_reader \<Rightarrow> bool" where
  "IsOpen r \<longleftrightarrow> br_file r \<noteq> None"

definition show_hex32 :: "32 word \<Rightarrow> string" where
  "show_hex32 w = hexEncode (rev (le_bytes 4 w))"

definition ReadEvent :: "binlog_reader \<Rightarrow> (event_header \<times> bytes) outcome \<times> binlog_reader" where
  "ReadEvent r =
     (case br_file r of
        None \<Rightarrow> (Err (Errorf ''binlog not open''), r)
      | Some f \<Rightarrow>
     (case ReadFull f EventHeaderSize of
        (Err e, f) \<Rightarrow> (Err EOF, r\<lparr>br_file := Some f\<rparr>)
      | (Panic, f) \<Rightarrow> (Panic, r)
      | (Ok headerBuf, f) \<Rightarrow>
     (case ParseEventHeader headerBuf of
        Err e \<Rightarrow> (Err (Wrapf ''parse event header'' e), r\<lparr>br_file := Some f\<rparr>)
      | Panic \<Rightarrow> (Panic, r)
      | Ok hdr \<Rightarrow>
        if EventLen hdr < word_of_nat EventHeaderSize then
          (Err (Errorf (''event at position '' @ show_nat (unat (br_position r)) @ '' has invalid length '' @
             show_nat (unat (EventLen hdr)) @ '' < 19'')), r\<lparr>br_file := Some f\<rparr>)
        else let bodyLen = EventLen hdr - word_of_nat EventHeaderSize in
     (case ReadFull f (unat bodyLen) of
        (Err e, f) \<Rightarrow> (Err (Wrapf (''read event body at position '' @ show_nat (unat (br_position r))) e),
          r\<lparr>br_file := Some f\<rparr>)
      | (Panic, f) \<Rightarrow> (Panic, r)
      | (Ok body, f) \<Rightarrow>
        if br_checksumCRC r then
          (if bodyLen < 4 then
             (Err (Errorf (''event too short for CRC32: length '' @ show_nat (unat bodyLen))),
              r\<lparr>br_file := Some f\<rparr>)
           else let n = length body - 4;
                    storedCRC = le_word (drop n body) :: 32 word;
                    payload = take n body;
                    computedCRC = crc32 (headerBuf @ payload)
             in if computedCRC \<noteq> storedCRC then
                  (Err (Errorf (''CRC32 mismatch at position '' @ show_nat (unat (br_position r)) @
                     '': computed 0x'' @ show_hex32 computedCRC @ '', stored 0x'' @ show_hex32 storedCRC)),
                   r\<lparr>br_file := Some f\<rparr>)
                else (Ok (hdr, payload), r\<lparr>br_file := Some f, br_position := NextPos hdr\<rparr>))
        else (Ok (hdr, body), r\<lparr>br_file := Some f, br_position := NextPos hdr\<rparr>)))))"

subsection \<open>Events as written by the server\<close>

definition header_enc :: "event_header \<Rightarrow> bytes" where
  "header_enc h = le_bytes 4 (Timestamp h) @ [Type h] @ le_bytes 4 (ServerID h) @ le_bytes 4 (EventLen h) @
     le_bytes 4 (NextPos h) @ le_bytes 2 (Flags h)"

lemma length_header_enc [simp]: "length (header_enc h) = 19"
  by (simp add: header_enc_def)

lemma ParseEventHeader_enc: "ParseEventHeader (header_enc h) = Ok h"
proof -
  have "sub (header_enc h) 0 4 = le_bytes 4 (Timestamp h)" "header_enc h ! 4 = Type h"
    "sub (header_enc h) 5 4 = le_bytes 4 (ServerID h)" "sub (header_enc h) 9 4 = le_bytes 4 (EventLen h)"
    "sub (header_enc h) 13 4 = le_bytes 4 (NextPos h)" "sub (header_enc h) 17 2 = le_bytes 2 (Flags h)"
    by (simp_all add: header_enc_def sub_def nth_append)
  then show ?thesis by (simp add: ParseEventHeader_def le_word_le_bytes)
qed

text \<open>The bytes of an event whose length field counts them, with its checksum when they are on.\<close>

definition event_enc :: "bool \<Rightarrow> event_header \<Rightarrow> bytes \<Rightarrow> bytes" where
  "event_enc crc h payload =
     header_enc h @ payload @ (if crc then le_bytes 4 (crc32 (header_enc h @ payload)) else [])"

definition event_sized :: "bool \<Rightarrow> event_header \<Rightarrow> bytes \<Rightarrow> bool" where
  "event_sized crc h payload \<longleftrightarrow> unat (EventLen h) = length (event_enc crc h payload)"

lemma ReadFull_Ok: "n \<le> length rest \<Longrightarrow> ReadFull (pre @ rest, length pre) n =
    (Ok (take n rest), (pre @ rest, length pre + n))"
  by (simp add: ReadFull_def)

lemma ReadEvent_enc:
  assumes "br_file r = Some (pre @ event_enc (br_checksumCRC r) h payload @ post, length pre)"
    and "event_sized (br_checksumCRC r) h payload"
  shows "ReadEvent r = (Ok (h, payload), r\<lparr>br_file := Some
      (pre @ event_enc (br_checksumCRC r) h payload @ post, length pre + unat (EventLen h)),
      br_position := NextPos h\<rparr>)"
proof -
  let ?c = "br_checksumCRC r"
  let ?tail = "if ?c then le_bytes 4 (crc32 (header_enc h @ payload)) else []"
  have len: "unat (EventLen h) = 19 + length (payload @ ?tail)"
    using assms(2) by (simp add: event_sized_def event_enc_def)
  have fl: "br_file r = Some (pre @ header_enc h @ payload @ ?tail @ post, length pre)"
    using assms(1) by (simp add: event_enc_def)
  have small: "\<not> EventLen h < word_of_nat 19"
    using len by (simp add: word_less_nat_alt)
  have body: "unat (EventLen h - word_of_nat 19) = length (payload @ ?tail)"
    using len small by (simp add: unat_sub_if_size word_less_nat_alt)
  have rd1: "ReadFull (pre @ header_enc h @ payload @ ?tail @ post, length pre) 19 =
      (Ok (header_enc h), (pre @ header_enc h @ payload @ ?tail @ post, length pre + 19))"
    by (simp add: ReadFull_def)
  have rd2: "ReadFull (pre @ header_enc h @ payload @ ?tail @ post, length pre + 19)
      (length (payload @ ?tail)) =
      (Ok (payload @ ?tail), (pre @ header_enc h @ payload @ ?tail @ post, length pre + unat (EventLen h)))"
    using ReadFull_Ok [of "length (payload @ ?tail)" "payload @ ?tail @ post" "pre @ header_enc h"] len
    by simp
  show ?thesis
  proof (cases ?c)
    case True
    have "\<not> EventLen h - word_of_nat 19 < 4"
      using body True by (simp add: word_less_nat_alt)
    with True show ?thesis
      unfolding ReadEvent_def fl option.case rd1 prod.case outcome.case ParseEventHeader_enc
      using small body rd2 by (simp add: Let_def event_enc_def le_word_le_bytes)
  next
    case False
    with small body rd2 show ?thesis
      unfolding ReadEvent_def fl option.case rd1 prod.case outcome.case ParseEventHeader_enc
      by (simp add: Let_def event_enc_def)
  qed
qed

subsection \<open>What an accepted event is\<close>

lemma le_bytes_le_word:
  "8 * length bs \<le> LENGTH('a) \<Longrightarrow> le_bytes (length bs) (le_word bs :: 'a::len word) = bs"
proof (induction bs)
  case Nil
  then show ?case by simp
next
  case (Cons b bs)
  let ?w = "ucast b OR push_bit 8 (le_word bs :: 'a word)"
  have "ucast ?w = b"
    by (rule bit_word_eqI) (use Cons.prems in \<open>auto simp: bit_simps dest: bit_imp_le_length\<close>)
  moreover have "le_bytes (length bs) (drop_bit 8 ?w) = le_bytes (length bs) (le_word bs :: 'a word)"
    by (rule le_bytes_bits) (use Cons.prems in \<open>auto simp: bit_simps dest: bit_imp_le_length\<close>)
  ultimately show ?case using Cons by simp
qed

lemma header_enc_parsed:
  assumes "ParseEventHeader bs = Ok h" "length bs = 19"
  shows "header_enc h = bs"
proof -
  have h: "h = \<lparr>Timestamp = le_word (sub bs 0 4), Type = bs ! 4, ServerID = le_word (sub bs 5 4),
      EventLen = le_word (sub bs 9 4), NextPos = le_word (sub bs 13 4), Flags = le_word (sub bs 17 2)\<rparr>"
    using assms by (simp add: ParseEventHeader_def)
  have back4: "le_bytes 4 (le_word (sub bs p 4) :: 32 word) = sub bs p 4" if "p + 4 \<le> 19" for p
    using le_bytes_le_word [of "sub bs p 4", where 'a = 32] that assms(2) by simp
  have back2: "le_bytes 2 (le_word (sub bs 17 2) :: 16 word) = sub bs 17 2"
    using le_bytes_le_word [of "sub bs 17 2", where 'a = 16] assms(2) by simp
  have step: "take a bs @ sub bs a b = take (a + b) bs" for a b
    by (simp add: sub_def take_add)
  have steps: "take 4 bs @ sub bs 4 1 = take 5 bs" "take 5 bs @ sub bs 5 4 = take 9 bs"
    "take 9 bs @ sub bs 9 4 = take 13 bs" "take 13 bs @ sub bs 13 4 = take 17 bs"
    "take 17 bs @ sub bs 17 2 = bs"
    using assms(2) step [of 4 1] step [of 5 4] step [of 9 4] step [of 13 4] step [of 17 2] by simp_all
  have "sub bs 0 4 @ [bs ! 4] = take 4 bs @ sub bs 4 1"
    using assms(2) Cons_nth_drop_Suc [of 4 bs, symmetric] by (simp add: sub_def)
  then have first: "sub bs 0 4 @ [bs ! 4] = take 5 bs" by (simp only: steps)
  have "((((sub bs 0 4 @ [bs ! 4]) @ sub bs 5 4) @ sub bs 9 4) @ sub bs 13 4) @ sub bs 17 2 = bs"
    by (simp only: first steps)
  then have "sub bs 0 4 @ [bs ! 4] @ sub bs 5 4 @ sub bs 9 4 @ sub bs 13 4 @ sub bs 17 2 = bs"
    by simp
  then show ?thesis
    by (simp add: h header_enc_def back4 back2)
qed

lemma ReadFull_OkD:
  "ReadFull (d, k) n = (Ok bs, f) \<Longrightarrow> bs = take n (drop k d) \<and> f = (d, k + n) \<and> length bs = n \<and>
   n \<le> length d - k"
  by (auto simp: ReadFull_def Let_def split: if_splits)

lemma take_drop_split: "take a (drop k d) @ take b (drop (k + a) d) = take (a + b) (drop k d)"
  by (simp add: take_add add.commute)

text \<open>Whatever the reader accepts is a well-formed event at the current offset, with a correct
  length field, and with a correct checksum when checksums are on.\<close>

lemma crc_tail:
  assumes "crc32 (hdr @ take (length body - 4) body) = le_word (drop (length body - 4) body)" "4 \<le> length body"
  shows "body = take (length body - 4) body @ le_bytes 4 (crc32 (hdr @ take (length body - 4) body))"
proof -
  have "le_bytes 4 (le_word (drop (length body - 4) body) :: 32 word) = drop (length body - 4) body"
    using assms(2) le_bytes_le_word [of "drop (length body - 4) body", where 'a = 32] by simp
  then show ?thesis by (simp add: assms(1))
qed

lemma ReadEvent_sound:
  assumes "ReadEvent r = (Ok (h, payload), r')" "br_file r = Some (d, k)"
  shows "event_sized (br_checksumCRC r) h payload \<and>
    take (unat (EventLen h)) (drop k d) = event_enc (br_checksumCRC r) h payload \<and>
    k + unat (EventLen h) \<le> length d \<and>
    r' = r\<lparr>br_file := Some (d, k + unat (EventLen h)), br_position := NextPos h\<rparr>"
proof -
  obtain hb f where hb: "ReadFull (d, k) 19 = (Ok hb, f)" and ph: "ParseEventHeader hb = Ok h"
    using assms by (auto simp: ReadEvent_def Let_def split: outcome.splits prod.splits if_splits)
  note hb' = ReadFull_OkD [OF hb]
  have hdr: "header_enc h = hb" using header_enc_parsed [OF ph] hb' by simp
  have small: "\<not> EventLen h < word_of_nat 19"
    using assms hb ph by (auto simp: ReadEvent_def Let_def split: outcome.splits prod.splits if_splits)
  let ?n = "unat (EventLen h - word_of_nat 19)"
  obtain body f' where body: "ReadFull f ?n = (Ok body, f')"
    using assms hb ph small by (auto simp: ReadEvent_def Let_def split: outcome.splits prod.splits if_splits)
  note body' = ReadFull_OkD [of d "k + 19" ?n body f']
  have f: "f = (d, k + 19)" using hb' by simp
  with body body' have b: "body = take ?n (drop (k + 19) d)" "f' = (d, k + 19 + ?n)" "length body = ?n"
    "?n \<le> length d - (k + 19)" by simp_all
  have n: "19 + ?n = unat (EventLen h)"
    using small by (simp add: unat_sub_if_size word_less_nat_alt)
  have hk: "19 \<le> length d - k" "hb = take 19 (drop k d)" using hb' by simp_all
  have "take (19 + ?n) (drop k d) = header_enc h @ body"
    using take_drop_split [of 19 k d ?n] b(1) hk(2) by (simp only: hdr)
  then have whole: "take (unat (EventLen h)) (drop k d) = header_enc h @ body" by (simp only: n)
  have inside: "k + unat (EventLen h) \<le> length d" using b(4) hk(1) n by linarith
  show ?thesis
  proof (cases "br_checksumCRC r")
    case False
    with assms hb ph small body have "payload = body" "r' = r\<lparr>br_file := Some f', br_position := NextPos h\<rparr>"
      by (auto simp: ReadEvent_def Let_def split: outcome.splits prod.splits if_splits)
    with False whole inside b n show ?thesis
      by (simp add: event_enc_def event_sized_def add.assoc)
  next
    case True
    let ?p = "take (length body - 4) body"
    from True assms hb ph small body have pay: "payload = ?p"
      and r': "r' = r\<lparr>br_file := Some f', br_position := NextPos h\<rparr>"
      and len: "\<not> EventLen h - word_of_nat 19 < 4"
      and crc: "crc32 (hb @ ?p) = le_word (drop (length body - 4) body)"
      by (auto simp: ReadEvent_def Let_def split: outcome.splits prod.splits if_splits)
    have four: "4 \<le> length body" using len b(3) by (simp add: word_less_nat_alt)
    then have "body = payload @ le_bytes 4 (crc32 (header_enc h @ payload))"
      using crc_tail [OF crc] by (simp add: pay hdr)
    then have enc: "header_enc h @ body = event_enc True h payload"
      by (simp add: event_enc_def)
    moreover have "length (header_enc h @ body) = unat (EventLen h)" using b(3) n by simp
    ultimately show ?thesis
      using True whole inside r' b n by (simp add: event_sized_def add.assoc)
  qed
qed

text \<open>A read that fails leaves a reader that is still inside its file; a read that succeeds
  consumes at least a header.\<close>

lemma ReadEvent_progress:
  assumes "ReadEvent r = (Ok (h, payload), r')" "br_file r = Some (d, k)"
  shows "\<exists>k'. br_file r' = Some (d, k') \<and> k + 19 \<le> k' \<and> k' \<le> length d"
proof -
  have "19 \<le> unat (EventLen h)"
    using ReadEvent_sound [OF assms] by (auto simp: event_sized_def event_enc_def)
  with ReadEvent_sound [OF assms] show ?thesis by auto
qed

text \<open>A file that ends inside a header reads as the end of the file, without an error.\<close>

lemma ReadEvent_truncated_header:
  "br_file r = Some (d, k) \<Longrightarrow> length d - k < 19 \<Longrightarrow> fst (ReadEvent r) = Err EOF"
  by (auto simp: ReadEvent_def ReadFull_def Let_def)

lemma ReadEvent_no_Panic: "fst (ReadEvent r) \<noteq> Panic"
proof -
  have "fst (ReadFull f n) \<noteq> Panic" for f n by (simp add: ReadFull_def Let_def)
  moreover have "ParseEventHeader bs \<noteq> Panic" for bs by (simp add: ParseEventHeader_def)
  ultimately show ?thesis
    by (auto simp: ReadEvent_def Let_def prod_eq_iff split: option.splits outcome.splits prod.splits)
qed

subsection \<open>Properties\<close>

text \<open>Reading an event the server wrote, with or without checksums, gives its header and its
  payload, moves the file over exactly the event and takes the position from the header.\<close>

theorem ReadEvent_roundtrip:
  assumes "br_file r = Some (pre @ event_enc (br_checksumCRC r) h payload @ post, length pre)"
    and "event_sized (br_checksumCRC r) h payload"
  shows "ReadEvent r = (Ok (h, payload), r\<lparr>br_file := Some
      (pre @ event_enc (br_checksumCRC r) h payload @ post, length pre + unat (EventLen h)),
      br_position := NextPos h\<rparr>)"
  by (rule ReadEvent_enc [OF assms])

definition xid_header :: event_header where
  "xid_header = \<lparr>Timestamp = 1000, Type = XidEvent, ServerID = 1, EventLen = 31, NextPos = 35, Flags = 0\<rparr>"

definition xid_reader :: "bytes \<Rightarrow> binlog_reader" where
  "xid_reader d = \<lparr>br_file = Some (d, 4), br_path = ''bin.1'', br_position = 4, br_checksumCRC = True\<rparr>"

lemma ReadEvent_roundtrip_witness:
  "fst (ReadEvent (xid_reader (BinlogMagic @ event_enc True xid_header [1, 2, 3, 4, 5, 6, 7, 8] @ [9]))) =
    Ok (xid_header, [1, 2, 3, 4, 5, 6, 7, 8])"
proof -
  let ?r = "xid_reader (BinlogMagic @ event_enc True xid_header [1, 2, 3, 4, 5, 6, 7, 8] @ [9])"
  have "br_file ?r = Some (BinlogMagic @ event_enc (br_checksumCRC ?r) xid_header [1, 2, 3, 4, 5, 6, 7, 8] @ [9],
      length BinlogMagic)"
    by (simp add: xid_reader_def BinlogMagic_def)
  moreover have "event_sized (br_checksumCRC ?r) xid_header [1, 2, 3, 4, 5, 6, 7, 8]"
    by (simp add: event_sized_def event_enc_def xid_reader_def xid_header_def)
  ultimately show ?thesis by (simp only: ReadEvent_roundtrip fst_conv)
qed

text \<open>C16. Whatever the reader accepts is a well-formed event at its offset: the bytes consumed are the
  encoding of the header and payload returned, the length field counts them, and with checksums
  on the trailing CRC32 is that of the header and the payload. Corrupt or truncated events are
  never returned.\<close>

theorem ReadEvent_accepts_only_events:
  assumes "ReadEvent r = (Ok (h, payload), r')" "br_file r = Some (d, k)"
  shows "event_sized (br_checksumCRC r) h payload \<and>
    take (unat (EventLen h)) (drop k d) = event_enc (br_checksumCRC r) h payload \<and>
    k + unat (EventLen h) \<le> length d \<and>
    r' = r\<lparr>br_file := Some (d, k + unat (EventLen h)), br_position := NextPos h\<rparr>"
  by (rule ReadEvent_sound [OF assms])

lemma ReadEvent_accepts_only_events_witness:
  "event_sized True xid_header [1, 2, 3, 4, 5, 6, 7, 8]"
proof -
  let ?d = "BinlogMagic @ event_enc True xid_header [1, 2, 3, 4, 5, 6, 7, 8] @ [9]"
  let ?r = "xid_reader ?d"
  have f: "br_file ?r = Some (BinlogMagic @ event_enc (br_checksumCRC ?r) xid_header [1, 2, 3, 4, 5, 6, 7, 8] @ [9],
      length BinlogMagic)"
    by (simp add: xid_reader_def BinlogMagic_def)
  have "event_sized (br_checksumCRC ?r) xid_header [1, 2, 3, 4, 5, 6, 7, 8]"
    by (simp add: event_sized_def event_enc_def xid_reader_def xid_header_def)
  from ReadEvent_accepts_only_events [OF ReadEvent_enc [OF f this] f] show ?thesis
    by (simp add: xid_reader_def)
qed

end
