(* ===== verification/Ddl.thy ===== *)
theory Ddl
  imports Go_Strings
begin

section \<open>DDL detection\<close>

text \<open>
  The DDL helpers of \<^verbatim>\<open>internal/parser/parser.go\<close>: recognising a DDL statement and naming the
  object it changes. \<open>uni\<close> is the Unicode upper-casing of a string that is not ASCII.
\<close>

definition ddlKeywords :: "string list" where
  "ddlKeywords = [''ALTER '', ''CREATE '', ''DROP '', ''TRUNCATE '', ''RENAME '']"

definition ddlPrefixes :: "(string \<times> string) list" where
  "ddlPrefixes = [(''ALTER TABLE '', ''TABLE''), (''ALTER DATABASE '', ''DATABASE''),
     (''ALTER SCHEMA '', ''DATABASE''), (''CREATE TABLE '', ''TABLE''), (''CREATE DATABASE '', ''DATABASE''),
     (''CREATE SCHEMA '', ''DATABASE''), (''DROP TABLE '', ''TABLE''), (''DROP DATABASE '', ''DATABASE''),
     (''DROP SCHEMA '', ''DATABASE''), (''TRUNCATE TABLE '', ''TABLE''), (''TRUNCATE '', ''TABLE''),
     (''RENAME TABLE '', ''TABLE''), (''ALTER '', ''TABLE''), (''CREATE '', ''TABLE''), (''DROP '', ''TABLE'')]"

definition isDDL :: "(string \<Rightarrow> string) \<Rightarrow> string \<Rightarrow> bool" where
  "isDDL uni sql = list_ex (HasPrefix (ToUpper uni (TrimSpace sql))) ddlKeywords"

text \<open>A backtick-quoted segment after its opening backtick: its text and what follows it. A
  doubled backtick is a literal one.\<close>

fun quoted_segment :: "string \<Rightarrow> string \<times> string" where
  "quoted_segment [] = ([], [])"
| "quoted_segment (c # s) =
     (if c = CHR 0x60 then
        (case s of
           d # s' \<Rightarrow> if d = CHR 0x60 then apfst (Cons c) (quoted_segment s') else ([], s)
         | [] \<Rightarrow> ([], []))
      else apfst (Cons c) (quoted_segment s))"

lemma length_quoted_segment: "length (snd (quoted_segment s)) \<le> length s"
proof (induction "length s" arbitrary: s rule: less_induct)
  case less
  show ?case
  proof (cases s)
    case (Cons c t)
    show ?thesis
    proof (cases t)
      case Nil
      then show ?thesis by (simp add: Cons)
    next
      case (Cons d u)
      obtain q where q: "q = quoted_segment t" by simp
      have le: "length (snd q) \<le> length t" "length (snd (quoted_segment u)) \<le> length u"
        using less [of t] less [of u] \<open>s = c # t\<close> Cons by (simp_all only: q) simp_all
      have "quoted_segment s = (if c = CHR 0x60 then
          (if d = CHR 0x60 then apfst (Cons c) (quoted_segment u) else ([], t)) else apfst (Cons c) q)"
        by (simp only: \<open>s = c # t\<close> quoted_segment.simps(2) q) (simp only: Cons list.case)
      with le show ?thesis by (simp add: \<open>s = c # t\<close> Cons)
    qed
  qed simp
qed

definition ident_stop :: "char \<Rightarrow> bool" where
  "ident_stop c \<longleftrightarrow> c = CHR '' '' \<or> c = CHR 0x09 \<or> c = CHR '','' \<or> c = CHR ''('' \<or> c = CHR '')'' \<or> c = CHR '';''"

function ident_scan :: "string \<Rightarrow> string" where
  "ident_scan [] = []"
| "ident_scan (c # s) =
     (if c = CHR 0x60 then fst (quoted_segment s) @ ident_scan (snd (quoted_segment s))
      else if ident_stop c then []
      else c # ident_scan s)"
  by pat_completeness auto
termination
  by (relation "measure length") (auto simp: less_Suc_eq_le length_quoted_segment)

definition extractIdentifier :: "string \<Rightarrow> string" where
  "extractIdentifier s = (let s = TrimSpace s in if s = [] then [] else ident_scan s)"

definition extractDDLInfo :: "(string \<Rightarrow> string) \<Rightarrow> string \<Rightarrow> string \<Rightarrow> (string \<times> string) outcome" where
  "extractDDLInfo uni sql currentDB =
     (let upper = ToUpper uni (TrimSpace sql) in
      case find (\<lambda>(kw, _). Contains upper kw) ddlPrefixes of
        None \<Rightarrow> Ok ([], [])
      | Some (matchedKeyword, objType) \<Rightarrow>
        (case Index (ToUpper uni sql) matchedKeyword of
           None \<Rightarrow> Ok (objType, [])
         | Some idx \<Rightarrow>
           bindo (go_slice sql (int idx + int (length matchedKeyword)) (int (length sql))) (\<lambda>rest.
             let name = extractIdentifier (TrimSpace rest) in
             Ok (objType,
               if name = [] then []
               else if Contains name ''.'' then name
               else if objType = ''TABLE'' \<and> currentDB \<noteq> [] then currentDB @ ''.'' @ name
               else name))))"

subsection \<open>Correctness\<close>

lemma length_ToUpper_ascii: "is_ascii s \<Longrightarrow> length (ToUpper uni s) = length s"
  by (simp add: ToUpper_def)

lemma extractDDLInfo_no_Panic:
  assumes "length (ToUpper uni sql) \<le> length sql"
  shows "extractDDLInfo uni sql db \<noteq> Panic"
proof -
  have "i + length kw \<le> length sql" if "Index (ToUpper uni sql) kw = Some i" for kw i
    using Index_bound [OF that] assms by simp
  then show ?thesis
    by (auto simp: extractDDLInfo_def go_slice_def Let_def bindo_Panic_iff split: option.splits)
      (metis of_nat_add of_nat_le_iff)
qed

text \<open>Quoting an identifier and scanning it gives it back.\<close>

definition quote_ident :: "string \<Rightarrow> string" where
  "quote_ident s = CHR 0x60 # concat (map (\<lambda>c. if c = CHR 0x60 then [c, c] else [c]) s) @ [CHR 0x60]"

lemma quoted_segment_quote:
  "(case rest of c # _ \<Rightarrow> c \<noteq> CHR 0x60 | [] \<Rightarrow> True) \<Longrightarrow>
   quoted_segment (concat (map (\<lambda>c. if c = CHR 0x60 then [c, c] else [c]) s) @ CHR 0x60 # rest) = (s, rest)"
  by (induction s) (auto split: list.splits)

lemma ident_scan_quoted:
  "(case rest of c # _ \<Rightarrow> ident_stop c | [] \<Rightarrow> True) \<Longrightarrow> ident_scan (quote_ident s @ rest) = s"
proof -
  assume r: "case rest of c # _ \<Rightarrow> ident_stop c | [] \<Rightarrow> True"
  then have "case rest of c # _ \<Rightarrow> c \<noteq> CHR 0x60 | [] \<Rightarrow> True"
    by (auto simp: ident_stop_def split: list.splits)
  from quoted_segment_quote [OF this, of s] r show ?thesis
    by (auto simp: quote_ident_def ident_stop_def split: list.splits)
qed

lemma ident_scan_qualified:
  "(case rest of c # _ \<Rightarrow> ident_stop c | [] \<Rightarrow> True) \<Longrightarrow>
   ident_scan (quote_ident db @ ''.'' @ quote_ident t @ rest) = db @ ''.'' @ t"
proof -
  assume r: "case rest of c # _ \<Rightarrow> ident_stop c | [] \<Rightarrow> True"
  have "quoted_segment (concat (map (\<lambda>c. if c = CHR 0x60 then [c, c] else [c]) db) @ CHR 0x60 #
      ''.'' @ quote_ident t @ rest) = (db, ''.'' @ quote_ident t @ rest)"
    by (rule quoted_segment_quote) simp
  then show ?thesis
    using ident_scan_quoted [OF r, of t] by (simp add: quote_ident_def ident_stop_def)
qed

end
