(* ===== verification/Binlog_Parser.thy ===== *)
theory Binlog_Parser
  imports Binlog_Reader Rows_Correct Reverse Ddl
begin

section \<open>The binlog parser\<close>

text \<open>
  The model of \<^verbatim>\<open>internal/parser/parser.go\<close>: the loop over the events of a file, the dispatch
  on the event type, the conversion of parsed rows to row events with the table filter, and
  the loop over several files. The registry is one object shared by the parser and its row
  parser, so the state keeps it once. A result \<^const>\<open>None\<close> is a call that never returns
  (a row event without columns); the loop over the events itself always ends, because every
  event read consumes a part of the file.
\<close>

record ddl_event =
  ddl_Timestamp :: go_time
  ddl_Statement :: string
  ddl_ObjectType :: string
  ddl_ObjectName :: string
  ddl_Position :: "32 word"

record parse_options =
  po_StartTime :: go_time
  po_EndTime :: go_time
  po_TargetTable :: string

record binlog_parser =
  bp_reader :: binlog_reader
  bp_reg :: table_registry
  bp_currentTableID :: "64 word"
  bp_events :: "row_event list"
  bp_checksumEnabled :: bool
  bp_skipChecksum :: bool
  bp_ddlEvents :: "ddl_event list"
  bp_opts :: parse_options

definition NewBinlogParser :: binlog_parser where
  "NewBinlogParser = \<lparr>bp_reader = NewBinlogReader, bp_reg = NewTableMapRegistry, bp_currentTableID = 0,
     bp_events = [], bp_checksumEnabled = False, bp_skipChecksum = False, bp_ddlEvents = [],
     bp_opts = \<lparr>po_StartTime = zero_time, po_EndTime = zero_time, po_TargetTable = []\<rparr>\<rparr>"

text \<open>The row parser of the parser, with the shared registry.\<close>

definition bp_rp :: "binlog_parser \<Rightarrow> row_event_parser" where
  "bp_rp p = \<lparr>rp_registry = Some (bp_reg p), rp_currentTableID = bp_currentTableID p\<rparr>"

definition Parser_Close :: "binlog_parser \<Rightarrow> binlog_parser" where
  "Parser_Close p = p\<lparr>bp_reg := NewTableMapRegistry, bp_events := [], bp_checksumEnabled := False,
     bp_reader := Reader_Close (bp_reader p)\<rparr>"

definition SetSkipChecksum :: "bool \<Rightarrow> binlog_parser \<Rightarrow> binlog_parser" where
  "SetSkipChecksum skip p = p\<lparr>bp_skipChecksum := skip\<rparr>"

subsection \<open>Handlers\<close>

definition event_time :: "event_header \<Rightarrow> go_time" where
  "event_time hdr = Unix (int (unat (Timestamp hdr))) 0"

definition handleFormatDescriptionEvent :: "bytes \<Rightarrow> binlog_parser \<Rightarrow> unit outcome \<times> binlog_parser" where
  "handleFormatDescriptionEvent payload p =
     (if length payload < 2 + 50 + 4 + 1 then
        (Err (Errorf (''FormatDescriptionEvent payload too short: '' @ show_nat (length payload) @ '' bytes'')), p)
      else if length payload > 57 + 35 \<and> payload ! (length payload - 1) = 1 \<and> \<not> bp_skipChecksum p then
        (Ok (), p\<lparr>bp_checksumEnabled := True, bp_reader := EnableChecksum (bp_reader p)\<rparr>)
      else (Ok (), p))"

definition handleTableMapEvent :: "bytes \<Rightarrow> binlog_parser \<Rightarrow> unit outcome \<times> binlog_parser" where
  "handleTableMapEvent payload p =
     (case ParseTableMap payload of
        Err e \<Rightarrow> (Err (Wrapf ''parse TableMap'' e), p)
      | Panic \<Rightarrow> (Panic, p)
      | Ok tm \<Rightarrow> (Ok (), p\<lparr>bp_reg := Registry_Set tm (bp_reg p)\<rparr>))"

text \<open>\<^verbatim>\<open>extractPrimaryKey\<close> always gives nil.\<close>

definition extractPrimaryKey :: "row \<Rightarrow> row option" where
  "extractPrimaryKey vals = None"

definition row_to_event :: "row_event_type \<Rightarrow> string \<Rightarrow> string \<Rightarrow> go_time \<Rightarrow> row_data \<Rightarrow> row_event" where
  "row_to_event t db tbl ts r =
     \<lparr>re_Type = t, re_Database = db, re_Table = tbl, re_Timestamp = ts,
      re_Before = rd_Before r, re_After = rd_After r,
      re_PrimaryKey = (case rd_Before r of Some b \<Rightarrow> extractPrimaryKey b
        | None \<Rightarrow> (case rd_After r of Some a \<Rightarrow> extractPrimaryKey a | None \<Rightarrow> None))\<rparr>"

definition convertToRowEvents :: "event_header \<Rightarrow> row_event_data \<Rightarrow> row_event_type \<Rightarrow> binlog_parser \<Rightarrow>
    binlog_parser" where
  "convertToRowEvents hdr data t p =
     (let tm = Registry_Get (bp_reg p) (red_TableID data);
          dbName = (case tm of Some m \<Rightarrow> tm_Database m | None \<Rightarrow> []);
          tblName = (case tm of Some m \<Rightarrow> tm_Table m | None \<Rightarrow> [])
      in if po_TargetTable (bp_opts p) \<noteq> [] \<and> dbName @ ''.'' @ tblName \<noteq> po_TargetTable (bp_opts p) then p
         else p\<lparr>bp_events := bp_events p @ map (row_to_event t dbName tblName (event_time hdr)) (red_Rows data)\<rparr>)"

text \<open>The three row handlers differ in the parser they call and the event type they record.\<close>

definition handleRows :: "event_header \<Rightarrow> row_event_type \<Rightarrow> row_event_data outcome option \<times> row_event_parser \<Rightarrow>
    binlog_parser \<Rightarrow> (unit outcome \<times> binlog_parser) option" where
  "handleRows hdr t r p =
     (let p = p\<lparr>bp_currentTableID := rp_currentTableID (snd r)\<rparr> in
      case fst r of
        None \<Rightarrow> None
      | Some (Err e) \<Rightarrow> Some (Err e, p)
      | Some Panic \<Rightarrow> Some (Panic, p)
      | Some (Ok data) \<Rightarrow> Some (Ok (), convertToRowEvents hdr data t p))"

definition handleWriteRowsEvent :: "event_header \<Rightarrow> bytes \<Rightarrow> bool \<Rightarrow> binlog_parser \<Rightarrow>
    (unit outcome \<times> binlog_parser) option" where
  "handleWriteRowsEvent hdr payload v2 p =
     handleRows hdr InsertEvent (ParseWriteRowsEvent (bp_rp p) payload v2) p"

definition handleDeleteRowsEvent :: "event_header \<Rightarrow> bytes \<Rightarrow> bool \<Rightarrow> binlog_parser \<Rightarrow>
    (unit outcome \<times> binlog_parser) option" where
  "handleDeleteRowsEvent hdr payload v2 p =
     handleRows hdr DeleteEvent (ParseDeleteRowsEvent (bp_rp p) payload v2) p"

definition handleUpdateRowsEvent :: "event_header \<Rightarrow> bytes \<Rightarrow> bool \<Rightarrow> binlog_parser \<Rightarrow>
    (unit outcome \<times> binlog_parser) option" where
  "handleUpdateRowsEvent hdr payload v2 p =
     handleRows hdr UpdateEvent (ParseUpdateRowsEvent (bp_rp p) payload v2) p"

definition handleRotateEvent :: "bytes \<Rightarrow> binlog_parser \<Rightarrow> unit outcome \<times> binlog_parser" where
  "handleRotateEvent payload p =
     (if length payload < 8 then
        (Err (Errorf (''RotateEvent payload too short: '' @ show_nat (length payload) @ '' bytes'')), p)
      else (Ok (), p))"

definition handleQueryEvent :: "(string \<Rightarrow> string) \<Rightarrow> event_header \<Rightarrow> bytes \<Rightarrow> binlog_parser \<Rightarrow>
    unit outcome \<times> binlog_parser" where
  "handleQueryEvent uni hdr payload p =
     (if length payload < 13 then (Ok (), p)
      else let dbLen = unat (payload ! 8);
               statusVarsLen = unat (le_word (sub payload 11 2) :: 16 word);
               pos = 13 + statusVarsLen
      in if pos + dbLen + 1 > length payload then (Ok (), p)
         else let dbName = string_of_bytes (sub payload pos dbLen);
                  sqlText = string_of_bytes (drop (pos + dbLen + 1) payload)
         in if \<not> isDDL uni sqlText then (Ok (), p)
            else (case extractDDLInfo uni sqlText dbName of
                Err e \<Rightarrow> (Err e, p)
              | Panic \<Rightarrow> (Panic, p)
              | Ok (objType, objName) \<Rightarrow>
                  (Ok (), p\<lparr>bp_ddlEvents := bp_ddlEvents p @
                     [\<lparr>ddl_Timestamp = event_time hdr, ddl_Statement = sqlText, ddl_ObjectType = objType,
                       ddl_ObjectName = objName, ddl_Position = NextPos hdr - EventLen hdr\<rparr>]\<rparr>)))"

definition dispatch :: "(string \<Rightarrow> string) \<Rightarrow> event_header \<Rightarrow> bytes \<Rightarrow> binlog_parser \<Rightarrow>
    (unit outcome \<times> binlog_parser) option" where
  "dispatch uni hdr payload p =
     (let t = Type hdr in
      if t = FormatDescriptionEvent then Some (handleFormatDescriptionEvent payload p)
      else if t = TableMapEvent then Some (handleTableMapEvent payload p)
      else if t = WriteRowsEventV1 then handleWriteRowsEvent hdr payload False p
      else if t = WriteRowsEventV2 then handleWriteRowsEvent hdr payload True p
      else if t = UpdateRowsEventV1 then handleUpdateRowsEvent hdr payload False p
      else if t = UpdateRowsEventV2 then handleUpdateRowsEvent hdr payload True p
      else if t = DeleteRowsEventV1 then handleDeleteRowsEvent hdr payload False p
      else if t = DeleteRowsEventV2 then handleDeleteRowsEvent hdr payload True p
      else if t = RotateEvent then Some (handleRotateEvent payload p)
      else if t = XidEvent then Some (Ok (), p)
      else if t = QueryEvent then Some (handleQueryEvent uni hdr payload p)
      else Some (Ok (), p))"

subsection \<open>The loop over the events\<close>

definition remaining :: "binlog_parser \<Rightarrow> nat" where
  "remaining p = (case br_file (bp_reader p) of None \<Rightarrow> 0 | Some (d, k) \<Rightarrow> length d - k)"

lemma handler_file [simp]:
  "br_file (bp_reader (snd (handleFormatDescriptionEvent payload p))) = br_file (bp_reader p)"
  "br_file (bp_reader (snd (handleTableMapEvent payload p))) = br_file (bp_reader p)"
  "br_file (bp_reader (snd (handleRotateEvent payload p))) = br_file (bp_reader p)"
  "br_file (bp_reader (snd (handleQueryEvent uni hdr payload p))) = br_file (bp_reader p)"
  "br_file (bp_reader (convertToRowEvents hdr data t p)) = br_file (bp_reader p)"
  by (auto simp: handleFormatDescriptionEvent_def EnableChecksum_def handleTableMapEvent_def
      handleRotateEvent_def handleQueryEvent_def convertToRowEvents_def Let_def split: outcome.splits prod.splits)

lemma handleRows_file: "handleRows hdr t r p = Some (o', p') \<Longrightarrow> br_file (bp_reader p') = br_file (bp_reader p)"
  by (auto simp: handleRows_def Let_def split: option.splits outcome.splits)

lemma dispatch_file:
  "dispatch uni hdr payload p = Some (o', p') \<Longrightarrow> br_file (bp_reader p') = br_file (bp_reader p)"
  unfolding dispatch_def handleWriteRowsEvent_def handleUpdateRowsEvent_def handleDeleteRowsEvent_def Let_def
  by (auto split: if_splits dest: handleRows_file) (metis handler_file snd_conv)+

text \<open>The checks on the event's time before it is dispatched.\<close>

definition before_start :: "parse_options \<Rightarrow> event_header \<Rightarrow> bool" where
  "before_start opts hdr \<longleftrightarrow>
     \<not> IsZero (po_StartTime opts) \<and> Type hdr \<noteq> FormatDescriptionEvent \<and> event_time hdr < po_StartTime opts"

definition after_end :: "parse_options \<Rightarrow> event_header \<Rightarrow> bool" where
  "after_end opts hdr \<longleftrightarrow> \<not> IsZero (po_EndTime opts) \<and> po_EndTime opts < event_time hdr"

function parse_loop :: "(string \<Rightarrow> string) \<Rightarrow> binlog_parser \<Rightarrow> (unit outcome \<times> binlog_parser) option" where
  "parse_loop uni p =
     (case ReadEvent (bp_reader p) of
        (Err e, r) \<Rightarrow>
          (let p' = p\<lparr>bp_reader := r\<rparr> in
           if e = EOF then Some (Ok (), p')
           else Some (Err (Wrapf (''read event at position '' @ show_nat (unat (br_position r))) e), p'))
      | (Panic, r) \<Rightarrow> Some (Panic, p\<lparr>bp_reader := r\<rparr>)
      | (Ok (hdr, payload), r) \<Rightarrow>
          (let p' = p\<lparr>bp_reader := r\<rparr> in
           if before_start (bp_opts p) hdr then parse_loop uni p'
           else if after_end (bp_opts p) hdr then Some (Ok (), p')
           else (case dispatch uni hdr payload p' of
               None \<Rightarrow> None
             | Some (Panic, p'') \<Rightarrow> Some (Panic, p'')
             | Some (Ok _, p'') \<Rightarrow> parse_loop uni p''
             | Some (Err e, p'') \<Rightarrow> parse_loop uni p'')))"
  by pat_completeness auto

lemma ReadEvent_remaining:
  assumes "ReadEvent (bp_reader p) = (Ok (hdr, payload), r)" "br_file (bp_reader p') = br_file r"
  shows "remaining p' < remaining p"
proof -
  obtain d k where f: "br_file (bp_reader p) = Some (d, k)"
    using assms(1) by (auto simp: ReadEvent_def split: option.splits)
  from ReadEvent_progress [OF assms(1) f] assms(2) f show ?thesis
    by (auto simp: remaining_def)
qed

termination parse_loop
  by (relation "measure (\<lambda>(uni, p). remaining p)")
    (auto intro: ReadEvent_remaining [OF sym] dest!: dispatch_file)

declare parse_loop.simps [simp del]

definition Parse :: "(string \<Rightarrow> string) \<Rightarrow> binlog_parser \<Rightarrow> (unit outcome \<times> binlog_parser) option" where
  "Parse uni p =
     (if \<not> IsOpen (bp_reader p) then Some (Err (Errorf ''binlog not open''), p)
      else parse_loop uni (p\<lparr>bp_events := []\<rparr>))"

subsection \<open>Several files\<close>

definition files_result :: "row_event list \<Rightarrow> parse_result" where
  "files_result evs = \<lparr>pr_Events = evs, pr_TotalRows = int (length evs), pr_Errors = []\<rparr>"

definition reset_between :: "binlog_parser \<Rightarrow> binlog_parser" where
  "reset_between p = (Parser_Close p)\<lparr>bp_reg := NewTableMapRegistry, bp_checksumEnabled := False\<rparr>"

text \<open>The loop over the paths: the events so far, and the result with the error returned. The
  events that \<^verbatim>\<open>Parse\<close> returned together with an error are kept for a file that is not the
  last one, and dropped for the last.\<close>

fun parse_files :: "(string \<Rightarrow> string) \<Rightarrow> file_system \<Rightarrow> string list \<Rightarrow> row_event list \<Rightarrow> binlog_parser \<Rightarrow>
    ((parse_result \<times> unit outcome) \<times> binlog_parser) option" where
  "parse_files uni fs [] evs p = Some ((files_result evs, Ok ()), p)"
| "parse_files uni fs (path # paths) evs p =
     (case Reader_Open fs path (bp_reader p) of
        (Err e, r) \<Rightarrow> Some ((files_result evs, Err (Wrapf (''open file '' @ path) e)), p\<lparr>bp_reader := r\<rparr>)
      | (Panic, r) \<Rightarrow> Some ((files_result evs, Panic), p\<lparr>bp_reader := r\<rparr>)
      | (Ok _, r) \<Rightarrow>
        (case Parse uni (p\<lparr>bp_reader := r\<rparr>) of
           None \<Rightarrow> None
         | Some (Panic, p') \<Rightarrow> Some ((files_result evs, Panic), p')
         | Some (Err e, p') \<Rightarrow>
             if paths = [] then Some ((files_result evs, Err e), Parser_Close p')
             else parse_files uni fs paths (evs @ bp_events p') (reset_between p')
         | Some (Ok _, p') \<Rightarrow> parse_files uni fs paths (evs @ bp_events p') (reset_between p')))"

definition ParseFiles :: "(string \<Rightarrow> string) \<Rightarrow> file_system \<Rightarrow> string list \<Rightarrow> parse_options \<Rightarrow> binlog_parser \<Rightarrow>
    ((parse_result \<times> unit outcome) \<times> binlog_parser) option" where
  "ParseFiles uni fs paths opts p = parse_files uni fs paths [] (p\<lparr>bp_opts := opts, bp_ddlEvents := []\<rparr>)"

end
