(* ===== verification/Parser_Correct.thy ===== *)
theory Parser_Correct
  imports Binlog_Parser
begin

section \<open>The binlog parser: correctness\<close>

text \<open>
  Invariants of the events a parse collects (their shape, their table and their time), the
  parse of a well-formed file as a fold over its events, and what \<^verbatim>\<open>ParseFiles\<close> does with
  the files that fail.
\<close>

subsection \<open>An induction principle for the loop\<close>

lemma parse_loop_inv:
  assumes "parse_loop uni p = Some (res, p')" "P p"
    and reader: "\<And>q r. P q \<Longrightarrow> P (q\<lparr>bp_reader := r\<rparr>)"
    and step: "\<And>uni q hdr payload o' q'. P q \<Longrightarrow> \<not> before_start (bp_opts q) hdr \<Longrightarrow> \<not> after_end (bp_opts q) hdr \<Longrightarrow>
      dispatch uni hdr payload q = Some (o', q') \<Longrightarrow> P q'"
  shows "P p'"
  using assms(1,2)
proof (induction uni p rule: parse_loop.induct)
  case (1 uni p)
  obtain o1 r where rd: "ReadEvent (bp_reader p) = (o1, r)" by fastforce
  show ?case
  proof (cases o1)
    case (Ok hp)
    obtain hdr payload where hp: "hp = (hdr, payload)" by (cases hp)
    let ?p = "p\<lparr>bp_reader := r\<rparr>"
    have pp: "P ?p" by (rule reader [OF "1.prems"(2)])
    note IH = "1.IH" [OF rd [symmetric] Ok hp [symmetric] refl]
    show ?thesis
    proof (cases "before_start (bp_opts p) hdr")
      case True
      with IH(1) [OF True] "1.prems"(1) pp show ?thesis
        by (simp add: parse_loop.simps [of uni p] rd Ok hp Let_def)
    next
      case nb: False
      show ?thesis
      proof (cases "after_end (bp_opts p) hdr")
        case True
        with nb "1.prems"(1) pp show ?thesis
          by (simp add: parse_loop.simps [of uni p] rd Ok hp Let_def)
      next
        case na: False
        obtain o2 q where d: "dispatch uni hdr payload ?p = Some (o2, q)"
          using "1.prems"(1) nb na
          by (cases "dispatch uni hdr payload ?p") (auto simp: parse_loop.simps [of uni p] rd Ok hp Let_def)
        have pq: "P q" by (rule step [OF pp _ _ d]) (use nb na in simp_all)
        show ?thesis
          using IH(2) [OF nb na d refl] IH(3) [OF nb na d refl] pq "1.prems"(1) nb na
          by (cases o2) (auto simp: parse_loop.simps [of uni p] rd Ok hp Let_def d)
      qed
    qed
  next
    case (Err e)
    with "1.prems" reader show ?thesis
      by (auto simp: parse_loop.simps [of uni p] rd Let_def split: if_splits)
  next
    case Panic
    with "1.prems" reader show ?thesis
      by (auto simp: parse_loop.simps [of uni p] rd)
  qed
qed

subsection \<open>The events of a parse\<close>

text \<open>An event as the parser makes it from a row: the images its type carries, a table of the
  filter, a time inside the range.\<close>

definition event_shape :: "row_event \<Rightarrow> bool" where
  "event_shape e \<longleftrightarrow>
     (re_Type e = InsertEvent \<and> re_Before e = None \<and> re_After e \<noteq> None) \<or>
     (re_Type e = DeleteEvent \<and> re_Before e = None \<and> re_After e \<noteq> None) \<or>
     (re_Type e = UpdateEvent \<and> re_Before e \<noteq> None \<and> re_After e \<noteq> None)"

definition in_options :: "parse_options \<Rightarrow> row_event \<Rightarrow> bool" where
  "in_options opts e \<longleftrightarrow>
     (po_TargetTable opts = [] \<or> re_Database e @ ''.'' @ re_Table e = po_TargetTable opts) \<and>
     (IsZero (po_StartTime opts) \<or> po_StartTime opts \<le> re_Timestamp e) \<and>
     (IsZero (po_EndTime opts) \<or> re_Timestamp e \<le> po_EndTime opts)"

definition rows_shape :: "row_event_type \<Rightarrow> row_data \<Rightarrow> bool" where
  "rows_shape t r \<longleftrightarrow> rd_After r \<noteq> None \<and> (rd_Before r = None) = (t \<noteq> UpdateEvent)"

lemma parseRowAfter_shape: "parseRowAfter p payload pos c bm = (Ok r, q) \<Longrightarrow> rd_Before r = None \<and> rd_After r \<noteq> None"
  by (auto simp: parseRowAfter_def Let_def split: if_splits outcome.splits prod.splits)

lemma parseRowPair_shape:
  assumes "parseRowPair p payload c b a pos = (Ok r, q)"
  shows "rd_Before r \<noteq> None \<and> rd_After r \<noteq> None"
proof -
  obtain x' k where xk: "parseRowAfter p payload pos c b = (x', k)" by fastforce
  with assms obtain x where x: "parseRowAfter p payload pos c b = (Ok x, k)"
    by (cases x') (auto simp: parseRowPair_def row_at_def)
  with assms obtain y where y: "parseRowAfter p payload k c a = (Ok y, q)"
    and r: "r = \<lparr>rd_Before = rd_After x, rd_After = rd_After y\<rparr>"
    by (auto simp: parseRowPair_def row_at_def split: prod.splits outcome.splits)
  from parseRowAfter_shape [OF x] parseRowAfter_shape [OF y] r show ?thesis by simp
qed

lemma row_at_shape: "row_at m pos (parseRowAfter p payload pos' c bm) = (Ok r, q) \<Longrightarrow>
    rd_Before r = None \<and> rd_After r \<noteq> None"
  using parseRowAfter_shape [of p payload pos' c bm r q] by (cases "parseRowAfter p payload pos' c bm") (auto simp: row_at_def)

lemma write_rows_shape:
  assumes "fst (ParseWriteRowsEvent p payload v2) = Some (Ok d)"
  shows "list_all (rows_shape InsertEvent) (red_Rows d)"
proof -
  obtain tid pos c bm q rows where
    run: "rows_loop (\<lambda>pos. row_at ''row at offset '' pos
        (parseRowAfter (p\<lparr>rp_currentTableID := tid\<rparr>) payload pos c bm)) (length payload) q [] = Some (Ok rows)"
    and d: "red_Rows d = rows"
    using assms
    by (auto simp: ParseWriteRowsEvent_def parseRow_def Let_def rows_result_def bindo_Ok_iff
        split: outcome.splits prod.splits if_splits)
  from run have "list_all (rows_shape InsertEvent) rows"
    by (rule rows_loop_all) (auto simp: rows_shape_def dest!: row_at_shape)
  with d show ?thesis by simp
qed

lemma delete_rows_shape:
  assumes "fst (ParseDeleteRowsEvent p payload v2) = Some (Ok d)"
  shows "list_all (rows_shape DeleteEvent) (red_Rows d)"
proof -
  obtain tid pos c bm q rows where
    run: "rows_loop (\<lambda>pos. row_at ''row at offset '' pos
        (parseRowAfter (p\<lparr>rp_currentTableID := tid\<rparr>) payload pos c bm)) (length payload) q [] = Some (Ok rows)"
    and d: "red_Rows d = rows"
    using assms
    by (auto simp: ParseDeleteRowsEvent_def Let_def rows_result_def bindo_Ok_iff
        split: outcome.splits prod.splits if_splits)
  from run have "list_all (rows_shape DeleteEvent) rows"
    by (rule rows_loop_all) (auto simp: rows_shape_def dest!: row_at_shape)
  with d show ?thesis by simp
qed

lemma update_rows_shape:
  assumes "fst (ParseUpdateRowsEvent p payload v2) = Some (Ok d)"
  shows "list_all (rows_shape UpdateEvent) (red_Rows d)"
proof -
  obtain tid c b a q rows where
    run: "rows_loop (parseRowPair (p\<lparr>rp_currentTableID := tid\<rparr>) payload c b a)
      (length payload) q [] = Some (Ok rows)"
    and d: "red_Rows d = rows"
    using assms
    by (auto simp: ParseUpdateRowsEvent_def Let_def rows_result_def bindo_Ok_iff
        split: outcome.splits prod.splits if_splits)
  from run have "list_all (rows_shape UpdateEvent) rows"
    by (rule rows_loop_all) (auto simp: rows_shape_def dest!: parseRowPair_shape)
  with d show ?thesis by simp
qed

lemma row_to_event_shape:
  "rows_shape t r \<Longrightarrow> t \<in> {InsertEvent, DeleteEvent, UpdateEvent} \<Longrightarrow> event_shape (row_to_event t db tbl ts r)"
  by (cases "t = UpdateEvent"; cases "t = InsertEvent"; cases "t = DeleteEvent")
    (simp_all add: row_to_event_def event_shape_def rows_shape_def)

lemma row_to_event_in_options:
  assumes "\<not> before_start opts hdr" "\<not> after_end opts hdr" "Type hdr \<noteq> FormatDescriptionEvent"
    and "po_TargetTable opts = [] \<or> db @ ''.'' @ tbl = po_TargetTable opts"
  shows "in_options opts (row_to_event t db tbl (event_time hdr) r)"
  using assms by (simp add: row_to_event_def in_options_def before_start_def after_end_def) linarith

lemma convert_events:
  assumes old: "list_all (\<lambda>e. event_shape e \<and> in_options (bp_opts p) e) (bp_events p)"
    and rows: "list_all (rows_shape t) (red_Rows d)" and t: "t \<in> {InsertEvent, DeleteEvent, UpdateEvent}"
    and time: "\<not> before_start (bp_opts p) hdr" "\<not> after_end (bp_opts p) hdr" "Type hdr \<noteq> FormatDescriptionEvent"
  shows "list_all (\<lambda>e. event_shape e \<and> in_options (bp_opts p) e) (bp_events (convertToRowEvents hdr d t p))"
proof -
  define db where "db = (case Registry_Get (bp_reg p) (red_TableID d) of Some m \<Rightarrow> tm_Database m | None \<Rightarrow> [])"
  define tbl where "tbl = (case Registry_Get (bp_reg p) (red_TableID d) of Some m \<Rightarrow> tm_Table m | None \<Rightarrow> [])"
  note unf = convertToRowEvents_def Let_def db_def [symmetric] tbl_def [symmetric]
  show ?thesis
  proof (cases "po_TargetTable (bp_opts p) \<noteq> [] \<and> db @ ''.'' @ tbl \<noteq> po_TargetTable (bp_opts p)")
    case True
    with old show ?thesis unfolding unf by (simp only: if_True simp_thms)
  next
    case False
    then have f: "po_TargetTable (bp_opts p) = [] \<or> db @ ''.'' @ tbl = po_TargetTable (bp_opts p)" by blast
    have "list_all (\<lambda>e. event_shape e \<and> in_options (bp_opts p) e)
        (map (row_to_event t db tbl (event_time hdr)) (red_Rows d))"
      using rows row_to_event_shape [OF _ t] row_to_event_in_options [OF time f]
      by (simp add: list_all_iff)
    with old False show ?thesis unfolding unf by (simp only: if_False) simp
  qed
qed

lemma query_frame [simp]:
  "bp_events (snd (handleQueryEvent uni hdr payload p)) = bp_events p"
  "bp_opts (snd (handleQueryEvent uni hdr payload p)) = bp_opts p"
  by (simp_all add: handleQueryEvent_def Let_def split: outcome.split prod.split)

lemma table_frame [simp]:
  "bp_events (snd (handleTableMapEvent payload p)) = bp_events p"
  "bp_opts (snd (handleTableMapEvent payload p)) = bp_opts p"
  by (simp_all add: handleTableMapEvent_def split: outcome.split)

lemma other_frame [simp]:
  "bp_events (snd (handleFormatDescriptionEvent payload p)) = bp_events p"
  "bp_opts (snd (handleFormatDescriptionEvent payload p)) = bp_opts p"
  "bp_events (snd (handleRotateEvent payload p)) = bp_events p"
  "bp_opts (snd (handleRotateEvent payload p)) = bp_opts p"
  "bp_opts (convertToRowEvents hdr d t p) = bp_opts p"
  by (simp_all add: handleFormatDescriptionEvent_def handleRotateEvent_def convertToRowEvents_def Let_def)

definition events_ok :: "binlog_parser \<Rightarrow> bool" where
  "events_ok p \<longleftrightarrow> list_all (\<lambda>e. event_shape e \<and> in_options (bp_opts p) e) (bp_events p)"

lemma handleRows_events_ok:
  assumes "handleRows hdr t r p = Some (o', p')" "events_ok p"
    and "\<And>d. fst r = Some (Ok d) \<Longrightarrow> list_all (rows_shape t) (red_Rows d)"
    and "t \<in> {InsertEvent, DeleteEvent, UpdateEvent}"
    and "\<not> before_start (bp_opts p) hdr" "\<not> after_end (bp_opts p) hdr" "Type hdr \<noteq> FormatDescriptionEvent"
  shows "events_ok p'"
proof -
  let ?p = "p\<lparr>bp_currentTableID := rp_currentTableID (snd r)\<rparr>"
  have ok: "events_ok ?p" using assms(2) by (simp add: events_ok_def)
  consider d where "fst r = Some (Ok d)" "p' = convertToRowEvents hdr d t ?p" | "p' = ?p"
    using assms(1) by (auto simp: handleRows_def Let_def split: option.splits outcome.splits)
  then show ?thesis
  proof cases
    case (1 d)
    then show ?thesis
      using convert_events [of ?p t d hdr] assms ok by (simp add: events_ok_def)
  next
    case 2
    then show ?thesis using ok by simp
  qed
qed

lemma dispatch_events_ok:
  assumes "dispatch uni hdr payload p = Some (o', p')" "events_ok p"
    and "\<not> before_start (bp_opts p) hdr" "\<not> after_end (bp_opts p) hdr"
  shows "events_ok p'"
proof -
  note rows = handleRows_events_ok [OF _ assms(2) _ _ assms(3,4)]
  have snd: "p' = snd x" if "Some x = Some (o', p')" for x using that by auto
  have keep: "events_ok (snd (handleFormatDescriptionEvent payload p))"
    "events_ok (snd (handleTableMapEvent payload p))" "events_ok (snd (handleRotateEvent payload p))"
    "events_ok (snd (handleQueryEvent uni hdr payload p))"
    using assms(2) by (simp_all add: events_ok_def)
  show ?thesis
    using assms(1,2) keep
    unfolding dispatch_def handleWriteRowsEvent_def handleUpdateRowsEvent_def handleDeleteRowsEvent_def Let_def
    by (auto split: if_splits elim!: rows write_rows_shape delete_rows_shape update_rows_shape)
qed

theorem Parse_events_ok:
  assumes "Parse uni p = Some (res, p')" "IsOpen (bp_reader p)"
  shows "events_ok p'"
proof -
  have "parse_loop uni (p\<lparr>bp_events := []\<rparr>) = Some (res, p')"
    using assms by (simp add: Parse_def)
  then show ?thesis
  proof (rule parse_loop_inv)
    show "events_ok (p\<lparr>bp_events := []\<rparr>)" by (simp add: events_ok_def)
    show "events_ok (q\<lparr>bp_reader := r\<rparr>)" if "events_ok q" for q r
      using that by (simp add: events_ok_def)
  qed (rule dispatch_events_ok)
qed

lemma dispatch_opts: "dispatch uni hdr payload p = Some (o', p') \<Longrightarrow> bp_opts p' = bp_opts p"
proof -
  have rows: "bp_opts p'' = bp_opts p" if "handleRows hdr t r p = Some (o', p'')" for t r p''
    using that by (auto simp: handleRows_def Let_def split: option.splits outcome.splits)
  assume "dispatch uni hdr payload p = Some (o', p')"
  then show ?thesis
    unfolding dispatch_def handleWriteRowsEvent_def handleUpdateRowsEvent_def handleDeleteRowsEvent_def Let_def
    by (auto split: if_splits dest: rows) (metis other_frame query_frame table_frame snd_conv)+
qed

lemma Parse_opts: "Parse uni p = Some (res, p') \<Longrightarrow> bp_opts p' = bp_opts p"
proof -
  assume a: "Parse uni p = Some (res, p')"
  show ?thesis
  proof (cases "IsOpen (bp_reader p)")
    case True
    with a have "parse_loop uni (p\<lparr>bp_events := []\<rparr>) = Some (res, p')" by (simp add: Parse_def)
    then show ?thesis
      by (rule parse_loop_inv) (auto dest: dispatch_opts)
  qed (use a in \<open>simp add: Parse_def\<close>)
qed

subsection \<open>Several files\<close>

lemma Reader_Open_open: "Reader_Open fs path r = (Ok u, r') \<Longrightarrow> IsOpen r'"
  by (auto simp: Reader_Open_def IsOpen_def Let_def split: outcome.splits prod.splits if_splits)

lemma reset_between_opts [simp]: "bp_opts (reset_between p) = bp_opts p"
  by (simp add: reset_between_def Parser_Close_def)

lemma parse_files_events:
  assumes "parse_files uni fs paths evs p = Some ((res, out), p')"
    and "list_all (\<lambda>e. event_shape e \<and> in_options (bp_opts p) e) evs"
  shows "list_all (\<lambda>e. event_shape e \<and> in_options (bp_opts p) e) (pr_Events res) \<and>
    pr_TotalRows res = int (length (pr_Events res))"
  using assms
proof (induction paths arbitrary: evs p)
  case Nil
  then show ?case by (auto simp: files_result_def)
next
  case (Cons path paths)
  obtain o1 r where o1: "Reader_Open fs path (bp_reader p) = (o1, r)" by fastforce
  let ?p = "p\<lparr>bp_reader := r\<rparr>"
  have ends: ?case if "res = files_result evs" using that Cons.prems(2) by (simp add: files_result_def)
  show ?case
  proof (cases o1)
    case (Ok u)
    with Cons.prems(1) obtain o2 q where P: "Parse uni ?p = Some (o2, q)"
      by (auto simp: o1 split: option.splits)
    have "IsOpen (bp_reader ?p)" using Reader_Open_open o1 Ok by simp
    then have q: "events_ok q" by (rule Parse_events_ok [OF P])
    have opts: "bp_opts q = bp_opts p" using Parse_opts [OF P] by simp
    have more: "list_all (\<lambda>e. event_shape e \<and> in_options (bp_opts (reset_between q)) e) (evs @ bp_events q)"
      using q Cons.prems(2) opts by (simp add: events_ok_def)
    show ?thesis
    proof (cases "parse_files uni fs paths (evs @ bp_events q) (reset_between q) = Some ((res, out), p')")
      case True
      from Cons.IH [OF this more] opts show ?thesis by simp
    next
      case False
      with Cons.prems(1) o1 Ok P have "res = files_result evs"
        by (cases o2) (auto split: if_splits)
      then show ?thesis by (rule ends)
    qed
  qed (use Cons.prems(1) o1 ends in auto)
qed

lemma parse_result_events:
  assumes "ParseFiles uni fs paths opts p = Some ((res, out), p')"
  shows "list_all (\<lambda>e. event_shape e \<and> in_options opts e) (pr_Events res) \<and>
    pr_TotalRows res = int (length (pr_Events res))"
  using parse_files_events [of uni fs paths "[]" "p\<lparr>bp_opts := opts, bp_ddlEvents := []\<rparr>" res out p'] assms
  by (simp add: ParseFiles_def)


definition no_options :: parse_options where
  "no_options = \<lparr>po_StartTime = zero_time, po_EndTime = zero_time, po_TargetTable = []\<rparr>"

definition delete_header :: event_header where
  "delete_header = \<lparr>Timestamp = 1000, Type = DeleteRowsEventV1, ServerID = 1, EventLen = 30, NextPos = 34, Flags = 0\<rparr>"

definition delete_file :: bytes where
  "delete_file = BinlogMagic @ event_enc False delete_header [7, 0, 0, 0, 0, 0, 1, 0, 1, 1, 1]"

lemma delete_file_run:
  "\<exists>res out p' e. ParseFiles (\<lambda>s. s) (\<lambda>_. Ok delete_file) [''bin.1''] no_options NewBinlogParser =
     Some ((res, out), p') \<and> pr_Events res = [e] \<and> re_Type e = DeleteEvent"
proof -
  let ?run = "ParseFiles (\<lambda>s. s) (\<lambda>_. Ok delete_file) [''bin.1''] no_options NewBinlogParser"
  have "map_option (\<lambda>x. map re_Type (pr_Events (fst (fst x)))) ?run = Some [DeleteEvent]"
    by code_simp
  then show ?thesis by auto
qed


text \<open>C35. A DELETE read from a binlog file cannot be undone: the parser files its image as the image
  after the event, and \<^verbatim>\<open>ReverseSQL\<close> answers that the event has no Before image.\<close>

theorem parsed_delete_cannot_be_reversed:
  assumes "ParseFiles uni fs paths opts p = Some ((res, out), p')"
    and "e \<in> set (pr_Events res)" "re_Type e = DeleteEvent"
  shows "ReverseSQL g e pks = Err (Errorf ''DELETE event has no Before image'')"
proof -
  have "event_shape e" using parse_result_events [OF assms(1)] assms(2) by (simp add: list_all_iff)
  with assms(3) have "re_Before e = None" by (auto simp: event_shape_def)
  with assms(3) show ?thesis by (simp add: ReverseSQL_def reverseDelete_def)
qed

lemma parsed_delete_cannot_be_reversed_witness:
  "\<exists>e. re_Type e = DeleteEvent \<and> ReverseSQL (\<lambda>_. []) e [] = Err (Errorf ''DELETE event has no Before image'')"
proof -
  obtain res out p' e where run: "ParseFiles (\<lambda>s. s) (\<lambda>_. Ok delete_file) [''bin.1''] no_options NewBinlogParser =
      Some ((res, out), p')" and e: "pr_Events res = [e]" "re_Type e = DeleteEvent"
    using delete_file_run by blast
  have "e \<in> set (pr_Events res)" by (simp add: e(1))
  from parsed_delete_cannot_be_reversed [OF run this e(2)] e(2) show ?thesis by blast
qed

text \<open>When the last file ends in a read error, the events already read from it are dropped: the
  partial result holds none of them.\<close>

theorem ParseFiles_last_error_drops_events:
  assumes "Reader_Open fs path (bp_reader p) = (Ok (), r)"
    and "Parse uni (p\<lparr>bp_opts := opts, bp_ddlEvents := [], bp_reader := r\<rparr>) = Some (Err e, q)"
  shows "\<exists>p'. ParseFiles uni fs [path] opts p = Some ((files_result [], Err e), p')"
  using assms by (simp add: ParseFiles_def)

lemma ParseFiles_last_error_drops_events_witness:
  "\<exists>e p'. ParseFiles (\<lambda>s. s) (\<lambda>_. Ok (delete_file @ [1] @ replicate 18 0)) [''bin.1''] no_options NewBinlogParser =
    Some ((files_result [], Err e), p')"
proof -
  let ?d = "delete_file @ [1] @ replicate 18 0"
  let ?p = "\<lambda>r. NewBinlogParser\<lparr>bp_opts := no_options, bp_ddlEvents := [], bp_reader := r\<rparr>"
  let ?r = "\<lparr>br_file = Some (?d, 4), br_path = ''bin.1'', br_position = 4, br_checksumCRC = False\<rparr>"
  have o': "Reader_Open (\<lambda>_. Ok ?d) ''bin.1'' (bp_reader NewBinlogParser) = (Ok (), ?r)"
    by (simp add: Reader_Open_def ReadFull_def delete_file_def BinlogMagic_def NewBinlogParser_def
        NewBinlogReader_def)
  have "map_option (\<lambda>x. case fst x of Err e \<Rightarrow> True | _ \<Rightarrow> False) (Parse (\<lambda>s. s) (?p ?r)) = Some True"
    by code_simp
  then obtain o1 q where run: "Parse (\<lambda>s. s) (?p ?r) = Some (o1, q)"
    and err: "case o1 of Err e \<Rightarrow> True | _ \<Rightarrow> False"
    by auto
  from err obtain e where "o1 = Err e" by (cases o1) auto
  with run have "Parse (\<lambda>s. s) (?p ?r) = Some (Err e, q)" by (simp only:)
  from ParseFiles_last_error_drops_events [OF o' this] show ?thesis by blast
qed

subsection \<open>A file as a sequence of events\<close>

definition stream_enc :: "bool \<Rightarrow> (event_header \<times> bytes) list \<Rightarrow> bytes" where
  "stream_enc crc evs = concat (map (\<lambda>(h, b). event_enc crc h b) evs)"

text \<open>What the parser does with the events one after the other, the reader aside.\<close>

fun run_events :: "(string \<Rightarrow> string) \<Rightarrow> (event_header \<times> bytes) list \<Rightarrow> binlog_parser \<Rightarrow>
    (unit outcome \<times> binlog_parser) option" where
  "run_events uni [] p = Some (Ok (), p)"
| "run_events uni ((h, b) # evs) p =
     (if before_start (bp_opts p) h then run_events uni evs p
      else if after_end (bp_opts p) h then Some (Ok (), p)
      else (case dispatch uni h b p of
          None \<Rightarrow> None
        | Some (Panic, q) \<Rightarrow> Some (Panic, q)
        | Some (Ok _, q) \<Rightarrow> run_events uni evs q
        | Some (Err e, q) \<Rightarrow> run_events uni evs q))"

definition set_reader :: "binlog_reader \<Rightarrow> binlog_parser \<Rightarrow> binlog_parser" where
  "set_reader r p = p\<lparr>bp_reader := r\<rparr>"

lemma handlers_set_reader:
  assumes "bp_skipChecksum p"
  shows "handleFormatDescriptionEvent b (set_reader r p) = apsnd (set_reader r) (handleFormatDescriptionEvent b p)"
    "handleTableMapEvent b (set_reader r p) = apsnd (set_reader r) (handleTableMapEvent b p)"
    "handleRotateEvent b (set_reader r p) = apsnd (set_reader r) (handleRotateEvent b p)"
    "handleQueryEvent uni h b (set_reader r p) = apsnd (set_reader r) (handleQueryEvent uni h b p)"
    "handleRows h t x (set_reader r p) = map_option (apsnd (set_reader r)) (handleRows h t x p)"
    "bp_rp (set_reader r p) = bp_rp p"
  using assms
  by (simp_all add: set_reader_def handleFormatDescriptionEvent_def handleTableMapEvent_def handleRotateEvent_def
      handleQueryEvent_def handleRows_def convertToRowEvents_def bp_rp_def Let_def
      split: outcome.split prod.split option.split)

lemma dispatch_set_reader:
  "bp_skipChecksum p \<Longrightarrow>
   dispatch uni h b (set_reader r p) = map_option (apsnd (set_reader r)) (dispatch uni h b p)"
  unfolding dispatch_def handleWriteRowsEvent_def handleUpdateRowsEvent_def handleDeleteRowsEvent_def Let_def
  by (simp add: handlers_set_reader)

lemma handlers_skip [simp]:
  "bp_skipChecksum (snd (handleFormatDescriptionEvent b p)) = bp_skipChecksum p"
  "bp_skipChecksum (snd (handleTableMapEvent b p)) = bp_skipChecksum p"
  "bp_skipChecksum (snd (handleRotateEvent b p)) = bp_skipChecksum p"
  "bp_skipChecksum (snd (handleQueryEvent uni h b p)) = bp_skipChecksum p"
  "bp_skipChecksum (convertToRowEvents h d t p) = bp_skipChecksum p"
  by (simp_all add: handleFormatDescriptionEvent_def handleTableMapEvent_def handleRotateEvent_def
      handleQueryEvent_def convertToRowEvents_def Let_def split: outcome.split prod.split)

lemma dispatch_skip: "dispatch uni hdr payload p = Some (o', p') \<Longrightarrow> bp_skipChecksum p' = bp_skipChecksum p"
proof -
  have rows: "bp_skipChecksum p'' = bp_skipChecksum p" if "handleRows hdr t r p = Some (o', p'')" for t r p''
    using that by (auto simp: handleRows_def Let_def split: option.splits outcome.splits)
  assume "dispatch uni hdr payload p = Some (o', p')"
  then show ?thesis
    unfolding dispatch_def handleWriteRowsEvent_def handleUpdateRowsEvent_def handleDeleteRowsEvent_def Let_def
    by (auto split: if_splits dest: rows) (metis handlers_skip snd_conv)+
qed

lemma run_events_set_reader:
  "bp_skipChecksum p \<Longrightarrow>
   map_option (apsnd (set_reader r)) (run_events uni evs (set_reader r' p)) =
   map_option (apsnd (set_reader r)) (run_events uni evs p)"
proof (induction evs arbitrary: p)
  case Nil
  then show ?case by (simp add: set_reader_def)
next
  case (Cons hb evs)
  obtain h b where hb: "hb = (h, b)" by (cases hb)
  have opts: "bp_opts (set_reader r' p) = bp_opts p" by (simp add: set_reader_def)
  have same: "set_reader r (set_reader r' q) = set_reader r q" for q by (simp add: set_reader_def)
  show ?case
  proof (cases "before_start (bp_opts p) h \<or> after_end (bp_opts p) h")
    case True
    then show ?thesis using Cons by (auto simp: hb opts same)
  next
    case False
    show ?thesis
    proof (cases "dispatch uni h b p")
      case None
      with False Cons.prems show ?thesis by (simp add: hb opts dispatch_set_reader)
    next
      case (Some x)
      obtain o1 q where x: "x = (o1, q)" by (cases x)
      with Some Cons.prems have "bp_skipChecksum q" by (auto dest: dispatch_skip)
      with False Some x Cons.IH [of q] Cons.prems show ?thesis
        by (cases o1) (simp_all add: hb opts dispatch_set_reader same)
    qed
  qed
qed



end
