(* ===== verification/Executor.thy ===== *)
theory Executor
  imports Go_Values "HOL-Library.Sublist"
begin

section \<open>The rollback executor\<close>

text \<open>
  The model of \<^verbatim>\<open>internal/rollback/executor.go\<close> and \<^verbatim>\<open>options.go\<close>. The
  database driver is outside the repository: it is the record of the four calls the executor
  makes, over a session \<open>'c\<close>. What the executor relies on is \<open>atomic_driver\<close>: statements take
  effect when their transaction commits, and only then.
\<close>

subsection \<open>The driver\<close>

record 'c tx_driver =
  tx_begin :: "'c \<Rightarrow> go_error option \<times> 'c"
  tx_exec :: "string \<Rightarrow> 'c \<Rightarrow> go_error option \<times> 'c"
  tx_commit :: "'c \<Rightarrow> go_error option \<times> 'c"
  tx_rollback :: "'c \<Rightarrow> 'c"

text \<open>\<open>comm\<close> reads the statements committed in a session and \<open>pend\<close> those of its open transaction.\<close>

definition atomic_driver :: "'c tx_driver \<Rightarrow> ('c \<Rightarrow> string list) \<Rightarrow> ('c \<Rightarrow> string list) \<Rightarrow> bool" where
  "atomic_driver drv comm pend \<longleftrightarrow>
     (\<forall>c r c'. tx_begin drv c = (r, c') \<longrightarrow> comm c' = comm c \<and> (r = None \<longrightarrow> pend c' = [])) \<and>
     (\<forall>s c r c'. tx_exec drv s c = (r, c') \<longrightarrow> comm c' = comm c \<and> (r = None \<longrightarrow> pend c' = pend c @ [s])) \<and>
     (\<forall>c r c'. tx_commit drv c = (r, c') \<longrightarrow> comm c' = (if r = None then comm c @ pend c else comm c)) \<and>
     (\<forall>c. comm (tx_rollback drv c) = comm c)"

subsection \<open>Errors\<close>

text \<open>\<^verbatim>\<open>errors.As\<close> with a MySQL error: the first one down the chain of wrapped errors.\<close>

fun as_mysql :: "go_error \<Rightarrow> (nat \<times> string) option" where
  "as_mysql (MySQLError n m) = Some (n, m)"
| "as_mysql (Wrapf _ e) = as_mysql e"
| "as_mysql _ = None"

definition isRetryableError :: "go_error \<Rightarrow> bool" where
  "isRetryableError e = (case as_mysql e of Some (n, _) \<Rightarrow> n = 1118 \<or> n = 1206 | None \<Rightarrow> False)"

text \<open>\<^verbatim>\<open>Error()\<close>; the text of a MySQL error is the driver's and is not used by the executor.\<close>

fun error_text :: "go_error \<Rightarrow> string" where
  "error_text EOF = ''EOF''"
| "error_text UnexpectedEOF = ''unexpected EOF''"
| "error_text (Errorf s) = s"
| "error_text (Wrapf s e) = s @ '': '' @ error_text e"
| "error_text (MySQLError n m) = ''Error '' @ show_nat n @ '': '' @ m"

subsection \<open>Options and results\<close>

text \<open>\<^verbatim>\<open>ExecOptions\<close>; of the callback \<^verbatim>\<open>OnBatch\<close> the model keeps whether it is set, and the
  executor returns the calls it makes.\<close>

record rb_options =
  ro_BatchSize :: int
  ro_MaxBatchBytes :: int
  ro_DryRun :: bool
  ro_OnBatch :: bool

record batch_result =
  br_BatchNum :: nat
  br_SQLCount :: nat
  br_BytesEstimate :: nat
  br_RowsAffected :: nat
  br_Error :: "go_error option"
  br_RetryAttempt :: nat

record batch_error =
  be_BatchNum :: nat
  be_SQL :: string
  be_Error :: string

record rb_result =
  rr_RowsAffected :: nat
  rr_BatchesTotal :: nat
  rr_BatchesComplete :: nat
  rr_Errors :: "batch_error list"
  rr_CheckpointID :: string
  rr_StartedAt :: go_time
  rr_CompletedAt :: go_time

subsection \<open>Batches\<close>

definition estimateBytes :: "string list \<Rightarrow> nat" where
  "estimateBytes sqls = sum_list (map length sqls)"

text \<open>The loop of \<^verbatim>\<open>buildBatches\<close>: the batches so far, the current batch and its size.\<close>

fun batch_loop :: "int \<Rightarrow> int \<Rightarrow> string list \<Rightarrow> string list list \<Rightarrow> string list \<Rightarrow> int \<Rightarrow> string list list" where
  "batch_loop batchSize maxBytes [] batches current bytes =
     (if length current > 0 then batches @ [current] else batches)"
| "batch_loop batchSize maxBytes (stmt # sqls) batches current bytes =
     (let n = int (length stmt) in
      if int (length current) \<ge> batchSize \<or> bytes + n > maxBytes \<and> length current > 0
      then batch_loop batchSize maxBytes sqls (batches @ [current]) [stmt] n
      else batch_loop batchSize maxBytes sqls batches (current @ [stmt]) (bytes + n))"

definition buildBatches :: "string list \<Rightarrow> int \<Rightarrow> int \<Rightarrow> string list list" where
  "buildBatches sqls batchSize maxBytes =
     (if length sqls = 0 then [] else batch_loop batchSize maxBytes sqls [] [] 0)"

subsection \<open>One batch\<close>

fun exec_stmts :: "'c tx_driver \<Rightarrow> string list \<Rightarrow> 'c \<Rightarrow> go_error option \<times> 'c" where
  "exec_stmts drv [] c = (None, c)"
| "exec_stmts drv (s # ss) c =
     (case tx_exec drv s c of
        (Some e, c) \<Rightarrow> (Some e, c)
      | (None, c) \<Rightarrow> exec_stmts drv ss c)"

text \<open>The deferred rollback runs on every return after the transaction began.\<close>

definition executeBatch :: "'c tx_driver \<Rightarrow> string list \<Rightarrow> 'c \<Rightarrow> go_error option \<times> 'c" where
  "executeBatch drv batch c =
     (case tx_begin drv c of
        (Some e, c) \<Rightarrow> (Some (Wrapf ''begin tx'' e), c)
      | (None, c) \<Rightarrow>
          apsnd (tx_rollback drv)
            (case exec_stmts drv batch c of
               (Some e, c) \<Rightarrow> (Some e, c)
             | (None, c) \<Rightarrow> tx_commit drv c))"

definition clamp_size :: "nat \<Rightarrow> string list \<Rightarrow> nat" where
  "clamp_size n batch =
     (let n = (if n < 10 then 10 else n) in if n > length batch then length batch else n)"

lemma clamp_size_smaller: "\<not> m < 10 \<Longrightarrow> \<not> n \<le> m \<Longrightarrow> clamp_size m batch < n"
  by (simp add: clamp_size_def)

function retry_batch :: "'c tx_driver \<Rightarrow> string list \<Rightarrow> nat \<Rightarrow> 'c \<Rightarrow> nat outcome \<times> 'c" where
  "retry_batch drv batch n c =
     (let n = clamp_size n batch in
      case executeBatch drv (take n batch) c of
        (None, c) \<Rightarrow> (Ok n, c)
      | (Some err, c) \<Rightarrow>
          if \<not> isRetryableError err then (Err err, c)
          else let newSize = n div 2 in
            if newSize < 10 \<or> newSize \<ge> n then (Err err, c)
            else retry_batch drv batch newSize c)"
  by pat_completeness auto
termination
  by (relation "measure (\<lambda>(_, batch, n, _). clamp_size n batch)") (auto intro: clamp_size_smaller)

declare retry_batch.simps [simp del]

definition executeWithRetry :: "'c tx_driver \<Rightarrow> string list \<Rightarrow> 'c \<Rightarrow> nat outcome \<times> 'c" where
  "executeWithRetry drv batch c = retry_batch drv batch (length batch) c"

subsection \<open>All batches\<close>

definition error_message :: "go_error \<Rightarrow> string" where
  "error_message e = (case as_mysql e of
      Some (n, m) \<Rightarrow> ''MySQL errno '' @ show_nat n @ '': '' @ m
    | None \<Rightarrow> error_text e)"

text \<open>The loop over the batches from number \<open>i\<close> on: the result, the calls of \<^verbatim>\<open>OnBatch\<close> and the
  session. It stops at the first batch that fails.\<close>

fun run_batches :: "'c tx_driver \<Rightarrow> bool \<Rightarrow> nat \<Rightarrow> string list list \<Rightarrow> rb_result \<Rightarrow> batch_result list \<Rightarrow> 'c \<Rightarrow>
    rb_result \<times> batch_result list \<times> 'c" where
  "run_batches drv cb i [] res calls c = (res, calls, c)"
| "run_batches drv cb i (batch # batches) res calls c =
     (case executeWithRetry drv batch c of
        (Ok executed, c) \<Rightarrow>
          run_batches drv cb (i + 1) batches
            (res\<lparr>rr_BatchesComplete := rr_BatchesComplete res + 1,
                 rr_RowsAffected := rr_RowsAffected res + executed\<rparr>)
            (if cb then calls @ [\<lparr>br_BatchNum = i, br_SQLCount = executed, br_BytesEstimate = estimateBytes batch,
                 br_RowsAffected = executed, br_Error = None, br_RetryAttempt = 0\<rparr>] else calls) c
      | (Err e, c) \<Rightarrow>
          (res\<lparr>rr_Errors := rr_Errors res @ [\<lparr>be_BatchNum = i, be_SQL = batch ! 0, be_Error = error_message e\<rparr>]\<rparr>,
           if cb then calls @ [\<lparr>br_BatchNum = i, br_SQLCount = length batch, br_BytesEstimate = 0,
                br_RowsAffected = 0, br_Error = Some e, br_RetryAttempt = 0\<rparr>] else calls, c)
      | (Panic, c) \<Rightarrow> (res, calls, c))"

text \<open>\<^verbatim>\<open>Execute\<close>; \<open>started\<close> and \<open>completed\<close> are the two readings of the clock, and the session is
  \<^const>\<open>None\<close> when there is no database.\<close>

definition Execute :: "'c tx_driver \<Rightarrow> go_time \<Rightarrow> go_time \<Rightarrow> string list \<Rightarrow> rb_options \<Rightarrow> 'c option \<Rightarrow>
    rb_result outcome \<times> batch_result list \<times> 'c option" where
  "Execute drv started completed sqls opts db =
     (case db of
        None \<Rightarrow> (Err (Errorf ''rollback: no database connection''), [], None)
      | Some c \<Rightarrow>
        let empty = \<lparr>rr_RowsAffected = 0, rr_BatchesTotal = 0, rr_BatchesComplete = 0, rr_Errors = [], rr_CheckpointID = [],
              rr_StartedAt = zero_time, rr_CompletedAt = zero_time\<rparr> in
        if length sqls = 0 then (Ok empty, [], Some c)
        else let batchSize = (if ro_BatchSize opts \<le> 0 then 1000 else ro_BatchSize opts);
                 maxBytes = (if ro_MaxBatchBytes opts \<le> 0 then 10 * 1024 * 1024 else ro_MaxBatchBytes opts);
                 res = empty\<lparr>rr_StartedAt := started\<rparr>
          in if ro_DryRun opts then (Ok (res\<lparr>rr_CompletedAt := completed\<rparr>), [], Some c)
             else let batches = buildBatches sqls batchSize maxBytes;
                      (res, calls, c) = run_batches drv (ro_OnBatch opts) 0 batches
                        (res\<lparr>rr_BatchesTotal := length batches\<rparr>) [] c
               in (Ok (res\<lparr>rr_CompletedAt := completed\<rparr>), calls, Some c))"


subsection \<open>Batches partition the statements\<close>

lemma batch_loop_concat: "concat (batch_loop b m sqls batches current bytes) = concat batches @ current @ sqls"
  by (induction b m sqls batches current bytes rule: batch_loop.induct) (auto simp: Let_def)

definition batch_ok :: "int \<Rightarrow> int \<Rightarrow> string list \<Rightarrow> bool" where
  "batch_ok b m batch \<longleftrightarrow> batch \<noteq> [] \<and> int (length batch) \<le> b \<and>
     (int (estimateBytes batch) \<le> m \<or> length batch = 1)"

lemma estimateBytes_simps [simp]:
  "estimateBytes [] = 0"
  "estimateBytes (s # ss) = length s + estimateBytes ss"
  "estimateBytes (ss @ ts) = estimateBytes ss + estimateBytes ts"
  by (simp_all add: estimateBytes_def)

lemma batch_loop_ok:
  assumes "0 < b" "list_all (batch_ok b m) batches" "current = [] \<or> batch_ok b m current"
    "bytes = int (estimateBytes current)"
  shows "list_all (batch_ok b m) (batch_loop b m sqls batches current bytes)"
  using assms
proof (induction b m sqls batches current bytes rule: batch_loop.induct)
  case (1 b m batches current bytes)
  then show ?case by auto
next
  case (2 b m stmt sqls batches current bytes)
  let ?n = "int (length stmt)"
  show ?case
  proof (cases "int (length current) \<ge> b \<or> bytes + ?n > m \<and> length current > 0")
    case True
    with 2 show ?thesis by (auto simp: batch_ok_def)
  next
    case False
    with 2 show ?thesis by (auto simp: batch_ok_def)
  qed
qed

subsection \<open>A batch is one transaction\<close>

lemma exec_stmts_atomic:
  assumes "atomic_driver drv comm pend" "exec_stmts drv ss c = (r, c')"
  shows "comm c' = comm c \<and> (r = None \<longrightarrow> pend c' = pend c @ ss)"
  using assms(2)
proof (induction ss arbitrary: c)
  case (Cons s ss)
  obtain r1 c1 where c1: "tx_exec drv s c = (r1, c1)" by fastforce
  then have step: "comm c1 = comm c \<and> (r1 = None \<longrightarrow> pend c1 = pend c @ [s])"
    using assms(1) by (simp add: atomic_driver_def)
  show ?case
    using step Cons.IH [of c1] Cons.prems by (cases r1) (auto simp: c1)
qed simp

lemma executeBatch_atomic:
  assumes "atomic_driver drv comm pend" "executeBatch drv batch c = (r, c')"
  shows "comm c' = (if r = None then comm c @ batch else comm c)"
proof -
  obtain r1 c1 where c1: "tx_begin drv c = (r1, c1)" by fastforce
  obtain r2 c2 where c2: "exec_stmts drv batch c1 = (r2, c2)" by fastforce
  obtain r3 c3 where c3: "tx_commit drv c2 = (r3, c3)" by fastforce
  have "comm c1 = comm c \<and> (r1 = None \<longrightarrow> pend c1 = [])"
    "comm c3 = (if r3 = None then comm c2 @ pend c2 else comm c2)"
    "\<And>c. comm (tx_rollback drv c) = comm c"
    using assms(1) c1 c3 by (simp_all add: atomic_driver_def)
  with exec_stmts_atomic [OF assms(1) c2] assms(2) show ?thesis
    by (cases r1; cases r2) (auto simp: executeBatch_def c1 c2 c3)
qed

lemma retry_batch_result:
  assumes "atomic_driver drv comm pend" "retry_batch drv batch n c = (r, c')"
  shows "case r of Ok k \<Rightarrow> k \<le> length batch \<and> comm c' = comm c @ take k batch
    | Err e \<Rightarrow> comm c' = comm c | Panic \<Rightarrow> False"
  using assms
proof (induction drv batch n c rule: retry_batch.induct)
  case (1 drv batch n c)
  let ?n = "clamp_size n batch"
  obtain r1 c1 where c1: "executeBatch drv (take ?n batch) c = (r1, c1)" by fastforce
  have comm: "comm c1 = (if r1 = None then comm c @ take ?n batch else comm c)"
    by (rule executeBatch_atomic [OF 1(2) c1])
  have le: "?n \<le> length batch" by (simp add: clamp_size_def Let_def)
  show ?case
  proof (cases r1)
    case None
    with 1(3) have "r = Ok ?n" "c' = c1" by (simp_all add: retry_batch.simps [of drv batch n] c1 Let_def)
    with comm None le show ?thesis by simp
  next
    case (Some e)
    have "retry_batch drv batch n c = (if \<not> isRetryableError e then (Err e, c1)
        else if ?n div 2 < 10 \<or> ?n div 2 \<ge> ?n then (Err e, c1) else retry_batch drv batch (?n div 2) c1)"
      by (subst retry_batch.simps) (simp add: c1 Some Let_def)
    note step = this [unfolded 1(3)]
    show ?thesis
    proof (cases "isRetryableError e \<and> \<not> (?n div 2 < 10 \<or> ?n div 2 \<ge> ?n)")
      case True
      with step have "retry_batch drv batch (?n div 2) c1 = (r, c')" by simp
      from 1(1) [OF refl c1 [symmetric] Some _ refl _ 1(2) this] True comm Some
      show ?thesis by (simp split: outcome.splits)
    next
      case False
      with step have "r = Err e" "c' = c1" by (auto split: if_splits)
      with comm Some show ?thesis by simp
    qed
  qed
qed

lemma executeWithRetry_cases:
  assumes "atomic_driver drv comm pend"
  obtains (ran) k c' where "executeWithRetry drv batch c = (Ok k, c')" "k \<le> length batch"
      "comm c' = comm c @ take k batch"
    | (failed) e c' where "executeWithRetry drv batch c = (Err e, c')" "comm c' = comm c"
proof -
  obtain r c' where rc: "executeWithRetry drv batch c = (r, c')" by fastforce
  with retry_batch_result [OF assms, of batch "length batch" c r c'] that show ?thesis
    by (cases r) (auto simp: executeWithRetry_def)
qed

text \<open>A batch is never shortened when the driver reports no retryable error, or when it has fewer than
  20 statements.\<close>

definition no_retryable :: "'c tx_driver \<Rightarrow> bool" where
  "no_retryable drv \<longleftrightarrow> (\<forall>batch c e c'. executeBatch drv batch c = (Some e, c') \<longrightarrow> \<not> isRetryableError e)"

lemma clamp_size_all [simp]: "clamp_size (length batch) batch = length batch"
  by (simp add: clamp_size_def Let_def)

lemma executeWithRetry_whole:
  assumes "no_retryable drv \<or> length batch < 20" "executeWithRetry drv batch c = (Ok k, c')"
  shows "k = length batch"
proof -
  obtain r1 c1 where c1: "executeBatch drv batch c = (r1, c1)" by fastforce
  with assms show ?thesis
    by (auto simp: executeWithRetry_def retry_batch.simps [of drv batch "length batch"] Let_def no_retryable_def
        split: option.splits if_splits)
qed

subsection \<open>A run of batches\<close>

text \<open>The statements of a run that took the first \<open>ks ! i\<close> of the \<open>i\<close>-th batch.\<close>

definition taken :: "nat list \<Rightarrow> string list list \<Rightarrow> string list" where
  "taken ks batches = concat (map (\<lambda>(k, b). take k b) (zip ks batches))"

lemma taken_simps [simp]:
  "taken [] batches = []"
  "taken (k # ks) (b # batches) = take k b @ taken ks batches"
  by (simp_all add: taken_def)

lemma taken_subseq: "subseq (taken ks batches) (concat batches)"
proof (induction batches arbitrary: ks)
  case Nil
  then show ?case by (simp add: taken_def)
next
  case (Cons b batches)
  have "subseq (take k b) b" for k by (rule prefix_imp_subseq) (rule take_is_prefix)
  with Cons show ?case by (cases ks) (auto intro: list_emb_append_mono)
qed

lemma taken_whole: "taken (map length bs) (bs @ bs') = concat bs"
  by (induction bs) simp_all

definition run_ok :: "('c \<Rightarrow> string list) \<Rightarrow> string list list \<Rightarrow> nat \<Rightarrow> rb_result \<Rightarrow> 'c \<Rightarrow> nat list \<Rightarrow> rb_result \<Rightarrow> 'c \<Rightarrow> bool" where
  "run_ok comm batches i res c ks res' c' \<longleftrightarrow>
     length ks \<le> length batches \<and> comm c' = comm c @ taken ks batches \<and>
     rr_RowsAffected res' = rr_RowsAffected res + length (taken ks batches) \<and>
     rr_BatchesComplete res' = rr_BatchesComplete res + length ks \<and>
     rr_BatchesTotal res' = rr_BatchesTotal res \<and>
     (if length ks = length batches then rr_Errors res' = rr_Errors res
      else \<exists>e. rr_Errors res' = rr_Errors res @ [e] \<and> be_BatchNum e = i + length ks \<and>
        be_SQL e = batches ! length ks ! 0)"

lemma run_batches_result:
  assumes "atomic_driver drv comm pend" "run_batches drv cb i batches res calls c = (res', calls', c')"
  shows "\<exists>ks. run_ok comm batches i res c ks res' c' \<and>
    (no_retryable drv \<or> (\<forall>b \<in> set batches. length b < 20) \<longrightarrow> ks = map length (take (length ks) batches))"
  using assms(2)
proof (induction batches arbitrary: i res calls c)
  case Nil
  then show ?case by (intro exI [of _ "[]"]) (simp add: run_ok_def)
next
  case (Cons b batches)
  from assms(1) show ?case
  proof (cases rule: executeWithRetry_cases [where batch = b and c = c])
    case (ran k c1)
    let ?res = "res\<lparr>rr_BatchesComplete := rr_BatchesComplete res + 1, rr_RowsAffected := rr_RowsAffected res + k\<rparr>"
    obtain calls1 where run: "run_batches drv cb (i + 1) batches ?res calls1 c1 = (res', calls', c')"
      using Cons.prems ran(1) by simp
    from Cons.IH [OF this] obtain ks where ks: "run_ok comm batches (i + 1) ?res c1 ks res' c'"
      "no_retryable drv \<or> (\<forall>b \<in> set batches. length b < 20) \<longrightarrow> ks = map length (take (length ks) batches)"
      by blast
    have "run_ok comm (b # batches) i res c (k # ks) res' c'"
      using ks(1) ran(2,3) by (auto simp: run_ok_def min_absorb2 split: if_splits)
    moreover have "k = length b" if "no_retryable drv \<or> (\<forall>b \<in> set (b # batches). length b < 20)"
      using executeWithRetry_whole [OF _ ran(1)] that by auto
    ultimately show ?thesis using ks(2) by (intro exI [of _ "k # ks"]) auto
  next
    case (failed e c1)
    then show ?thesis using Cons.prems
      by (intro exI [of _ "[]"]) (auto simp: run_ok_def)
  qed
qed

lemma buildBatches_concat: "concat (buildBatches sqls b m) = sqls"
  by (simp add: buildBatches_def batch_loop_concat)

lemma buildBatches_ok: "0 < b \<Longrightarrow> list_all (batch_ok b m) (buildBatches sqls b m)"
  by (simp add: buildBatches_def batch_loop_ok)

subsection \<open>A whole run\<close>

lemma Execute_run:
  assumes "atomic_driver drv comm pend" "\<not> ro_DryRun opts"
    "Execute drv started completed sqls opts (Some c) = (r, calls, db)"
  obtains res c' batches ks where "r = Ok res" "db = Some c'" "comm c' = comm c @ taken ks batches"
    "concat batches = sqls" "[] \<notin> set batches" "length ks \<le> length batches"
    "rr_RowsAffected res = length (taken ks batches)" "rr_BatchesComplete res = length ks"
    "rr_BatchesTotal res = length batches"
    "if length ks = length batches then rr_Errors res = []
     else \<exists>e. rr_Errors res = [e] \<and> be_BatchNum e = length ks \<and> be_SQL e = batches ! length ks ! 0"
    "no_retryable drv \<or> 0 < ro_BatchSize opts \<and> ro_BatchSize opts < 20 \<longrightarrow>
      ks = map length (take (length ks) batches)"
proof (cases "sqls = []")
  case True
  with assms(3) that [of _ c "[]" "[]"] show ?thesis by (auto simp: Execute_def Let_def)
next
  case False
  define b where "b = (if ro_BatchSize opts \<le> 0 then 1000 else ro_BatchSize opts)"
  define m where "m = (if ro_MaxBatchBytes opts \<le> 0 then 10 * 1024 * 1024 else ro_MaxBatchBytes opts)"
  let ?bs = "buildBatches sqls b m"
  let ?res = "\<lparr>rr_RowsAffected = 0, rr_BatchesTotal = length ?bs, rr_BatchesComplete = 0, rr_Errors = [],
    rr_CheckpointID = [], rr_StartedAt = started, rr_CompletedAt = zero_time\<rparr>"
  obtain res calls1 c' where run: "run_batches drv (ro_OnBatch opts) 0 ?bs ?res [] c = (res, calls1, c')"
    by (metis prod_cases3)
  have out: "r = Ok (res\<lparr>rr_CompletedAt := completed\<rparr>)" "db = Some c'"
    using assms(2,3) False run by (simp_all add: Execute_def Let_def b_def m_def)
  from run_batches_result [OF assms(1) run] obtain ks where ks: "run_ok comm ?bs 0 ?res c ks res c'"
    "no_retryable drv \<or> (\<forall>x \<in> set ?bs. length x < 20) \<longrightarrow> ks = map length (take (length ks) ?bs)"
    by blast
  have ok: "list_all (batch_ok b m) ?bs" by (rule buildBatches_ok) (simp add: b_def)
  then have "[] \<notin> set ?bs" by (auto simp: list_all_iff batch_ok_def)
  moreover have "\<forall>x \<in> set ?bs. length x < 20" if "0 < ro_BatchSize opts \<and> ro_BatchSize opts < 20"
    using ok that by (auto simp: list_all_iff batch_ok_def b_def)
  ultimately show ?thesis
    using ks out by (intro that [of "res\<lparr>rr_CompletedAt := completed\<rparr>" c' ks ?bs])
      (auto simp: run_ok_def buildBatches_concat split: if_splits)
qed

subsection \<open>A driver over a log\<close>

text \<open>A session that logs the statements it commits and those of the open transaction; \<open>f\<close> says which
  statement fails after which.\<close>

definition log_driver :: "(string list \<Rightarrow> string \<Rightarrow> go_error option) \<Rightarrow> (string list \<times> string list) tx_driver" where
  "log_driver f = \<lparr>tx_begin = \<lambda>c. (None, (fst c, [])),
     tx_exec = \<lambda>s c. (case f (snd c) s of None \<Rightarrow> (None, (fst c, snd c @ [s])) | Some e \<Rightarrow> (Some e, c)),
     tx_commit = \<lambda>c. (None, (fst c @ snd c, [])), tx_rollback = \<lambda>c. (fst c, [])\<rparr>"

lemma log_driver_atomic: "atomic_driver (log_driver f) fst snd"
  by (auto simp: atomic_driver_def log_driver_def split: option.splits)

subsection \<open>Properties\<close>

text \<open>C18. Whatever fails, the statements committed by a run are a subsequence of the statements given, in
  their order and none twice; the result counts them; and it reports at most one error, exactly
  when not every batch completed.\<close>

theorem Execute_commits_subsequence:
  assumes "atomic_driver drv comm pend" "\<not> ro_DryRun opts"
    "Execute drv started completed sqls opts (Some c) = (r, calls, db)"
  shows "\<exists>res c' applied. r = Ok res \<and> db = Some c' \<and> comm c' = comm c @ applied \<and> subseq applied sqls \<and>
    rr_RowsAffected res = length applied \<and> length (rr_Errors res) \<le> 1 \<and>
    (rr_Errors res = [] \<longleftrightarrow> rr_BatchesComplete res = rr_BatchesTotal res)"
proof -
  obtain res c' batches ks where run: "r = Ok res" "db = Some c'" "comm c' = comm c @ taken ks batches"
    "concat batches = sqls" "[] \<notin> set batches" "length ks \<le> length batches"
    "rr_RowsAffected res = length (taken ks batches)" "rr_BatchesComplete res = length ks"
    "rr_BatchesTotal res = length batches"
    "if length ks = length batches then rr_Errors res = []
     else \<exists>e. rr_Errors res = [e] \<and> be_BatchNum e = length ks \<and> be_SQL e = batches ! length ks ! 0"
    by (rule Execute_run [OF assms])
  from taken_subseq [of ks batches] run show ?thesis
    by (intro exI [of _ res] exI [of _ c'] exI [of _ "taken ks batches"]) (auto split: if_splits)
qed

definition two_statements :: "rb_options" where
  "two_statements = \<lparr>ro_BatchSize = 1, ro_MaxBatchBytes = 0, ro_DryRun = False, ro_OnBatch = False\<rparr>"

lemma Execute_commits_subsequence_witness:
  "\<exists>res c'. Execute (log_driver (\<lambda>p s. if s = ''B'' then Some EOF else None)) 0 0 [''A'', ''B''] two_statements (Some ([], [])) =
    (Ok res, [], Some c') \<and> rr_BatchesComplete res = 1 \<and> rr_Errors res \<noteq> []"
proof -
  let ?run = "Execute (log_driver (\<lambda>p s. if s = ''B'' then Some EOF else None)) 0 0 [''A'', ''B''] two_statements (Some ([], []))"
  have calls: "fst (snd ?run) = []"
    and n: "(case fst ?run of Ok res \<Rightarrow> (rr_BatchesComplete res, rr_BatchesTotal res) | _ \<Rightarrow> (0, 0)) = (1, 2)"
    by code_simp+
  obtain r db where run: "?run = (r, [], db)" using calls by (metis prod.collapse)
  have "\<not> ro_DryRun two_statements" by (simp add: two_statements_def)
  from Execute_commits_subsequence [OF log_driver_atomic this run] n run show ?thesis
    by auto
qed

text \<open>When the driver reports no retryable error, or with fewer than 20 statements per batch, a run
  applies a prefix of the statements: all of them when it reports no error, and otherwise those
  before the first statement of the batch it names.\<close>

theorem Execute_all_or_prefix:
  assumes "atomic_driver drv comm pend" "\<not> ro_DryRun opts"
    "no_retryable drv \<or> 0 < ro_BatchSize opts \<and> ro_BatchSize opts < 20"
    "Execute drv started completed sqls opts (Some c) = (Ok res, calls, Some c')"
  shows "\<exists>applied rest. sqls = applied @ rest \<and> comm c' = comm c @ applied \<and>
    (rr_Errors res = [] \<and> rest = [] \<or>
     (\<exists>e. rr_Errors res = [e] \<and> rest \<noteq> [] \<and> be_SQL e = hd rest))"
proof -
  obtain batches ks where run: "comm c' = comm c @ taken ks batches"
    "concat batches = sqls" "[] \<notin> set batches" "length ks \<le> length batches"
    "if length ks = length batches then rr_Errors res = []
     else \<exists>e. rr_Errors res = [e] \<and> be_BatchNum e = length ks \<and> be_SQL e = batches ! length ks ! 0"
    "ks = map length (take (length ks) batches)"
    using assms(3) by (auto intro: Execute_run [OF assms(1,2,4)])
  let ?n = "length ks"
  have "taken ks batches = concat (take ?n batches)"
    using taken_whole [of "take ?n batches" "drop ?n batches"] run(6) by simp
  moreover have "sqls = concat (take ?n batches) @ concat (drop ?n batches)"
    by (simp only: run(2) [symmetric] concat_append [symmetric] append_take_drop_id)
  moreover have "concat (drop ?n batches) \<noteq> [] \<and> hd (concat (drop ?n batches)) = batches ! ?n ! 0"
    if "?n < length batches"
  proof -
    have "drop ?n batches = batches ! ?n # drop (Suc ?n) batches" using that by (simp add: Cons_nth_drop_Suc)
    moreover have "batches ! ?n \<noteq> []" using run(3) that by (metis nth_mem)
    ultimately show ?thesis by (simp add: hd_append hd_conv_nth)
  qed
  ultimately show ?thesis using run(1,4,5)
    by (intro exI [of _ "concat (take ?n batches)"] exI [of _ "concat (drop ?n batches)"])
      (auto split: if_splits)
qed

lemma Execute_all_or_prefix_witness:
  "\<exists>res c'. Execute (log_driver (\<lambda>p s. None)) 0 0 [''A'', ''B''] two_statements (Some ([], [])) =
    (Ok res, [], Some c') \<and> fst c' = [''A'', ''B'']"
proof -
  let ?run = "Execute (log_driver (\<lambda>p s. None)) 0 0 [''A'', ''B''] two_statements (Some ([], []))"
  have n: "fst (snd ?run) = []" "(case fst ?run of Ok res \<Rightarrow> rr_Errors res = [] | _ \<Rightarrow> False)"
    "snd (snd ?run) \<noteq> None"
    by code_simp+
  then obtain res c' where run: "?run = (Ok res, [], Some c')" and "rr_Errors res = []"
    by (cases ?run; cases "fst ?run") auto
  moreover have "\<not> ro_DryRun two_statements" "0 < ro_BatchSize two_statements" "ro_BatchSize two_statements < 20"
    by (simp_all add: two_statements_def)
  ultimately show ?thesis
    using Execute_all_or_prefix [OF log_driver_atomic _ _ run] by auto
qed

text \<open>The batches are the statements in order, split: none is empty, none has more statements than
  the batch size, and only a single statement may exceed the byte limit.\<close>

theorem buildBatches_partition:
  assumes "0 < batchSize"
  shows "concat (buildBatches sqls batchSize maxBytes) = sqls \<and>
    list_all (batch_ok batchSize maxBytes) (buildBatches sqls batchSize maxBytes)"
  by (intro conjI buildBatches_concat buildBatches_ok assms)

lemma buildBatches_partition_witness:
  "concat (buildBatches [''aaaa'', ''b'', ''c''] 2 3) = [''aaaa'', ''b'', ''c''] \<and>
    length (buildBatches [''aaaa'', ''b'', ''c''] 2 3) = 2"
  using buildBatches_partition [of 2 "[''aaaa'', ''b'', ''c'']" 3] by (simp add: buildBatches_def Let_def)

definition twenty_statements :: rb_options where
  "twenty_statements = \<lparr>ro_BatchSize = 20, ro_MaxBatchBytes = 0, ro_DryRun = False, ro_OnBatch = False\<rparr>"

definition too_big :: "string list \<Rightarrow> string \<Rightarrow> go_error option" where
  "too_big p s = (if length p \<ge> 10 then Some (MySQLError 1118 ''row size too large'') else None)"

text \<open>A batch that succeeds only after it was halved loses its second half: 20 statements on a server
  that refuses more than 10 in a transaction end in a result without errors and with every batch
  complete, 10 of them applied and the other 10 never run.\<close>

theorem Execute_halved_batch_drops_rest:
  "(let (r, calls, db) = Execute (log_driver too_big) 0 0 (replicate 20 ''DELETE'') twenty_statements (Some ([], []))
    in (case r of Ok res \<Rightarrow> rr_Errors res = [] \<and> rr_BatchesComplete res = 1 \<and> rr_BatchesTotal res = 1 \<and>
          rr_RowsAffected res = 10 | _ \<Rightarrow> False) \<and>
       map_option fst db = Some (replicate 10 ''DELETE''))"
  by code_simp

end
