(* ===== verification/Fk_Order.thy ===== *)
theory Fk_Order
  imports Go_Values "HOL-Library.Multiset" "HOL-Library.AList"
begin

section \<open>Foreign-key order of tables\<close>

text \<open>
  The model of \<^verbatim>\<open>internal/connector/fk.go\<close>: the query for the foreign keys among a set of
  tables (the database is a parameter that answers a query with rows) and Kahn's algorithm on
  them, with the two Go maps as association lists. The development shows that the sort returns,
  that its result is the tables in another order, and that it puts every parent before its
  children unless the keys form a cycle.
\<close>

record fk_constraint =
  fk_TableName :: string
  fk_RefTableName :: string

text \<open>\<^verbatim>\<open>m[k]\<close> with the zero value for a missing key.\<close>

definition deg_of :: "(string \<times> int) list \<Rightarrow> string \<Rightarrow> int" where
  "deg_of m t = (case map_of m t of None \<Rightarrow> 0 | Some d \<Rightarrow> d)"

definition children_of :: "(string \<times> string list) list \<Rightarrow> string \<Rightarrow> string list" where
  "children_of m t = (case map_of m t of None \<Rightarrow> [] | Some cs \<Rightarrow> cs)"

subsection \<open>The query\<close>

text \<open>The rows of a query: what scanning each of them gives, and the error of the iteration.\<close>

type_synonym 'r query_rows = "'r outcome list \<times> go_error option"

definition in_clause :: "string list \<Rightarrow> string" where
  "in_clause tables = join '','' (map (\<lambda>_. ''?'') tables)"

definition fk_query :: "string list \<Rightarrow> string" where
  "fk_query tables =
     ''SELECT DISTINCT TABLE_NAME, REFERENCED_TABLE_NAME'' @ [CHR 0x0A] @ replicate 16 CHR 0x20 @
     ''FROM information_schema.REFERENTIAL_CONSTRAINTS'' @ [CHR 0x0A] @ replicate 15 CHR 0x20 @
     ''WHERE TABLE_NAME IN ('' @ in_clause tables @ '')'' @ [CHR 0x0A] @ replicate 17 CHR 0x20 @
     ''AND REFERENCED_TABLE_NAME IN ('' @ in_clause tables @ '')''"

fun scan_constraints :: "fk_constraint outcome list \<Rightarrow> fk_constraint list \<Rightarrow> fk_constraint list outcome" where
  "scan_constraints [] acc = Ok acc"
| "scan_constraints (Ok c # rs) acc = scan_constraints rs (acc @ [c])"
| "scan_constraints (Err e # rs) acc = Err (Wrapf ''fk: scan'' e)"
| "scan_constraints (Panic # rs) acc = Panic"

definition queryFKConstraints ::
  "(string \<Rightarrow> string list \<Rightarrow> fk_constraint query_rows outcome) \<Rightarrow> string list \<Rightarrow> fk_constraint list outcome" where
  "queryFKConstraints db tables =
     (case db (fk_query tables) (tables @ tables) of
        Err e \<Rightarrow> Err (Wrapf ''fk: query'' e)
      | Panic \<Rightarrow> Panic
      | Ok (rows, err) \<Rightarrow>
          bindo (scan_constraints rows []) (\<lambda>cs.
            case err of Some e \<Rightarrow> Err (Wrapf ''fk: rows'' e) | None \<Rightarrow> Ok cs))"

subsection \<open>Kahn's algorithm\<close>

fun add_edges :: "fk_constraint list \<Rightarrow> (string \<times> int) list \<Rightarrow> (string \<times> string list) list \<Rightarrow>
    (string \<times> int) list \<times> (string \<times> string list) list" where
  "add_edges [] deg ch = (deg, ch)"
| "add_edges (c # cs) deg ch =
     (if map_of deg (fk_RefTableName c) = None then add_edges cs deg ch
      else if map_of deg (fk_TableName c) = None then add_edges cs deg ch
      else add_edges cs
        (AList.update (fk_TableName c) (deg_of deg (fk_TableName c) + 1) deg)
        (AList.update (fk_RefTableName c) (children_of ch (fk_RefTableName c) @ [fk_TableName c]) ch))"

text \<open>The loop over the children of a node.\<close>

fun relax :: "string list \<Rightarrow> (string \<times> int) list \<Rightarrow> string list \<Rightarrow> (string \<times> int) list \<times> string list" where
  "relax [] deg queue = (deg, queue)"
| "relax (c # cs) deg queue =
     (let deg = AList.update c (deg_of deg c - 1) deg in
      relax cs deg (if deg_of deg c = 0 then queue @ [c] else queue))"

text \<open>The number of nodes still waiting: it pays for the nodes a step adds to the queue.\<close>

definition waiting :: "(string \<times> int) list \<Rightarrow> nat" where
  "waiting deg = length (filter (\<lambda>(_, d). 0 < d) deg)"

lemma waiting_update:
  "waiting (AList.update k v m) + (if 0 < deg_of m k then 1 else 0) = waiting m + (if 0 < v then 1 else 0)"
  by (induction m) (auto simp: waiting_def deg_of_def)

lemma deg_of_update [simp]: "deg_of (AList.update k v m) t = (if t = k then v else deg_of m t)"
  by (simp add: deg_of_def update_conv')

lemma children_of_update [simp]: "children_of (AList.update k v m) t = (if t = k then v else children_of m t)"
  by (simp add: children_of_def update_conv')

lemma relax_waiting:
  "relax cs deg queue = (deg', queue') \<Longrightarrow> length queue' + waiting deg' \<le> length queue + waiting deg"
proof (induction cs arbitrary: deg queue)
  case (Cons c cs)
  define d where "d = deg_of deg c - 1"
  then have d: "deg_of deg c = d + 1" by simp
  have "(if d = 0 then 1 else 0) + waiting (AList.update c d deg) \<le> waiting deg"
    using waiting_update [of c d deg] d by (simp split: if_splits)
  moreover have "relax cs (AList.update c d deg) (if d = 0 then queue @ [c] else queue) = (deg', queue')"
    using Cons.prems by (simp add: Let_def d_def)
  ultimately show ?case using Cons.IH by (fastforce split: if_splits)
qed simp

function kahn :: "(string \<times> string list) list \<Rightarrow> (string \<times> int) list \<Rightarrow> string list \<Rightarrow> string list \<Rightarrow> string list" where
  "kahn ch deg [] ordered = ordered"
| "kahn ch deg (node # queue) ordered =
     (let (deg', queue') = relax (children_of ch node) deg queue in kahn ch deg' queue' (ordered @ [node]))"
  by pat_completeness auto
termination
  by (relation "measure (\<lambda>(_, deg, queue, _). length queue + waiting deg)")
    (auto dest!: relax_waiting [OF sym])

text \<open>The tables that the algorithm did not reach, in their order; \<^verbatim>\<open>seen\<close> is not updated, as in
  the code.\<close>

definition topoSort :: "string list \<Rightarrow> fk_constraint list \<Rightarrow> string list" where
  "topoSort tables cs =
     (if length tables = 0 then []
      else let deg = fold (\<lambda>t. AList.update t 0) tables [];
               (deg, ch) = add_edges cs deg [];
               queue = filter (\<lambda>t. deg_of deg t = 0) tables;
               ordered = kahn ch deg queue []
        in ordered @ filter (\<lambda>t. t \<notin> set ordered) tables)"

definition GetFKOrder ::
  "(string \<Rightarrow> string list \<Rightarrow> fk_constraint query_rows outcome) \<Rightarrow> string list \<Rightarrow> string list outcome" where
  "GetFKOrder db tables =
     (if length tables = 0 then Ok []
      else bindo (queryFKConstraints db tables) (\<lambda>cs. Ok (topoSort tables cs)))"

subsection \<open>The graph\<close>

text \<open>The edges from parent to child among the tables.\<close>

definition edges :: "string list \<Rightarrow> fk_constraint list \<Rightarrow> (string \<times> string) list" where
  "edges tables cs = map (\<lambda>c. (fk_RefTableName c, fk_TableName c))
     (filter (\<lambda>c. fk_RefTableName c \<in> set tables \<and> fk_TableName c \<in> set tables) cs)"

lemma edges_simps [simp]:
  "edges tables [] = []"
  "edges tables (c # cs) =
     (if fk_RefTableName c \<in> set tables \<and> fk_TableName c \<in> set tables
      then [(fk_RefTableName c, fk_TableName c)] else []) @ edges tables cs"
  by (simp_all add: edges_def)

lemma add_edges_result:
  assumes "add_edges cs deg ch = (deg', ch')" "\<And>x. map_of deg x = None \<longleftrightarrow> x \<notin> set tables"
  shows "children_of ch' p = children_of ch p @ map snd (filter (\<lambda>(q, _). q = p) (edges tables cs)) \<and>
    deg_of deg' t = deg_of deg t + int (count_list (map snd (edges tables cs)) t)"
  using assms
proof (induction cs arbitrary: deg ch)
  case (Cons c cs)
  show ?case
  proof (cases "fk_RefTableName c \<in> set tables \<and> fk_TableName c \<in> set tables")
    case True
    let ?deg = "AList.update (fk_TableName c) (deg_of deg (fk_TableName c) + 1) deg"
    have "map_of ?deg x = None \<longleftrightarrow> x \<notin> set tables" for x
      using Cons.prems(2) True by (simp add: update_conv')
    from Cons.IH [OF _ this] Cons.prems True show ?thesis by (auto split: if_splits)
  next
    case False
    with Cons show ?thesis by (auto split: if_splits)
  qed
qed simp

subsection \<open>What a step does\<close>

lemma relax_result:
  assumes "relax cs deg queue = (deg', queue')" "\<And>c. c \<in> set cs \<Longrightarrow> int (count_list cs c) \<le> deg_of deg c"
  shows "\<exists>new. queue' = queue @ new \<and> distinct new \<and> set new = {c \<in> set cs. deg_of deg' c = 0} \<and>
    (\<forall>t. deg_of deg' t = deg_of deg t - int (count_list cs t))"
  using assms
proof (induction cs arbitrary: deg queue)
  case (Cons c cs)
  let ?deg = "AList.update c (deg_of deg c - 1) deg"
  let ?hit = "if deg_of deg c = 1 then [c] else []"
  have run: "relax cs ?deg (queue @ ?hit) = (deg', queue')"
    using Cons.prems(1) by (simp add: Let_def split: if_splits)
  have bound: "int (count_list cs x) \<le> deg_of ?deg x" if "x \<in> set cs" for x
    using Cons.prems(2) [of x] that by auto
  from Cons.IH [OF run bound] obtain new where new: "queue' = (queue @ ?hit) @ new" "distinct new"
    "set new = {x \<in> set cs. deg_of deg' x = 0}" "\<forall>t. deg_of deg' t = deg_of ?deg t - int (count_list cs t)"
    by blast
  have own: "count_list cs c \<noteq> 0 \<longleftrightarrow> c \<in> set cs" by (simp add: count_list_0_iff)
  have zero: "deg_of deg c = 1 \<longleftrightarrow> deg_of deg' c = 0 \<and> c \<notin> set cs"
    using new(4) Cons.prems(2) [of c] own by auto
  show ?case
    using new zero by (intro exI [of _ "?hit @ new"]) auto
qed simp

subsection \<open>The invariant of the loop\<close>

definition before :: "'a list \<Rightarrow> 'a \<Rightarrow> 'a \<Rightarrow> bool" where
  "before xs a b \<longleftrightarrow> (\<exists>us vs. xs = us @ a # vs \<and> b \<in> set vs)"

lemma before_append: "before xs a b \<Longrightarrow> before (xs @ ys) a b"
  unfolding before_def by (metis Un_iff append.assoc append_Cons set_append)

lemma before_later: "a \<in> set xs \<Longrightarrow> b \<in> set ys \<Longrightarrow> before (xs @ ys) a b"
  by (fastforce simp: before_def dest: split_list)

text \<open>The edges into a node from nodes not yet done.\<close>

definition open_edges :: "(string \<times> string) list \<Rightarrow> string set \<Rightarrow> string \<Rightarrow> nat" where
  "open_edges E S t = length (filter (\<lambda>(p, c). c = t \<and> p \<notin> S) E)"

lemma open_edges_insert:
  "n \<notin> S \<Longrightarrow> open_edges E S t =
    open_edges E (insert n S) t + count_list (map snd (filter (\<lambda>(q, _). q = n) E)) t"
  by (induction E) (auto simp: open_edges_def)

lemma open_edges_0: "open_edges E S t = 0 \<longleftrightarrow> (\<forall>p. (p, t) \<in> set E \<longrightarrow> p \<in> S)"
  by (auto simp: open_edges_def filter_empty_conv)

definition kahn_inv :: "(string \<times> string) list \<Rightarrow> string set \<Rightarrow> (string \<times> int) list \<Rightarrow> string list \<Rightarrow> string list \<Rightarrow> bool" where
  "kahn_inv E ts deg queue ordered \<longleftrightarrow>
     distinct (ordered @ queue) \<and> set (ordered @ queue) \<subseteq> ts \<and>
     (\<forall>t \<in> ts. deg_of deg t = int (open_edges E (set ordered) t)) \<and>
     (\<forall>t \<in> ts. deg_of deg t = 0 \<longleftrightarrow> t \<in> set (ordered @ queue)) \<and>
     (\<forall>p c. (p, c) \<in> set E \<and> c \<in> set ordered \<longrightarrow> before ordered p c)"

text \<open>The children of the node taken from the queue: their counts go down by their edges, and those that reach 0 are new in the
  queue.\<close>

lemma kahn_children:
  assumes inv: "kahn_inv E ts deg (node # queue) ordered" and E: "set E \<subseteq> ts \<times> ts"
    and run: "relax (map snd (filter (\<lambda>(q, _). q = node) E)) deg queue = (deg', queue')"
  obtains new where "queue' = queue @ new" "distinct new" "set new \<subseteq> ts" "set new \<inter> set (ordered @ node # queue) = {}"
    "\<forall>t \<in> ts. deg_of deg' t = int (open_edges E (set (ordered @ [node])) t)"
    "\<forall>t \<in> ts. deg_of deg' t = 0 \<longleftrightarrow> t \<in> set (ordered @ node # queue) \<union> set new"
proof -
  let ?cs = "map snd (filter (\<lambda>(q, _). q = node) E)"
  have cs: "set ?cs \<subseteq> ts" using E by auto
  have node: "node \<notin> set ordered" using inv by (auto simp: kahn_inv_def)
  have split: "open_edges E (set ordered) t = open_edges E (set (ordered @ [node])) t + count_list ?cs t" for t
    using open_edges_insert [OF node, of E t] by simp
  have deg: "deg_of deg t = int (open_edges E (set ordered) t)"
    and queued: "deg_of deg t = 0 \<longleftrightarrow> t \<in> set (ordered @ node # queue)" if "t \<in> ts" for t
    using inv that unfolding kahn_inv_def by blast+
  have bound: "int (count_list ?cs c) \<le> deg_of deg c" if "c \<in> set ?cs" for c
    using deg [of c] split [of c] that cs by auto
  obtain new where new: "queue' = queue @ new" "distinct new" "set new = {c \<in> set ?cs. deg_of deg' c = 0}"
    "\<forall>t. deg_of deg' t = deg_of deg t - int (count_list ?cs t)"
    using relax_result [OF run bound] by blast
  have fresh: "c \<notin> set (ordered @ node # queue)" if "c \<in> set ?cs" for c
  proof -
    have "count_list ?cs c \<noteq> 0" using that by (simp add: count_list_0_iff)
    then have "deg_of deg c \<noteq> 0" using bound [OF that] by linarith
    then show ?thesis using queued that cs by blast
  qed
  have zero: "deg_of deg' t = 0 \<longleftrightarrow> t \<in> set (ordered @ node # queue) \<union> set new" if "t \<in> ts" for t
  proof (cases "t \<in> set ?cs")
    case True
    then have "t \<in> set new \<longleftrightarrow> deg_of deg' t = 0" using new(3) by simp
    then show ?thesis using fresh [OF True] by (simp only: Un_iff) blast
  next
    case False
    then have "count_list ?cs t = 0" by (simp only: count_list_0_iff not_False_eq_True)
    then have "deg_of deg' t = deg_of deg t" using new(4) by simp
    moreover have "t \<notin> set new" using False new(3) by simp
    ultimately show ?thesis using queued [OF that] by simp
  qed
  have deg': "deg_of deg' t = int (open_edges E (set (ordered @ [node])) t)" if "t \<in> ts" for t
    using deg [OF that] split [of t] new(4) by simp
  have apart: "set new \<inter> set (ordered @ node # queue) = {}" "set new \<subseteq> ts" using fresh new(3) cs by blast+
  show thesis by (rule that [OF new(1,2) apart(2,1)]) (use zero deg' in blast)+
qed

lemma kahn_inv_step:
  assumes inv: "kahn_inv E ts deg (node # queue) ordered" and E: "set E \<subseteq> ts \<times> ts"
    and run: "relax (map snd (filter (\<lambda>(q, _). q = node) E)) deg queue = (deg', queue')"
  shows "kahn_inv E ts deg' queue' (ordered @ [node])"
proof -
  let ?o = "ordered @ [node]"
  obtain new where new: "queue' = queue @ new" "distinct new" "set new \<subseteq> ts" "set new \<inter> set (ordered @ node # queue) = {}"
    "\<forall>t \<in> ts. deg_of deg' t = int (open_edges E (set ?o) t)"
    "\<forall>t \<in> ts. deg_of deg' t = 0 \<longleftrightarrow> t \<in> set (ordered @ node # queue) \<union> set new"
    by (rule kahn_children [OF assms])
  have dist: "distinct (ordered @ node # queue)" "set (ordered @ node # queue) \<subseteq> ts"
    using inv unfolding kahn_inv_def by blast+
  then have node: "node \<in> ts" by simp
  have order: "before ?o p c" if "(p, c) \<in> set E" "c \<in> set ?o" for p c
  proof (cases "c = node")
    case True
    have "\<forall>t \<in> ts. deg_of deg t = int (open_edges E (set ordered) t)"
      "\<forall>t \<in> ts. deg_of deg t = 0 \<longleftrightarrow> t \<in> set (ordered @ node # queue)"
      using inv unfolding kahn_inv_def by blast+
    then have "open_edges E (set ordered) node = 0" using node by simp
    then have "p \<in> set ordered" using that(1) True by (simp add: open_edges_0)
    then show ?thesis using True by (intro before_later) simp_all
  next
    case False
    then show ?thesis using inv that by (intro before_append) (simp add: kahn_inv_def)
  qed
  have "distinct (?o @ queue')" "set (?o @ queue') \<subseteq> ts" using dist new(1-4) by auto
  moreover have "\<forall>t \<in> ts. deg_of deg' t = 0 \<longleftrightarrow> t \<in> set (?o @ queue')" using new(1,6) by auto
  moreover have "\<forall>p c. (p, c) \<in> set E \<and> c \<in> set ?o \<longrightarrow> before ?o p c" using order by blast
  ultimately show ?thesis using new(5) unfolding kahn_inv_def by (intro conjI)
qed

lemma kahn_result:
  assumes "kahn_inv E ts deg queue ordered" "set E \<subseteq> ts \<times> ts"
    "\<And>p. children_of ch p = map snd (filter (\<lambda>(q, _). q = p) E)"
  shows "\<exists>deg'. kahn_inv E ts deg' [] (kahn ch deg queue ordered)"
  using assms
proof (induction ch deg queue ordered rule: kahn.induct)
  case (1 ch deg ordered)
  then show ?case by auto
next
  case (2 ch deg node queue ordered)
  obtain deg' queue' where run: "relax (children_of ch node) deg queue = (deg', queue')" by fastforce
  then have "kahn_inv E ts deg' queue' (ordered @ [node])"
    using kahn_inv_step [OF 2(2,3)] 2(4) by simp
  from 2(1) [OF run [symmetric] refl this 2(3,4)] run show ?case by simp
qed

subsection \<open>The whole sort\<close>

lemma start_degrees:
  "map_of (fold (\<lambda>t. AList.update t (0 :: int)) tables m) x =
    (if x \<in> set tables then Some 0 else map_of m x)"
  by (induction tables arbitrary: m) (auto simp: update_conv')

lemma edges_within: "set (edges tables cs) \<subseteq> set tables \<times> set tables"
  by (auto simp: edges_def)

lemma count_open_edges: "count_list (map snd E) t = open_edges E {} t"
  by (induction E) (auto simp: open_edges_def)

lemma topoSort_run:
  assumes "distinct tables" "tables \<noteq> []"
  obtains deg ordered where "kahn_inv (edges tables cs) (set tables) deg [] ordered"
    "topoSort tables cs = ordered @ filter (\<lambda>t. t \<notin> set ordered) tables"
proof -
  let ?E = "edges tables cs" and ?d0 = "fold (\<lambda>t. AList.update t (0 :: int)) tables []"
  obtain deg ch where edges: "add_edges cs ?d0 [] = (deg, ch)" by fastforce
  let ?queue = "filter (\<lambda>t. deg_of deg t = 0) tables"
  have "map_of ?d0 x = None \<longleftrightarrow> x \<notin> set tables" for x by (simp add: start_degrees)
  note made = add_edges_result [OF edges this]
  have ch: "children_of ch p = map snd (filter (\<lambda>(q, _). q = p) ?E)" for p
    using made [of p undefined] by (simp add: children_of_def)
  have deg: "deg_of deg t = int (open_edges ?E {} t)" for t
    using made [of undefined t] by (simp add: deg_of_def start_degrees count_open_edges split: if_splits)
  have "kahn_inv ?E (set tables) deg ?queue []"
    using assms(1) deg by (simp add: kahn_inv_def)
  from kahn_result [OF this edges_within ch] obtain deg'
    where "kahn_inv ?E (set tables) deg' [] (kahn ch deg ?queue [])" by blast
  moreover have "topoSort tables cs = kahn ch deg ?queue [] @ filter (\<lambda>t. t \<notin> set (kahn ch deg ?queue [])) tables"
    using assms(2) by (simp add: topoSort_def edges Let_def)
  ultimately show ?thesis by (rule that)
qed

subsection \<open>Properties\<close>

text \<open>The order is the tables again, each once: whatever the foreign keys are, no table is lost,
  added or repeated, cycles included.\<close>

theorem topoSort_permutes:
  assumes "distinct tables"
  shows "mset (topoSort tables cs) = mset tables"
proof (cases "tables = []")
  case False
  obtain deg ordered where run: "kahn_inv (edges tables cs) (set tables) deg [] ordered"
    "topoSort tables cs = ordered @ filter (\<lambda>t. t \<notin> set ordered) tables"
    by (rule topoSort_run [OF assms False])
  have "distinct (topoSort tables cs)" "set (topoSort tables cs) = set tables"
    using run assms by (auto simp: kahn_inv_def)
  then show ?thesis using assms by (simp add: set_eq_iff_mset_eq_distinct)
qed (simp add: topoSort_def)

lemma topoSort_permutes_witness:
  "mset (topoSort [''a'', ''b''] [\<lparr>fk_TableName = ''a'', fk_RefTableName = ''b''\<rparr>]) = {#''a'', ''b''#}"
  using topoSort_permutes [of "[''a'', ''b'']"] by simp

text \<open>C19. When the foreign keys among the tables have no cycle (there is a rank that every child has above
  its parent), every parent comes before its children.\<close>

theorem topoSort_parents_first:
  assumes "distinct tables" "(p, c) \<in> set (edges tables cs)"
    and acyclic: "\<forall>(p, c) \<in> set (edges tables cs). rank p < (rank c :: nat)"
  shows "before (topoSort tables cs) p c"
proof -
  let ?E = "edges tables cs"
  have "tables \<noteq> []" using assms(2) edges_within by fastforce
  then obtain deg ordered where run: "kahn_inv ?E (set tables) deg [] ordered"
    "topoSort tables cs = ordered @ filter (\<lambda>t. t \<notin> set ordered) tables"
    by (rule topoSort_run [OF assms(1)])
  have all: "t \<in> set ordered" if "t \<in> set tables" for t
    using that
  proof (induction "rank t" arbitrary: t rule: less_induct)
    case less
    have "open_edges ?E (set ordered) t = 0"
      unfolding open_edges_0 using less edges_within acyclic by fastforce
    moreover have "deg_of deg t = int (open_edges ?E (set ordered) t)"
      and "deg_of deg t = 0 \<longleftrightarrow> t \<in> set (ordered @ [])"
      using run(1) less.prems unfolding kahn_inv_def by blast+
    ultimately show ?case by simp
  qed
  have "c \<in> set ordered" using assms(2) edges_within all by fastforce
  then have "before ordered p c" using run(1) assms(2) unfolding kahn_inv_def by blast
  then show ?thesis unfolding run(2) by (rule before_append)
qed

lemma topoSort_parents_first_witness:
  "before (topoSort [''order'', ''user''] [\<lparr>fk_TableName = ''order'', fk_RefTableName = ''user''\<rparr>]) ''user'' ''order''"
  by (rule topoSort_parents_first [where rank = "\<lambda>t. if t = ''user'' then 0 else 1"]) simp_all

text \<open>A table that references itself counts as a cycle: it and every table below it stay in the order
  they were given, and a child can come before its parent although the tables have no cycle.\<close>

theorem topoSort_self_reference:
  "topoSort [''product'', ''category'']
    [\<lparr>fk_TableName = ''category'', fk_RefTableName = ''category''\<rparr>,
     \<lparr>fk_TableName = ''product'', fk_RefTableName = ''category''\<rparr>] = [''product'', ''category'']"
  by code_simp

end
