(* ===== verification/Http.thy ===== *)
theory Http
  imports Go_Values Hex
begin

section \<open>Requests and responses\<close>

text \<open>
  What the handlers under \<^verbatim>\<open>internal/server\<close> use of \<^verbatim>\<open>net/http\<close> and of the router:
  the claims the middleware put into the context, path and query parameters, and a response
  with its status code and either an error text or a payload. The decoded body of a request is
  an argument of the handlers that read one: its decoding is the standard library's, and its
  outcome is part of the input.
\<close>

record claims =
  cl_UserID :: string
  cl_Email :: string

record request =
  rq_Claims :: "claims option"
  rq_URLParam :: "string \<Rightarrow> string"
  rq_Query :: "string \<Rightarrow> string"

definition userIDFromRequest :: "request \<Rightarrow> string" where
  "userIDFromRequest r = (case rq_Claims r of None \<Rightarrow> [] | Some c \<Rightarrow> cl_UserID c)"

definition emailFromRequest :: "request \<Rightarrow> string" where
  "emailFromRequest r = (case rq_Claims r of None \<Rightarrow> [] | Some c \<Rightarrow> cl_Email c)"

datatype 'b response_body = ErrorBody string | Payload 'b

type_synonym 'b response = "nat \<times> 'b response_body"

abbreviation StatusOK :: nat where "StatusOK \<equiv> 200"
abbreviation StatusCreated :: nat where "StatusCreated \<equiv> 201"
abbreviation StatusAccepted :: nat where "StatusAccepted \<equiv> 202"
abbreviation StatusBadRequest :: nat where "StatusBadRequest \<equiv> 400"
abbreviation StatusUnauthorized :: nat where "StatusUnauthorized \<equiv> 401"
abbreviation StatusForbidden :: nat where "StatusForbidden \<equiv> 403"
abbreviation StatusNotFound :: nat where "StatusNotFound \<equiv> 404"
abbreviation StatusConflict :: nat where "StatusConflict \<equiv> 409"
abbreviation StatusPreconditionFailed :: nat where "StatusPreconditionFailed \<equiv> 412"
abbreviation StatusInternalServerError :: nat where "StatusInternalServerError \<equiv> 500"

definition writeJSON :: "nat \<Rightarrow> 'b \<Rightarrow> 'b response" where
  "writeJSON status v = (status, Payload v)"

definition writeError :: "nat \<Rightarrow> string \<Rightarrow> 'b response" where
  "writeError status message = (status, ErrorBody message)"

definition succeeded :: "'b response \<Rightarrow> bool" where
  "succeeded r = (case snd r of Payload _ \<Rightarrow> True | ErrorBody _ \<Rightarrow> False)"

lemma response_simps [simp]:
  "succeeded (writeJSON status v)"
  "\<not> succeeded (writeError status message)"
  "fst (writeJSON status v) = status"
  "fst (writeError status message) = status"
  by (simp_all add: succeeded_def writeJSON_def writeError_def)

end
