(* ===== verification/Server_Stores.thy ===== *)
theory Server_Stores
  imports Http Keyed_Store
begin

section \<open>The stores of the server\<close>

text \<open>
  The in-memory stores of agents (\<^verbatim>\<open>server/agent/store.go\<close>), organisations
  (\<^verbatim>\<open>server/org/store.go\<close>), audit entries (\<^verbatim>\<open>server/audit/store.go\<close>) and users
  (\<^verbatim>\<open>server/auth/store.go\<close>). A Go map is an association list with distinct keys; the order
  in which a listing visits a map is open in Go and is the order of the list here, on which no
  lemma depends. Fresh random bytes \<open>rnd\<close> and the clock \<open>now\<close> are arguments.
\<close>

subsection \<open>Agents\<close>

record agent_record =
  ag_ID :: string
  ag_OrgID :: string
  ag_Hostname :: string
  ag_MySQLVersion :: string
  ag_Status :: string
  ag_LastSeen :: go_time
  ag_CreatedAt :: go_time
  ag_CertSerial :: string
  ag_RegistrationToken :: string
  ag_Approved :: bool

type_synonym agent_store = "(string \<times> agent_record) list"

definition generateAgentID :: "bytes \<Rightarrow> string" where
  "generateAgentID rnd = ''agent_'' @ hex_lower rnd"

text \<open>\<^verbatim>\<open>Create\<close> fills in the record it is given: the record stored is returned.\<close>

definition fill_agent :: "bytes \<Rightarrow> go_time \<Rightarrow> agent_record \<Rightarrow> agent_record" where
  "fill_agent rnd now a =
     (let a = (if ag_ID a = [] then a\<lparr>ag_ID := generateAgentID rnd\<rparr> else a);
          a = (if IsZero (ag_CreatedAt a) then a\<lparr>ag_CreatedAt := now\<rparr> else a)
      in if ag_Status a = [] then a\<lparr>ag_Status := ''offline''\<rparr> else a)"

lemma fill_agent_keeps [simp]:
  "ag_Approved (fill_agent rnd now a) = ag_Approved a" "ag_OrgID (fill_agent rnd now a) = ag_OrgID a"
  by (simp_all add: fill_agent_def Let_def)

definition Agent_Create :: "bytes \<Rightarrow> go_time \<Rightarrow> agent_record \<Rightarrow> agent_store \<Rightarrow> agent_record \<times> agent_store" where
  "Agent_Create rnd now a s =
     (let a = fill_agent rnd now a in (a, AList.update (ag_ID a) a s))"

definition Agent_Get :: "agent_store \<Rightarrow> string \<Rightarrow> agent_record outcome" where
  "Agent_Get s i = (case map_of s i of
      None \<Rightarrow> Err (Errorf (''agent not found: '' @ i)) | Some a \<Rightarrow> Ok a)"

definition Agent_ListByOrg :: "agent_store \<Rightarrow> string \<Rightarrow> agent_record list" where
  "Agent_ListByOrg s orgID = filter (\<lambda>a. ag_OrgID a = orgID) (map snd s)"

definition Agent_Update :: "agent_record \<Rightarrow> agent_store \<Rightarrow> unit outcome \<times> agent_store" where
  "Agent_Update a s = (if map_of s (ag_ID a) = None
     then (Err (Errorf (''agent not found: '' @ ag_ID a)), s)
     else (Ok (), AList.update (ag_ID a) a s))"

definition Agent_Delete :: "string \<Rightarrow> agent_store \<Rightarrow> unit outcome \<times> agent_store" where
  "Agent_Delete i s = (if map_of s i = None
     then (Err (Errorf (''agent not found: '' @ i)), s)
     else (Ok (), AList.delete i s))"

interpretation agents: entity_store "\<lambda>a. AList.update (ag_ID a) a" AList.delete map_of ag_ID "entity_wf ag_ID"
  by (rule entity_store_alist)

lemma Agent_Get_Ok [simp]: "Agent_Get s i = Ok a \<longleftrightarrow> map_of s i = Some a"
  by (simp add: Agent_Get_def split: option.splits)

subsection \<open>Organisations\<close>

record organization =
  og_ID :: string
  og_Name :: string
  og_CreatedAt :: go_time

record member =
  mb_UserID :: string
  mb_OrgID :: string
  mb_Role :: string
  mb_JoinedAt :: go_time

record invite =
  iv_Code :: string
  iv_OrgID :: string
  iv_CreatedBy :: string
  iv_CreatedAt :: go_time

record org_store =
  os_orgs :: "(string \<times> organization) list"
  os_members :: "(string \<times> member list) list"
  os_invites :: "(string \<times> invite) list"

definition NewInMemoryOrgStore :: org_store where
  "NewInMemoryOrgStore = \<lparr>os_orgs = [], os_members = [], os_invites = []\<rparr>"

definition members_of :: "org_store \<Rightarrow> string \<Rightarrow> member list" where
  "members_of s orgID = (case map_of (os_members s) orgID of None \<Rightarrow> [] | Some ms \<Rightarrow> ms)"

definition org_not_found :: "string \<Rightarrow> go_error" where
  "org_not_found i = Errorf (''organisation not found: '' @ i)"

definition Org_Create :: "bytes \<Rightarrow> go_time \<Rightarrow> organization \<Rightarrow> org_store \<Rightarrow> organization \<times> org_store" where
  "Org_Create rnd now og s =
     (let og = (if og_ID og = [] then og\<lparr>og_ID := ''org_'' @ hex_lower rnd\<rparr> else og);
          og = (if IsZero (og_CreatedAt og) then og\<lparr>og_CreatedAt := now\<rparr> else og)
      in (og, s\<lparr>os_orgs := AList.update (og_ID og) og (os_orgs s)\<rparr>))"

definition Org_Get :: "org_store \<Rightarrow> string \<Rightarrow> organization outcome" where
  "Org_Get s i = (case map_of (os_orgs s) i of None \<Rightarrow> Err (org_not_found i) | Some og \<Rightarrow> Ok og)"

definition Org_ListAll :: "org_store \<Rightarrow> organization list" where
  "Org_ListAll s = map snd (os_orgs s)"

definition Org_ListByUserID :: "org_store \<Rightarrow> string \<Rightarrow> organization list" where
  "Org_ListByUserID s userID =
     List.map_filter (\<lambda>(orgID, ms). if list_ex (\<lambda>m. mb_UserID m = userID) ms then map_of (os_orgs s) orgID else None)
       (os_members s)"

definition Org_AddMember :: "go_time \<Rightarrow> string \<Rightarrow> string \<Rightarrow> string \<Rightarrow> org_store \<Rightarrow> unit outcome \<times> org_store" where
  "Org_AddMember now orgID userID role s =
     (if map_of (os_orgs s) orgID = None then (Err (org_not_found orgID), s)
      else if list_ex (\<lambda>m. mb_UserID m = userID) (members_of s orgID) then
        (Err (Errorf (''user '' @ userID @ '' is already a member of organisation '' @ orgID)), s)
      else (Ok (), s\<lparr>os_members := AList.update orgID (members_of s orgID @
          [\<lparr>mb_UserID = userID, mb_OrgID = orgID, mb_Role = role, mb_JoinedAt = now\<rparr>]) (os_members s)\<rparr>))"

text \<open>The first member with the user's ID is cut out of the slice.\<close>

fun remove_first :: "('a \<Rightarrow> bool) \<Rightarrow> 'a list \<Rightarrow> 'a list option" where
  "remove_first P [] = None"
| "remove_first P (x # xs) = (if P x then Some xs else map_option (Cons x) (remove_first P xs))"

definition Org_RemoveMember :: "string \<Rightarrow> string \<Rightarrow> org_store \<Rightarrow> unit outcome \<times> org_store" where
  "Org_RemoveMember orgID userID s =
     (case remove_first (\<lambda>m. mb_UserID m = userID) (members_of s orgID) of
        None \<Rightarrow> (Err (Errorf (''user '' @ userID @ '' is not a member of organisation '' @ orgID)), s)
      | Some ms \<Rightarrow> (Ok (), s\<lparr>os_members := AList.update orgID ms (os_members s)\<rparr>))"

definition Org_ListMembers :: "org_store \<Rightarrow> string \<Rightarrow> member list outcome" where
  "Org_ListMembers s orgID =
     (if map_of (os_orgs s) orgID = None then Err (org_not_found orgID) else Ok (members_of s orgID))"

definition Org_CreateInvite :: "bytes \<Rightarrow> go_time \<Rightarrow> string \<Rightarrow> string \<Rightarrow> org_store \<Rightarrow> invite outcome \<times> org_store" where
  "Org_CreateInvite rnd now orgID createdBy s =
     (if map_of (os_orgs s) orgID = None then (Err (org_not_found orgID), s)
      else let iv = \<lparr>iv_Code = hex_lower rnd, iv_OrgID = orgID, iv_CreatedBy = createdBy, iv_CreatedAt = now\<rparr>
        in (Ok iv, s\<lparr>os_invites := AList.update (iv_Code iv) iv (os_invites s)\<rparr>))"

definition Org_GetInviteByCode :: "org_store \<Rightarrow> string \<Rightarrow> invite outcome" where
  "Org_GetInviteByCode s code = (case map_of (os_invites s) code of
      None \<Rightarrow> Err (Errorf (''invite not found: '' @ code)) | Some iv \<Rightarrow> Ok iv)"

definition Org_DeleteInvite :: "string \<Rightarrow> org_store \<Rightarrow> org_store" where
  "Org_DeleteInvite code s = s\<lparr>os_invites := AList.delete code (os_invites s)\<rparr>"

text \<open>The store keeps: one record per organisation, members of existing organisations only and under
  their own, no user twice in an organisation, and invites to existing organisations only.\<close>

definition org_wf :: "org_store \<Rightarrow> bool" where
  "org_wf s \<longleftrightarrow> entity_wf og_ID (os_orgs s) \<and> go_map_wf (os_members s) \<and> entity_wf iv_Code (os_invites s) \<and>
     (\<forall>g. members_of s g \<noteq> [] \<longrightarrow> map_of (os_orgs s) g \<noteq> None) \<and>
     (\<forall>g. distinct (map mb_UserID (members_of s g)) \<and> (\<forall>m \<in> set (members_of s g). mb_OrgID m = g)) \<and>
     (\<forall>c iv. map_of (os_invites s) c = Some iv \<longrightarrow> map_of (os_orgs s) (iv_OrgID iv) \<noteq> None)"

lemma members_of_update [simp]:
  "members_of (s\<lparr>os_members := AList.update g ms (os_members s)\<rparr>) h = (if h = g then ms else members_of s h)"
  "members_of (s\<lparr>os_orgs := x\<rparr>) h = members_of s h"
  "members_of (s\<lparr>os_invites := y\<rparr>) h = members_of s h"
  by (simp_all add: members_of_def go_map_simps)

interpretation organizations: entity_store "\<lambda>og. AList.update (og_ID og) og" AList.delete map_of og_ID "entity_wf og_ID"
  by (rule entity_store_alist)

interpretation invites: entity_store "\<lambda>iv. AList.update (iv_Code iv) iv" AList.delete map_of iv_Code "entity_wf iv_Code"
  by (rule entity_store_alist)

lemma org_wf_empty: "org_wf NewInMemoryOrgStore"
  by (simp add: org_wf_def NewInMemoryOrgStore_def members_of_def)

lemma org_wf_Create:
  assumes "org_wf s" "Org_Create rnd now og s = (og', s')"
  shows "org_wf s'"
proof -
  have s': "s' = s\<lparr>os_orgs := AList.update (og_ID og') og' (os_orgs s)\<rparr>"
    using assms(2) by (auto simp: Org_Create_def Let_def)
  show ?thesis
    using assms(1) organizations.wf_save [of "os_orgs s" og'] unfolding s'
    by (auto simp: org_wf_def go_map_simps)
qed

lemma org_wf_AddMember: "org_wf s \<Longrightarrow> org_wf (snd (Org_AddMember now g u role s))"
  by (auto simp: org_wf_def Org_AddMember_def go_map_simps list_ex_iff split: if_splits)

lemma remove_first_Some:
  "remove_first P xs = Some ys \<Longrightarrow> \<exists>us x vs. xs = us @ x # vs \<and> ys = us @ vs \<and> P x \<and> \<not> list_ex P us"
proof (induction xs arbitrary: ys)
  case (Cons x xs)
  show ?case
  proof (cases "P x")
    case True
    with Cons.prems show ?thesis by (intro exI [of _ "[]"]) simp
  next
    case False
    with Cons obtain zs us y vs where "ys = x # zs" "xs = us @ y # vs" "zs = us @ vs" "P y" "\<not> list_ex P us"
      by auto
    with False show ?thesis by (intro exI [of _ "x # us"] exI [of _ y] exI [of _ vs]) simp
  qed
qed simp

lemma remove_first_None: "remove_first P xs = None \<longleftrightarrow> \<not> list_ex P xs"
  by (induction xs) auto

lemma org_wf_RemoveMember:
  assumes "org_wf s"
  shows "org_wf (snd (Org_RemoveMember g u s))"
proof (cases "remove_first (\<lambda>m. mb_UserID m = u) (members_of s g)")
  case None
  then show ?thesis using assms by (simp add: Org_RemoveMember_def)
next
  case (Some ms)
  then obtain us x vs where ms: "members_of s g = us @ x # vs" "ms = us @ vs"
    using remove_first_Some by metis
  have "members_of s g \<noteq> []" by (simp add: ms(1))
  then have "map_of (os_orgs s) g \<noteq> None" "distinct (map mb_UserID (members_of s g))"
    "\<forall>m \<in> set (members_of s g). mb_OrgID m = g"
    using assms unfolding org_wf_def by blast+
  note this [unfolded ms(1)]
  then show ?thesis
    using assms Some ms(2) by (auto simp: org_wf_def Org_RemoveMember_def go_map_simps)
qed

lemma org_wf_CreateInvite: "org_wf s \<Longrightarrow> org_wf (snd (Org_CreateInvite rnd now g u s))"
  using invites.wf_save [of "os_invites s"
      "\<lparr>iv_Code = hex_lower rnd, iv_OrgID = g, iv_CreatedBy = u, iv_CreatedAt = now\<rparr>"]
  by (auto simp: org_wf_def Org_CreateInvite_def Let_def go_map_simps split: if_splits)

lemma org_wf_DeleteInvite: "org_wf s \<Longrightarrow> org_wf (Org_DeleteInvite c s)"
  using invites.wf_remove [of "os_invites s" c]
  by (auto simp: org_wf_def Org_DeleteInvite_def go_map_simps split: if_splits)

subsection \<open>Audit entries\<close>

record audit_entry =
  ae_OperationID :: string
  ae_Operator :: string
  ae_Timestamp :: go_time
  ae_OrgID :: string
  ae_AgentID :: string
  ae_TargetTable :: string
  ae_RecoveryTime :: go_time
  ae_RowsAffected :: int
  ae_Status :: string
  ae_ErrorDetails :: string

record audit_filter =
  af_OrgID :: string
  af_OperationID :: string
  af_From :: go_time
  af_To :: go_time
  af_Status :: string
  af_AgentID :: string

type_synonym audit_store = "audit_entry list"

definition Audit_Append :: "go_time \<Rightarrow> audit_entry \<Rightarrow> audit_store \<Rightarrow> audit_store" where
  "Audit_Append now e s = s @ [if IsZero (ae_Timestamp e) then e\<lparr>ae_Timestamp := now\<rparr> else e]"

definition audit_match :: "audit_filter \<Rightarrow> audit_entry \<Rightarrow> bool" where
  "audit_match f e \<longleftrightarrow> \<not> (
     ae_OrgID e \<noteq> af_OrgID f \<or>
     \<not> IsZero (af_From f) \<and> ae_Timestamp e < af_From f \<or>
     \<not> IsZero (af_To f) \<and> af_To f < ae_Timestamp e \<or>
     af_Status f \<noteq> [] \<and> ae_Status e \<noteq> af_Status f \<or>
     af_AgentID f \<noteq> [] \<and> ae_AgentID e \<noteq> af_AgentID f \<or>
     af_OperationID f \<noteq> [] \<and> ae_OperationID e \<noteq> af_OperationID f)"

definition Audit_Query :: "audit_filter \<Rightarrow> audit_store \<Rightarrow> audit_entry list outcome" where
  "Audit_Query f s = (if af_OrgID f = [] then Err (Errorf ''orgId filter is required'')
     else Ok (filter (audit_match f) s))"

definition Audit_ListAll :: "audit_store \<Rightarrow> audit_entry list" where
  "Audit_ListAll s = s"

subsection \<open>Users\<close>

record user =
  us_ID :: string
  us_Email :: string
  us_HashedPassword :: string
  us_CreatedAt :: go_time

record user_store =
  st_byID :: "(string \<times> user) list"
  st_byEmail :: "(string \<times> user) list"

definition NewInMemoryUserStore :: user_store where
  "NewInMemoryUserStore = \<lparr>st_byID = [], st_byEmail = []\<rparr>"

definition fill_user :: "bytes \<Rightarrow> go_time \<Rightarrow> user \<Rightarrow> user" where
  "fill_user rnd now u =
     (let u = (if us_ID u = [] then u\<lparr>us_ID := hex_lower rnd\<rparr> else u)
      in if IsZero (us_CreatedAt u) then u\<lparr>us_CreatedAt := now\<rparr> else u)"

definition User_Create :: "bytes \<Rightarrow> go_time \<Rightarrow> user \<Rightarrow> user_store \<Rightarrow> user outcome \<times> user_store" where
  "User_Create rnd now u s =
     (if map_of (st_byEmail s) (us_Email u) \<noteq> None then
        (Err (Errorf (''user with email '' @ us_Email u @ '' already exists'')), s)
      else let u = fill_user rnd now u
        in (Ok u, s\<lparr>st_byID := AList.update (us_ID u) u (st_byID s),
                   st_byEmail := AList.update (us_Email u) u (st_byEmail s)\<rparr>))"

definition user_lookup :: "(string \<times> user) list \<Rightarrow> string \<Rightarrow> user outcome" where
  "user_lookup m k = (case map_of m k of None \<Rightarrow> Err (Errorf (''user not found: '' @ k)) | Some u \<Rightarrow> Ok u)"

definition User_GetByID :: "user_store \<Rightarrow> string \<Rightarrow> user outcome" where
  "User_GetByID s i = user_lookup (st_byID s) i"

definition User_GetByEmail :: "user_store \<Rightarrow> string \<Rightarrow> user outcome" where
  "User_GetByEmail s e = user_lookup (st_byEmail s) e"

interpretation users_by_id: entity_store "\<lambda>u. AList.update (us_ID u) u" AList.delete map_of us_ID "entity_wf us_ID"
  by (rule entity_store_alist)

interpretation users_by_email: entity_store "\<lambda>u. AList.update (us_Email u) u" AList.delete map_of us_Email "entity_wf us_Email"
  by (rule entity_store_alist)

text \<open>The two indexes hold the same users.\<close>

definition user_wf :: "user_store \<Rightarrow> bool" where
  "user_wf s \<longleftrightarrow> entity_wf us_ID (st_byID s) \<and> entity_wf us_Email (st_byEmail s) \<and>
     (\<forall>e u. map_of (st_byEmail s) e = Some u \<longrightarrow> map_of (st_byID s) (us_ID u) = Some u) \<and>
     (\<forall>i u. map_of (st_byID s) i = Some u \<longrightarrow> map_of (st_byEmail s) (us_Email u) = Some u)"

lemma user_wf_empty: "user_wf NewInMemoryUserStore"
  by (simp add: user_wf_def NewInMemoryUserStore_def)

lemma user_wf_Create:
  assumes "user_wf s" "User_Create rnd now u s = (r, s')"
    and "us_ID u = []" "map_of (st_byID s) (hex_lower rnd) = None"
  shows "user_wf s'"
proof (cases "map_of (st_byEmail s) (us_Email u)")
  case None
  define v where "v = fill_user rnd now u"
  have v: "us_ID v = hex_lower rnd" "us_Email v = us_Email u"
    using assms(3) by (simp_all add: v_def fill_user_def Let_def)
  have s': "s' = s\<lparr>st_byID := AList.update (us_ID v) v (st_byID s), st_byEmail := AList.update (us_Email v) v (st_byEmail s)\<rparr>"
    using assms(2) None by (simp add: User_Create_def Let_def v_def)
  have fresh: "us_ID x \<noteq> hex_lower rnd" if "map_of (st_byEmail s) e = Some x" for e x
    using assms(1,4) that unfolding user_wf_def by force
  have fresh': "us_Email x \<noteq> us_Email u" if "map_of (st_byID s) i = Some x" for i x
    using assms(1) None that unfolding user_wf_def by force
  show ?thesis
    unfolding user_wf_def s' using assms(1,4) None v
      users_by_id.wf_save [of "st_byID s" v] users_by_email.wf_save [of "st_byEmail s" v]
    by (auto simp: user_wf_def go_map_simps dest: fresh fresh')
next
  case (Some v)
  then show ?thesis using assms(1,2) by (simp add: User_Create_def)
qed

end
