(* ===== verification/Auth.thy ===== *)
theory Auth
  imports Server_Stores Go_Strings
begin

section \<open>Authentication\<close>

text \<open>
  The model of \<^verbatim>\<open>server/auth/jwt.go\<close>, \<^verbatim>\<open>middleware.go\<close> and
  \<^verbatim>\<open>handler.go\<close>. The JWT and bcrypt packages are outside the repository: they are the records
  of functions \<open>jwt_lib\<close> and \<open>bcrypt_lib\<close>, arguments of the definitions that call them.
\<close>

subsection \<open>Tokens\<close>

text \<open>The claims of a token; a field that a kind of token does not have is empty in it.\<close>

record token_claims =
  tc_UserID :: string
  tc_Email :: string
  tc_ExpiresAt :: go_time
  tc_IssuedAt :: go_time
  tc_Issuer :: string
  tc_Subject :: string
  tc_ID :: string

text \<open>\<open>jl_sign\<close> signs with HS256. \<open>jl_parse\<close> parses a token, checks that its method is an HMAC and
  that its signature and its times are valid, and gives its claims.\<close>

record jwt_lib =
  jl_sign :: "token_claims \<Rightarrow> bytes \<Rightarrow> string outcome"
  jl_parse :: "string \<Rightarrow> bytes \<Rightarrow> go_time \<Rightarrow> token_claims outcome"

record bcrypt_lib =
  bc_hash :: "string \<Rightarrow> nat \<Rightarrow> string outcome"
  bc_compare :: "string \<Rightarrow> string \<Rightarrow> bool"

definition AccessTokenDuration :: int where "AccessTokenDuration = 24 * 3600 * 1000000000"
definition RefreshTokenDuration :: int where "RefreshTokenDuration = 7 * 24 * 3600 * 1000000000"
definition BcryptCost :: nat where "BcryptCost = 12"

definition access_claims :: "go_time \<Rightarrow> string \<Rightarrow> string \<Rightarrow> token_claims" where
  "access_claims now userID email = \<lparr>tc_UserID = userID, tc_Email = email,
     tc_ExpiresAt = now + AccessTokenDuration, tc_IssuedAt = now, tc_Issuer = ''mysql-pitr'',
     tc_Subject = [], tc_ID = []\<rparr>"

definition refresh_claims :: "go_time \<Rightarrow> string \<Rightarrow> token_claims" where
  "refresh_claims now userID = \<lparr>tc_UserID = [], tc_Email = [],
     tc_ExpiresAt = now + RefreshTokenDuration, tc_IssuedAt = now, tc_Issuer = ''mysql-pitr'',
     tc_Subject = userID, tc_ID = ''refresh''\<rparr>"

definition CreateToken :: "jwt_lib \<Rightarrow> go_time \<Rightarrow> string \<Rightarrow> string \<Rightarrow> bytes \<Rightarrow> string outcome" where
  "CreateToken lib now userID email secret = jl_sign lib (access_claims now userID email) secret"

definition CreateRefreshToken :: "jwt_lib \<Rightarrow> go_time \<Rightarrow> string \<Rightarrow> bytes \<Rightarrow> string outcome" where
  "CreateRefreshToken lib now userID secret = jl_sign lib (refresh_claims now userID) secret"

definition ValidateToken :: "jwt_lib \<Rightarrow> go_time \<Rightarrow> string \<Rightarrow> bytes \<Rightarrow> claims outcome" where
  "ValidateToken lib now tok secret =
     (case jl_parse lib tok secret now of
        Err e \<Rightarrow> Err (Wrapf ''validate token'' e)
      | Panic \<Rightarrow> Panic
      | Ok c \<Rightarrow> Ok \<lparr>cl_UserID = tc_UserID c, cl_Email = tc_Email c\<rparr>)"

definition ValidateRefreshToken :: "jwt_lib \<Rightarrow> go_time \<Rightarrow> string \<Rightarrow> bytes \<Rightarrow> string outcome" where
  "ValidateRefreshToken lib now tok secret =
     (case jl_parse lib tok secret now of
        Err e \<Rightarrow> Err (Wrapf ''validate refresh token'' e)
      | Panic \<Rightarrow> Panic
      | Ok c \<Rightarrow> if tc_ID c \<noteq> ''refresh'' then Err (Errorf ''token is not a refresh token'')
          else Ok (tc_Subject c))"

subsection \<open>The middleware\<close>

text \<open>The request reaches \<open>next\<close> with the claims of its token, or is answered with an error.\<close>

definition AuthMiddleware :: "jwt_lib \<Rightarrow> bytes \<Rightarrow> go_time \<Rightarrow> string \<Rightarrow> (request \<Rightarrow> 's \<Rightarrow> 'b response \<times> 's) \<Rightarrow>
    request \<Rightarrow> 's \<Rightarrow> 'b response \<times> 's" where
  "AuthMiddleware lib secret now authHeader next r s =
     (if authHeader = [] then (writeError StatusUnauthorized ''missing Authorization header'', s)
      else case SplitN2 authHeader '' '' of
        [scheme, tok] \<Rightarrow>
          if \<not> equal_fold_ascii scheme ''Bearer'' then
            (writeError StatusUnauthorized ''invalid Authorization header format'', s)
          else (case ValidateToken lib now tok secret of
              Ok c \<Rightarrow> next (r\<lparr>rq_Claims := Some c\<rparr>) s
            | _ \<Rightarrow> (writeError StatusUnauthorized ''invalid or expired token'', s))
      | _ \<Rightarrow> (writeError StatusUnauthorized ''invalid Authorization header format'', s))"

subsection \<open>Handlers\<close>

record credentials =
  cr_Email :: string
  cr_Password :: string

datatype auth_payload =
    Registered string user
  | LoggedIn string string user
  | Refreshed string

text \<open>\<^verbatim>\<open>uni\<close> is the lower-casing of non-ASCII text; a body that does not decode is \<^const>\<open>None\<close>.\<close>

definition normal_email :: "(string \<Rightarrow> string) \<Rightarrow> string \<Rightarrow> string" where
  "normal_email uni e = TrimSpace (ToLower uni e)"

definition Auth_Register :: "(string \<Rightarrow> string) \<Rightarrow> jwt_lib \<Rightarrow> bcrypt_lib \<Rightarrow> bytes \<Rightarrow> bytes \<Rightarrow> go_time \<Rightarrow>
    credentials option \<Rightarrow> user_store \<Rightarrow> auth_payload response \<times> user_store" where
  "Auth_Register uni lib bc secret rnd now body s =
     (case body of
        None \<Rightarrow> (writeError StatusBadRequest ''invalid request body'', s)
      | Some req \<Rightarrow>
        let email = normal_email uni (cr_Email req) in
        if email = [] \<or> cr_Password req = [] then
          (writeError StatusBadRequest ''email and password are required'', s)
        else (case bc_hash bc (cr_Password req) BcryptCost of
            Ok hashed \<Rightarrow>
              (case User_Create rnd now \<lparr>us_ID = [], us_Email = email, us_HashedPassword = hashed,
                   us_CreatedAt = zero_time\<rparr> s of
                 (Ok u, s) \<Rightarrow>
                   (case CreateToken lib now (us_ID u) (us_Email u) secret of
                      Ok tok \<Rightarrow> (writeJSON StatusCreated (Registered tok u), s)
                    | _ \<Rightarrow> (writeError StatusInternalServerError ''failed to create token'', s))
               | (Err (Errorf m), s) \<Rightarrow> (writeError StatusConflict m, s)
               | (_, s) \<Rightarrow> (writeError StatusConflict [], s))
          | _ \<Rightarrow> (writeError StatusInternalServerError ''failed to hash password'', s)))"

definition Auth_Login :: "(string \<Rightarrow> string) \<Rightarrow> jwt_lib \<Rightarrow> bcrypt_lib \<Rightarrow> bytes \<Rightarrow> go_time \<Rightarrow>
    credentials option \<Rightarrow> user_store \<Rightarrow> auth_payload response" where
  "Auth_Login uni lib bc secret now body s =
     (case body of
        None \<Rightarrow> writeError StatusBadRequest ''invalid request body''
      | Some req \<Rightarrow>
        let email = normal_email uni (cr_Email req) in
        if email = [] \<or> cr_Password req = [] then
          writeError StatusBadRequest ''email and password are required''
        else (case User_GetByEmail s email of
            Ok u \<Rightarrow>
              if \<not> bc_compare bc (us_HashedPassword u) (cr_Password req) then
                writeError StatusUnauthorized ''invalid email or password''
              else (case CreateToken lib now (us_ID u) (us_Email u) secret of
                  Ok tok \<Rightarrow>
                    (case CreateRefreshToken lib now (us_ID u) secret of
                       Ok refresh \<Rightarrow> writeJSON StatusOK (LoggedIn tok refresh u)
                     | _ \<Rightarrow> writeError StatusInternalServerError ''failed to create refresh token'')
                | _ \<Rightarrow> writeError StatusInternalServerError ''failed to create token'')
          | _ \<Rightarrow> writeError StatusUnauthorized ''invalid email or password''))"

definition Auth_Refresh :: "jwt_lib \<Rightarrow> bytes \<Rightarrow> go_time \<Rightarrow> string option \<Rightarrow> user_store \<Rightarrow> auth_payload response" where
  "Auth_Refresh lib secret now body s =
     (case body of
        None \<Rightarrow> writeError StatusBadRequest ''invalid request body''
      | Some refresh \<Rightarrow>
        if refresh = [] then writeError StatusBadRequest ''refreshToken is required''
        else (case ValidateRefreshToken lib now refresh secret of
            Ok userID \<Rightarrow>
              (case User_GetByID s userID of
                 Ok u \<Rightarrow>
                   (case CreateToken lib now (us_ID u) (us_Email u) secret of
                      Ok tok \<Rightarrow> writeJSON StatusOK (Refreshed tok)
                    | _ \<Rightarrow> writeError StatusInternalServerError ''failed to create token'')
               | _ \<Rightarrow> writeError StatusUnauthorized ''user not found'')
          | _ \<Rightarrow> writeError StatusUnauthorized ''invalid or expired refresh token''))"

subsection \<open>What the middleware guarantees\<close>

text \<open>The handler behind the middleware runs only with the claims of a valid token.\<close>

lemma AuthMiddleware_cases:
  obtains (denied) m where "AuthMiddleware lib secret now hdr next r s = (writeError StatusUnauthorized m, s)"
    | (passed) scheme tok c where "hdr = scheme @ '' '' @ tok" "ValidateToken lib now tok secret = Ok c"
      "AuthMiddleware lib secret now hdr next r s = next (r\<lparr>rq_Claims := Some c\<rparr>) s"
proof (cases "Index hdr '' ''")
  case None
  then show ?thesis using denied by (cases "hdr = []") (simp_all add: AuthMiddleware_def SplitN2_def)
next
  case (Some i)
  then obtain a b where ab: "hdr = a @ '' '' @ b" "length a = i" using Index_Some by blast
  show ?thesis
  proof (cases "equal_fold_ascii a ''Bearer''")
    case False
    then show ?thesis using denied Some ab by (auto simp: AuthMiddleware_def SplitN2_def)
  next
    case True
    then show ?thesis using denied passed [OF ab(1)] Some ab
      by (cases "ValidateToken lib now b secret") (auto simp: AuthMiddleware_def SplitN2_def)
  qed
qed

subsection \<open>Properties\<close>

text \<open>The two kinds of token are not exchangeable, although one key signs both: a refresh token used as
  an access token carries no user, so that every handler answers that the request is not
  authenticated, and an access token is no refresh token. (The library is taken to give the
  claims that were signed, or an error.)\<close>

theorem token_kinds_not_exchangeable:
  assumes "CreateRefreshToken lib now userID secret = Ok refresh" "CreateToken lib now' userID' email secret = Ok access"
    and "\<And>t c. jl_parse lib refresh secret t = Ok c \<Longrightarrow> c = refresh_claims now userID"
    and "\<And>t c. jl_parse lib access secret t = Ok c \<Longrightarrow> c = access_claims now' userID' email"
  shows "(case ValidateToken lib t refresh secret of Ok c \<Rightarrow> userIDFromRequest (r\<lparr>rq_Claims := Some c\<rparr>) = [] | _ \<Rightarrow> True) \<and>
    (case ValidateRefreshToken lib t access secret of Ok u \<Rightarrow> False | _ \<Rightarrow> True)"
proof -
  have "tc_UserID c = []" if "jl_parse lib refresh secret t = Ok c" for c
    using assms(3) [OF that] by (simp add: refresh_claims_def)
  moreover have "tc_ID c = []" if "jl_parse lib access secret t = Ok c" for c
    using assms(4) [OF that] by (simp add: access_claims_def)
  ultimately show ?thesis
    by (auto simp: ValidateToken_def ValidateRefreshToken_def userIDFromRequest_def split: outcome.splits)
qed

definition two_token_lib :: jwt_lib where
  "two_token_lib = \<lparr>jl_sign = \<lambda>c _. Ok (if tc_ID c = [] then ''A'' else ''R''),
     jl_parse = \<lambda>t _ _. if t = ''A'' then Ok (access_claims 0 ''u1'' ''e'') else Ok (refresh_claims 0 ''u1'')\<rparr>"

lemma token_kinds_not_exchangeable_witness:
  "ValidateToken two_token_lib 0 ''R'' [] = Ok \<lparr>cl_UserID = [], cl_Email = []\<rparr> \<and>
    ValidateRefreshToken two_token_lib 0 ''A'' [] = Err (Errorf ''token is not a refresh token'')"
proof -
  have parse: "jl_parse two_token_lib ''R'' [] t = Ok c \<Longrightarrow> c = refresh_claims 0 ''u1''"
    "jl_parse two_token_lib ''A'' [] t = Ok c \<Longrightarrow> c = access_claims 0 ''u1'' ''e''" for t c
    by (simp_all add: two_token_lib_def)
  have "CreateRefreshToken two_token_lib 0 ''u1'' [] = Ok ''R''" "CreateToken two_token_lib 0 ''u1'' ''e'' [] = Ok ''A''"
    by (simp_all add: CreateRefreshToken_def CreateToken_def two_token_lib_def refresh_claims_def access_claims_def)
  from token_kinds_not_exchangeable [OF this parse, where t = 0 and r = "\<lparr>rq_Claims = None, rq_URLParam = \<lambda>_. [], rq_Query = \<lambda>_. []\<rparr>"]
  show ?thesis
    by (simp add: ValidateToken_def ValidateRefreshToken_def two_token_lib_def refresh_claims_def
        access_claims_def userIDFromRequest_def)
qed

end
