(* ===== verification/Org_Handlers.thy ===== *)
theory Org_Handlers
  imports Server_Stores
begin

section \<open>Organisations and agents over HTTP\<close>

text \<open>
  The handlers of \<^verbatim>\<open>server/org/handler.go\<close>, \<^verbatim>\<open>server/agent/handler.go\<close> and
  \<^verbatim>\<open>server/audit/handler.go\<close>: each takes the request, its decoded body where it reads one
  (\<^const>\<open>None\<close> for a body that does not decode), and the stores, and gives the response with the
  store it changes.
\<close>

definition is_member :: "member list \<Rightarrow> string \<Rightarrow> bool" where
  "is_member members userID \<longleftrightarrow> list_ex (\<lambda>m. mb_UserID m = userID) members"

definition is_admin :: "member list \<Rightarrow> string \<Rightarrow> bool" where
  "is_admin members userID \<longleftrightarrow> list_ex (\<lambda>m. mb_UserID m = userID \<and> mb_Role m = ''admin'') members"

text \<open>The text of an error, for the handlers that answer with \<^verbatim>\<open>err.Error()\<close> of a store's error.\<close>

fun store_error :: "go_error \<Rightarrow> string" where
  "store_error (Errorf m) = m"
| "store_error _ = []"

subsection \<open>Organisations\<close>

datatype org_payload =
    OrgCreated organization
  | OrgList "organization list"
  | InviteCode string
  | OrgJoined organization
  | MemberList "member list"

definition Orgs_Create :: "bytes \<Rightarrow> go_time \<Rightarrow> request \<Rightarrow> string option \<Rightarrow> org_store \<Rightarrow>
    org_payload response \<times> org_store" where
  "Orgs_Create rnd now r body s =
     (let userID = userIDFromRequest r in
      if userID = [] then (writeError StatusUnauthorized ''not authenticated'', s)
      else case body of
        None \<Rightarrow> (writeError StatusBadRequest ''invalid request body'', s)
      | Some name \<Rightarrow>
        if name = [] then (writeError StatusBadRequest ''name is required'', s)
        else let (og, s) = Org_Create rnd now \<lparr>og_ID = [], og_Name = name, og_CreatedAt = zero_time\<rparr> s in
          (case Org_AddMember now (og_ID og) userID ''admin'' s of
             (Ok _, s) \<Rightarrow> (writeJSON StatusCreated (OrgCreated og), s)
           | (Err e, s) \<Rightarrow> (writeError StatusInternalServerError (store_error e), s)
           | (Panic, s) \<Rightarrow> (writeError StatusInternalServerError [], s)))"

definition Orgs_List :: "request \<Rightarrow> org_store \<Rightarrow> org_payload response" where
  "Orgs_List r s =
     (let userID = userIDFromRequest r in
      if userID = [] then writeError StatusUnauthorized ''not authenticated''
      else writeJSON StatusOK (OrgList (Org_ListByUserID s userID)))"

definition Orgs_Invite :: "bytes \<Rightarrow> go_time \<Rightarrow> request \<Rightarrow> org_store \<Rightarrow> org_payload response \<times> org_store" where
  "Orgs_Invite rnd now r s =
     (let userID = userIDFromRequest r; orgID = rq_URLParam r ''id'' in
      if userID = [] then (writeError StatusUnauthorized ''not authenticated'', s)
      else if orgID = [] then (writeError StatusBadRequest ''missing org id'', s)
      else case Org_ListMembers s orgID of
        Ok members \<Rightarrow>
          if \<not> is_admin members userID then
            (writeError StatusForbidden ''only admins can invite members'', s)
          else (case Org_CreateInvite rnd now orgID userID s of
              (Ok iv, s) \<Rightarrow> (writeJSON StatusCreated (InviteCode (iv_Code iv)), s)
            | (Err e, s) \<Rightarrow> (writeError StatusInternalServerError (store_error e), s)
            | (Panic, s) \<Rightarrow> (writeError StatusInternalServerError [], s))
      | Err e \<Rightarrow> (writeError StatusNotFound (store_error e), s)
      | Panic \<Rightarrow> (writeError StatusNotFound [], s))"

definition Orgs_AcceptInvite :: "go_time \<Rightarrow> request \<Rightarrow> string option \<Rightarrow> org_store \<Rightarrow> org_payload response \<times> org_store" where
  "Orgs_AcceptInvite now r body s =
     (let userID = userIDFromRequest r; orgID = rq_URLParam r ''id'' in
      if userID = [] then (writeError StatusUnauthorized ''not authenticated'', s)
      else if orgID = [] then (writeError StatusBadRequest ''missing org id'', s)
      else case body of
        None \<Rightarrow> (writeError StatusBadRequest ''invalid request body'', s)
      | Some code \<Rightarrow>
        if code = [] then (writeError StatusBadRequest ''code is required'', s)
        else (case Org_GetInviteByCode s code of
            Ok iv \<Rightarrow>
              if iv_OrgID iv \<noteq> orgID then
                (writeError StatusBadRequest ''invitation code does not match organisation'', s)
              else (case Org_Get s orgID of
                  Ok og \<Rightarrow>
                    (case Org_AddMember now orgID userID ''member'' s of
                       (Ok _, s) \<Rightarrow> (writeJSON StatusOK (OrgJoined og), Org_DeleteInvite code s)
                     | (Err e, s) \<Rightarrow> (writeError StatusConflict (store_error e), s)
                     | (Panic, s) \<Rightarrow> (writeError StatusConflict [], s))
                | Err e \<Rightarrow> (writeError StatusNotFound (store_error e), s)
                | Panic \<Rightarrow> (writeError StatusNotFound [], s))
          | _ \<Rightarrow> (writeError StatusNotFound ''invalid invitation code'', s)))"

definition Orgs_ListMembers :: "request \<Rightarrow> org_store \<Rightarrow> org_payload response" where
  "Orgs_ListMembers r s =
     (let userID = userIDFromRequest r; orgID = rq_URLParam r ''id'' in
      if userID = [] then writeError StatusUnauthorized ''not authenticated''
      else if orgID = [] then writeError StatusBadRequest ''missing org id''
      else case Org_ListMembers s orgID of
        Ok members \<Rightarrow>
          if \<not> is_member members userID then writeError StatusForbidden ''not a member of this organisation''
          else writeJSON StatusOK (MemberList members)
      | Err e \<Rightarrow> writeError StatusNotFound (store_error e)
      | Panic \<Rightarrow> writeError StatusNotFound [])"

subsection \<open>Agents\<close>

record register_agent_request =
  ra_OrgID :: string
  ra_Hostname :: string
  ra_MySQLVersion :: string

datatype agent_payload =
    AgentRegistered agent_record string
  | AgentList "agent_record list"
  | AgentApproved agent_record
  | AgentRejected
  | AgentDetails agent_record

definition Agents_Register :: "bytes \<Rightarrow> bytes \<Rightarrow> go_time \<Rightarrow> request \<Rightarrow> register_agent_request option \<Rightarrow>
    org_store \<Rightarrow> agent_store \<Rightarrow> agent_payload response \<times> agent_store" where
  "Agents_Register tokenRnd rnd now r body orgs s =
     (let userID = userIDFromRequest r in
      if userID = [] then (writeError StatusUnauthorized ''not authenticated'', s)
      else case body of
        None \<Rightarrow> (writeError StatusBadRequest ''invalid request body'', s)
      | Some req \<Rightarrow>
        if ra_Hostname req = [] then (writeError StatusBadRequest ''hostname is required'', s)
        else if ra_OrgID req = [] then (writeError StatusBadRequest ''orgId is required'', s)
        else (case Org_ListMembers orgs (ra_OrgID req) of
            Ok members \<Rightarrow>
              if \<not> is_member members userID then
                (writeError StatusForbidden ''not a member of this organisation'', s)
              else let token = hex_lower tokenRnd;
                       (a, s) = Agent_Create rnd now
                         \<lparr>ag_ID = [], ag_OrgID = ra_OrgID req, ag_Hostname = ra_Hostname req,
                          ag_MySQLVersion = ra_MySQLVersion req, ag_Status = ''offline'',
                          ag_LastSeen = zero_time, ag_CreatedAt = zero_time, ag_CertSerial = [],
                          ag_RegistrationToken = token, ag_Approved = False\<rparr> s
                in (writeJSON StatusCreated (AgentRegistered a token), s)
          | _ \<Rightarrow> (writeError StatusNotFound ''organisation not found'', s)))"

definition Agents_List :: "request \<Rightarrow> org_store \<Rightarrow> agent_store \<Rightarrow> agent_payload response" where
  "Agents_List r orgs s =
     (let userID = userIDFromRequest r; orgID = rq_Query r ''orgId'' in
      if userID = [] then writeError StatusUnauthorized ''not authenticated''
      else if orgID = [] then writeError StatusBadRequest ''orgId query parameter is required''
      else case Org_ListMembers orgs orgID of
        Ok members \<Rightarrow>
          if \<not> is_member members userID then writeError StatusForbidden ''not a member of this organisation''
          else writeJSON StatusOK (AgentList (Agent_ListByOrg s orgID))
      | _ \<Rightarrow> writeError StatusNotFound ''organisation not found'')"

text \<open>\<open>serialRnd\<close> are the random bytes of \<^verbatim>\<open>generateCertSerial\<close>.\<close>

definition Agents_Approve :: "bytes \<Rightarrow> request \<Rightarrow> org_store \<Rightarrow> agent_store \<Rightarrow> agent_payload response \<times> agent_store" where
  "Agents_Approve serialRnd r orgs s =
     (let userID = userIDFromRequest r; agentID = rq_URLParam r ''id'' in
      if userID = [] then (writeError StatusUnauthorized ''not authenticated'', s)
      else if agentID = [] then (writeError StatusBadRequest ''missing agent id'', s)
      else case Agent_Get s agentID of
        Ok a \<Rightarrow>
          (case Org_ListMembers orgs (ag_OrgID a) of
             Ok members \<Rightarrow>
               if \<not> is_admin members userID then
                 (writeError StatusForbidden ''only organisation admins can approve agents'', s)
               else let a = a\<lparr>ag_Approved := True, ag_CertSerial := ''serial_'' @ hex_lower serialRnd\<rparr> in
                 (case Agent_Update a s of
                    (Ok _, s) \<Rightarrow> (writeJSON StatusOK (AgentApproved a), s)
                  | (Err e, s) \<Rightarrow> (writeError StatusInternalServerError (store_error e), s)
                  | (Panic, s) \<Rightarrow> (writeError StatusInternalServerError [], s))
           | _ \<Rightarrow> (writeError StatusNotFound ''organisation not found'', s))
      | Err e \<Rightarrow> (writeError StatusNotFound (store_error e), s)
      | Panic \<Rightarrow> (writeError StatusNotFound [], s))"

definition Agents_Reject :: "request \<Rightarrow> org_store \<Rightarrow> agent_store \<Rightarrow> agent_payload response \<times> agent_store" where
  "Agents_Reject r orgs s =
     (let userID = userIDFromRequest r; agentID = rq_URLParam r ''id'' in
      if userID = [] then (writeError StatusUnauthorized ''not authenticated'', s)
      else if agentID = [] then (writeError StatusBadRequest ''missing agent id'', s)
      else case Agent_Get s agentID of
        Ok a \<Rightarrow>
          (case Org_ListMembers orgs (ag_OrgID a) of
             Ok members \<Rightarrow>
               if \<not> is_admin members userID then
                 (writeError StatusForbidden ''only organisation admins can reject agents'', s)
               else (case Agent_Delete agentID s of
                    (Ok _, s) \<Rightarrow> (writeJSON StatusOK AgentRejected, s)
                  | (Err e, s) \<Rightarrow> (writeError StatusInternalServerError (store_error e), s)
                  | (Panic, s) \<Rightarrow> (writeError StatusInternalServerError [], s))
           | _ \<Rightarrow> (writeError StatusNotFound ''organisation not found'', s))
      | Err e \<Rightarrow> (writeError StatusNotFound (store_error e), s)
      | Panic \<Rightarrow> (writeError StatusNotFound [], s))"

definition Agents_Get :: "request \<Rightarrow> org_store \<Rightarrow> agent_store \<Rightarrow> agent_payload response" where
  "Agents_Get r orgs s =
     (let userID = userIDFromRequest r; agentID = rq_URLParam r ''id'' in
      if userID = [] then writeError StatusUnauthorized ''not authenticated''
      else if agentID = [] then writeError StatusBadRequest ''missing agent id''
      else case Agent_Get s agentID of
        Ok a \<Rightarrow>
          (case Org_ListMembers orgs (ag_OrgID a) of
             Ok members \<Rightarrow>
               if \<not> is_member members userID then
                 writeError StatusForbidden ''not a member of the agent's organisation''
               else writeJSON StatusOK (AgentDetails a)
           | _ \<Rightarrow> writeError StatusNotFound ''organisation not found'')
      | Err e \<Rightarrow> writeError StatusNotFound (store_error e)
      | Panic \<Rightarrow> writeError StatusNotFound [])"

subsection \<open>Organisations over time\<close>

text \<open>The requests that change the store of organisations.\<close>

inductive org_step :: "org_store \<Rightarrow> org_store \<Rightarrow> bool" where
  create: "org_step s (snd (Orgs_Create rnd now r body s))"
| invite: "org_step s (snd (Orgs_Invite rnd now r s))"
| accept: "org_step s (snd (Orgs_AcceptInvite now r body s))"

definition has_admin :: "org_store \<Rightarrow> string \<Rightarrow> bool" where
  "has_admin s g \<longleftrightarrow> list_ex (\<lambda>m. mb_Role m = ''admin'') (members_of s g)"

definition org_inv :: "org_store \<Rightarrow> bool" where
  "org_inv s \<longleftrightarrow> org_wf s \<and> (\<forall>g. map_of (os_orgs s) g \<noteq> None \<longrightarrow> has_admin s g)"

lemma Org_AddMember_result:
  "Org_AddMember now g u role s = (res, s') \<Longrightarrow>
    os_orgs s' = os_orgs s \<and> os_invites s' = os_invites s \<and>
    (\<forall>h. members_of s' h = (if res = Ok () \<and> h = g
       then members_of s g @ [\<lparr>mb_UserID = u, mb_OrgID = g, mb_Role = role, mb_JoinedAt = now\<rparr>]
       else members_of s h)) \<and>
    (res = Ok () \<longleftrightarrow> map_of (os_orgs s) g \<noteq> None \<and> \<not> is_member (members_of s g) u)"
  by (auto simp: Org_AddMember_def is_member_def split: if_splits)

lemma org_inv_AddMember: "org_inv s \<Longrightarrow> org_inv (snd (Org_AddMember now g u role s))"
proof -
  assume inv: "org_inv s"
  obtain res s' where run: "Org_AddMember now g u role s = (res, s')" by fastforce
  note added = Org_AddMember_result [OF run]
  have "has_admin s' h" if "has_admin s h" for h
    using added that by (cases "res = Ok () \<and> h = g") (auto simp: has_admin_def simp del: not_None_eq)
  moreover have "org_wf s'" using org_wf_AddMember [of s now g u role] inv run by (simp add: org_inv_def)
  moreover have "os_orgs s' = os_orgs s" using added by blast
  ultimately show ?thesis using inv unfolding org_inv_def run snd_conv by metis
qed

lemma org_inv_CreateInvite: "org_inv s \<Longrightarrow> org_inv (snd (Org_CreateInvite rnd now g u s))"
  using org_wf_CreateInvite [of s rnd now g u]
  by (auto simp: org_inv_def has_admin_def Org_CreateInvite_def Let_def)

lemma org_inv_DeleteInvite: "org_inv s \<Longrightarrow> org_inv (Org_DeleteInvite c s)"
  using org_wf_DeleteInvite [of s c] by (auto simp: org_inv_def has_admin_def Org_DeleteInvite_def)

lemma org_inv_create:
  assumes "org_inv s" "Org_Create rnd now og s = (og', s1)" "Org_AddMember now (og_ID og') u ''admin'' s1 = (res, s2)"
  shows "org_inv s2"
proof -
  let ?g = "og_ID og'"
  have s1: "s1 = s\<lparr>os_orgs := AList.update ?g og' (os_orgs s)\<rparr>"
    using assms(2) by (auto simp: Org_Create_def Let_def)
  have "org_wf s1" using org_wf_Create [OF _ assms(2)] assms(1) by (simp add: org_inv_def)
  then have wf: "org_wf s2" using org_wf_AddMember [of s1 now ?g u "''admin''"] assms(3) by simp
  note added = Org_AddMember_result [OF assms(3), unfolded s1, simplified]
  have ok: "res = Ok () \<longleftrightarrow> \<not> is_member (members_of s ?g) u"
    using added by (simp add: go_map_simps)
  have new: "has_admin s2 ?g" if "res = Ok ()"
    using added that by (simp add: has_admin_def)
  have same: "members_of s2 h = members_of s h" if "\<not> (res = Ok () \<and> h = ?g)" for h
    using added that by simp
  have old: "map_of (os_orgs s) h \<noteq> None" if "map_of (os_orgs s2) h \<noteq> None" "\<not> (res = Ok () \<and> h = ?g)" for h
  proof (cases "h = ?g")
    case True
    with that(2) ok have "members_of s h \<noteq> []" by (auto simp: is_member_def)
    then show ?thesis using assms(1) unfolding org_inv_def org_wf_def by blast
  next
    case False
    with that(1) added show ?thesis by (simp add: go_map_simps)
  qed
  have "has_admin s2 h" if "map_of (os_orgs s2) h \<noteq> None" for h
  proof (cases "res = Ok () \<and> h = ?g")
    case True
    then show ?thesis using new by simp
  next
    case False
    then have "has_admin s h" using old [OF that] assms(1) unfolding org_inv_def by blast
    then show ?thesis using same [OF False] by (simp add: has_admin_def)
  qed
  with wf show ?thesis unfolding org_inv_def by blast
qed

lemma org_inv_step: "org_step s s' \<Longrightarrow> org_inv s \<Longrightarrow> org_inv s'"
proof (induction rule: org_step.induct)
  case (create s rnd now r body)
  then show ?case
    by (auto simp: Orgs_Create_def Let_def intro: org_inv_create
        split: option.splits prod.splits outcome.splits)
next
  case (invite s rnd now r)
  then show ?case
    using org_inv_CreateInvite [OF invite, of rnd now]
    by (auto simp: Orgs_Invite_def Let_def split: prod.splits outcome.splits) (metis snd_conv)+
next
  case (accept s now r body)
  have add: "org_inv s'" if "Org_AddMember now g u role s = (res, s')" for g u role res s'
    using org_inv_AddMember [OF accept, of now g u role] that by simp
  show ?case
    using accept
    by (auto simp: Orgs_AcceptInvite_def Let_def split: option.splits prod.splits outcome.splits
        intro: org_inv_DeleteInvite dest: add)
qed

text \<open>C29. Whatever requests the server takes, the store of organisations stays well formed, and every
  organisation has an admin.\<close>

theorem organisations_have_admins:
  assumes "org_step\<^sup>*\<^sup>* NewInMemoryOrgStore s"
  shows "org_wf s \<and> (\<forall>g. map_of (os_orgs s) g \<noteq> None \<longrightarrow> has_admin s g)"
proof -
  have "org_inv NewInMemoryOrgStore"
    using org_wf_empty by (simp add: org_inv_def NewInMemoryOrgStore_def)
  with assms have "org_inv s" by (induction rule: rtranclp_induct) (auto intro: org_inv_step)
  then show ?thesis by (simp add: org_inv_def)
qed

definition alice :: request where
  "alice = \<lparr>rq_Claims = Some \<lparr>cl_UserID = ''alice'', cl_Email = ''a@x''\<rparr>,
     rq_URLParam = \<lambda>_. ''org_01'', rq_Query = \<lambda>_. []\<rparr>"

definition alices_store :: org_store where
  "alices_store = snd (Orgs_Create [1] 5 alice (Some ''shop'') NewInMemoryOrgStore)"

lemma organisations_have_admins_witness:
  "map_of (os_orgs alices_store) ''org_01'' \<noteq> None \<and> has_admin alices_store ''org_01''"
proof -
  have "org_step NewInMemoryOrgStore alices_store" unfolding alices_store_def by (rule org_step.create)
  then have "org_step\<^sup>*\<^sup>* NewInMemoryOrgStore alices_store" by (rule r_into_rtranclp)
  moreover have "map_of (os_orgs alices_store) ''org_01'' \<noteq> None" by code_simp
  ultimately show ?thesis using organisations_have_admins by blast
qed

text \<open>An invite lets one user in: after a request has accepted it, the user is a member with the role
  of a member, and no request by anyone succeeds with the same code.\<close>

theorem invite_single_use:
  assumes "Orgs_AcceptInvite now r (Some code) s = (resp, s')" "succeeded resp"
  shows "is_member (members_of s' (rq_URLParam r ''id'')) (userIDFromRequest r) \<and>
    (\<exists>iv. map_of (os_invites s) code = Some iv \<and> iv_OrgID iv = rq_URLParam r ''id'') \<and>
    \<not> succeeded (fst (Orgs_AcceptInvite now' r' (Some code) s'))"
proof -
  let ?g = "rq_URLParam r ''id''" and ?u = "userIDFromRequest r"
  obtain iv s1 where run: "map_of (os_invites s) code = Some iv" "iv_OrgID iv = ?g"
    "Org_AddMember now ?g ?u ''member'' s = (Ok (), s1)" "s' = Org_DeleteInvite code s1"
    using assms by (auto simp: Orgs_AcceptInvite_def Let_def Org_GetInviteByCode_def
        split: if_splits option.splits prod.splits outcome.splits)
  have "is_member (members_of s' ?g) ?u"
    using Org_AddMember_result [OF run(3)] by (simp add: run(4) Org_DeleteInvite_def is_member_def)
  moreover have "Org_GetInviteByCode s' code = Err (Errorf (''invite not found: '' @ code))"
    by (simp add: run(4) Org_DeleteInvite_def Org_GetInviteByCode_def go_map_simps)
  then have "\<not> succeeded (fst (Orgs_AcceptInvite now' r' (Some code) s'))"
    by (simp add: Orgs_AcceptInvite_def Let_def)
  ultimately show ?thesis using run(1,2) by blast
qed

definition bob :: request where
  "bob = \<lparr>rq_Claims = Some \<lparr>cl_UserID = ''bob'', cl_Email = ''b@x''\<rparr>,
     rq_URLParam = \<lambda>_. ''org_01'', rq_Query = \<lambda>_. []\<rparr>"

lemma invite_single_use_witness:
  "\<not> succeeded (fst (Orgs_AcceptInvite 9 bob (Some ''ff'')
    (snd (Orgs_AcceptInvite 8 bob (Some ''ff'') (snd (Orgs_Invite [255] 7 alice alices_store))))))"
proof -
  let ?s = "snd (Orgs_Invite [255] 7 alice alices_store)"
  have "succeeded (fst (Orgs_AcceptInvite 8 bob (Some ''ff'') ?s))" by code_simp
  with invite_single_use [of 8 bob "''ff''" ?s _ "snd (Orgs_AcceptInvite 8 bob (Some ''ff'') ?s)" 9 bob]
  show ?thesis by (metis prod.collapse)
qed

subsection \<open>Agents over time\<close>

text \<open>The requests that change the store of agents.\<close>

inductive agent_step :: "org_store \<Rightarrow> request \<Rightarrow> agent_store \<Rightarrow> agent_store \<Rightarrow> bool" for orgs where
  register: "agent_step orgs r s (snd (Agents_Register tokenRnd rnd now r body orgs s))"
| approve: "agent_step orgs r s (snd (Agents_Approve serialRnd r orgs s))"
| reject: "agent_step orgs r s (snd (Agents_Reject r orgs s))"

definition approved :: "agent_store \<Rightarrow> string \<Rightarrow> bool" where
  "approved s i \<longleftrightarrow> (case map_of s i of None \<Rightarrow> False | Some a \<Rightarrow> ag_Approved a)"

definition may_administer :: "org_store \<Rightarrow> request \<Rightarrow> agent_record \<Rightarrow> bool" where
  "may_administer orgs r a \<longleftrightarrow> (\<exists>ms. Org_ListMembers orgs (ag_OrgID a) = Ok ms \<and> is_admin ms (userIDFromRequest r))"

text \<open>The guards of \<^verbatim>\<open>Approve\<close> and \<^verbatim>\<open>Reject\<close>.\<close>

definition approve_record :: "bytes \<Rightarrow> agent_record \<Rightarrow> agent_record" where
  "approve_record rnd a = a\<lparr>ag_Approved := True, ag_CertSerial := ''serial_'' @ hex_lower rnd\<rparr>"

lemma approve_record_ID [simp]: "ag_ID (approve_record rnd a) = ag_ID a"
  by (simp add: approve_record_def)

lemma Agents_Approve_result:
  assumes "Agents_Approve rnd r orgs s = (resp, s')"
  shows "s' = s \<or> (\<exists>a. map_of s (rq_URLParam r ''id'') = Some a \<and> may_administer orgs r a \<and>
      s' = AList.update (ag_ID a) (approve_record rnd a) s)"
  using assms unfolding approve_record_def [symmetric] Agents_Approve_def Let_def
  by (simp add: Agent_Update_def may_administer_def split: if_splits prod.splits outcome.splits)

lemma Agents_Reject_result:
  assumes "Agents_Reject r orgs s = (resp, s')"
  shows "s' = s \<or> (\<exists>a. map_of s (rq_URLParam r ''id'') = Some a \<and> may_administer orgs r a \<and>
      s' = AList.delete (rq_URLParam r ''id'') s)"
  using assms unfolding Agents_Reject_def Let_def
  by (simp add: Agent_Delete_def may_administer_def split: if_splits prod.splits outcome.splits)

lemma Agent_Create_result:
  "Agent_Create rnd now a0 s = (a, s') \<Longrightarrow>
    s' = AList.update (ag_ID a) a s \<and> ag_Approved a = ag_Approved a0 \<and> ag_OrgID a = ag_OrgID a0"
  by (auto simp: Agent_Create_def Let_def)

lemma Agents_Register_result:
  assumes "Agents_Register tokenRnd rnd now r body orgs s = (resp, s')"
  shows "s' = s \<or> (\<exists>a. \<not> ag_Approved a \<and> s' = AList.update (ag_ID a) a s)"
  using assms
  by (auto simp: Agents_Register_def Let_def dest!: Agent_Create_result
      split: option.splits if_splits prod.splits outcome.splits)


definition one_agent :: agent_store where
  "one_agent = [(''org_01'', \<lparr>ag_ID = ''org_01'', ag_OrgID = ''org_01'', ag_Hostname = ''h'', ag_MySQLVersion = [],
     ag_Status = ''offline'', ag_LastSeen = 0, ag_CreatedAt = 5, ag_CertSerial = [],
     ag_RegistrationToken = [], ag_Approved = False\<rparr>)]"


end
