(* ===== verification/Audit_Handlers.thy ===== *)
theory Audit_Handlers
  imports Org_Handlers Go_Strings
begin

section \<open>The audit log over HTTP\<close>

text \<open>
  The handlers of \<^verbatim>\<open>server/audit/handler.go\<close>. \<open>parse\<close> is \<^verbatim>\<open>time.Parse\<close> with the RFC 3339
  layout and \<open>fmt\<close> the rendering of a time in that layout; the CSV text is built the way
  \<^verbatim>\<open>encoding/csv\<close> writes it.
\<close>

subsection \<open>CSV\<close>

definition csv_needs_quotes :: "string \<Rightarrow> bool" where
  "csv_needs_quotes f \<longleftrightarrow> f \<noteq> [] \<and>
     (f = [CHR 0x5C, CHR ''.''] \<or>
      list_ex (\<lambda>c. c \<in> {CHR '','', CHR 0x22, CHR 0x0D, CHR 0x0A}) f \<or>
      list_ex (HasPrefix f) spaces)"

definition csv_field :: "string \<Rightarrow> string" where
  "csv_field f = (if \<not> csv_needs_quotes f then f
     else CHR 0x22 # concat (map (\<lambda>c. if c = CHR 0x22 then [c, c] else [c]) f) @ [CHR 0x22])"

definition csv_record :: "string list \<Rightarrow> string" where
  "csv_record fs = join '','' (map csv_field fs) @ [CHR 0x0A]"

definition csv_header :: "string list" where
  "csv_header = [''operationId'', ''operator'', ''timestamp'', ''orgId'', ''agentId'',
     ''targetTable'', ''recoveryTime'', ''rowsAffected'', ''status'', ''errorDetails'']"

definition csv_entry :: "(go_time \<Rightarrow> string) \<Rightarrow> audit_entry \<Rightarrow> string list" where
  "csv_entry fmt e = [ae_OperationID e, ae_Operator e, fmt (ae_Timestamp e), ae_OrgID e, ae_AgentID e,
     ae_TargetTable e, fmt (ae_RecoveryTime e), show_int (ae_RowsAffected e), ae_Status e, ae_ErrorDetails e]"

subsection \<open>Handlers\<close>

datatype audit_payload =
    AuditEntries "audit_entry list"
  | AuditCsv string string

definition org_filter :: "string \<Rightarrow> audit_filter" where
  "org_filter orgID = \<lparr>af_OrgID = orgID, af_OperationID = [], af_From = zero_time, af_To = zero_time,
     af_Status = [], af_AgentID = []\<rparr>"

text \<open>The optional filters that both handlers take as they are.\<close>

definition text_filters :: "request \<Rightarrow> audit_filter \<Rightarrow> audit_filter" where
  "text_filters r f =
     (let f = (if rq_Query r ''status'' \<noteq> [] then f\<lparr>af_Status := rq_Query r ''status''\<rparr> else f);
          f = (if rq_Query r ''agent_id'' \<noteq> [] then f\<lparr>af_AgentID := rq_Query r ''agent_id''\<rparr> else f)
      in if rq_Query r ''operation_id'' \<noteq> [] then f\<lparr>af_OperationID := rq_Query r ''operation_id''\<rparr> else f)"

text \<open>A time parameter of \<^verbatim>\<open>Query\<close>: absent, or it must parse.\<close>

definition time_param :: "(string \<Rightarrow> go_time option) \<Rightarrow> request \<Rightarrow> string \<Rightarrow> go_time option option" where
  "time_param parse r name = (if rq_Query r name = [] then Some None
     else case parse (rq_Query r name) of None \<Rightarrow> None | Some t \<Rightarrow> Some (Some t))"

definition Audit_QueryHandler :: "(string \<Rightarrow> go_time option) \<Rightarrow> request \<Rightarrow> org_store \<Rightarrow> audit_store \<Rightarrow>
    audit_payload response" where
  "Audit_QueryHandler parse r orgs s =
     (let userID = userIDFromRequest r; orgID = rq_Query r ''org_id'' in
      if userID = [] then writeError StatusUnauthorized ''not authenticated''
      else if orgID = [] then writeError StatusBadRequest ''org_id query parameter is required''
      else case Org_ListMembers orgs orgID of
        Ok members \<Rightarrow>
          if \<not> is_member members userID then writeError StatusForbidden ''not a member of this organisation''
          else (case time_param parse r ''from'' of
              None \<Rightarrow> writeError StatusBadRequest ''invalid from timestamp, use ISO8601/RFC3339''
            | Some from \<Rightarrow>
              (case time_param parse r ''to'' of
                 None \<Rightarrow> writeError StatusBadRequest ''invalid to timestamp, use ISO8601/RFC3339''
               | Some to \<Rightarrow>
                 let f = org_filter orgID;
                     f = (case from of Some t \<Rightarrow> f\<lparr>af_From := t\<rparr> | None \<Rightarrow> f);
                     f = (case to of Some t \<Rightarrow> f\<lparr>af_To := t\<rparr> | None \<Rightarrow> f)
                 in (case Audit_Query (text_filters r f) s of
                     Ok entries \<Rightarrow> writeJSON StatusOK (AuditEntries entries)
                   | Err e \<Rightarrow> writeError StatusInternalServerError (store_error e)
                   | Panic \<Rightarrow> writeError StatusInternalServerError [])))
      | _ \<Rightarrow> writeError StatusNotFound ''organisation not found'')"

text \<open>\<^verbatim>\<open>Export\<close> ignores a time that does not parse; \<open>now\<close> is the time in the name of the file.\<close>

definition Audit_Export :: "(string \<Rightarrow> go_time option) \<Rightarrow> (go_time \<Rightarrow> string) \<Rightarrow> go_time \<Rightarrow> request \<Rightarrow>
    org_store \<Rightarrow> audit_store \<Rightarrow> audit_payload response" where
  "Audit_Export parse fmt now r orgs s =
     (let userID = userIDFromRequest r; orgID = rq_Query r ''org_id'' in
      if userID = [] then writeError StatusUnauthorized ''not authenticated''
      else if orgID = [] then writeError StatusBadRequest ''org_id query parameter is required''
      else case Org_ListMembers orgs orgID of
        Ok members \<Rightarrow>
          if \<not> is_member members userID then writeError StatusForbidden ''not a member of this organisation''
          else let f = org_filter orgID;
                   f = (case time_param parse r ''from'' of Some (Some t) \<Rightarrow> f\<lparr>af_From := t\<rparr> | _ \<Rightarrow> f);
                   f = (case time_param parse r ''to'' of Some (Some t) \<Rightarrow> f\<lparr>af_To := t\<rparr> | _ \<Rightarrow> f)
               in (case Audit_Query (text_filters r f) s of
                   Ok entries \<Rightarrow> writeJSON StatusOK (AuditCsv
                     (''audit_'' @ orgID @ ''_'' @ show_int (now div 1000000000) @ ''.csv'')
                     (concat (map csv_record (csv_header # map (csv_entry fmt) entries))))
                 | Err e \<Rightarrow> writeError StatusInternalServerError (store_error e)
                 | Panic \<Rightarrow> writeError StatusInternalServerError [])
      | _ \<Rightarrow> writeError StatusNotFound ''organisation not found'')"

text \<open>\<^verbatim>\<open>List\<close> is \<^verbatim>\<open>Query\<close>.\<close>

definition Audit_List :: "(string \<Rightarrow> go_time option) \<Rightarrow> request \<Rightarrow> org_store \<Rightarrow> audit_store \<Rightarrow>
    audit_payload response" where
  "Audit_List parse r orgs s = Audit_QueryHandler parse r orgs s"

end
