(* ===== verification/Pitr_Store.thy ===== *)
theory Pitr_Store
  imports Server_Stores
begin

section \<open>Recovery operations\<close>

text \<open>
  The model of \<^verbatim>\<open>server/pitr/state.go\<close> and \<^verbatim>\<open>server/pitr/store.go\<close>: the states of an
  operation and the transitions between them, the operation record with the results of its
  phases, and the in-memory store of operations.
\<close>

subsection \<open>States\<close>

type_synonym operation_state = string

abbreviation StatePreflight :: operation_state where "StatePreflight \<equiv> ''preflight''"
abbreviation StateConfirmed :: operation_state where "StateConfirmed \<equiv> ''confirmed''"
abbreviation StateParsing :: operation_state where "StateParsing \<equiv> ''parsing''"
abbreviation StatePreviewed :: operation_state where "StatePreviewed \<equiv> ''previewed''"
abbreviation StateExecuting :: operation_state where "StateExecuting \<equiv> ''executing''"
abbreviation StateCompleted :: operation_state where "StateCompleted \<equiv> ''completed''"
abbreviation StateFailed :: operation_state where "StateFailed \<equiv> ''failed''"
abbreviation StateCancelled :: operation_state where "StateCancelled \<equiv> ''cancelled''"

definition validTransitions :: "(operation_state \<times> operation_state list) list" where
  "validTransitions =
     [(StatePreflight, [StateConfirmed, StateCancelled]),
      (StateConfirmed, [StateParsing, StateCancelled]),
      (StateParsing, [StatePreviewed, StateFailed]),
      (StatePreviewed, [StateExecuting, StateCancelled]),
      (StateExecuting, [StateCompleted, StateFailed])]"

definition TransitionValid :: "operation_state \<Rightarrow> operation_state \<Rightarrow> bool" where
  "TransitionValid from to =
     (case map_of validTransitions from of None \<Rightarrow> False | Some allowed \<Rightarrow> list_ex (\<lambda>s. s = to) allowed)"

definition IsTerminal :: "operation_state \<Rightarrow> bool" where
  "IsTerminal s \<longleftrightarrow> s = StateCompleted \<or> s = StateFailed \<or> s = StateCancelled"

definition TryTransitionErr :: "operation_state \<Rightarrow> operation_state \<Rightarrow> go_error option" where
  "TryTransitionErr from to = (if \<not> TransitionValid from to
     then Some (Errorf (''invalid state transition: '' @ from @ '' -> '' @ to)) else None)"

lemma terminal_has_no_successor: "IsTerminal s \<Longrightarrow> \<not> TransitionValid s t"
  by (auto simp: IsTerminal_def TransitionValid_def validTransitions_def)

subsection \<open>Operations\<close>

record preflight_summary =
  ps_CheckedAt :: go_time
  ps_BinlogFiles :: "string list"
  ps_EarliestTime :: go_time
  ps_EstimatedSize :: int

record reverse_sql_entry =
  rs_Sequence :: int
  rs_SqlType :: string
  rs_TableName :: string
  rs_OriginalSql :: string
  rs_ReverseSql :: string
  rs_RowsAffected :: int

record parse_summary =
  pm_ParsedAt :: go_time
  pm_RowsAffected :: int
  pm_SQLSample :: string
  pm_ReverseSql :: "reverse_sql_entry list"
  pm_SQLs :: "string list"

record exec_summary =
  es_ExecutedAt :: go_time
  es_RowsRestored :: int
  es_Duration :: string

record progress_info =
  pi_BatchesComplete :: int
  pi_BatchesTotal :: int
  pi_RowsRestored :: int
  pi_EstimatedRemaining :: string

record operation =
  op_ID :: string
  op_OrgID :: string
  op_AgentID :: string
  op_TargetTable :: string
  op_RecoveryTime :: go_time
  op_Mode :: string
  op_State :: operation_state
  op_BinlogFiles :: "string list"
  op_StartTime :: "go_time option"
  op_StartPos :: "32 word option"
  op_StopPos :: "32 word option"
  op_AgentConnected :: bool
  op_PreflightRes :: "preflight_summary option"
  op_ParseRes :: "parse_summary option"
  op_ExecRes :: "exec_summary option"
  op_Progress :: "progress_info option"
  op_Error :: string
  op_CreatedAt :: go_time
  op_UpdatedAt :: go_time

subsection \<open>The store\<close>

type_synonym op_store = "(string \<times> operation) list"

definition generateOpID :: "bytes \<Rightarrow> string" where
  "generateOpID rnd = ''op_'' @ hex_lower rnd"

definition fill_operation :: "bytes \<Rightarrow> go_time \<Rightarrow> operation \<Rightarrow> operation" where
  "fill_operation rnd now p =
     (let p = (if op_ID p = [] then p\<lparr>op_ID := generateOpID rnd\<rparr> else p);
          p = (if IsZero (op_CreatedAt p) then p\<lparr>op_CreatedAt := now\<rparr> else p);
          p = (if IsZero (op_UpdatedAt p) then p\<lparr>op_UpdatedAt := op_CreatedAt p\<rparr> else p)
      in if op_State p = [] then p\<lparr>op_State := StatePreflight\<rparr> else p)"

definition Op_Create :: "bytes \<Rightarrow> go_time \<Rightarrow> operation \<Rightarrow> op_store \<Rightarrow> operation \<times> op_store" where
  "Op_Create rnd now p s = (let p = fill_operation rnd now p in (p, AList.update (op_ID p) p s))"

definition op_not_found :: "string \<Rightarrow> go_error" where
  "op_not_found i = Errorf (''operation not found: '' @ i)"

definition Op_Get :: "op_store \<Rightarrow> string \<Rightarrow> operation outcome" where
  "Op_Get s i = (case map_of s i of None \<Rightarrow> Err (op_not_found i) | Some p \<Rightarrow> Ok p)"

definition Op_Update :: "go_time \<Rightarrow> operation \<Rightarrow> op_store \<Rightarrow> unit outcome \<times> op_store" where
  "Op_Update now p s = (if map_of s (op_ID p) = None then (Err (op_not_found (op_ID p)), s)
     else (Ok (), AList.update (op_ID p) (p\<lparr>op_UpdatedAt := now\<rparr>) s))"

definition Op_ListByOrg :: "op_store \<Rightarrow> string \<Rightarrow> operation list" where
  "Op_ListByOrg s orgID = filter (\<lambda>p. op_OrgID p = orgID) (map snd s)"

interpretation operations: entity_store "\<lambda>p. AList.update (op_ID p) p" AList.delete map_of op_ID "entity_wf op_ID"
  by (rule entity_store_alist)

lemma Op_Get_Ok [simp]: "Op_Get s i = Ok p \<longleftrightarrow> map_of s i = Some p"
  by (simp add: Op_Get_def split: option.splits)

lemma fill_operation_keeps [simp]:
  "op_OrgID (fill_operation rnd now p) = op_OrgID p" "op_Mode (fill_operation rnd now p) = op_Mode p"
  "op_AgentID (fill_operation rnd now p) = op_AgentID p" "op_ParseRes (fill_operation rnd now p) = op_ParseRes p"
  by (simp_all add: fill_operation_def Let_def)

end
