(* ===== verification/Pitr_Run.thy ===== *)
theory Pitr_Run
  imports Pitr_Store Connector_Types
begin

section \<open>The life of an operation\<close>

text \<open>
  The background work of \<^verbatim>\<open>server/pitr/handler.go\<close>: \<^verbatim>\<open>runOperation\<close> and
  \<^verbatim>\<open>executeOperation\<close> run in goroutines that share the operation record with the HTTP
  handlers, without a lock. A goroutine is a program counter; one step of it runs up to the next
  command sent to the agent, and \<^verbatim>\<open>tryTransition\<close> is two steps, since the check of the current
  state and the write of the new one can be separated by another goroutine. The reply of the
  agent, after the hub's delivery and the decoding of the result, is the input of the step that
  waits for it; the clock \<open>now\<close> and whether the agent is connected are inputs too.
\<close>

text \<open>The renderings of a time (RFC 3339) and of a quoted string (percent-q).\<close>

record text_lib =
  tl_rfc3339 :: "go_time \<Rightarrow> string"
  tl_quote :: "string \<Rightarrow> string"

subsection \<open>Commands and replies\<close>

text \<open>The commands sent to the agent, with their parameters.\<close>

datatype agent_command =
    Cmd_Preflight string
  | Cmd_Parse string string string "string list option" "string option" "32 word option" "32 word option"
  | Cmd_Execute string "string list" nat string string
  | Cmd_Cancel string

record agent_preflight_result =
  pf_Preflight :: "preflight_result option"
  pf_BinlogFiles :: "string list"
  pf_TotalSize :: int
  pf_BinlogDir :: string

record agent_parse_result =
  pa_OperationID :: string
  pa_TotalRows :: int
  pa_ReverseSql :: "string list"
  pa_Preview :: "reverse_sql_entry list"
  pa_SQLSample :: string

record agent_batch_error =
  ab_BatchNum :: int
  ab_SQL :: string
  ab_Error :: string

record agent_execute_result =
  ex_OperationID :: string
  ex_Cancelled :: bool
  ex_RowsAffected :: int
  ex_BatchesCompleted :: int
  ex_BatchesTotal :: int
  ex_Errors :: "agent_batch_error list"

datatype 'a agent_reply =
    Send_Failed string
  | Resp_Error string
  | Undecodable string
  | Result 'a

subsection \<open>Updates of the record\<close>

text \<open>\<^verbatim>\<open>opStore.Update\<close> of an operation that is in the store, as every running one is.\<close>

definition touch :: "go_time \<Rightarrow> operation \<Rightarrow> operation" where
  "touch now p = p\<lparr>op_UpdatedAt := now\<rparr>"

definition failOperation :: "go_time \<Rightarrow> string \<Rightarrow> operation \<Rightarrow> operation" where
  "failOperation now message p = touch now (p\<lparr>op_State := StateFailed, op_Error := message\<rparr>)"

definition recordAudit :: "go_time \<Rightarrow> operation \<Rightarrow> string \<Rightarrow> string \<Rightarrow> string \<Rightarrow> audit_entry" where
  "recordAudit now p operator status errDetails =
     \<lparr>ae_OperationID = op_ID p, ae_Operator = operator, ae_Timestamp = now, ae_OrgID = op_OrgID p,
      ae_AgentID = op_AgentID p, ae_TargetTable = op_TargetTable p, ae_RecoveryTime = op_RecoveryTime p,
      ae_RowsAffected = (case op_ExecRes p of Some e \<Rightarrow> es_RowsRestored e
        | None \<Rightarrow> (case op_ParseRes p of Some m \<Rightarrow> pm_RowsAffected m | None \<Rightarrow> 0)),
      ae_Status = status, ae_ErrorDetails = errDetails\<rparr>"

definition not_connected :: "operation \<Rightarrow> string" where
  "not_connected p = ''agent '' @ op_AgentID p @ '' is not connected (agent_offline)''"

subsection \<open>Program counters\<close>

datatype pc =
    Run_Begin
  | Preflight_Wait
  | Confirm_Write agent_preflight_result
  | Parse_Check
  | Parse_Write
  | Parse_Wait
  | Preview_Write agent_parse_result
  | Exec_Begin "string list"
  | Exec_Write "string list"
  | Exec_Wait "string list"
  | Finished

text \<open>What a step gives: the record, the next program counter, the command it sends and the audit
  entry it appends.\<close>

type_synonym step_result = "operation \<times> pc \<times> agent_command option \<times> audit_entry option"

definition quiet :: "operation \<Rightarrow> pc \<Rightarrow> step_result" where
  "quiet p c = (p, c, None, None)"

definition fail_step :: "go_time \<Rightarrow> string \<Rightarrow> operation \<Rightarrow> step_result" where
  "fail_step now message p = quiet (failOperation now message p) Finished"

definition run_begin :: "go_time \<Rightarrow> bool \<Rightarrow> operation \<Rightarrow> step_result" where
  "run_begin now connected p =
     (if \<not> connected then fail_step now (not_connected p) p
      else (p, Preflight_Wait, Some (Cmd_Preflight (op_ID p)), None))"

definition on_preflight :: "go_time \<Rightarrow> agent_preflight_result agent_reply \<Rightarrow> operation \<Rightarrow> step_result" where
  "on_preflight now reply p =
     (case reply of
        Send_Failed e \<Rightarrow> fail_step now (''preflight via agent: '' @ e) p
      | Resp_Error e \<Rightarrow> fail_step now (''preflight failed: '' @ e) p
      | Undecodable e \<Rightarrow> fail_step now (''decode preflight result: '' @ e) p
      | Result pf \<Rightarrow>
         (case pf_Preflight pf of
            None \<Rightarrow> fail_step now ''preflight result missing preflight data'' p
          | Some c \<Rightarrow>
              if pf_Status c = PreflightFail then
                fail_step now (''preflight checks failed (MySQL '' @ pf_Version c @ '')'') p
              else if \<not> TransitionValid (op_State p) StateConfirmed then quiet p Finished
              else quiet p (Confirm_Write pf)))"

definition confirm_write :: "go_time \<Rightarrow> agent_preflight_result \<Rightarrow> operation \<Rightarrow> step_result" where
  "confirm_write now pf p =
     quiet (touch now (touch now (p\<lparr>op_State := StateConfirmed\<rparr>)\<lparr>op_PreflightRes :=
       Some \<lparr>ps_CheckedAt = now, ps_BinlogFiles = pf_BinlogFiles pf, ps_EarliestTime = zero_time,
             ps_EstimatedSize = pf_TotalSize pf\<rparr>\<rparr>)) Parse_Check"

definition parse_check :: "operation \<Rightarrow> step_result" where
  "parse_check p = quiet p (if \<not> TransitionValid (op_State p) StateParsing then Finished else Parse_Write)"

definition parse_command :: "text_lib \<Rightarrow> operation \<Rightarrow> agent_command" where
  "parse_command lib p =
     Cmd_Parse (op_ID p) (op_TargetTable p) (tl_rfc3339 lib (op_RecoveryTime p))
       (if length (op_BinlogFiles p) > 0 then Some (op_BinlogFiles p) else None)
       (map_option (tl_rfc3339 lib) (op_StartTime p)) (op_StartPos p) (op_StopPos p)"

definition parse_write :: "text_lib \<Rightarrow> go_time \<Rightarrow> operation \<Rightarrow> step_result" where
  "parse_write lib now p =
     (let p = touch now (p\<lparr>op_State := StateParsing\<rparr>) in (p, Parse_Wait, Some (parse_command lib p), None))"

definition no_rows_message :: "text_lib \<Rightarrow> operation \<Rightarrow> string" where
  "no_rows_message lib p =
     (let files = (case op_PreflightRes p of
          Some s \<Rightarrow> if length (ps_BinlogFiles s) > 0 then join '', '' (ps_BinlogFiles s) else ''none available''
        | None \<Rightarrow> ''none available'')
      in ''no row events found for table '' @ tl_quote lib (op_TargetTable p) @ '' before '' @
        tl_rfc3339 lib (op_RecoveryTime p) @ '' (binlog files parsed: '' @ files @
        ''; if the table was modified after the recovery time, pick a later recovery time)'')"

definition on_parse :: "text_lib \<Rightarrow> go_time \<Rightarrow> agent_parse_result agent_reply \<Rightarrow> operation \<Rightarrow> step_result" where
  "on_parse lib now reply p =
     (case reply of
        Send_Failed e \<Rightarrow> fail_step now (''parse via agent: '' @ e) p
      | Resp_Error e \<Rightarrow> fail_step now (''parse failed: '' @ e) p
      | Undecodable e \<Rightarrow> fail_step now (''decode parse result: '' @ e) p
      | Result pr \<Rightarrow>
          if pa_TotalRows pr = 0 then fail_step now (no_rows_message lib p) p
          else if \<not> TransitionValid (op_State p) StatePreviewed then quiet p Finished
          else quiet p (Preview_Write pr))"

text \<open>In preview mode the goroutine ends here; otherwise it goes on to execute the batch.\<close>

definition preview_write :: "go_time \<Rightarrow> string \<Rightarrow> agent_parse_result \<Rightarrow> operation \<Rightarrow> step_result" where
  "preview_write now operator pr p =
     (let p = touch now (touch now (p\<lparr>op_State := StatePreviewed\<rparr>)\<lparr>op_ParseRes :=
            Some \<lparr>pm_ParsedAt = now, pm_RowsAffected = pa_TotalRows pr, pm_SQLSample = pa_SQLSample pr,
                  pm_ReverseSql = pa_Preview pr, pm_SQLs = pa_ReverseSql pr\<rparr>\<rparr>)
      in (p, if op_Mode p = ''preview'' then Finished else Exec_Begin (pa_ReverseSql pr), None,
          Some (recordAudit now p operator ''previewed'' [])))"

definition exec_begin :: "go_time \<Rightarrow> bool \<Rightarrow> string list \<Rightarrow> operation \<Rightarrow> step_result" where
  "exec_begin now connected sqls p =
     (if \<not> connected then fail_step now (not_connected p) p
      else if \<not> TransitionValid (op_State p) StateExecuting then quiet p Finished
      else quiet p (Exec_Write sqls))"

definition exec_write :: "text_lib \<Rightarrow> go_time \<Rightarrow> string list \<Rightarrow> operation \<Rightarrow> step_result" where
  "exec_write lib now sqls p =
     (let p = touch now (touch now (p\<lparr>op_State := StateExecuting\<rparr>)\<lparr>op_Progress :=
            Some \<lparr>pi_BatchesComplete = 0, pi_BatchesTotal = 0, pi_RowsRestored = 0,
                  pi_EstimatedRemaining = ''calculating...''\<rparr>\<rparr>)
      in (p, Exec_Wait sqls,
          Some (Cmd_Execute (op_ID p) sqls 100 (op_TargetTable p) (tl_rfc3339 lib (op_RecoveryTime p))), None))"

text \<open>The percent-v rendering of a slice of batch errors.\<close>

definition show_batch_errors :: "agent_batch_error list \<Rightarrow> string" where
  "show_batch_errors es = ''['' @ join '' ''
     (map (\<lambda>e. ''{'' @ show_int (ab_BatchNum e) @ '' '' @ ab_SQL e @ '' '' @ ab_Error e @ ''}'') es) @ '']''"

definition finish_progress :: "agent_execute_result \<Rightarrow> progress_info \<Rightarrow> progress_info" where
  "finish_progress r g = g\<lparr>pi_BatchesComplete := ex_BatchesCompleted r, pi_BatchesTotal := ex_BatchesTotal r,
     pi_EstimatedRemaining := ''0s''\<rparr>"

definition on_execute :: "go_time \<Rightarrow> string \<Rightarrow> agent_execute_result agent_reply \<Rightarrow> operation \<Rightarrow> step_result" where
  "on_execute now operator reply p =
     (case reply of
        Send_Failed e \<Rightarrow> fail_step now (''execute via agent: '' @ e) p
      | Resp_Error e \<Rightarrow> fail_step now (''execute failed: '' @ e) p
      | Undecodable e \<Rightarrow> fail_step now (''decode execute result: '' @ e) p
      | Result r \<Rightarrow>
          if op_State p = StateCancelled \<or> ex_Cancelled r then
            quiet (touch now (p\<lparr>op_State := StateCancelled\<rparr>)) Finished
          else if length (ex_Errors r) > 0 then
            fail_step now (''execution errors: '' @ show_batch_errors (ex_Errors r)) p
          else let p = touch now (p\<lparr>op_State := StateCompleted,
                 op_ExecRes := Some \<lparr>es_ExecutedAt = now, es_RowsRestored = ex_RowsAffected r, es_Duration = []\<rparr>,
                 op_Progress := map_option (finish_progress r) (op_Progress p)\<rparr>)
            in (p, Finished, None, Some (recordAudit now p operator ''completed'' [])))"

subsection \<open>A step of a goroutine\<close>

text \<open>What a step is given: the clock, whether the agent is connected, and the reply for each of the
  three program counters that wait for one.\<close>

record step_input =
  si_now :: go_time
  si_connected :: bool
  si_preflight :: "agent_preflight_result agent_reply"
  si_parse :: "agent_parse_result agent_reply"
  si_execute :: "agent_execute_result agent_reply"

fun thread_step :: "text_lib \<Rightarrow> step_input \<Rightarrow> string \<Rightarrow> pc \<Rightarrow> operation \<Rightarrow> step_result" where
  "thread_step lib i operator Run_Begin p = run_begin (si_now i) (si_connected i) p"
| "thread_step lib i operator Preflight_Wait p = on_preflight (si_now i) (si_preflight i) p"
| "thread_step lib i operator (Confirm_Write pf) p = confirm_write (si_now i) pf p"
| "thread_step lib i operator Parse_Check p = parse_check p"
| "thread_step lib i operator Parse_Write p = parse_write lib (si_now i) p"
| "thread_step lib i operator Parse_Wait p = on_parse lib (si_now i) (si_parse i) p"
| "thread_step lib i operator (Preview_Write pr) p = preview_write (si_now i) operator pr p"
| "thread_step lib i operator (Exec_Begin sqls) p = exec_begin (si_now i) (si_connected i) sqls p"
| "thread_step lib i operator (Exec_Write sqls) p = exec_write lib (si_now i) sqls p"
| "thread_step lib i operator (Exec_Wait sqls) p = on_execute (si_now i) operator (si_execute i) p"
| "thread_step lib i operator Finished p = quiet p Finished"

lemmas step_defs = run_begin_def on_preflight_def confirm_write_def parse_check_def parse_write_def
  on_parse_def preview_write_def exec_begin_def exec_write_def on_execute_def fail_step_def
  failOperation_def quiet_def touch_def

subsection \<open>Transitions\<close>

text \<open>\<^verbatim>\<open>tryTransition\<close> without interference. The goroutines check and write in two steps, with what others do in between; when
  nothing happens there, the two steps are this function.\<close>

definition tryTransition :: "go_time \<Rightarrow> operation_state \<Rightarrow> operation \<Rightarrow> bool \<times> operation" where
  "tryTransition now to p = (if TransitionValid (op_State p) to then (True, touch now (p\<lparr>op_State := to\<rparr>)) else (False, p))"

lemma uninterrupted_parse_transition:
  assumes "parse_check p = (p', c, cmd, audit)" "c \<noteq> Finished"
  shows "tryTransition now StateParsing p = (True, fst (parse_write lib now p'))"
  using assms by (auto simp: parse_check_def quiet_def tryTransition_def parse_write_def Let_def split: if_splits)

lemma uninterrupted_exec_transition:
  assumes "exec_begin now True sqls p = (p', c, cmd, audit)" "c \<noteq> Finished"
  shows "tryTransition now StateExecuting p = (True, touch now (p'\<lparr>op_State := StateExecuting\<rparr>))"
  using assms by (auto simp: exec_begin_def quiet_def tryTransition_def split: if_splits)

end
