(* ===== verification/Pitr_Handlers.thy ===== *)
theory Pitr_Handlers
  imports Pitr_Run Org_Handlers
begin

section \<open>Recovery operations over HTTP\<close>

text \<open>
  The HTTP handlers of \<^verbatim>\<open>server/pitr/handler.go\<close>, and the server as a whole: the operations,
  the audit log, the goroutines and the commands sent to agents. The handlers and the steps of
  the goroutines interleave in any order; a goroutine that a handler starts is one more entry of
  the list of goroutines.
\<close>

record goroutine =
  gr_Operation :: string
  gr_Operator :: string
  gr_pc :: pc

record pitr_server =
  sv_ops :: op_store
  sv_audit :: audit_store
  sv_goroutines :: "goroutine list"
  sv_sent :: "(string \<times> agent_command) list"

text \<open>What does not change while operations run: the organisations and agents, and the parameters of
  the model.\<close>

record pitr_env =
  en_orgs :: org_store
  en_agents :: agent_store
  en_lib :: text_lib
  en_parse_time :: "string \<Rightarrow> go_time option"

definition agentConnected :: "(string \<Rightarrow> bool) option \<Rightarrow> string \<Rightarrow> bool" where
  "agentConnected commander agentID = (case commander of None \<Rightarrow> False | Some isConnected \<Rightarrow> isConnected agentID)"

subsection \<open>Payloads\<close>

record status_response =
  sr_ID :: string
  sr_OrgID :: string
  sr_AgentID :: string
  sr_AgentConnected :: bool
  sr_TargetTable :: string
  sr_RecoveryTime :: go_time
  sr_Mode :: string
  sr_State :: operation_state
  sr_PreflightRes :: "preflight_summary option"
  sr_ParseRes :: "parse_summary option"
  sr_ExecRes :: "exec_summary option"
  sr_Progress :: "progress_info option"
  sr_Error :: string
  sr_CreatedAt :: go_time
  sr_UpdatedAt :: go_time

record preview_response =
  vr_OperationID :: string
  vr_RowsAffected :: int
  vr_SQLSample :: string
  vr_ReverseSql :: "reverse_sql_entry list"
  vr_ParsedAt :: go_time
  vr_State :: operation_state

record progress_response =
  gp_OperationID :: string
  gp_State :: operation_state
  gp_BatchesComplete :: int
  gp_BatchesTotal :: int
  gp_RowsRestored :: int
  gp_EstimatedRemaining :: string

datatype pitr_payload =
    OperationList "operation list"
  | OperationStarted string operation_state
  | OperationStatus status_response
  | OperationCancelled string operation_state
  | OperationPreview preview_response
  | OperationProgress progress_response

subsection \<open>Reading an operation\<close>

text \<open>The prologue of the handlers of one operation: authenticate, look the operation up, and check that
  the user is a member of its organisation. \<open>err\<close> makes the answer of a failed check.\<close>

definition with_operation :: "request \<Rightarrow> org_store \<Rightarrow> op_store \<Rightarrow> (nat \<Rightarrow> string \<Rightarrow> 'r) \<Rightarrow>
    (operation \<Rightarrow> 'r) \<Rightarrow> 'r" where
  "with_operation r orgs s err k =
     (let userID = userIDFromRequest r; opID = rq_URLParam r ''id'' in
      if userID = [] then err StatusUnauthorized ''not authenticated''
      else if opID = [] then err StatusBadRequest ''missing operation id''
      else case Op_Get s opID of
        Ok p \<Rightarrow>
          (case Org_ListMembers orgs (op_OrgID p) of
             Ok members \<Rightarrow>
               if \<not> is_member members userID then err StatusForbidden ''not a member of this organisation''
               else k p
           | _ \<Rightarrow> err StatusNotFound ''organisation not found'')
      | Err e \<Rightarrow> err StatusNotFound (store_error e)
      | Panic \<Rightarrow> err StatusNotFound [])"

definition Pitr_Status :: "pitr_env \<Rightarrow> (string \<Rightarrow> bool) option \<Rightarrow> request \<Rightarrow> pitr_server \<Rightarrow> pitr_payload response" where
  "Pitr_Status env commander r sv =
     with_operation r (en_orgs env) (sv_ops sv) writeError (\<lambda>p.
       writeJSON StatusOK (OperationStatus
         \<lparr>sr_ID = op_ID p, sr_OrgID = op_OrgID p, sr_AgentID = op_AgentID p,
          sr_AgentConnected = agentConnected commander (op_AgentID p), sr_TargetTable = op_TargetTable p,
          sr_RecoveryTime = op_RecoveryTime p, sr_Mode = op_Mode p, sr_State = op_State p,
          sr_PreflightRes = op_PreflightRes p, sr_ParseRes = op_ParseRes p, sr_ExecRes = op_ExecRes p,
          sr_Progress = op_Progress p, sr_Error = op_Error p, sr_CreatedAt = op_CreatedAt p,
          sr_UpdatedAt = op_UpdatedAt p\<rparr>))"

definition Pitr_Preview :: "pitr_env \<Rightarrow> request \<Rightarrow> pitr_server \<Rightarrow> pitr_payload response" where
  "Pitr_Preview env r sv =
     with_operation r (en_orgs env) (sv_ops sv) writeError (\<lambda>p.
       case op_ParseRes p of
         None \<Rightarrow> writeError StatusPreconditionFailed ''preview not available until parsing phase is complete''
       | Some m \<Rightarrow> writeJSON StatusOK (OperationPreview
           \<lparr>vr_OperationID = op_ID p, vr_RowsAffected = pm_RowsAffected m, vr_SQLSample = pm_SQLSample m,
            vr_ReverseSql = pm_ReverseSql m, vr_ParsedAt = pm_ParsedAt m, vr_State = op_State p\<rparr>))"

definition Pitr_Progress :: "pitr_env \<Rightarrow> request \<Rightarrow> pitr_server \<Rightarrow> pitr_payload response" where
  "Pitr_Progress env r sv =
     with_operation r (en_orgs env) (sv_ops sv) writeError (\<lambda>p.
       case op_Progress p of
         None \<Rightarrow> writeJSON StatusOK (OperationProgress \<lparr>gp_OperationID = op_ID p, gp_State = op_State p,
           gp_BatchesComplete = 0, gp_BatchesTotal = 0, gp_RowsRestored = 0, gp_EstimatedRemaining = []\<rparr>)
       | Some g \<Rightarrow> writeJSON StatusOK (OperationProgress \<lparr>gp_OperationID = op_ID p, gp_State = op_State p,
           gp_BatchesComplete = pi_BatchesComplete g, gp_BatchesTotal = pi_BatchesTotal g,
           gp_RowsRestored = pi_RowsRestored g, gp_EstimatedRemaining = pi_EstimatedRemaining g\<rparr>))"

text \<open>\<^verbatim>\<open>List\<close>: a bound that does not parse does not filter; the decoration of the records listed is
  written into the shared records.\<close>

definition list_match :: "(string \<Rightarrow> go_time option) \<Rightarrow> request \<Rightarrow> operation \<Rightarrow> bool" where
  "list_match parse r p \<longleftrightarrow>
     \<not> (rq_Query r ''from'' \<noteq> [] \<and>
        (case parse (rq_Query r ''from'') of Some t \<Rightarrow> op_CreatedAt p < t | None \<Rightarrow> False)) \<and>
     \<not> (rq_Query r ''to'' \<noteq> [] \<and>
        (case parse (rq_Query r ''to'') of Some t \<Rightarrow> t < op_CreatedAt p | None \<Rightarrow> False))"

definition decorate :: "(string \<Rightarrow> bool) option \<Rightarrow> operation \<Rightarrow> operation" where
  "decorate commander p = p\<lparr>op_AgentConnected := agentConnected commander (op_AgentID p)\<rparr>"

definition decorate_listed :: "pitr_env \<Rightarrow> (string \<Rightarrow> bool) option \<Rightarrow> request \<Rightarrow> operation \<Rightarrow> operation" where
  "decorate_listed env commander r p =
     (if op_OrgID p = rq_Query r ''org_id'' \<and> list_match (en_parse_time env) r p then decorate commander p else p)"

definition Pitr_List :: "pitr_env \<Rightarrow> (string \<Rightarrow> bool) option \<Rightarrow> request \<Rightarrow> pitr_server \<Rightarrow>
    pitr_payload response \<times> pitr_server" where
  "Pitr_List env commander r sv =
     (let userID = userIDFromRequest r; orgID = rq_Query r ''org_id'' in
      if userID = [] then (writeError StatusUnauthorized ''not authenticated'', sv)
      else if orgID = [] then (writeError StatusBadRequest ''org_id query parameter is required'', sv)
      else case Org_ListMembers (en_orgs env) orgID of
        Ok members \<Rightarrow>
          if \<not> is_member members userID then
            (writeError StatusForbidden ''not a member of this organisation'', sv)
          else (writeJSON StatusOK (OperationList (map (decorate commander)
                  (filter (list_match (en_parse_time env) r) (Op_ListByOrg (sv_ops sv) orgID)))),
                sv\<lparr>sv_ops := map (\<lambda>(i, p). (i, decorate_listed env commander r p)) (sv_ops sv)\<rparr>)
      | _ \<Rightarrow> (writeError StatusNotFound ''organisation not found'', sv))"

subsection \<open>Starting, cancelling and executing\<close>

record start_request =
  sq_AgentID :: string
  sq_TargetTable :: string
  sq_RecoveryTime :: string
  sq_Mode :: string
  sq_BinlogFiles :: "string list"
  sq_StartTime :: string
  sq_StartPos :: "32 word option"
  sq_StopPos :: "32 word option"

definition new_operation :: "string \<Rightarrow> start_request \<Rightarrow> go_time \<Rightarrow> go_time option \<Rightarrow> operation" where
  "new_operation orgID q recoveryTime startTime =
     \<lparr>op_ID = [], op_OrgID = orgID, op_AgentID = sq_AgentID q, op_TargetTable = sq_TargetTable q,
      op_RecoveryTime = recoveryTime, op_Mode = sq_Mode q, op_State = StatePreflight,
      op_BinlogFiles = sq_BinlogFiles q, op_StartTime = startTime, op_StartPos = sq_StartPos q,
      op_StopPos = sq_StopPos q, op_AgentConnected = False, op_PreflightRes = None, op_ParseRes = None,
      op_ExecRes = None, op_Progress = None, op_Error = [], op_CreatedAt = zero_time,
      op_UpdatedAt = zero_time\<rparr>"

definition offline_message :: string where
  "offline_message = ''agent is offline '' @ [CHR 0xE2, CHR 0x80, CHR 0x94] @ '' start it with '' @
     [CHR 0x60] @ ''mysql-pitr-agent serve'' @ [CHR 0x60] @ '' first''"

text \<open>The checks of \<^verbatim>\<open>Start\<close>, in order: the answer of the first that fails, or the operation to
  create.\<close>

definition start_check :: "pitr_env \<Rightarrow> (string \<Rightarrow> bool) option \<Rightarrow> request \<Rightarrow> start_request option \<Rightarrow>
    pitr_payload response + operation" where
  "start_check env commander r body =
     (let userID = userIDFromRequest r in
      if userID = [] \<or> emailFromRequest r = [] then Inl (writeError StatusUnauthorized ''not authenticated'')
      else case body of
        None \<Rightarrow> Inl (writeError StatusBadRequest ''invalid request body'')
      | Some q \<Rightarrow>
      if sq_AgentID q = [] \<or> sq_TargetTable q = [] \<or> sq_RecoveryTime q = [] \<or> sq_Mode q = [] then
        Inl (writeError StatusBadRequest ''agent_id, target_table, recovery_time, and mode are required'')
      else if sq_Mode q \<noteq> ''preview'' \<and> sq_Mode q \<noteq> ''execute'' then
        Inl (writeError StatusBadRequest (''mode must be '' @ [CHR 0x22] @ ''preview'' @ [CHR 0x22] @ '' or '' @
           [CHR 0x22] @ ''execute'' @ [CHR 0x22]))
      else case en_parse_time env (sq_RecoveryTime q) of
        None \<Rightarrow> Inl (writeError StatusBadRequest ''invalid recovery_time: expected ISO8601/RFC3339 format'')
      | Some recoveryTime \<Rightarrow>
      (case (if sq_StartTime q = [] then Some None
             else map_option Some (en_parse_time env (sq_StartTime q))) of
        None \<Rightarrow> Inl (writeError StatusBadRequest ''invalid start_time: expected ISO8601/RFC3339 format'')
      | Some startTime \<Rightarrow>
      (case Agent_Get (en_agents env) (sq_AgentID q) of
        Ok agt \<Rightarrow>
          (case Org_ListMembers (en_orgs env) (ag_OrgID agt) of
             Ok members \<Rightarrow>
               if \<not> is_member members userID then
                 Inl (writeError StatusForbidden ''not a member of the agent's organisation'')
               else if \<not> ag_Approved agt then Inl (writeError StatusConflict ''agent is not approved'')
               else if \<not> agentConnected commander (sq_AgentID q) then
                 Inl (writeError StatusConflict offline_message)
               else Inr (new_operation (ag_OrgID agt) q recoveryTime startTime)
           | _ \<Rightarrow> Inl (writeError StatusNotFound ''organisation not found''))
      | _ \<Rightarrow> Inl (writeError StatusNotFound ''agent not found''))))"

definition Pitr_Start :: "pitr_env \<Rightarrow> (string \<Rightarrow> bool) option \<Rightarrow> bytes \<Rightarrow> go_time \<Rightarrow> request \<Rightarrow>
    start_request option \<Rightarrow> pitr_server \<Rightarrow> pitr_payload response \<times> pitr_server" where
  "Pitr_Start env commander rnd now r body sv =
     (case start_check env commander r body of
        Inl resp \<Rightarrow> (resp, sv)
      | Inr p \<Rightarrow>
          let (p, ops) = Op_Create rnd now p (sv_ops sv)
          in (writeJSON StatusCreated (OperationStarted (op_ID p) (op_State p)),
              sv\<lparr>sv_ops := ops, sv_goroutines := sv_goroutines sv @
                [\<lparr>gr_Operation = op_ID p, gr_Operator = emailFromRequest r, gr_pc = Run_Begin\<rparr>]\<rparr>))"

text \<open>The audit entry of a cancellation.\<close>

definition cancel_audit :: "go_time \<Rightarrow> request \<Rightarrow> operation \<Rightarrow> audit_entry" where
  "cancel_audit now r p = \<lparr>ae_OperationID = op_ID p, ae_Operator = emailFromRequest r, ae_Timestamp = now,
     ae_OrgID = op_OrgID p, ae_AgentID = op_AgentID p, ae_TargetTable = op_TargetTable p,
     ae_RecoveryTime = zero_time, ae_RowsAffected = 0, ae_Status = StateCancelled, ae_ErrorDetails = []\<rparr>"

definition Pitr_Cancel :: "pitr_env \<Rightarrow> (string \<Rightarrow> bool) option \<Rightarrow> go_time \<Rightarrow> request \<Rightarrow> pitr_server \<Rightarrow>
    pitr_payload response \<times> pitr_server" where
  "Pitr_Cancel env commander now r sv =
     with_operation r (en_orgs env) (sv_ops sv) (\<lambda>status m. (writeError status m, sv)) (\<lambda>p.
       if \<not> TransitionValid (op_State p) StateCancelled then
         (writeError StatusConflict (''cannot cancel operation in state '' @ tl_quote (en_lib env) (op_State p)), sv)
       else let p = p\<lparr>op_State := StateCancelled\<rparr> in
         (case Op_Update now p (sv_ops sv) of
            (Ok _, ops) \<Rightarrow>
              (writeJSON StatusOK (OperationCancelled (op_ID p) (op_State p)),
               sv\<lparr>sv_ops := ops, sv_audit := Audit_Append now (cancel_audit now r p) (sv_audit sv),
                  sv_sent := (if commander = None then sv_sent sv
                    else sv_sent sv @ [(op_AgentID p, Cmd_Cancel (op_ID p))])\<rparr>)
          | (Err e, ops) \<Rightarrow> (writeError StatusInternalServerError (store_error e), sv)
          | (Panic, ops) \<Rightarrow> (writeError StatusInternalServerError [], sv)))"

text \<open>The statements to run: those of the request, or the whole batch.\<close>

definition Pitr_Execute :: "pitr_env \<Rightarrow> (string \<Rightarrow> bool) option \<Rightarrow> request \<Rightarrow> string list option \<Rightarrow> pitr_server \<Rightarrow>
    pitr_payload response \<times> pitr_server" where
  "Pitr_Execute env commander r body sv =
     (if userIDFromRequest r = [] \<or> emailFromRequest r = [] then
        (writeError StatusUnauthorized ''not authenticated'', sv)
      else with_operation r (en_orgs env) (sv_ops sv) (\<lambda>status m. (writeError status m, sv)) (\<lambda>p.
       if op_State p \<noteq> StatePreviewed then
         (writeError StatusConflict (''cannot execute operation in state '' @ tl_quote (en_lib env) (op_State p) @
            '' (run the preview first)''), sv)
       else case op_ParseRes p of
         None \<Rightarrow> (writeError StatusConflict ''operation has no parsed result'', sv)
       | Some m \<Rightarrow>
         if \<not> agentConnected commander (op_AgentID p) then (writeError StatusConflict offline_message, sv)
         else (case body of
             None \<Rightarrow> (writeError StatusBadRequest ''invalid request body'', sv)
           | Some sql \<Rightarrow>
             let sqls = (if length sql = 0 then pm_SQLs m else sql) in
             if length sqls = 0 then (writeError StatusBadRequest ''no SQL statements to execute'', sv)
             else (writeJSON StatusAccepted (OperationStarted (op_ID p) StateExecuting),
                   sv\<lparr>sv_goroutines := sv_goroutines sv @
                     [\<lparr>gr_Operation = op_ID p, gr_Operator = emailFromRequest r, gr_pc = Exec_Begin sqls\<rparr>]\<rparr>))))"

subsection \<open>Progress notifications\<close>

text \<open>A notification of the agent, with the parameters that have the expected type.\<close>

record progress_params =
  pp_operationId :: string
  pp_batchesComplete :: "int option"
  pp_batchesTotal :: "int option"
  pp_rowsRestored :: "int option"
  pp_estimatedRemaining :: "string option"

definition merge_progress :: "progress_params \<Rightarrow> progress_info \<Rightarrow> progress_info" where
  "merge_progress n g =
     (let g = (case pp_batchesComplete n of Some v \<Rightarrow> g\<lparr>pi_BatchesComplete := v\<rparr> | None \<Rightarrow> g);
          g = (case pp_batchesTotal n of Some v \<Rightarrow> g\<lparr>pi_BatchesTotal := v\<rparr> | None \<Rightarrow> g);
          g = (case pp_rowsRestored n of Some v \<Rightarrow> g\<lparr>pi_RowsRestored := v\<rparr> | None \<Rightarrow> g)
      in case pp_estimatedRemaining n of Some v \<Rightarrow> g\<lparr>pi_EstimatedRemaining := v\<rparr> | None \<Rightarrow> g)"

definition on_progress :: "go_time \<Rightarrow> progress_params \<Rightarrow> pitr_server \<Rightarrow> pitr_server" where
  "on_progress now n sv =
     (if pp_operationId n = [] then sv
      else case Op_Get (sv_ops sv) (pp_operationId n) of
        Ok p \<Rightarrow>
          if op_State p \<noteq> StateExecuting then sv
          else let g = (case op_Progress p of Some g \<Rightarrow> g | None \<Rightarrow>
                     \<lparr>pi_BatchesComplete = 0, pi_BatchesTotal = 0, pi_RowsRestored = 0, pi_EstimatedRemaining = []\<rparr>)
               in sv\<lparr>sv_ops := snd (Op_Update now (p\<lparr>op_Progress := Some (merge_progress n g)\<rparr>) (sv_ops sv))\<rparr>
      | _ \<Rightarrow> sv)"

subsection \<open>The server\<close>

text \<open>A step of the goroutine with number \<open>n\<close>.\<close>

definition run_goroutine :: "pitr_env \<Rightarrow> step_input \<Rightarrow> nat \<Rightarrow> pitr_server \<Rightarrow> pitr_server" where
  "run_goroutine env i n sv =
     (if n < length (sv_goroutines sv) then
        let g = sv_goroutines sv ! n in
        (case map_of (sv_ops sv) (gr_Operation g) of
           None \<Rightarrow> sv
         | Some p \<Rightarrow>
             let (p, c, cmd, entry) = thread_step (en_lib env) i (gr_Operator g) (gr_pc g) p in
             sv\<lparr>sv_ops := AList.update (gr_Operation g) p (sv_ops sv),
                sv_goroutines := (sv_goroutines sv)[n := g\<lparr>gr_pc := c\<rparr>],
                sv_sent := (case cmd of None \<Rightarrow> sv_sent sv | Some m \<Rightarrow> sv_sent sv @ [(op_AgentID p, m)]),
                sv_audit := (case entry of None \<Rightarrow> sv_audit sv | Some e \<Rightarrow> Audit_Append (si_now i) e (sv_audit sv))\<rparr>)
      else sv)"

datatype pitr_event =
    Ev_Start "(string \<Rightarrow> bool) option" bytes go_time request "start_request option"
  | Ev_Cancel "(string \<Rightarrow> bool) option" go_time request
  | Ev_Execute "(string \<Rightarrow> bool) option" request "string list option"
  | Ev_List "(string \<Rightarrow> bool) option" request
  | Ev_Progress go_time progress_params
  | Ev_Step nat step_input

fun pitr_apply :: "pitr_env \<Rightarrow> pitr_event \<Rightarrow> pitr_server \<Rightarrow> pitr_server" where
  "pitr_apply env (Ev_Start commander rnd now r body) sv = snd (Pitr_Start env commander rnd now r body sv)"
| "pitr_apply env (Ev_Cancel commander now r) sv = snd (Pitr_Cancel env commander now r sv)"
| "pitr_apply env (Ev_Execute commander r body) sv = snd (Pitr_Execute env commander r body sv)"
| "pitr_apply env (Ev_List commander r) sv = snd (Pitr_List env commander r sv)"
| "pitr_apply env (Ev_Progress now n) sv = on_progress now n sv"
| "pitr_apply env (Ev_Step n i) sv = run_goroutine env i n sv"

definition pitr_init :: pitr_server where
  "pitr_init = \<lparr>sv_ops = [], sv_audit = [], sv_goroutines = [], sv_sent = []\<rparr>"

fun pitr_run :: "pitr_env \<Rightarrow> pitr_event list \<Rightarrow> pitr_server \<Rightarrow> pitr_server" where
  "pitr_run env [] sv = sv"
| "pitr_run env (e # es) sv = pitr_run env es (pitr_apply env e sv)"

lemma pitr_run_append: "pitr_run env (es @ fs) sv = pitr_run env fs (pitr_run env es sv)"
  by (induction es arbitrary: sv) simp_all

end
