(* ===== verification/Pitr_Scenario.thy ===== *)
theory Pitr_Scenario
  imports Pitr_Handlers
begin

section \<open>A small deployment\<close>

text \<open>
  One organisation with one member, one approved agent and the operations that member starts:
  the concrete input on which the properties of the recovery server are applied.
\<close>

definition carol :: request where
  "carol = \<lparr>rq_Claims = Some \<lparr>cl_UserID = ''carol'', cl_Email = ''carol@example.org''\<rparr>,
     rq_URLParam = (\<lambda>_. ''op_02''), rq_Query = (\<lambda>_. [])\<rparr>"

definition carols_orgs :: org_store where
  "carols_orgs = \<lparr>os_orgs = [(''org_1'', \<lparr>og_ID = ''org_1'', og_Name = ''Ops'', og_CreatedAt = 1\<rparr>)],
     os_members = [(''org_1'', [\<lparr>mb_UserID = ''carol'', mb_OrgID = ''org_1'', mb_Role = ''admin'', mb_JoinedAt = 1\<rparr>])],
     os_invites = []\<rparr>"

definition carols_env :: pitr_env where
  "carols_env = \<lparr>en_orgs = carols_orgs,
     en_agents = [(''ag_1'', \<lparr>ag_ID = ''ag_1'', ag_OrgID = ''org_1'', ag_Hostname = ''db'', ag_MySQLVersion = ''8.0.36'',
       ag_Status = ''online'', ag_LastSeen = 1, ag_CreatedAt = 1, ag_CertSerial = ''s'', ag_RegistrationToken = ''t'',
       ag_Approved = True\<rparr>)],
     en_lib = \<lparr>tl_rfc3339 = (\<lambda>_. ''2024-01-01T00:00:00Z''), tl_quote = (\<lambda>s. s)\<rparr>,
     en_parse_time = (\<lambda>_. Some 5)\<rparr>"

definition carols_start :: "string \<Rightarrow> pitr_event" where
  "carols_start mode = Ev_Start (Some (\<lambda>_. True)) [2] 100 carol (Some
     \<lparr>sq_AgentID = ''ag_1'', sq_TargetTable = ''shop.orders'', sq_RecoveryTime = ''2024-01-01T00:00:00Z'', sq_Mode = mode,
      sq_BinlogFiles = [], sq_StartTime = [], sq_StartPos = None, sq_StopPos = None\<rparr>)"

text \<open>An agent whose checks pass, that finds one statement and executes it.\<close>

definition good_agent :: step_input where
  "good_agent = \<lparr>si_now = 101, si_connected = True,
     si_preflight = Result \<lparr>pf_Preflight = Some \<lparr>pf_Status = PreflightPass, pf_Version = ''8.0.36'', pf_Checks = []\<rparr>,
       pf_BinlogFiles = [''binlog.000001''], pf_TotalSize = 4096, pf_BinlogDir = ''/var/lib/mysql''\<rparr>,
     si_parse = Result \<lparr>pa_OperationID = ''op_02'', pa_TotalRows = 1, pa_ReverseSql = [''DELETE FROM orders WHERE id = 1''], pa_Preview = [],
       pa_SQLSample = ''DELETE''\<rparr>,
     si_execute = Result \<lparr>ex_OperationID = ''op_02'', ex_Cancelled = False, ex_RowsAffected = 1, ex_BatchesCompleted = 1, ex_BatchesTotal = 1,
       ex_Errors = []\<rparr>\<rparr>"

definition failing_agent :: step_input where
  "failing_agent = good_agent\<lparr>si_preflight := Resp_Error ''lost connection''\<rparr>"

text \<open>From the start to the preview, seven steps of the goroutine.\<close>

definition to_preview :: "string \<Rightarrow> pitr_event list" where
  "to_preview mode = carols_start mode # replicate 7 (Ev_Step 0 good_agent)"

text \<open>The record while the agent runs its checks.\<close>

definition carols_operation :: operation where
  "carols_operation = snd (hd (sv_ops (pitr_run carols_env (take 2 (to_preview ''preview'')) pitr_init)))"

definition carols_execute :: pitr_event where
  "carols_execute = Ev_Execute (Some (\<lambda>_. True)) carol (Some [])"

definition carols_cancel :: pitr_event where
  "carols_cancel = Ev_Cancel (Some (\<lambda>_. True)) 102 carol"

end
