(* ===== verification/Pitr_Correct.thy ===== *)
theory Pitr_Correct
  imports Pitr_Scenario
begin

section \<open>What the recovery server guarantees\<close>

text \<open>
  Who may see and change an operation; the transitions a goroutine makes; the invariant of the
  records under every interleaving of requests, notifications and goroutine steps; what preview
  mode excludes; and two interleavings that break the state machine.
\<close>

subsection \<open>Access\<close>

definition may_access :: "pitr_env \<Rightarrow> request \<Rightarrow> pitr_server \<Rightarrow> operation \<Rightarrow> bool" where
  "may_access env r sv p \<longleftrightarrow> userIDFromRequest r \<noteq> [] \<and>
     map_of (sv_ops sv) (rq_URLParam r ''id'') = Some p \<and>
     (\<exists>ms. Org_ListMembers (en_orgs env) (op_OrgID p) = Ok ms \<and> is_member ms (userIDFromRequest r))"

lemma with_operation_cases:
  "(\<exists>status m. with_operation r (en_orgs env) (sv_ops sv) err k = err status m) \<or>
   (\<exists>p. may_access env r sv p \<and> with_operation r (en_orgs env) (sv_ops sv) err k = k p)"
  by (simp add: with_operation_def Let_def may_access_def split: outcome.splits) blast

lemma with_operation_denied:
  assumes "\<nexists>p. may_access env r sv p"
  shows "\<not> succeeded (with_operation r (en_orgs env) (sv_ops sv) writeError k)"
    and "\<not> succeeded (fst (with_operation r (en_orgs env) (sv_ops sv) (\<lambda>status m. (writeError status m, sv)) k')) \<and>
      snd (with_operation r (en_orgs env) (sv_ops sv) (\<lambda>status m. (writeError status m, sv)) k') = sv"
proof -
  obtain status m where "with_operation r (en_orgs env) (sv_ops sv) writeError k = writeError status m"
    using with_operation_cases [of r env sv writeError k] assms by blast
  then show "\<not> succeeded (with_operation r (en_orgs env) (sv_ops sv) writeError k)" by simp
  obtain status' m' where "with_operation r (en_orgs env) (sv_ops sv) (\<lambda>status m. (writeError status m, sv)) k' =
      (writeError status' m', sv)"
    using with_operation_cases [of r env sv "\<lambda>status m. (writeError status m, sv)" k'] assms by blast
  then show "\<not> succeeded (fst (with_operation r (en_orgs env) (sv_ops sv) (\<lambda>status m. (writeError status m, sv)) k')) \<and>
      snd (with_operation r (en_orgs env) (sv_ops sv) (\<lambda>status m. (writeError status m, sv)) k') = sv" by simp
qed

text \<open>C22. Operations are private to the members of their organisation: a request about an operation is
  answered with data, or changes the server, only when it is authenticated and its user is a
  member of the organisation of the operation it names.\<close>

theorem operations_private_to_members:
  assumes "succeeded (Pitr_Status env commander r sv) \<or> succeeded (Pitr_Preview env r sv) \<or>
      succeeded (Pitr_Progress env r sv) \<or>
      succeeded (fst (Pitr_Cancel env commander now r sv)) \<or> snd (Pitr_Cancel env commander now r sv) \<noteq> sv \<or>
      succeeded (fst (Pitr_Execute env commander r body sv)) \<or> snd (Pitr_Execute env commander r body sv) \<noteq> sv"
  shows "\<exists>p. may_access env r sv p"
proof (rule ccontr)
  assume none: "\<nexists>p. may_access env r sv p"
  have "\<not> succeeded (Pitr_Status env commander r sv)"
    unfolding Pitr_Status_def by (rule with_operation_denied(1) [OF none])
  moreover have "\<not> succeeded (Pitr_Preview env r sv)"
    unfolding Pitr_Preview_def by (rule with_operation_denied(1) [OF none])
  moreover have "\<not> succeeded (Pitr_Progress env r sv)"
    unfolding Pitr_Progress_def by (rule with_operation_denied(1) [OF none])
  moreover have "\<not> succeeded (fst (Pitr_Cancel env commander now r sv)) \<and> snd (Pitr_Cancel env commander now r sv) = sv"
    unfolding Pitr_Cancel_def by (rule with_operation_denied(2) [OF none])
  moreover have "\<not> succeeded (fst (Pitr_Execute env commander r body sv)) \<and> snd (Pitr_Execute env commander r body sv) = sv"
  proof (cases "userIDFromRequest r = [] \<or> emailFromRequest r = []")
    case True
    then show ?thesis by (simp add: Pitr_Execute_def)
  next
    case False
    show ?thesis unfolding Pitr_Execute_def if_not_P [OF False] by (rule with_operation_denied(2) [OF none])
  qed
  ultimately show False using assms by blast
qed

lemma operations_private_to_members_witness:
  "\<exists>p. may_access carols_env carol (pitr_run carols_env (to_preview ''preview'') pitr_init) p"
proof (rule operations_private_to_members)
  let ?sv = "pitr_run carols_env (to_preview ''preview'') pitr_init"
  have "succeeded (Pitr_Preview carols_env carol ?sv)" by code_simp
  then show "succeeded (Pitr_Status carols_env None carol ?sv) \<or> succeeded (Pitr_Preview carols_env carol ?sv) \<or>
      succeeded (Pitr_Progress carols_env carol ?sv) \<or>
      succeeded (fst (Pitr_Cancel carols_env None 0 carol ?sv)) \<or> snd (Pitr_Cancel carols_env None 0 carol ?sv) \<noteq> ?sv \<or>
      succeeded (fst (Pitr_Execute carols_env None carol None ?sv)) \<or>
      snd (Pitr_Execute carols_env None carol None ?sv) \<noteq> ?sv"
    by blast
qed

subsection \<open>A goroutine alone\<close>

text \<open>The state that belongs to a program counter.\<close>

fun pc_state :: "pc \<Rightarrow> operation_state \<Rightarrow> operation_state" where
  "pc_state Run_Begin s = StatePreflight"
| "pc_state Preflight_Wait s = StatePreflight"
| "pc_state (Confirm_Write pf) s = StatePreflight"
| "pc_state Parse_Check s = StateConfirmed"
| "pc_state Parse_Write s = StateConfirmed"
| "pc_state Parse_Wait s = StateParsing"
| "pc_state (Preview_Write pr) s = StateParsing"
| "pc_state (Exec_Begin sqls) s = StatePreviewed"
| "pc_state (Exec_Write sqls) s = StatePreviewed"
| "pc_state (Exec_Wait sqls) s = StateExecuting"
| "pc_state Finished s = s"

text \<open>The transitions of the table, and those the code makes beside it: \<^verbatim>\<open>failOperation\<close> from the
  states before execution, and the end of an execution that the agent reports as cancelled.\<close>

definition code_transition :: "operation_state \<Rightarrow> operation_state \<Rightarrow> bool" where
  "code_transition s t \<longleftrightarrow> TransitionValid s t \<or>
     t = StateFailed \<and> s \<in> {StatePreflight, StatePreviewed} \<or>
     t = StateCancelled \<and> s = StateExecuting"

text \<open>C23. As long as nobody else changes its operation, a goroutine keeps the state of the operation in
  step with its own progress, and each of its steps leaves the state or makes a transition of
  the table, with two exceptions: an operation can fail before it is parsed or executed, and an
  execution can end as cancelled.\<close>

theorem goroutine_follows_state_machine:
  assumes "op_State p = pc_state c (op_State p)" "thread_step lib i operator c p = (p', c', cmd, entry)"
  shows "op_State p' = pc_state c' (op_State p') \<and>
    (op_State p' = op_State p \<or> code_transition (op_State p) (op_State p'))"
  using assms
  by (cases c) (auto simp: step_defs Let_def code_transition_def TransitionValid_def validTransitions_def
      split: if_splits agent_reply.splits option.splits)

lemma goroutine_follows_state_machine_witness:
  "op_State (fst (thread_step (en_lib carols_env) failing_agent [] Preflight_Wait carols_operation)) = StateFailed \<and>
   code_transition (op_State carols_operation) StateFailed"
proof -
  let ?r = "thread_step (en_lib carols_env) failing_agent [] Preflight_Wait carols_operation"
  have s: "op_State carols_operation = StatePreflight" by code_simp
  have f: "op_State (fst ?r) = StateFailed" by code_simp
  have start: "op_State carols_operation = pc_state Preflight_Wait (op_State carols_operation)" by (simp add: s)
  obtain p' c' cmd entry where r: "?r = (p', c', cmd, entry)" by (metis prod_cases4)
  with f have "op_State p' = StateFailed" by simp
  with goroutine_follows_state_machine [OF start r] have "code_transition (op_State carols_operation) StateFailed"
    by (simp add: s)
  with f show ?thesis by blast
qed

subsection \<open>The invariant\<close>

text \<open>A record that has reached a state has the results that belong to it.\<close>

definition op_ok :: "operation \<Rightarrow> bool" where
  "op_ok p \<longleftrightarrow>
     (op_State p \<in> {StatePreviewed, StateExecuting, StateCompleted} \<longrightarrow> op_ParseRes p \<noteq> None) \<and>
     (op_State p = StateCompleted \<longrightarrow> op_ExecRes p \<noteq> None) \<and>
     (op_State p = StateFailed \<longrightarrow> op_Error p \<noteq> []) \<and>
     op_State p \<in> {StatePreflight, StateConfirmed, StateParsing, StatePreviewed, StateExecuting,
       StateCompleted, StateFailed, StateCancelled}"

fun executing_pc :: "pc \<Rightarrow> bool" where
  "executing_pc (Exec_Begin sqls) = True"
| "executing_pc (Exec_Write sqls) = True"
| "executing_pc (Exec_Wait sqls) = True"
| "executing_pc _ = False"

definition pc_ok :: "pc \<Rightarrow> operation \<Rightarrow> bool" where
  "pc_ok c p \<longleftrightarrow> (executing_pc c \<longrightarrow> op_ParseRes p \<noteq> None)"

text \<open>What no step changes, and no step takes away.\<close>

definition keeps :: "operation \<Rightarrow> operation \<Rightarrow> bool" where
  "keeps p p' \<longleftrightarrow> op_ID p' = op_ID p \<and> op_OrgID p' = op_OrgID p \<and> op_Mode p' = op_Mode p \<and>
     op_AgentID p' = op_AgentID p \<and> (op_ParseRes p \<noteq> None \<longrightarrow> op_ParseRes p' \<noteq> None)"

lemma keeps_refl [simp]: "keeps p p"
  by (simp add: keeps_def)

lemma pc_ok_keeps: "pc_ok c p \<Longrightarrow> keeps p p' \<Longrightarrow> pc_ok c p'"
  by (auto simp: pc_ok_def keeps_def)

lemma keeps_updates [simp]:
  "keeps p (touch now p') \<longleftrightarrow> keeps p p'" "keeps p (p'\<lparr>op_State := s\<rparr>) \<longleftrightarrow> keeps p p'"
  "keeps p (p'\<lparr>op_Error := e\<rparr>) \<longleftrightarrow> keeps p p'" "keeps p (p'\<lparr>op_PreflightRes := f\<rparr>) \<longleftrightarrow> keeps p p'"
  "keeps p (p'\<lparr>op_Progress := g\<rparr>) \<longleftrightarrow> keeps p p'" "keeps p (p'\<lparr>op_ExecRes := x\<rparr>) \<longleftrightarrow> keeps p p'"
  "keeps p p' \<Longrightarrow> keeps p (p'\<lparr>op_ParseRes := Some m\<rparr>)" "keeps p (failOperation now msg p)"
  by (simp_all add: keeps_def touch_def failOperation_def)

lemma failed_ok: "message \<noteq> [] \<Longrightarrow> op_ok (failOperation now message p)"
  by (simp add: op_ok_def failOperation_def touch_def)

lemma touch_ok [simp]: "op_ok (touch now p) \<longleftrightarrow> op_ok p" "pc_ok c (touch now p) \<longleftrightarrow> pc_ok c p"
  by (simp_all add: op_ok_def pc_ok_def touch_def)

lemma cancelled_ok: "op_ok (p\<lparr>op_State := StateCancelled\<rparr>)"
  by (simp add: op_ok_def)

lemma progress_ok: "op_ok (p\<lparr>op_Progress := g\<rparr>) \<longleftrightarrow> op_ok p"
  by (simp add: op_ok_def)

lemma pc_ok_idle [simp]: "\<not> executing_pc c \<Longrightarrow> pc_ok c p"
  by (simp add: pc_ok_def)

text \<open>The step of each program counter.\<close>

lemma step_run_begin:
  "run_begin now conn p = (p', c', cmd, entry) \<Longrightarrow> keeps p p' \<and> (op_ok p \<longrightarrow> op_ok p') \<and> pc_ok c' p'"
  by (auto simp: run_begin_def fail_step_def quiet_def not_connected_def failed_ok split: if_splits)

lemma step_on_preflight:
  "on_preflight now reply p = (p', c', cmd, entry) \<Longrightarrow> keeps p p' \<and> (op_ok p \<longrightarrow> op_ok p') \<and> pc_ok c' p'"
  by (auto simp: on_preflight_def fail_step_def quiet_def failed_ok
      split: if_splits agent_reply.splits option.splits)

lemma step_confirm_write:
  "confirm_write now pf p = (p', c', cmd, entry) \<Longrightarrow> keeps p p' \<and> op_ok p' \<and> pc_ok c' p'"
  by (auto simp: confirm_write_def quiet_def op_ok_def touch_def keeps_def)

lemma step_parse:
  "parse_check p = (p', c', cmd, entry) \<Longrightarrow> p' = p \<and> pc_ok c' p'"
  "parse_write lib now p = (p', c', cmd, entry) \<Longrightarrow> keeps p p' \<and> op_ok p' \<and> pc_ok c' p'"
  by (auto simp: parse_check_def parse_write_def quiet_def Let_def op_ok_def touch_def keeps_def split: if_splits)

lemma no_rows_message_nonempty [simp]: "no_rows_message lib p \<noteq> []"
  by (simp add: no_rows_message_def Let_def)

lemma step_on_parse:
  "on_parse lib now reply p = (p', c', cmd, entry) \<Longrightarrow> keeps p p' \<and> (op_ok p \<longrightarrow> op_ok p') \<and> pc_ok c' p'"
  by (auto simp: on_parse_def fail_step_def quiet_def failed_ok split: if_splits agent_reply.splits)

lemma step_preview_write:
  "preview_write now operator pr p = (p', c', cmd, entry) \<Longrightarrow> keeps p p' \<and> op_ok p' \<and> pc_ok c' p'"
  by (auto simp: preview_write_def Let_def op_ok_def pc_ok_def touch_def keeps_def)

lemma step_exec_begin:
  "exec_begin now conn sqls p = (p', c', cmd, entry) \<Longrightarrow> pc_ok (Exec_Begin sqls) p \<Longrightarrow>
    keeps p p' \<and> (op_ok p \<longrightarrow> op_ok p') \<and> pc_ok c' p'"
  by (auto simp: exec_begin_def fail_step_def quiet_def not_connected_def failed_ok pc_ok_def split: if_splits)

lemma step_exec_write:
  "exec_write lib now sqls p = (p', c', cmd, entry) \<Longrightarrow> pc_ok (Exec_Write sqls) p \<Longrightarrow>
    keeps p p' \<and> op_ok p' \<and> pc_ok c' p'"
  by (auto simp: exec_write_def Let_def op_ok_def pc_ok_def touch_def keeps_def)

lemma step_on_execute:
  "on_execute now operator reply p = (p', c', cmd, entry) \<Longrightarrow> pc_ok (Exec_Wait sqls) p \<Longrightarrow>
    keeps p p' \<and> op_ok p' \<and> pc_ok c' p'"
  by (cases reply) (auto simp: on_execute_def fail_step_def quiet_def Let_def failed_ok op_ok_def pc_ok_def
      touch_def keeps_def failOperation_def split: if_splits)

lemma thread_step_ok:
  assumes "thread_step lib i operator c p = (p', c', cmd, entry)" "op_ok p" "pc_ok c p"
  shows "keeps p p' \<and> op_ok p' \<and> pc_ok c' p'"
  using assms
  by (cases c)
    (auto dest: step_run_begin step_on_preflight step_confirm_write step_parse step_on_parse step_preview_write
      step_exec_begin step_exec_write step_on_execute simp: quiet_def)

lemma thread_step_commands:
  assumes "thread_step lib i operator c p = (p', c', cmd, entry)"
  shows "executing_pc c' \<longrightarrow> executing_pc c \<or> op_Mode p \<noteq> ''preview''"
    and "cmd = Some (Cmd_Execute j sqls n t m) \<Longrightarrow> executing_pc c \<and> j = op_ID p"
    and "cmd = Some m' \<Longrightarrow> \<not> (\<exists>j. m' = Cmd_Cancel j)"
  using assms
  by (cases c; auto simp: step_defs Let_def parse_command_def split: if_splits agent_reply.splits option.splits)+

text \<open>The records are filed under their own identifier, each is consistent, and every goroutine works on a
  record that has what its program counter needs.\<close>

definition server_ok :: "pitr_server \<Rightarrow> bool" where
  "server_ok sv \<longleftrightarrow> entity_wf op_ID (sv_ops sv) \<and>
     (\<forall>i p. map_of (sv_ops sv) i = Some p \<longrightarrow> op_ok p) \<and>
     (\<forall>g \<in> set (sv_goroutines sv). \<exists>p. map_of (sv_ops sv) (gr_Operation g) = Some p \<and> pc_ok (gr_pc g) p)"

text \<open>Random identifiers do not repeat.\<close>

fun fresh_event :: "pitr_event \<Rightarrow> pitr_server \<Rightarrow> bool" where
  "fresh_event (Ev_Start commander rnd now r body) sv = (map_of (sv_ops sv) (generateOpID rnd) = None)"
| "fresh_event _ sv = True"

fun fresh_ids :: "pitr_env \<Rightarrow> pitr_event list \<Rightarrow> pitr_server \<Rightarrow> bool" where
  "fresh_ids env [] sv = True"
| "fresh_ids env (e # es) sv = (fresh_event e sv \<and> fresh_ids env es (pitr_apply env e sv))"

text \<open>Replacing a record by one that keeps what the goroutines need.\<close>

lemma server_ok_update:
  assumes "server_ok sv" "map_of (sv_ops sv) i = Some p" "keeps p p'" "op_ok p'"
    and "sv_ops sv' = AList.update i p' (sv_ops sv)"
    and "\<And>g. g \<in> set (sv_goroutines sv') \<Longrightarrow> g \<in> set (sv_goroutines sv) \<or> gr_Operation g = i \<and> pc_ok (gr_pc g) p'"
  shows "server_ok sv'"
proof -
  have wf: "entity_wf op_ID (sv_ops sv)" using assms(1) by (simp add: server_ok_def)
  have "op_ID p' = i" using operations.own_key [OF wf assms(2)] assms(3) by (simp add: keeps_def)
  with operations.wf_save [OF wf, of p'] have wf': "entity_wf op_ID (AList.update i p' (sv_ops sv))" by simp
  have "\<exists>q. map_of (AList.update i p' (sv_ops sv)) (gr_Operation g) = Some q \<and> pc_ok (gr_pc g) q"
    if "g \<in> set (sv_goroutines sv')" for g
  proof (cases "gr_Operation g = i")
    case True
    have "pc_ok (gr_pc g) p'"
      using assms(6) [OF that]
    proof
      assume "g \<in> set (sv_goroutines sv)"
      with assms(1,2) True have "pc_ok (gr_pc g) p" by (auto simp: server_ok_def)
      then show ?thesis using assms(3) by (rule pc_ok_keeps)
    qed simp
    with True show ?thesis by (simp add: go_map_simps)
  next
    case False
    with assms(1) assms(6) [OF that] show ?thesis by (auto simp: server_ok_def go_map_simps)
  qed
  moreover have "op_ok q" if "map_of (AList.update i p' (sv_ops sv)) j = Some q" for j q
    using that assms(1,4) by (auto simp: server_ok_def go_map_simps split: if_splits)
  ultimately show ?thesis using wf' by (simp add: server_ok_def assms(5))
qed

lemma server_ok_goroutine:
  assumes "server_ok sv"
  shows "server_ok (run_goroutine env i n sv)"
proof (cases "n < length (sv_goroutines sv)")
  case True
  let ?g = "sv_goroutines sv ! n"
  have "?g \<in> set (sv_goroutines sv)" using True by simp
  then obtain p where p: "map_of (sv_ops sv) (gr_Operation ?g) = Some p" "pc_ok (gr_pc ?g) p"
    using assms by (auto simp: server_ok_def)
  obtain p' c' cmd entry where step: "thread_step (en_lib env) i (gr_Operator ?g) (gr_pc ?g) p = (p', c', cmd, entry)"
    by (metis prod_cases4)
  have ok: "keeps p p' \<and> op_ok p' \<and> pc_ok c' p'"
    using thread_step_ok [OF step _ p(2)] assms p(1) by (auto simp: server_ok_def)
  have "g \<in> set (sv_goroutines sv) \<or> gr_Operation g = gr_Operation ?g \<and> pc_ok (gr_pc g) p'"
    if "g \<in> set ((sv_goroutines sv)[n := ?g\<lparr>gr_pc := c'\<rparr>])" for g
    using set_update_subset_insert that ok by fastforce
  with ok show ?thesis
    by (intro server_ok_update [OF assms p(1), of p']) (simp_all add: True p(1) step run_goroutine_def Let_def)
next
  case False
  then show ?thesis using assms by (simp add: run_goroutine_def)
qed

text \<open>The requests. A successful start files a record that is not there yet.\<close>

lemma start_check_new: "start_check env commander r body = Inr p \<Longrightarrow> \<exists>g q t u. p = new_operation g q t u"
  by (auto simp: start_check_def Let_def split: option.splits if_splits outcome.splits)

lemma new_operation_filled:
  "op_ID (fill_operation rnd now (new_operation g q t u)) = generateOpID rnd"
  "op_State (fill_operation rnd now (new_operation g q t u)) = StatePreflight"
  by (simp_all add: fill_operation_def new_operation_def Let_def generateOpID_def)

lemma Pitr_Start_cases:
  assumes "Pitr_Start env commander rnd now r body sv = (resp, sv')"
  shows "sv' = sv \<or> (\<exists>p. op_ID p = generateOpID rnd \<and> op_State p = StatePreflight \<and>
    sv_ops sv' = AList.update (generateOpID rnd) p (sv_ops sv) \<and> sv_sent sv' = sv_sent sv \<and>
    sv_goroutines sv' = sv_goroutines sv @
      [\<lparr>gr_Operation = generateOpID rnd, gr_Operator = emailFromRequest r, gr_pc = Run_Begin\<rparr>])"
proof (cases "start_check env commander r body")
  case (Inl e)
  with assms show ?thesis by (simp add: Pitr_Start_def)
next
  case (Inr p)
  then obtain g q t u where p: "p = new_operation g q t u" using start_check_new by blast
  from assms Inr show ?thesis
    by (intro disjI2 exI [of _ "fill_operation rnd now p"])
      (auto simp: Pitr_Start_def Op_Create_def Let_def p new_operation_filled)
qed

lemma server_ok_start:
  assumes "server_ok sv" "map_of (sv_ops sv) (generateOpID rnd) = None"
  shows "server_ok (snd (Pitr_Start env commander rnd now r body sv))"
proof (cases "Pitr_Start env commander rnd now r body sv")
  case (Pair resp sv')
  from Pitr_Start_cases [OF this] show ?thesis
  proof (elim disjE exE conjE)
    assume "sv' = sv"
    with Pair assms(1) show ?thesis by simp
  next
    let ?i = "generateOpID rnd"
    fix p assume p: "op_ID p = ?i" "op_State p = StatePreflight"
      and sv': "sv_ops sv' = AList.update ?i p (sv_ops sv)"
        "sv_goroutines sv' = sv_goroutines sv @
          [\<lparr>gr_Operation = ?i, gr_Operator = emailFromRequest r, gr_pc = Run_Begin\<rparr>]"
    have wf: "entity_wf op_ID (sv_ops sv')"
      using operations.wf_save [of "sv_ops sv" p] assms(1) p(1) by (simp add: server_ok_def sv'(1))
    have "op_ok q" if "map_of (sv_ops sv') j = Some q" for j q
      using that assms(1) p(2) by (auto simp: server_ok_def sv'(1) go_map_simps op_ok_def split: if_splits)
    moreover have "\<exists>q. map_of (sv_ops sv') (gr_Operation g) = Some q \<and> pc_ok (gr_pc g) q"
      if "g \<in> set (sv_goroutines sv)" for g
    proof -
      obtain q where q: "map_of (sv_ops sv) (gr_Operation g) = Some q" "pc_ok (gr_pc g) q"
        using assms(1) \<open>g \<in> set (sv_goroutines sv)\<close> by (auto simp: server_ok_def)
      then have "gr_Operation g \<noteq> ?i" using assms(2) by auto
      with q show ?thesis by (simp add: sv'(1) go_map_simps)
    qed
    ultimately show ?thesis using wf by (auto simp: Pair server_ok_def sv' go_map_simps)
  qed
qed

lemma with_operation_pair:
  assumes "with_operation r (en_orgs env) (sv_ops sv) (\<lambda>status m. (writeError status m, sv)) k = (resp, sv')"
  shows "sv' = sv \<or> (\<exists>p. may_access env r sv p \<and> k p = (resp, sv'))"
  using with_operation_cases [of r env sv "\<lambda>status m. (writeError status m, sv)" k] assms by auto

lemma Pitr_Cancel_cases:
  assumes "Pitr_Cancel env commander now r sv = (resp, sv')"
  shows "sv' = sv \<or> (\<exists>p. map_of (sv_ops sv) (rq_URLParam r ''id'') = Some p \<and> TransitionValid (op_State p) StateCancelled \<and>
    sv_ops sv' = AList.update (op_ID p) (touch now (p\<lparr>op_State := StateCancelled\<rparr>)) (sv_ops sv) \<and>
    sv_goroutines sv' = sv_goroutines sv \<and>
    (sv_sent sv' = sv_sent sv \<or> sv_sent sv' = sv_sent sv @ [(op_AgentID p, Cmd_Cancel (op_ID p))]))"
  using with_operation_pair [OF assms [unfolded Pitr_Cancel_def]]
  by (elim disjE exE conjE; simp add: may_access_def Op_Update_def Let_def touch_def split: if_splits) auto

lemma Pitr_Execute_cases:
  assumes "Pitr_Execute env commander r body sv = (resp, sv')"
  shows "sv' = sv \<or> (\<exists>p sqls. map_of (sv_ops sv) (rq_URLParam r ''id'') = Some p \<and> op_ParseRes p \<noteq> None \<and>
    sv_ops sv' = sv_ops sv \<and> sv_sent sv' = sv_sent sv \<and>
    sv_goroutines sv' = sv_goroutines sv @
      [\<lparr>gr_Operation = op_ID p, gr_Operator = emailFromRequest r, gr_pc = Exec_Begin sqls\<rparr>])"
proof (cases "userIDFromRequest r = [] \<or> emailFromRequest r = []")
  case True
  with assms show ?thesis by (simp add: Pitr_Execute_def)
next
  case False
  show ?thesis
    using with_operation_pair [OF assms [unfolded Pitr_Execute_def if_not_P [OF False]]]
    by (elim disjE exE conjE; simp add: may_access_def Let_def split: if_splits option.splits) auto
qed

lemma server_ok_cancel:
  assumes "server_ok sv"
  shows "server_ok (snd (Pitr_Cancel env commander now r sv))"
proof (cases "Pitr_Cancel env commander now r sv")
  case (Pair resp sv')
  from Pitr_Cancel_cases [OF this] consider "sv' = sv"
    | p where "map_of (sv_ops sv) (rq_URLParam r ''id'') = Some p"
      "sv_ops sv' = AList.update (op_ID p) (touch now (p\<lparr>op_State := StateCancelled\<rparr>)) (sv_ops sv)"
      "sv_goroutines sv' = sv_goroutines sv" by blast
  then show ?thesis
  proof cases
    case (2 p)
    note p = 2(1) and sv' = 2(2,3)
    have "op_ID p = rq_URLParam r ''id''"
      using operations.own_key p assms by (auto simp: server_ok_def)
    with p have p': "map_of (sv_ops sv) (op_ID p) = Some p" by simp
    have "server_ok sv'"
    proof (rule server_ok_update [OF assms p' _ _ sv'(1)])
      show "keeps p (touch now (p\<lparr>op_State := StateCancelled\<rparr>))" by simp
      show "op_ok (touch now (p\<lparr>op_State := StateCancelled\<rparr>))" by (simp add: cancelled_ok)
    qed (simp add: sv'(2))
    then show ?thesis by (simp add: Pair)
  qed (simp add: Pair assms)
qed

lemma server_ok_execute:
  assumes "server_ok sv"
  shows "server_ok (snd (Pitr_Execute env commander r body sv))"
proof (cases "Pitr_Execute env commander r body sv")
  case (Pair resp sv')
  from Pitr_Execute_cases [OF this] show ?thesis
  proof (elim disjE exE conjE)
    fix p sqls assume p: "map_of (sv_ops sv) (rq_URLParam r ''id'') = Some p" "op_ParseRes p \<noteq> None"
      and sv': "sv_ops sv' = sv_ops sv" "sv_goroutines sv' = sv_goroutines sv @
          [\<lparr>gr_Operation = op_ID p, gr_Operator = emailFromRequest r, gr_pc = Exec_Begin sqls\<rparr>]"
    have "op_ID p = rq_URLParam r ''id''"
      using operations.own_key p(1) assms by (auto simp: server_ok_def)
    with p assms show ?thesis by (auto simp: Pair server_ok_def sv' pc_ok_def)
  qed (use Pair assms in simp_all)
qed

lemma map_of_map_values: "map_of (map (\<lambda>(i, p). (i, f p)) m) i = map_option f (map_of m i)"
  by (induction m) auto

lemma entity_wf_map: "(\<And>p. key (f p) = key p) \<Longrightarrow> entity_wf key m \<Longrightarrow> entity_wf key (map (\<lambda>(i, p). (i, f p)) m)"
  by (simp add: entity_wf_def comp_def case_prod_unfold)

lemma decorate_listed_keeps [simp]:
  "op_ok (decorate_listed env commander r p) = op_ok p" "pc_ok c (decorate_listed env commander r p) = pc_ok c p"
  "op_ID (decorate_listed env commander r p) = op_ID p" "op_Mode (decorate_listed env commander r p) = op_Mode p"
  by (simp_all add: decorate_listed_def decorate_def op_ok_def pc_ok_def)

lemma Pitr_List_cases:
  "Pitr_List env commander r sv = (resp, sv') \<Longrightarrow>
    sv' = sv \<or> sv' = sv\<lparr>sv_ops := map (\<lambda>(i, p). (i, decorate_listed env commander r p)) (sv_ops sv)\<rparr>"
  by (auto simp: Pitr_List_def Let_def split: if_splits outcome.splits)

lemma server_ok_list:
  assumes "server_ok sv"
  shows "server_ok (snd (Pitr_List env commander r sv))"
proof (cases "Pitr_List env commander r sv")
  case (Pair resp sv')
  let ?ops = "map (\<lambda>(i, p). (i, decorate_listed env commander r p)) (sv_ops sv)"
  have "entity_wf op_ID ?ops"
    by (rule entity_wf_map) (use assms in \<open>simp_all add: server_ok_def\<close>)
  with assms have "server_ok (sv\<lparr>sv_ops := ?ops\<rparr>)"
    by (auto simp: server_ok_def map_of_map_values)
  with Pitr_List_cases [OF Pair] assms show ?thesis by (auto simp: Pair)
qed

lemma on_progress_cases:
  "on_progress now n sv = sv \<or> (\<exists>p g. map_of (sv_ops sv) (pp_operationId n) = Some p \<and> op_State p = StateExecuting \<and>
    on_progress now n sv = sv\<lparr>sv_ops := snd (Op_Update now (p\<lparr>op_Progress := Some g\<rparr>) (sv_ops sv))\<rparr>)"
  by (auto simp: on_progress_def Let_def split: outcome.splits)

lemma server_ok_progress:
  assumes "server_ok sv"
  shows "server_ok (on_progress now n sv)"
  using on_progress_cases [of now n sv]
proof (elim disjE exE conjE)
  fix p g assume p: "map_of (sv_ops sv) (pp_operationId n) = Some p"
    and run: "on_progress now n sv = sv\<lparr>sv_ops := snd (Op_Update now (p\<lparr>op_Progress := Some g\<rparr>) (sv_ops sv))\<rparr>"
  have own: "op_ID p = pp_operationId n" using operations.own_key p assms by (auto simp: server_ok_def)
  have ok: "op_ok p" using p assms by (simp add: server_ok_def)
  have upd: "sv_ops (on_progress now n sv) =
      AList.update (pp_operationId n) (touch now (p\<lparr>op_Progress := Some g\<rparr>)) (sv_ops sv)"
    by (simp add: run Op_Update_def own p touch_def)
  show ?thesis
    by (rule server_ok_update [OF assms p _ _ upd]) (use ok in \<open>simp_all add: run progress_ok\<close>)
qed (use assms in simp)

lemma server_ok_apply: "server_ok sv \<Longrightarrow> fresh_event e sv \<Longrightarrow> server_ok (pitr_apply env e sv)"
  by (cases e) (simp_all add: server_ok_start server_ok_cancel server_ok_execute server_ok_list
      server_ok_progress server_ok_goroutine)

lemma server_ok_run: "server_ok sv \<Longrightarrow> fresh_ids env es sv \<Longrightarrow> server_ok (pitr_run env es sv)"
  by (induction es arbitrary: sv) (simp_all add: server_ok_apply)

lemma server_ok_init: "server_ok pitr_init"
  by (simp add: server_ok_def pitr_init_def)

end
