(* ===== verification/Pitr_Safety.thy ===== *)
theory Pitr_Safety
  imports Pitr_Correct
begin

section \<open>What every interleaving keeps, and what it does not\<close>

text \<open>
  Runs of the whole server: the consistency of the records, the absence of executions in preview
  mode, and two runs in which the unlocked check and write of a state let the server leave the
  state machine of \<^verbatim>\<open>server/pitr/state.go\<close>.
\<close>

subsection \<open>Consistency of the records\<close>



subsection \<open>Preview mode\<close>

definition sends_execute :: "(string \<times> agent_command) list \<Rightarrow> string \<Rightarrow> bool" where
  "sends_execute sent i = list_ex (\<lambda>(a, m). case m of Cmd_Execute j sqls n t time \<Rightarrow> j = i | _ \<Rightarrow> False) sent"

fun asks_execute :: "string \<Rightarrow> pitr_event \<Rightarrow> bool" where
  "asks_execute i (Ev_Execute commander r body) = (rq_URLParam r ''id'' = i)"
| "asks_execute i _ = False"

text \<open>As long as the operation \<open>i\<close> does not exist or is a preview, no goroutine is about to execute it and
  no command to execute it has been sent.\<close>

definition unexecuted :: "string \<Rightarrow> pitr_server \<Rightarrow> bool" where
  "unexecuted i sv \<longleftrightarrow> (\<forall>p. map_of (sv_ops sv) i = Some p \<longrightarrow> op_Mode p = ''preview'') \<longrightarrow>
     (\<forall>g \<in> set (sv_goroutines sv). gr_Operation g = i \<longrightarrow> \<not> executing_pc (gr_pc g)) \<and> \<not> sends_execute (sv_sent sv) i"

lemma sends_execute_cancel [simp]: "sends_execute (sent @ [(a, Cmd_Cancel j)]) i = sends_execute sent i"
  by (simp add: sends_execute_def)

text \<open>A step that keeps the modes, adds no executing goroutine of \<open>i\<close> and sends no command to execute it.\<close>

lemma unexecuted_step:
  assumes "unexecuted i sv" "\<And>p. map_of (sv_ops sv) i = Some p \<Longrightarrow> \<exists>q. map_of (sv_ops sv') i = Some q \<and> op_Mode q = op_Mode p"
    and "\<And>g. g \<in> set (sv_goroutines sv') \<Longrightarrow> gr_Operation g = i \<Longrightarrow> executing_pc (gr_pc g) \<Longrightarrow> g \<in> set (sv_goroutines sv)"
    and "sends_execute (sv_sent sv') i = sends_execute (sv_sent sv) i"
  shows "unexecuted i sv'"
  unfolding unexecuted_def
proof (intro impI)
  assume "\<forall>q. map_of (sv_ops sv') i = Some q \<longrightarrow> op_Mode q = ''preview''"
  with assms(2) have "\<forall>p. map_of (sv_ops sv) i = Some p \<longrightarrow> op_Mode p = ''preview''" by fastforce
  with assms(1) have "(\<forall>g \<in> set (sv_goroutines sv). gr_Operation g = i \<longrightarrow> \<not> executing_pc (gr_pc g)) \<and>
    \<not> sends_execute (sv_sent sv) i" by (simp add: unexecuted_def)
  with assms(3,4) show "(\<forall>g \<in> set (sv_goroutines sv'). gr_Operation g = i \<longrightarrow> \<not> executing_pc (gr_pc g)) \<and>
    \<not> sends_execute (sv_sent sv') i" by blast
qed

lemma server_own_key: "server_ok sv \<Longrightarrow> map_of (sv_ops sv) i = Some p \<Longrightarrow> op_ID p = i"
  by (auto simp: server_ok_def intro: operations.own_key)

lemma unexecuted_start:
  assumes "unexecuted i sv" "map_of (sv_ops sv) (generateOpID rnd) = None"
  shows "unexecuted i (snd (Pitr_Start env commander rnd now r body sv))"
proof (cases "Pitr_Start env commander rnd now r body sv")
  case (Pair resp sv')
  from Pitr_Start_cases [OF this] have "unexecuted i sv'"
  proof (elim disjE exE conjE)
    fix p assume "sv_ops sv' = AList.update (generateOpID rnd) p (sv_ops sv)" "sv_sent sv' = sv_sent sv"
      "sv_goroutines sv' = sv_goroutines sv @
        [\<lparr>gr_Operation = generateOpID rnd, gr_Operator = emailFromRequest r, gr_pc = Run_Begin\<rparr>]"
    with assms(2) show ?thesis by (intro unexecuted_step [OF assms(1)]) (auto simp: go_map_simps)
  qed (use assms(1) in simp)
  then show ?thesis by (simp add: Pair)
qed

lemma unexecuted_cancel:
  assumes "unexecuted i sv" "server_ok sv"
  shows "unexecuted i (snd (Pitr_Cancel env commander now r sv))"
proof (cases "Pitr_Cancel env commander now r sv")
  case (Pair resp sv')
  from Pitr_Cancel_cases [OF this] consider "sv' = sv"
    | p where "map_of (sv_ops sv) (rq_URLParam r ''id'') = Some p"
      "sv_ops sv' = AList.update (op_ID p) (touch now (p\<lparr>op_State := StateCancelled\<rparr>)) (sv_ops sv)"
      "sv_goroutines sv' = sv_goroutines sv"
      "sv_sent sv' = sv_sent sv \<or> sv_sent sv' = sv_sent sv @ [(op_AgentID p, Cmd_Cancel (op_ID p))]" by blast
  then show ?thesis
  proof cases
    case (2 p)
    have "op_ID p = rq_URLParam r ''id''" by (rule server_own_key [OF assms(2) 2(1)])
    with 2 have "unexecuted i sv'"
      by (intro unexecuted_step [OF assms(1)]) (auto simp: go_map_simps touch_def)
    then show ?thesis by (simp add: Pair)
  qed (simp add: Pair assms)
qed

lemma unexecuted_list:
  assumes "unexecuted i sv"
  shows "unexecuted i (snd (Pitr_List env commander r sv))"
proof (cases "Pitr_List env commander r sv")
  case (Pair resp sv')
  have "unexecuted i (sv\<lparr>sv_ops := map (\<lambda>(i, p). (i, decorate_listed env commander r p)) (sv_ops sv)\<rparr>)"
    by (rule unexecuted_step [OF assms]) (simp_all add: map_of_map_values)
  with Pitr_List_cases [OF Pair] assms show ?thesis by (auto simp: Pair)
qed

lemma unexecuted_progress:
  assumes "unexecuted i sv" "server_ok sv"
  shows "unexecuted i (on_progress now n sv)"
  using on_progress_cases [of now n sv]
proof (elim disjE exE conjE)
  fix p g assume p: "map_of (sv_ops sv) (pp_operationId n) = Some p"
    and run: "on_progress now n sv = sv\<lparr>sv_ops := snd (Op_Update now (p\<lparr>op_Progress := Some g\<rparr>) (sv_ops sv))\<rparr>"
  have "op_ID p = pp_operationId n" by (rule server_own_key [OF assms(2) p])
  with p show ?thesis
    by (intro unexecuted_step [OF assms(1)]) (auto simp: run Op_Update_def go_map_simps)
qed (use assms(1) in simp)

lemma unexecuted_execute:
  assumes "unexecuted i sv" "server_ok sv" "rq_URLParam r ''id'' \<noteq> i"
  shows "unexecuted i (snd (Pitr_Execute env commander r body sv))"
proof (cases "Pitr_Execute env commander r body sv")
  case (Pair resp sv')
  from Pitr_Execute_cases [OF this] show ?thesis
  proof (elim disjE exE conjE)
    fix p sqls assume p: "map_of (sv_ops sv) (rq_URLParam r ''id'') = Some p"
      and sv': "sv_ops sv' = sv_ops sv" "sv_sent sv' = sv_sent sv" "sv_goroutines sv' = sv_goroutines sv @
          [\<lparr>gr_Operation = op_ID p, gr_Operator = emailFromRequest r, gr_pc = Exec_Begin sqls\<rparr>]"
    have "op_ID p \<noteq> i" using server_own_key [OF assms(2) p] assms(3) by simp
    then show ?thesis by (intro unexecuted_step [OF assms(1)]) (auto simp: Pair sv')
  qed (use Pair assms in simp_all)
qed

lemma unexecuted_goroutine:
  assumes "unexecuted i sv" "server_ok sv"
  shows "unexecuted i (run_goroutine env inp n sv)"
proof (cases "n < length (sv_goroutines sv)")
  case True
  let ?g = "sv_goroutines sv ! n"
  have mem: "?g \<in> set (sv_goroutines sv)" using True by simp
  then obtain p where p: "map_of (sv_ops sv) (gr_Operation ?g) = Some p" "pc_ok (gr_pc ?g) p"
    using assms(2) by (auto simp: server_ok_def)
  have own: "op_ID p = gr_Operation ?g" by (rule server_own_key [OF assms(2) p(1)])
  obtain p' c' cmd entry where step: "thread_step (en_lib env) inp (gr_Operator ?g) (gr_pc ?g) p = (p', c', cmd, entry)"
    by (metis prod_cases4)
  have ok: "keeps p p'" using thread_step_ok [OF step _ p(2)] assms(2) p(1) by (auto simp: server_ok_def)
  note cmds = thread_step_commands [OF step]
  let ?sv = "run_goroutine env inp n sv"
  have ops: "sv_ops ?sv = AList.update (gr_Operation ?g) p' (sv_ops sv)"
    and gs: "sv_goroutines ?sv = (sv_goroutines sv)[n := ?g\<lparr>gr_pc := c'\<rparr>]"
    and sent: "sv_sent ?sv = (case cmd of None \<Rightarrow> sv_sent sv | Some m \<Rightarrow> sv_sent sv @ [(op_AgentID p', m)])"
    by (simp_all add: run_goroutine_def Let_def True p(1) step)
  show ?thesis
    unfolding unexecuted_def
  proof (rule impI)
    assume "\<forall>q. map_of (sv_ops ?sv) i = Some q \<longrightarrow> op_Mode q = ''preview''"
    then have pre: "\<forall>q. map_of (sv_ops sv) i = Some q \<longrightarrow> op_Mode q = ''preview''"
      using ok p(1) by (auto simp: ops go_map_simps keeps_def split: if_splits)
    with assms(1) have idle: "\<forall>g \<in> set (sv_goroutines sv). gr_Operation g = i \<longrightarrow> \<not> executing_pc (gr_pc g)"
      and quiet: "\<not> sends_execute (sv_sent sv) i" by (auto simp: unexecuted_def)
    have "\<not> executing_pc c'" if "gr_Operation ?g = i"
      using cmds(1) idle mem pre p(1) that by auto
    then have "\<forall>g \<in> set (sv_goroutines ?sv). gr_Operation g = i \<longrightarrow> \<not> executing_pc (gr_pc g)"
      using idle set_update_subset_insert [of "sv_goroutines sv" n "?g\<lparr>gr_pc := c'\<rparr>"] by (auto simp: gs)
    moreover have "\<not> sends_execute (sv_sent ?sv) i"
      using quiet cmds(2) idle mem own
      by (auto simp: sends_execute_def sent split: option.splits agent_command.splits)
    ultimately show "(\<forall>g \<in> set (sv_goroutines ?sv). gr_Operation g = i \<longrightarrow> \<not> executing_pc (gr_pc g)) \<and>
      \<not> sends_execute (sv_sent ?sv) i" ..
  qed
next
  case False
  then show ?thesis using assms(1) by (simp add: run_goroutine_def)
qed

lemma unexecuted_apply:
  assumes "unexecuted i sv" "server_ok sv" "fresh_event e sv" "\<not> asks_execute i e"
  shows "unexecuted i (pitr_apply env e sv)"
  using assms by (cases e) (simp_all add: unexecuted_start unexecuted_cancel unexecuted_execute unexecuted_list
      unexecuted_progress unexecuted_goroutine)

lemma unexecuted_run:
  "unexecuted i sv \<Longrightarrow> server_ok sv \<Longrightarrow> fresh_ids env es sv \<Longrightarrow> \<not> list_ex (asks_execute i) es \<Longrightarrow>
    unexecuted i (pitr_run env es sv)"
  by (induction es arbitrary: sv) (simp_all add: unexecuted_apply server_ok_apply)

text \<open>C24. A preview is only a preview: as long as nobody asks to execute the operation, the server never sends
  the agent a command to execute it, whatever else happens.\<close>

theorem preview_never_executes:
  assumes "fresh_ids env es pitr_init" "\<not> list_ex (asks_execute i) es"
    and "map_of (sv_ops (pitr_run env es pitr_init)) i = Some p" "op_Mode p = ''preview''"
  shows "\<not> sends_execute (sv_sent (pitr_run env es pitr_init)) i"
proof -
  have "unexecuted i pitr_init" by (simp add: unexecuted_def pitr_init_def sends_execute_def)
  from unexecuted_run [OF this server_ok_init assms(1,2)] assms(3,4) show ?thesis
    by (simp add: unexecuted_def)
qed

lemma preview_never_executes_witness:
  "\<not> sends_execute (sv_sent (pitr_run carols_env (to_preview ''preview'' @ replicate 3 (Ev_Step 0 good_agent)) pitr_init)) ''op_02''"
proof -
  let ?es = "to_preview ''preview'' @ replicate 3 (Ev_Step 0 good_agent)"
  have fresh: "fresh_ids carols_env ?es pitr_init" by code_simp
  have none: "\<not> list_ex (asks_execute ''op_02'') ?es" by code_simp
  have "map_option op_Mode (map_of (sv_ops (pitr_run carols_env ?es pitr_init)) ''op_02'') = Some ''preview''" by code_simp
  then obtain p where "map_of (sv_ops (pitr_run carols_env ?es pitr_init)) ''op_02'' = Some p" "op_Mode p = ''preview''"
    by blast
  with preview_never_executes [OF fresh none] show ?thesis by blast
qed

subsection \<open>Interleavings that leave the state machine\<close>

text \<open>The numbers of the commands to execute the operation, and the state of the operation, after a run.\<close>

definition executes_sent :: "pitr_event list \<Rightarrow> string \<Rightarrow> nat" where
  "executes_sent es i = length (filter (\<lambda>c. sends_execute [c] i) (sv_sent (pitr_run carols_env es pitr_init)))"

definition state_after :: "pitr_event list \<Rightarrow> string \<Rightarrow> operation_state option" where
  "state_after es i = map_option op_State (map_of (sv_ops (pitr_run carols_env es pitr_init)) i)"


text \<open>A cancellation can be lost. An operation cancelled during the preflight checks fails when the checks
  report an error, although a cancelled operation has no transition left; and one cancelled between the
  goroutine's check of the state and its write goes on and is executed.\<close>

theorem cancellation_can_be_lost:
  "state_after [carols_start ''execute'', Ev_Step 0 good_agent, carols_cancel] ''op_02'' = Some StateCancelled \<and>
   state_after [carols_start ''execute'', Ev_Step 0 good_agent, carols_cancel, Ev_Step 0 failing_agent] ''op_02'' =
     Some StateFailed \<and>
   state_after [carols_start ''execute'', Ev_Step 0 good_agent, Ev_Step 0 good_agent, carols_cancel] ''op_02'' =
     Some StateCancelled \<and>
   state_after ([carols_start ''execute'', Ev_Step 0 good_agent, Ev_Step 0 good_agent, carols_cancel] @
     replicate 8 (Ev_Step 0 good_agent)) ''op_02'' = Some StateCompleted"
  by code_simp

end
