(* ===== verification/Binlog_Text.thy ===== *)
theory Binlog_Text
  imports Connector_Types Go_Strings Fk_Order
begin

section \<open>Row events from the text of mysqlbinlog\<close>

text \<open>
  The model of the parser in \<^verbatim>\<open>cmd/agent/flashback.go\<close>: the agent runs \<^verbatim>\<open>mysqlbinlog\<close> and
  reads row events out of the commented pseudo-SQL it prints. The program and the database are
  parameters; the scanner of \<^verbatim>\<open>bufio\<close>, \<^verbatim>\<open>fmt.Sscanf\<close> of an integer and \<^verbatim>\<open>filepath.Join\<close> are
  modelled, and \<^verbatim>\<open>fmt.Sscanf\<close> of a float is a parameter that gives its bits.
\<close>

subsection \<open>The standard library\<close>

abbreviation (input) LF :: char where "LF \<equiv> CHR 0x0A"

text \<open>\<^verbatim>\<open>bufio.Scanner\<close> by lines: an end-of-line carriage return is dropped, a last line without a newline
  counts, and the scan ends, without a word, at the first line that with its newline does not fit into
  the buffer of 64 KiB.\<close>

definition drop_cr :: "string \<Rightarrow> string" where
  "drop_cr l = (if l \<noteq> [] \<and> last l = CHR 0x0D then butlast l else l)"

definition text_lines :: "string \<Rightarrow> string list" where
  "text_lines s = (let ls = Split s LF in if last ls = [] then butlast ls else ls)"

definition scan_lines :: "string \<Rightarrow> string list" where
  "scan_lines s = map drop_cr (takeWhile (\<lambda>l. length l < 65536) (text_lines s))"

text \<open>\<^verbatim>\<open>fmt.Sscanf(s, "%d", &i)\<close> for an \<^verbatim>\<open>int64\<close> and a text without leading space: an optional sign and at
  least one digit, whatever follows.\<close>

definition scan_int :: "string \<Rightarrow> int option" where
  "scan_int s =
     (let neg = (s \<noteq> [] \<and> hd s = CHR ''-'');
          t = (if s \<noteq> [] \<and> (hd s = CHR ''-'' \<or> hd s = CHR ''+'') then tl s else s);
          ds = takeWhile is_digit t;
          v = (if neg then - int (nat_of_digits 0 ds) else int (nat_of_digits 0 ds))
      in if ds = [] \<or> v < - (2 ^ 63) \<or> v \<ge> 2 ^ 63 then None else Some v)"

text \<open>\<^verbatim>\<open>filepath.Join\<close> of two elements: empty elements are ignored, and the result is cleaned lexically.\<close>

fun clean_parts :: "bool \<Rightarrow> string list \<Rightarrow> string list \<Rightarrow> string list" where
  "clean_parts rooted [] out = out"
| "clean_parts rooted (p # ps) out =
     (if p = [] \<or> p = ''.'' then clean_parts rooted ps out
      else if p = ''..'' then
        clean_parts rooted ps (if out \<noteq> [] \<and> last out \<noteq> ''..'' then butlast out
          else if rooted then out else out @ [p])
      else clean_parts rooted ps (out @ [p]))"

definition path_clean :: "string \<Rightarrow> string" where
  "path_clean s =
     (if s = [] then ''.''
      else let rooted = (hd s = CHR ''/''); t = join ''/'' (clean_parts rooted (Split s (CHR ''/'')) [])
        in if rooted then CHR ''/'' # t else if t = [] then ''.'' else t)"

definition path_join :: "string \<Rightarrow> string \<Rightarrow> string" where
  "path_join a b = (if a = [] \<and> b = [] then []
     else if a = [] then path_clean b else path_clean (a @ ''/'' @ b))"

text \<open>\<^verbatim>\<open>filepath.Dir\<close>: everything up to the last separator, cleaned.\<close>

definition path_dir :: "string \<Rightarrow> string" where
  "path_dir s = path_clean (rev (dropWhile (\<lambda>c. c \<noteq> CHR ''/'') (rev s)))"

definition binlogPaths :: "string \<Rightarrow> string list \<Rightarrow> string list" where
  "binlogPaths dataDir names = map (path_join dataDir) names"

subsection \<open>Options and arguments\<close>

record binlog_parse_opts =
  bo_TargetTable :: string
  bo_StartTime :: "go_time option"
  bo_EndTime :: "go_time option"
  bo_StartPos :: "32 word"
  bo_StopPos :: "32 word"
  bo_MySQLBinlogPath :: string

text \<open>\<open>local_time\<close> renders an instant in the local time zone (\<^verbatim>\<open>mysqlbinlogDateTime\<close>).\<close>

definition binlog_args :: "(go_time \<Rightarrow> string) \<Rightarrow> binlog_parse_opts \<Rightarrow> string list \<Rightarrow> string list" where
  "binlog_args local_time opts paths =
     [''--no-defaults'', ''--base64-output=DECODE-ROWS'', ''--verbose''] @
     (case bo_StartTime opts of Some t \<Rightarrow> [''--start-datetime='' @ local_time t] | None \<Rightarrow> []) @
     (case bo_EndTime opts of Some t \<Rightarrow> [''--stop-datetime='' @ local_time t] | None \<Rightarrow> []) @
     (if bo_StartPos opts > 0 then [''--start-position='' @ show_nat (unat (bo_StartPos opts))] else []) @
     (if bo_StopPos opts > 0 then [''--stop-position='' @ show_nat (unat (bo_StopPos opts))] else []) @
     paths"

text \<open>Running the program: it cannot be started, or it gives its output and what \<^verbatim>\<open>Wait\<close> returns.\<close>

datatype process = Stdout_Failed go_error | Stderr_Failed go_error | Start_Failed go_error
  | Ran string "go_error option"

subsection \<open>Values and rows\<close>

definition parseColumnValue :: "(string \<Rightarrow> 64 word option) \<Rightarrow> string \<Rightarrow> gval" where
  "parseColumnValue scan_float s =
     (let s = TrimSpace s in
      if s = ''NULL'' \<or> s = CHR 0x27 # ''NULL'' @ [CHR 0x27] then VNull
      else if HasPrefix s [CHR 0x27] \<and> HasSuffix s [CHR 0x27] then VString (Trim s [CHR 0x27])
      else case scan_int s of
        Some i \<Rightarrow> if Contains s ''.'' then VFloat (case scan_float s of Some f \<Rightarrow> f | None \<Rightarrow> 0) else VInt i
      | None \<Rightarrow> (case scan_float s of Some f \<Rightarrow> VFloat f | None \<Rightarrow> VString s))"

definition column_name :: "string list \<Rightarrow> nat \<Rightarrow> string" where
  "column_name colNames i = (if i < length colNames \<and> colNames ! i \<noteq> [] then colNames ! i
     else ''col_'' @ show_nat i)"

text \<open>The loop \<^verbatim>\<open>m[name(i)] = v\<close>.\<close>

definition image :: "string list \<Rightarrow> gval list \<Rightarrow> row" where
  "image colNames vs = fold (\<lambda>(i, v). AList.update (column_name colNames i) v) (zip [0..<length vs] vs) []"

definition makeRowEvent :: "row_event_type \<Rightarrow> string \<Rightarrow> string \<Rightarrow> gval list \<Rightarrow> string list \<Rightarrow> row_event" where
  "makeRowEvent typ db tbl vals colNames =
     (let ev = \<lparr>re_Type = typ, re_Database = db, re_Table = tbl, re_Timestamp = zero_time,
                re_Before = None, re_After = None, re_PrimaryKey = None\<rparr>
      in if typ = DeleteEvent then ev\<lparr>re_Before := Some (image colNames vals)\<rparr>
         else if typ = InsertEvent then ev\<lparr>re_After := Some (image colNames vals)\<rparr>
         else if typ = UpdateEvent \<and> length vals mod 2 = 0 then
           let half = length vals div 2 in
           ev\<lparr>re_Before := Some (image colNames (take half vals)), re_After := Some (image colNames (drop half vals))\<rparr>
         else ev)"

subsection \<open>The scan\<close>

record scan_state =
  ts_events :: "row_event list"
  ts_type :: row_event_type
  ts_values :: "gval list"
  ts_inRow :: bool

definition table_pattern :: "string \<Rightarrow> string \<Rightarrow> string" where
  "table_pattern db tbl = CHR 0x60 # db @ [CHR 0x60, CHR ''.'', CHR 0x60] @ tbl @ [CHR 0x60]"

text \<open>What every row event does with the block read so far.\<close>

definition flush :: "string \<Rightarrow> string \<Rightarrow> string list \<Rightarrow> scan_state \<Rightarrow> row_event list" where
  "flush db tbl colNames st = (if ts_inRow st
     then ts_events st @ [makeRowEvent (ts_type st) db tbl (ts_values st) colNames] else ts_events st)"

definition start_row :: "string \<Rightarrow> string \<Rightarrow> string list \<Rightarrow> row_event_type \<Rightarrow> scan_state \<Rightarrow> scan_state" where
  "start_row db tbl colNames typ st =
     \<lparr>ts_events = flush db tbl colNames st, ts_type = typ, ts_values = [], ts_inRow = True\<rparr>"

definition scan_line :: "(string \<Rightarrow> 64 word option) \<Rightarrow> string \<Rightarrow> string \<Rightarrow> string list \<Rightarrow> string \<Rightarrow> scan_state \<Rightarrow> scan_state" where
  "scan_line sf db tbl colNames line st =
     (if Contains line (''### DELETE FROM '' @ table_pattern db tbl) then start_row db tbl colNames DeleteEvent st
      else if Contains line (''### INSERT INTO '' @ table_pattern db tbl) then start_row db tbl colNames InsertEvent st
      else if Contains line (''### UPDATE '' @ table_pattern db tbl) then start_row db tbl colNames UpdateEvent st
      else let st = (if ts_inRow st \<and> HasPrefix line ''###   @'' then
               (case Index line ''='' of
                  Some eq \<Rightarrow> if eq > 0 then
                      st\<lparr>ts_values := ts_values st @ [parseColumnValue sf (drop (eq + 1) line)]\<rparr> else st
                | None \<Rightarrow> st) else st)
        in if ts_inRow st \<and> \<not> HasPrefix line ''###'' then
             st\<lparr>ts_events := flush db tbl colNames st, ts_values := [], ts_inRow := False\<rparr>
           else st)"

definition scan_init :: scan_state where
  "scan_init = \<lparr>ts_events = [], ts_type = [], ts_values = [], ts_inRow = False\<rparr>"

definition scan_end :: "string \<Rightarrow> string \<Rightarrow> string list \<Rightarrow> scan_state \<Rightarrow> row_event list" where
  "scan_end db tbl colNames st =
     (if ts_inRow st \<and> length (ts_values st) > 0 then flush db tbl colNames st else ts_events st)"

definition scan_events :: "(string \<Rightarrow> 64 word option) \<Rightarrow> string \<Rightarrow> string \<Rightarrow> string list \<Rightarrow> string list \<Rightarrow> row_event list" where
  "scan_events sf db tbl colNames lines =
     scan_end db tbl colNames (fold (scan_line sf db tbl colNames) lines scan_init)"

subsection \<open>The parse\<close>

definition column_query :: string where
  "column_query = ''SELECT COLUMN_NAME FROM information_schema.COLUMNS WHERE TABLE_SCHEMA = ? AND '' @
     ''TABLE_NAME = ? ORDER BY ORDINAL_POSITION''"

fun scan_all :: "'r outcome list \<Rightarrow> 'r list outcome" where
  "scan_all [] = Ok []"
| "scan_all (r # rs) = bindo r (\<lambda>x. bindo (scan_all rs) (\<lambda>xs. Ok (x # xs)))"

text \<open>The names read before the iteration failed are returned beside its error, and the caller keeps
  them.\<close>

definition queryColumnNames :: "(string \<Rightarrow> string list \<Rightarrow> string query_rows outcome) \<Rightarrow> string \<Rightarrow> string \<Rightarrow>
    string list \<times> go_error option" where
  "queryColumnNames db dbName tblName =
     (case db column_query [dbName, tblName] of
        Ok (rows, err) \<Rightarrow> (case scan_all rows of Ok names \<Rightarrow> (names, err) | Err e \<Rightarrow> ([], Some e) | Panic \<Rightarrow> ([], None))
      | Err e \<Rightarrow> ([], Some e)
      | Panic \<Rightarrow> ([], None))"

text \<open>\<open>quoted\<close> is the percent-q rendering of a string.\<close>

definition parseBinlogWithMySQLBinlog ::
  "(string \<Rightarrow> string) \<Rightarrow> (string \<Rightarrow> 64 word option) \<Rightarrow> (go_time \<Rightarrow> string) \<Rightarrow> (string \<Rightarrow> string list \<Rightarrow> string query_rows outcome) \<Rightarrow>
   (string \<Rightarrow> string list \<Rightarrow> process) \<Rightarrow> string list \<Rightarrow> binlog_parse_opts \<Rightarrow> parse_result outcome" where
  "parseBinlogWithMySQLBinlog quoted sf local_time db run paths opts =
     (let parts = SplitN2 (bo_TargetTable opts) ''.'' in
      if length parts \<noteq> 2 then
        Err (Errorf (''invalid target table '' @ quoted (bo_TargetTable opts) @ '': expected schema.table format''))
      else let dbName = parts ! 0; tblName = parts ! 1;
               colNames = fst (queryColumnNames db dbName tblName);
               binary = (if bo_MySQLBinlogPath opts = [] then ''mysqlbinlog'' else bo_MySQLBinlogPath opts)
        in case run binary (binlog_args local_time opts paths) of
             Stdout_Failed e \<Rightarrow> Err (Wrapf ''mysqlbinlog pipe'' e)
           | Stderr_Failed e \<Rightarrow> Err (Wrapf ''mysqlbinlog stderr'' e)
           | Start_Failed e \<Rightarrow> Err (Wrapf ''mysqlbinlog start'' e)
           | Ran out waitErr \<Rightarrow>
               let events = scan_events sf dbName tblName colNames (scan_lines out) in
               (case waitErr of
                  Some e \<Rightarrow> if length events = 0 then Err (Wrapf ''mysqlbinlog failed'' e)
                    else Ok \<lparr>pr_Events = events, pr_TotalRows = int (length events), pr_Errors = []\<rparr>
                | None \<Rightarrow> Ok \<lparr>pr_Events = events, pr_TotalRows = int (length events), pr_Errors = []\<rparr>))"

end
