(* ===== verification/Binlog_Text_Correct.thy ===== *)
theory Binlog_Text_Correct
  imports Binlog_Text Undo
begin

section \<open>What the text of mysqlbinlog says is what is read\<close>

text \<open>
  The rendering of row changes that \<^verbatim>\<open>mysqlbinlog --verbose\<close> documents, the proof that the parser
  reads back what is rendered, the end-to-end undo of a parsed history, and what a value or a long line
  can do to the parse.
\<close>

subsection \<open>The rendering\<close>

datatype text_value = TNull | TInt int | TStr string

datatype text_change =
    TInsert "text_value list"
  | TDelete "text_value list"
  | TUpdate "text_value list" "text_value list"

fun render_value :: "text_value \<Rightarrow> string" where
  "render_value TNull = ''NULL''"
| "render_value (TInt i) = show_int i"
| "render_value (TStr s) = CHR 0x27 # s @ [CHR 0x27]"

fun value_of :: "text_value \<Rightarrow> gval" where
  "value_of TNull = VNull"
| "value_of (TInt i) = VInt i"
| "value_of (TStr s) = VString s"

definition value_line :: "nat \<Rightarrow> text_value \<Rightarrow> string" where
  "value_line n v = ''###   @'' @ show_nat n @ ''='' @ render_value v"

fun value_lines :: "nat \<Rightarrow> text_value list \<Rightarrow> string list" where
  "value_lines n [] = []"
| "value_lines n (v # vs) = value_line n v # value_lines (n + 1) vs"

fun render_change :: "string \<Rightarrow> string \<Rightarrow> text_change \<Rightarrow> string list" where
  "render_change db tbl (TInsert a) =
     (''### INSERT INTO '' @ table_pattern db tbl) # ''### SET'' # value_lines 1 a"
| "render_change db tbl (TDelete b) =
     (''### DELETE FROM '' @ table_pattern db tbl) # ''### WHERE'' # value_lines 1 b"
| "render_change db tbl (TUpdate b a) =
     (''### UPDATE '' @ table_pattern db tbl) # ''### WHERE'' # value_lines 1 b @ ''### SET'' # value_lines 1 a"

fun change_event :: "string \<Rightarrow> string \<Rightarrow> string list \<Rightarrow> text_change \<Rightarrow> row_event" where
  "change_event db tbl cs (TInsert a) = makeRowEvent InsertEvent db tbl (map value_of a) cs"
| "change_event db tbl cs (TDelete b) = makeRowEvent DeleteEvent db tbl (map value_of b) cs"
| "change_event db tbl cs (TUpdate b a) = makeRowEvent UpdateEvent db tbl (map value_of b @ map value_of a) cs"

subsection \<open>What can be read back\<close>

text \<open>A string is read back when it is not the text \<open>NULL\<close>, neither begins nor ends with a quote, and does not
  contain the start of a comment line; an integer when it fits 64 bits.\<close>

fun value_ok :: "text_value \<Rightarrow> bool" where
  "value_ok TNull = True"
| "value_ok (TInt i) = (- (2 ^ 63) \<le> i \<and> i < 2 ^ 63)"
| "value_ok (TStr s) = (s \<noteq> ''NULL'' \<and> (s \<noteq> [] \<longrightarrow> hd s \<noteq> CHR 0x27 \<and> last s \<noteq> CHR 0x27) \<and> \<not> Contains s ''### '')"

fun change_ok :: "text_change \<Rightarrow> bool" where
  "change_ok (TInsert a) = (a \<noteq> [] \<and> list_all value_ok a)"
| "change_ok (TDelete b) = (b \<noteq> [] \<and> list_all value_ok b)"
| "change_ok (TUpdate b a) = (b \<noteq> [] \<and> length a = length b \<and> list_all value_ok b \<and> list_all value_ok a)"

definition is_header :: "string \<Rightarrow> string \<Rightarrow> string \<Rightarrow> bool" where
  "is_header db tbl l \<longleftrightarrow> Contains l (''### DELETE FROM '' @ table_pattern db tbl) \<or>
     Contains l (''### INSERT INTO '' @ table_pattern db tbl) \<or> Contains l (''### UPDATE '' @ table_pattern db tbl)"

text \<open>Other output between two changes: none, or lines that are no header of the table, the first of which does
  not continue the comment.\<close>

definition noise_ok :: "string \<Rightarrow> string \<Rightarrow> string list \<Rightarrow> bool" where
  "noise_ok db tbl ls \<longleftrightarrow> list_all (\<lambda>l. \<not> is_header db tbl l) ls \<and> (ls \<noteq> [] \<longrightarrow> \<not> HasPrefix (hd ls) ''###'')"

fun render_stream :: "string \<Rightarrow> string \<Rightarrow> (text_change \<times> string list) list \<Rightarrow> string list" where
  "render_stream db tbl [] = []"
| "render_stream db tbl ((ch, noise) # cs) = render_change db tbl ch @ noise @ render_stream db tbl cs"

subsection \<open>Values\<close>

lemma strip_front_none: "list_all (\<lambda>p. \<not> HasPrefix s p) ps \<Longrightarrow> strip_front n ps s = s"
proof -
  assume "list_all (\<lambda>p. \<not> HasPrefix s p) ps"
  then have "find (HasPrefix s) ps = None" by (auto simp: find_None_iff list_all_iff)
  then show ?thesis by (cases n) simp_all
qed

definition solid :: "char \<Rightarrow> bool" where
  "solid c \<longleftrightarrow> list_all (\<lambda>p. hd p \<noteq> c \<and> last p \<noteq> c) spaces"

lemma HasPrefix_hd: "p \<noteq> [] \<Longrightarrow> HasPrefix (c # s) p \<Longrightarrow> hd p = c"
  by (cases p) auto

lemma spaces_nonempty: "list_all (\<lambda>p. p \<noteq> []) spaces"
  by code_simp

lemma TrimSpace_solid:
  assumes "solid (hd s)" "solid (last s)" "s \<noteq> []"
  shows "TrimSpace s = s"
proof -
  obtain c t where s: "s = c # t" using assms(3) by (cases s) auto
  obtain d u where r: "rev s = d # u" using assms(3) by (cases "rev s") auto
  have d: "d = last s" using r assms(3) by (metis last_rev list.sel(1) rev_rev_ident)
  have "list_all (\<lambda>p. \<not> HasPrefix s p) spaces"
    using assms(1) spaces_nonempty HasPrefix_hd [of _ c t] by (auto simp: s solid_def list_all_iff)
  then have left: "TrimLeftSpace s = s" by (simp add: TrimLeftSpace_def strip_front_none)
  have "\<not> HasPrefix (rev s) (rev p)" if p: "p \<in> set spaces" for p
  proof
    assume "HasPrefix (rev s) (rev p)"
    moreover have "p \<noteq> []" using spaces_nonempty p by (auto simp: list_all_iff)
    ultimately have "last p = d" using HasPrefix_hd [of "rev p" d u] by (simp add: r hd_rev)
    with assms(2) p show False by (auto simp: solid_def list_all_iff d)
  qed
  then have "list_all (\<lambda>p. \<not> HasPrefix (rev s) p) (map rev spaces)" by (auto simp: list_all_iff)
  then have "TrimRightSpace s = s" by (simp add: TrimRightSpace_def strip_front_none)
  with left show ?thesis by (simp add: TrimSpace_def)
qed

lemma solid_char: "solid CHR 0x27" "solid CHR ''N''" "solid CHR ''L''" "solid CHR ''-''"
  by code_simp+

lemma solid_digit: "is_digit c \<Longrightarrow> solid c"
proof -
  have "list_all (\<lambda>n. solid (char_of n)) [48..<58]" by code_simp
  moreover assume "is_digit c"
  then have "of_char c \<in> set [48..<58]" unfolding set_upt atLeastLessThan_iff is_digit_def by auto
  ultimately have "solid (char_of (of_char c :: nat))" by (simp only: list_all_iff)
  then show ?thesis by simp
qed

lemma scan_int_show: "- (2 ^ 63) \<le> i \<Longrightarrow> i < 2 ^ 63 \<Longrightarrow> scan_int (show_int i) = Some i"
proof -
  assume range: "- (2 ^ 63) \<le> i" "i < 2 ^ 63"
  have digits: "takeWhile is_digit (show_nat n) = show_nat n" for n
    unfolding takeWhile_eq_all_conv using show_nat_digits by blast
  have h: "is_digit (hd (show_nat n))" for n by (rule show_nat_digits [of _ n]) simp
  have signs: "hd (show_nat n) \<noteq> CHR ''-''" "hd (show_nat n) \<noteq> CHR ''+''" for n
    using h [of n] by (auto simp: is_digit_def)
  have "nat (- i) \<le> 2 ^ 63" using range(1) by (simp add: nat_le_iff)
  moreover have "nat i < 2 ^ 63" if "i \<ge> 0" using range(2) that by (simp add: nat_less_iff)
  ultimately have bounds: "\<not> 9223372036854775808 < nat (- i)" "i \<ge> 0 \<Longrightarrow> \<not> 9223372036854775808 \<le> nat i"
    by simp_all
  show ?thesis
    using range bounds by (simp add: scan_int_def show_int_def Let_def nat_of_digits_show_nat digits signs)
qed

lemma no_dot: "\<not> Contains (show_int i) ''.''"
proof
  assume "Contains (show_int i) ''.''"
  then have "CHR ''.'' \<in> set (show_int i)" by (auto simp: Contains_iff)
  moreover have "CHR ''.'' \<notin> set (show_nat n)" for n
    using show_nat_digits [of "CHR ''.''" n] by (auto simp: is_digit_def)
  ultimately show False by (simp add: show_int_def split: if_splits)
qed

lemma show_int_ends: "solid (hd (show_int i))" "solid (last (show_int i))" "show_int i \<noteq> []"
    "hd (show_int i) \<noteq> CHR 0x27" "hd (show_int i) \<noteq> CHR ''N''"
proof -
  have d: "is_digit (hd (show_nat n))" "is_digit (last (show_nat n))" for n
    by (rule show_nat_digits [of _ n], simp)+
  show "solid (hd (show_int i))" "solid (last (show_int i))" "show_int i \<noteq> []"
    using d by (auto simp: show_int_def solid_digit solid_char)
  have "hd (show_nat n) \<noteq> CHR 0x27" "hd (show_nat n) \<noteq> CHR ''N''" for n
    using d(1) [of n] by (auto simp: is_digit_def)
  then show "hd (show_int i) \<noteq> CHR 0x27" "hd (show_int i) \<noteq> CHR ''N''"
    by (simp_all add: show_int_def)
qed

lemma dropWhile_rev_last: "s \<noteq> [] \<Longrightarrow> last s \<noteq> q \<Longrightarrow> dropWhile (\<lambda>c. c = q) (rev s @ t) = rev s @ t"
  by (cases s rule: rev_cases) auto

lemma Trim_quotes:
  assumes "s \<noteq> [] \<longrightarrow> hd s \<noteq> CHR 0x27 \<and> last s \<noteq> CHR 0x27"
  shows "Trim (CHR 0x27 # s @ [CHR 0x27]) [CHR 0x27] = s"
proof (cases "s = []")
  case True
  then show ?thesis by (simp add: Trim_def)
next
  case False
  then have left: "dropWhile (\<lambda>c. c = CHR 0x27) (CHR 0x27 # s @ [CHR 0x27]) = s @ [CHR 0x27]"
    using assms by (cases s) auto
  have "dropWhile (\<lambda>c. c = CHR 0x27) (rev s) = rev s"
    using dropWhile_rev_last [of s _ "[]"] assms False by simp
  with left show ?thesis by (simp add: Trim_def)
qed

lemma parseColumnValue_render:
  assumes "value_ok v"
  shows "parseColumnValue sf (render_value v) = value_of v"
proof (cases v)
  case TNull
  have "TrimSpace ''NULL'' = ''NULL''" by (rule TrimSpace_solid) (simp_all add: solid_char)
  then show ?thesis by (simp add: TNull parseColumnValue_def)
next
  case (TInt i)
  have "TrimSpace (show_int i) = show_int i" by (rule TrimSpace_solid) (rule show_int_ends)+
  moreover have "\<not> HasPrefix (show_int i) [CHR 0x27]" "show_int i \<noteq> ''NULL''"
      "show_int i \<noteq> CHR 0x27 # ''NULL'' @ [CHR 0x27]"
    using show_int_ends [of i] by (auto simp: HasPrefix_iff)
  ultimately show ?thesis using assms by (simp add: TInt parseColumnValue_def scan_int_show no_dot)
next
  case (TStr s)
  let ?q = "CHR 0x27 # s @ [CHR 0x27]"
  have "TrimSpace ?q = ?q" by (rule TrimSpace_solid) (simp_all add: solid_char)
  moreover have "HasPrefix ?q [CHR 0x27]" "HasSuffix ?q [CHR 0x27]" by (simp_all add: HasSuffix_def)
  moreover have "Trim ?q [CHR 0x27] = s" by (rule Trim_quotes) (use assms TStr in simp)
  ultimately show ?thesis using assms by (simp add: TStr parseColumnValue_def)
qed

subsection \<open>Headers\<close>

lemma Contains_length: "Contains l p \<Longrightarrow> length p \<le> length l"
  by (auto simp: Contains_iff)

lemma Contains_same_length: "Contains l p \<Longrightarrow> length p = length l \<Longrightarrow> l = p"
  by (auto simp: Contains_iff)

lemma Contains_self [simp]: "Contains p p"
  by (metis Contains_iff append_Nil append_Nil2)

text \<open>A pattern of three hash signs, a space and a letter does not begin in front of a value.\<close>

lemma pattern_in_value:
  assumes "Contains (''###   @'' @ show_nat n @ ''='' @ t) (''### '' @ c # q)" "c \<noteq> CHR '' ''"
  shows "Contains t ''### ''"
proof -
  let ?pre = "''###   @'' @ show_nat n @ ''=''"
  obtain a b where eq: "?pre @ t = a @ (''### '' @ c # q) @ b" using assms(1) by (auto simp: Contains_iff)
  have in_t: ?thesis if "t = us @ (''### '' @ c # q) @ b" for us
    using that unfolding Contains_iff by (metis append.assoc)
  have digits: "CHR ''#'' \<notin> set (show_nat n)" using show_nat_digits [of "CHR ''#''" n] by (auto simp: is_digit_def)
  show ?thesis
  proof (cases "length a < length ?pre")
    case False
    then have "t = drop (length ?pre) a @ (''### '' @ c # q) @ b"
      using arg_cong [OF eq, of "drop (length ?pre)"] by simp
    then show ?thesis by (rule in_t)
  next
    case True
    have at: "(?pre @ t) ! (length a + k) = ((''### '' @ c # q) @ b) ! k" for k
      by (simp only: eq nth_append_length_plus)
    have "length a < 3"
    proof (rule ccontr)
      assume "\<not> length a < 3"
      then obtain j where j: "length a = Suc (Suc (Suc j))" by (metis not_less less_iff_Suc_add add_Suc_shift numeral_3_eq_3 add_Suc le_Suc_ex)
      let ?tail = "''   @'' @ show_nat n @ ''=''"
      have tail: "(?tail @ t) ! j = CHR ''#''" using at [of 0] j by simp
      have "j < length ?tail" using True j by simp
      moreover have "?tail ! j = CHR ''#''"
        using tail unfolding nth_append if_P [OF \<open>j < length ?tail\<close>] .
      ultimately have "CHR ''#'' \<in> set ?tail" by (metis nth_mem)
      with digits show False by simp
    qed
    then consider "length a = 0" | "length a = 1" | "length a = 2" by linarith
    then show ?thesis
      by cases (use at [of 1] at [of 2] at [of 4] assms(2) in \<open>simp_all add: nth_append numeral_eq_Suc\<close>)
  qed
qed

lemmas table_patterns = table_pattern_def is_header_def

lemma value_line_no_header:
  assumes "value_ok v"
  shows "\<not> is_header db tbl (value_line n v)"
proof
  have no_hash: "CHR ''#'' \<notin> set (show_int i)" for i
    using show_nat_digits [of "CHR ''#''"] by (auto simp: show_int_def is_digit_def)
  assume "is_header db tbl (value_line n v)"
  then have "Contains (render_value v) ''### ''"
    using pattern_in_value [of n "render_value v" "CHR ''D''"] pattern_in_value [of n "render_value v" "CHR ''I''"]
      pattern_in_value [of n "render_value v" "CHR ''U''"] by (auto simp: is_header_def value_line_def)
  then show False
  proof (cases v)
    case (TStr s)
    with \<open>Contains (render_value v) ''### ''\<close> obtain a b where eq: "CHR 0x27 # s @ [CHR 0x27] = a @ ''### '' @ b"
      by (auto simp: Contains_iff)
    then obtain a' where "a = CHR 0x27 # a'" by (cases a) auto
    moreover from eq this have "s @ [CHR 0x27] = a' @ ''### '' @ b" by simp
    moreover from this obtain b' where "b = b' @ [CHR 0x27]" by (cases b rule: rev_cases) auto
    ultimately have "s = a' @ ''### '' @ b'" by simp
    then have "Contains s ''### ''" by (auto simp: Contains_iff)
    with assms TStr show False by simp
  next
    case (TInt i)
    with \<open>Contains (render_value v) ''### ''\<close> no_hash [of i] show False by (auto simp: Contains_iff)
  qed (use \<open>Contains (render_value v) ''### ''\<close> in \<open>simp add: Contains_def\<close>)
qed

lemma short_no_header: "length l < 12 \<Longrightarrow> \<not> is_header db tbl l"
  by (auto simp: is_header_def table_pattern_def dest!: Contains_length)

subsection \<open>The scan of one change\<close>

lemma Index_char: "d \<notin> set a \<Longrightarrow> Index (a @ d # b) [d] = Some (length a)"
  by (induction a) auto

lemma scan_header:
  "scan_line sf db tbl cs (''### DELETE FROM '' @ table_pattern db tbl) st = start_row db tbl cs DeleteEvent st"
  "scan_line sf db tbl cs (''### INSERT INTO '' @ table_pattern db tbl) st = start_row db tbl cs InsertEvent st"
  "scan_line sf db tbl cs (''### UPDATE '' @ table_pattern db tbl) st = start_row db tbl cs UpdateEvent st"
proof -
  let ?p = "table_pattern db tbl"
  have "\<not> Contains (''### INSERT INTO '' @ ?p) (''### DELETE FROM '' @ ?p)"
    using Contains_same_length [of "''### INSERT INTO '' @ ?p" "''### DELETE FROM '' @ ?p"] by auto
  moreover have "\<not> Contains (''### UPDATE '' @ ?p) (''### DELETE FROM '' @ ?p)"
    "\<not> Contains (''### UPDATE '' @ ?p) (''### INSERT INTO '' @ ?p)"
    by (auto dest!: Contains_length)
  ultimately show
    "scan_line sf db tbl cs (''### DELETE FROM '' @ ?p) st = start_row db tbl cs DeleteEvent st"
    "scan_line sf db tbl cs (''### INSERT INTO '' @ ?p) st = start_row db tbl cs InsertEvent st"
    "scan_line sf db tbl cs (''### UPDATE '' @ ?p) st = start_row db tbl cs UpdateEvent st"
    unfolding scan_line_def by (simp_all only: Contains_self if_True if_False)
qed

text \<open>Lines that are no header of the table.\<close>

lemma scan_value_line:
  assumes "value_ok v" "ts_inRow st"
  shows "scan_line sf db tbl cs (value_line n v) st = st\<lparr>ts_values := ts_values st @ [value_of v]\<rparr>"
proof -
  have "CHR ''='' \<notin> set (show_nat n)" using show_nat_digits [of "CHR ''=''" n] by (auto simp: is_digit_def)
  then have "Index (value_line n v) ''='' = Some (length (''###   @'' @ show_nat n))"
    using Index_char [of "CHR ''=''" "''###   @'' @ show_nat n" "render_value v"] by (simp add: value_line_def)
  moreover have "drop (length (''###   @'' @ show_nat n) + 1) (value_line n v) = render_value v"
    by (simp add: value_line_def)
  moreover have "HasPrefix (value_line n v) ''###   @''" "HasPrefix (value_line n v) ''###''"
    by (simp_all add: value_line_def)
  ultimately show ?thesis
    using value_line_no_header [OF assms(1), of db tbl n] assms(2) parseColumnValue_render [OF assms(1), of sf]
    by (simp add: scan_line_def is_header_def Let_def)
qed

lemma scan_section:
  "ts_inRow st \<Longrightarrow> scan_line sf db tbl cs ''### SET'' st = st"
  "ts_inRow st \<Longrightarrow> scan_line sf db tbl cs ''### WHERE'' st = st"
  using short_no_header [of "''### SET''" db tbl] short_no_header [of "''### WHERE''" db tbl]
  by (simp_all add: scan_line_def is_header_def)

lemma scan_outside:
  assumes "\<not> is_header db tbl l" "\<not> ts_inRow st"
  shows "scan_line sf db tbl cs l st = st"
  using assms by (simp add: scan_line_def is_header_def)

lemma scan_block_end:
  assumes "\<not> is_header db tbl l" "ts_inRow st" "\<not> HasPrefix l ''###''"
  shows "scan_line sf db tbl cs l st = st\<lparr>ts_events := flush db tbl cs st, ts_values := [], ts_inRow := False\<rparr>"
proof -
  have "\<not> HasPrefix l ''###   @''" using assms(3) by (auto simp: HasPrefix_iff)
  with assms show ?thesis by (simp add: scan_line_def is_header_def)
qed

lemma scan_value_lines:
  "list_all value_ok vs \<Longrightarrow> ts_inRow st \<Longrightarrow>
    fold (scan_line sf db tbl cs) (value_lines n vs) st = st\<lparr>ts_values := ts_values st @ map value_of vs\<rparr>"
  by (induction vs arbitrary: n st) (simp_all add: scan_value_line)

text \<open>A block is ready to be flushed when it has values.\<close>

definition ready :: "scan_state \<Rightarrow> bool" where
  "ready st \<longleftrightarrow> (ts_inRow st \<longrightarrow> ts_values st \<noteq> [])"

lemma scan_change:
  assumes "change_ok ch"
  shows "ready (fold (scan_line sf db tbl cs) (render_change db tbl ch) st) \<and>
    flush db tbl cs (fold (scan_line sf db tbl cs) (render_change db tbl ch) st) =
      flush db tbl cs st @ [change_event db tbl cs ch]"
  using assms
  by (cases ch) (simp_all add: scan_header [simplified] scan_section scan_value_lines start_row_def ready_def flush_def)

lemma scan_noise:
  assumes "noise_ok db tbl ls" "ready st"
  shows "ready (fold (scan_line sf db tbl cs) ls st) \<and>
    flush db tbl cs (fold (scan_line sf db tbl cs) ls st) = flush db tbl cs st"
proof -
  have outside: "fold (scan_line sf db tbl cs) ls st = st"
    if "list_all (\<lambda>l. \<not> is_header db tbl l) ls" "\<not> ts_inRow st" for ls st
    using that by (induction ls) (simp_all add: scan_outside)
  show ?thesis
  proof (cases ls)
    case (Cons l ls')
    show ?thesis
    proof (cases "ts_inRow st")
      case True
      with assms Cons show ?thesis
        by (simp add: noise_ok_def scan_block_end outside ready_def flush_def)
    next
      case False
      with assms show ?thesis by (simp add: noise_ok_def outside)
    qed
  qed (use assms in simp)
qed

lemma scan_stream:
  assumes "list_all (\<lambda>(ch, noise). change_ok ch \<and> noise_ok db tbl noise) s" "ready st"
  shows "ready (fold (scan_line sf db tbl cs) (render_stream db tbl s) st) \<and>
    flush db tbl cs (fold (scan_line sf db tbl cs) (render_stream db tbl s) st) =
      flush db tbl cs st @ map (change_event db tbl cs \<circ> fst) s"
  using assms
proof (induction s arbitrary: st)
  case (Cons cn s)
  obtain ch noise where cn: "cn = (ch, noise)" by fastforce
  let ?st1 = "fold (scan_line sf db tbl cs) (render_change db tbl ch) st"
  let ?st2 = "fold (scan_line sf db tbl cs) noise ?st1"
  have 1: "ready ?st1 \<and> flush db tbl cs ?st1 = flush db tbl cs st @ [change_event db tbl cs ch]"
    by (rule scan_change) (use Cons.prems cn in simp)
  have 2: "ready ?st2 \<and> flush db tbl cs ?st2 = flush db tbl cs ?st1"
    by (rule scan_noise) (use Cons.prems cn 1 in simp_all)
  show ?case using Cons.IH [of ?st2] Cons.prems(1) 1 2 by (simp add: cn)
qed simp

lemma scan_events_render:
  assumes "list_all (\<lambda>l. \<not> is_header db tbl l) pre"
    and "list_all (\<lambda>(ch, noise). change_ok ch \<and> noise_ok db tbl noise) s"
  shows "scan_events sf db tbl cs (pre @ render_stream db tbl s) = map (change_event db tbl cs \<circ> fst) s"
proof -
  have "fold (scan_line sf db tbl cs) pre scan_init = scan_init"
    using assms(1) by (induction pre) (simp_all add: scan_outside scan_init_def)
  moreover have "ready scan_init" "flush db tbl cs scan_init = []" by (simp_all add: ready_def flush_def scan_init_def)
  ultimately show ?thesis
    using scan_stream [OF assms(2), of scan_init sf cs]
    by (auto simp: scan_events_def scan_end_def ready_def flush_def)
qed

subsection \<open>What the changes mean\<close>

text \<open>The rows a change is about, by the columns of the table in their order, and what it did. A table has named columns,
  all different, and its rows have exactly these.\<close>

definition row_of :: "string list \<Rightarrow> text_value list \<Rightarrow> db_row" where
  "row_of cs vs = map_of (zip cs (map value_of vs))"

fun applies :: "string \<Rightarrow> string list \<Rightarrow> text_change \<Rightarrow> db \<Rightarrow> db \<Rightarrow> bool" where
  "applies tbl cs (TInsert a) D E \<longleftrightarrow> length a = length cs \<and> E = D(tbl := add_mset (row_of cs a) (D tbl))"
| "applies tbl cs (TDelete b) D E \<longleftrightarrow> length b = length cs \<and> row_of cs b \<in># D tbl \<and> E = D(tbl := D tbl - {#row_of cs b#})"
| "applies tbl cs (TUpdate b a) D E \<longleftrightarrow> length b = length cs \<and> length a = length cs \<and> row_of cs b \<in># D tbl \<and>
     E = D(tbl := add_mset (row_of cs a) (D tbl - {#row_of cs b#}))"

fun changes :: "string \<Rightarrow> string list \<Rightarrow> text_change list \<Rightarrow> db \<Rightarrow> db \<Rightarrow> bool" where
  "changes tbl cs [] D E \<longleftrightarrow> E = D"
| "changes tbl cs (ch # chs) D E \<longleftrightarrow> (\<exists>F. applies tbl cs ch D F \<and> changes tbl cs chs F E)"

definition table_of :: "string list \<Rightarrow> db_row multiset \<Rightarrow> bool" where
  "table_of cs T \<longleftrightarrow> cs \<noteq> [] \<and> distinct cs \<and> [] \<notin> set cs \<and> (\<forall>r \<in># T. dom r = set cs)"

text \<open>What happened to the table \<open>tbl\<close> with columns \<open>cs\<close> between two states of the database.\<close>

definition table_history :: "string \<Rightarrow> string list \<Rightarrow> text_change list \<Rightarrow> db \<Rightarrow> db \<Rightarrow> bool" where
  "table_history tbl cs chs D E \<longleftrightarrow> table_of cs (D tbl) \<and> changes tbl cs chs D E"

lemma update_fresh: "k \<notin> fst ` set al \<Longrightarrow> AList.update k v al = al @ [(k, v)]"
  by (induction al) auto

lemma image_columns:
  assumes "distinct cs" "[] \<notin> set cs" "length vs \<le> length cs"
  shows "image cs vs = zip cs vs"
  using assms(3)
proof (induction vs rule: rev_induct)
  case (snoc v vs)
  let ?n = "length vs"
  have "cs ! ?n \<in> set cs" using snoc.prems by simp
  then have "cs ! ?n \<noteq> []" using assms(2) by metis
  then have name: "column_name cs ?n = cs ! ?n" using snoc.prems by (simp add: column_name_def)
  have zip: "zip cs (vs @ [v]) = zip cs vs @ [(cs ! ?n, v)]"
    using take_zip [of ?n cs vs] Cons_nth_drop_Suc [of ?n cs] snoc.prems by (simp add: zip_append2 flip: Cons_nth_drop_Suc)
  have fresh: "cs ! ?n \<notin> fst ` set (zip cs vs)"
    using assms(1) snoc.prems by (auto simp: in_set_zip nth_eq_iff_index_eq)
  have "image cs (vs @ [v]) = AList.update (cs ! ?n) v (image cs vs)" by (simp add: image_def name)
  then show ?case using snoc.IH snoc.prems zip update_fresh [OF fresh] by simp
qed (simp add: image_def)

lemma change_event_eq:
  assumes "distinct cs" "[] \<notin> set cs" "applies tbl cs ch D F"
  shows "happens (change_event db tbl cs ch) D G \<longleftrightarrow> G = F"
  using assms
  by (cases ch) (auto simp: happens.simps makeRowEvent_def image_columns row_of_def Let_def)

lemma table_of_applies:
  assumes "table_of cs (D tbl)" "applies tbl cs ch D F"
  shows "table_of cs (F tbl)"
proof -
  have "dom (row_of cs vs) = set cs" if "length vs = length cs" for vs
    using that by (simp add: row_of_def dom_map_of_zip)
  then have new: "r \<in># D tbl \<or> dom r = set cs" if "r \<in># F tbl" for r
    using assms(2) that by (cases ch) (auto dest: in_diffD)
  have "dom r = set cs" if "r \<in># F tbl" for r
    using new [OF that] assms(1) by (simp only: table_of_def) metis
  with assms(1) show ?thesis by (simp add: table_of_def)
qed

lemma changes_undoable:
  assumes "table_of cs (D tbl)" "changes tbl cs chs D E"
  shows "history (map (change_event db tbl cs) chs) D E \<and> undoable [] (map (change_event db tbl cs) chs) D"
  using assms
proof (induction chs arbitrary: D)
  case (Cons ch chs)
  then obtain F where F: "applies tbl cs ch D F" "changes tbl cs chs F E" by auto
  have T: "table_of cs (F tbl)" by (rule table_of_applies [OF Cons.prems(1) F(1)])
  let ?ev = "change_event db tbl cs ch"
  have cs: "distinct cs" "[] \<notin> set cs" using Cons.prems(1) by (simp_all add: table_of_def)
  have full: "full_images ?ev"
    using F(1) cs by (cases ch) (auto simp: full_images_def makeRowEvent_def image_columns Let_def set_zip image_iff in_set_conv_nth)
  have ident: "identifies [] a (F tbl)" if a: "re_After ?ev = Some a" for a
  proof (rule identifies_all_columns)
    have "fst ` set a = set cs"
      using a F(1) cs by (cases ch) (auto simp: makeRowEvent_def image_columns Let_def simp flip: set_map split: if_splits)
    with T show "\<forall>r \<in># F tbl. dom r = fst ` set a" "a \<noteq> []" by (auto simp: table_of_def)
  qed
  have tbl: "re_Table ?ev = tbl" by (cases ch) (simp_all add: makeRowEvent_def Let_def)
  show ?case
    using Cons.IH [OF T F(2)] full ident by (auto simp: change_event_eq [OF cs F(1)] tbl)
qed simp

subsection \<open>Lines\<close>

definition unlines :: "string list \<Rightarrow> string" where
  "unlines ls = concat (map (\<lambda>l. l @ [LF]) ls)"

definition line_ok :: "string \<Rightarrow> bool" where
  "line_ok l \<longleftrightarrow> LF \<notin> set l \<and> length l < 65536 \<and> (l \<noteq> [] \<longrightarrow> last l \<noteq> CHR 0x0D)"

lemma text_lines_unlines: "list_all (\<lambda>l. LF \<notin> set l) ls \<Longrightarrow> text_lines (unlines ls) = ls"
proof -
  assume "list_all (\<lambda>l. LF \<notin> set l) ls"
  then have "Split (unlines ls) LF = ls @ [[]]"
    by (induction ls) (simp_all add: unlines_def Split_append)
  then show ?thesis by (simp add: text_lines_def)
qed

lemma scan_lines_unlines:
  assumes "list_all line_ok ls"
  shows "scan_lines (unlines ls) = ls"
proof -
  have "list_all (\<lambda>l. LF \<notin> set l) ls" "\<forall>l \<in> set ls. length l < 65536" "\<forall>l \<in> set ls. drop_cr l = l"
    using assms by (auto simp: list_all_iff line_ok_def drop_cr_def)
  moreover from this have short: "takeWhile (\<lambda>l. length l < 65536) ls = ls" by (simp only: takeWhile_eq_all_conv)
  ultimately show ?thesis
    unfolding scan_lines_def by (simp only: text_lines_unlines short) (simp add: map_idI)
qed

lemma scan_lines_long:
  assumes "list_all line_ok ls" "65536 \<le> length l" "LF \<notin> set l" "list_all (\<lambda>l. LF \<notin> set l) rest"
  shows "scan_lines (unlines (ls @ l # rest)) = ls"
proof -
  have "list_all (\<lambda>l. LF \<notin> set l) (ls @ l # rest)" "\<forall>l \<in> set ls. length l < 65536" "\<forall>l \<in> set ls. drop_cr l = l"
    using assms by (auto simp: list_all_iff line_ok_def drop_cr_def)
  then show ?thesis using assms(2) by (simp add: scan_lines_def text_lines_unlines takeWhile_append2 map_idI)
qed

subsection \<open>Properties\<close>

text \<open>What the agent asks of the environment: \<^verbatim>\<open>mysqlbinlog\<close> runs with the arguments of the parse and
  prints the text.\<close>

definition prints :: "(string \<Rightarrow> string list \<Rightarrow> process) \<Rightarrow> (go_time \<Rightarrow> string) \<Rightarrow> binlog_parse_opts \<Rightarrow> string list \<Rightarrow>
    string \<Rightarrow> go_error option \<Rightarrow> bool" where
  "prints run local_time opts paths text err \<longleftrightarrow>
     run (if bo_MySQLBinlogPath opts = [] then ''mysqlbinlog'' else bo_MySQLBinlogPath opts)
       (binlog_args local_time opts paths) = Ran text err"

lemma parse_prints:
  assumes "prints run local_time opts paths text None" "SplitN2 (bo_TargetTable opts) ''.'' = [db, tbl]"
  shows "parseBinlogWithMySQLBinlog quoted sf local_time q run paths opts =
    (let events = scan_events sf db tbl (fst (queryColumnNames q db tbl)) (scan_lines text)
     in Ok \<lparr>pr_Events = events, pr_TotalRows = int (length events), pr_Errors = []\<rparr>)"
  using assms by (simp add: parseBinlogWithMySQLBinlog_def prints_def Let_def)

lemma history_parsed:
  assumes "SplitN2 (bo_TargetTable opts) ''.'' = [db, tbl]" "cs = fst (queryColumnNames q db tbl)"
    and "prints run local_time opts paths (unlines (pre @ render_stream db tbl s)) None"
    and "list_all line_ok (pre @ render_stream db tbl s)" "list_all (\<lambda>l. \<not> is_header db tbl l) pre"
    and "list_all (\<lambda>(ch, noise). change_ok ch \<and> noise_ok db tbl noise) s"
    and "events = map (change_event db tbl cs \<circ> fst) s" "table_history tbl cs (map fst s) D E"
  shows "parseBinlogWithMySQLBinlog quoted sf local_time q run paths opts =
      Ok \<lparr>pr_Events = events, pr_TotalRows = int (length events), pr_Errors = []\<rparr> \<and>
    (\<exists>sts. ReverseSQLBatch g events [] = (map (render g) sts, None) \<and>
      (\<exists>D'. exec_all sts E D') \<and> {D'. exec_all sts E D'} \<subseteq> {D})"
proof -
  let ?sts = "map (\<lambda>ev. the (undo ev [])) (rev events)"
  have undone: "history events D E" "undoable [] events D"
    using changes_undoable [of cs D tbl "map fst s" E db] assms(7,8) by (simp_all add: table_history_def)
  have "scan_events sf db tbl cs (scan_lines (unlines (pre @ render_stream db tbl s))) = events"
    using scan_events_render [OF assms(5,6)] assms(4,7) by (simp only: scan_lines_unlines)
  then have "parseBinlogWithMySQLBinlog quoted sf local_time q run paths opts =
      Ok \<lparr>pr_Events = events, pr_TotalRows = int (length events), pr_Errors = []\<rparr>"
    using parse_prints [OF assms(3,1)] assms(2) by simp
  moreover have "ReverseSQLBatch g events [] = (map (render g) ?sts, None)"
    using ReverseSQLBatch_eq [of "[]" events g] undo_history [OF undone] by (simp add: comp_def)
  moreover have "{D'. exec_all ?sts E D'} \<subseteq> {D}" using undo_history [OF undone] by blast
  ultimately show ?thesis using exec_all_total by blast
qed

text \<open>Undoing what \<^verbatim>\<open>mysqlbinlog\<close> prints: when the output renders a history of changes of the target table, between
  other output, with values the text can carry, the agent reads exactly the events of that history, and the reverse
  batch it makes of them leads from the database after the history back to the database before it.\<close>

theorem mysqlbinlog_history_undone:
  assumes "SplitN2 (bo_TargetTable opts) ''.'' = [db, tbl]" "cs = fst (queryColumnNames q db tbl)"
    and "prints run local_time opts paths (unlines (pre @ render_stream db tbl s)) None"
    and "list_all line_ok (pre @ render_stream db tbl s)" "list_all (\<lambda>l. \<not> is_header db tbl l) pre"
    and "list_all (\<lambda>(ch, noise). change_ok ch \<and> noise_ok db tbl noise) s"
    and "events = map (change_event db tbl cs \<circ> fst) s" "table_history tbl cs (map fst s) D E"
  shows "parseBinlogWithMySQLBinlog quoted sf local_time q run paths opts =
      Ok \<lparr>pr_Events = events, pr_TotalRows = int (length events), pr_Errors = []\<rparr> \<and>
    (\<exists>sts. ReverseSQLBatch g events [] = (map (render g) sts, None) \<and>
      (\<exists>D'. exec_all sts E D') \<and> {D'. exec_all sts E D'} \<subseteq> {D})"
  using assms by (rule history_parsed)

definition sample_opts :: binlog_parse_opts where
  "sample_opts = \<lparr>bo_TargetTable = ''d.t'', bo_StartTime = None, bo_EndTime = None, bo_StartPos = 0, bo_StopPos = 0,
     bo_MySQLBinlogPath = []\<rparr>"

definition sample_query :: "string \<Rightarrow> string list \<Rightarrow> string query_rows outcome" where
  "sample_query _ _ = Ok ([Ok ''id''], None)"

text \<open>A row inserted between a \<^verbatim>\<open>BEGIN\<close> and a \<^verbatim>\<open>COMMIT\<close> into an empty table.\<close>

definition sample_text :: string where
  "sample_text = unlines ([''BEGIN''] @ render_stream ''d'' ''t'' [(TInsert [TInt 1], [''COMMIT''])])"

lemma sample_lines: "list_all line_ok ([''BEGIN''] @ render_stream ''d'' ''t'' [(TInsert [TInt 1], [''COMMIT''])])"
proof -
  have "show_nat (Suc 0) = ''1''" by code_simp
  then show ?thesis by (simp add: line_ok_def table_pattern_def value_line_def show_int_def)
qed

lemma sample_pre: "list_all (\<lambda>l. \<not> is_header ''d'' ''t'' l) [''BEGIN'']"
  and sample_stream: "list_all (\<lambda>(ch, noise). change_ok ch \<and> noise_ok ''d'' ''t'' noise) [(TInsert [TInt 1], [''COMMIT''])]"
  by code_simp+

lemma sample_history:
  "table_history ''t'' [''id''] (map fst [(TInsert [TInt 1], [''COMMIT''])]) (\<lambda>_. {#}) ((\<lambda>_. {#})(''t'' := {# [''id'' \<mapsto> VInt 1] #}))"
  by (simp add: table_history_def table_of_def row_of_def)

lemma sample_events:
  "[makeRowEvent InsertEvent ''d'' ''t'' [VInt 1] [''id'']] =
   map (change_event ''d'' ''t'' [''id''] \<circ> fst) [(TInsert [TInt 1], [''COMMIT''])]"
  by simp

lemma mysqlbinlog_history_undone_witness:
  "parseBinlogWithMySQLBinlog (\<lambda>s. s) (\<lambda>_. None) (\<lambda>_. []) sample_query
     (\<lambda>_ _. Ran (unlines (''BEGIN'' # render_stream ''d'' ''t'' [(TInsert [TInt 1], [''COMMIT''])])) None) [] sample_opts =
   Ok \<lparr>pr_Events = [makeRowEvent InsertEvent ''d'' ''t'' [VInt 1] [''id'']], pr_TotalRows = 1, pr_Errors = []\<rparr>"
proof -
  let ?s = "[(TInsert [TInt 1], [''COMMIT''])]" and ?pre = "[''BEGIN'']"
  let ?ev = "makeRowEvent InsertEvent ''d'' ''t'' [VInt 1] [''id'']"
  have split: "SplitN2 (bo_TargetTable sample_opts) ''.'' = [''d'', ''t'']" by code_simp
  have cs: "[''id''] = fst (queryColumnNames sample_query ''d'' ''t'')" by code_simp
  have prints: "prints (\<lambda>_ _. Ran (unlines (?pre @ render_stream ''d'' ''t'' ?s)) None) (\<lambda>_. []) sample_opts []
      (unlines (?pre @ render_stream ''d'' ''t'' ?s)) None"
    by (simp add: prints_def)
  from mysqlbinlog_history_undone [OF split cs prints sample_lines sample_pre sample_stream sample_events sample_history]
  show ?thesis by simp
qed

text \<open>One long line ends the parse without a word: what \<^verbatim>\<open>mysqlbinlog\<close> prints from the first line of 64 KiB on,
  as a large value makes one, is not read, and the parse succeeds with the events in front of it.\<close>

theorem long_line_hides_rest:
  assumes "list_all line_ok ls" "65536 \<le> length l" "LF \<notin> set l" "list_all (\<lambda>l. LF \<notin> set l) rest"
    and "prints run local_time opts paths (unlines (ls @ l # rest)) None" "SplitN2 (bo_TargetTable opts) ''.'' = [db, tbl]"
  shows "\<exists>res. parseBinlogWithMySQLBinlog quoted sf local_time q run paths opts = Ok res \<and>
    pr_Events res = scan_events sf db tbl (fst (queryColumnNames q db tbl)) ls"
  using parse_prints [OF assms(5,6)] scan_lines_long [OF assms(1-4)] by (simp add: Let_def)

lemma long_line_hides_rest_witness:
  "\<exists>res. parseBinlogWithMySQLBinlog (\<lambda>s. s) (\<lambda>_. None) (\<lambda>_. []) sample_query
     (\<lambda>_ _. Ran (unlines ([] @ replicate 65536 CHR ''x'' # render_stream ''d'' ''t'' [(TInsert [TInt 1], [])])) None)
     [] sample_opts = Ok res \<and> pr_Events res = []"
proof -
  let ?l = "replicate 65536 CHR ''x''" and ?rest = "render_stream ''d'' ''t'' [(TInsert [TInt 1], [])]"
  let ?run = "\<lambda>_ _. Ran (unlines ([] @ ?l # ?rest)) None"
  have rest: "list_all (\<lambda>l. LF \<notin> set l) ?rest" by code_simp
  have split: "SplitN2 (bo_TargetTable sample_opts) ''.'' = [''d'', ''t'']" by code_simp
  have prints: "prints ?run (\<lambda>_. []) sample_opts [] (unlines ([] @ ?l # ?rest)) None" by (simp add: prints_def)
  have none: "scan_events (\<lambda>_. None) ''d'' ''t'' (fst (queryColumnNames sample_query ''d'' ''t'')) [] = []" by code_simp
  have long: "65536 \<le> length ?l" and no_lf: "LF \<notin> set ?l" by (simp_all only: length_replicate set_replicate_conv_if) simp_all
  have "list_all line_ok []" by simp
  then have "\<exists>res. parseBinlogWithMySQLBinlog (\<lambda>s. s) (\<lambda>_. None) (\<lambda>_. []) sample_query ?run [] sample_opts = Ok res \<and>
      pr_Events res = scan_events (\<lambda>_. None) ''d'' ''t'' (fst (queryColumnNames sample_query ''d'' ''t'')) []"
    using long no_lf rest prints split by (rule long_line_hides_rest)
  then show ?thesis unfolding none .
qed

text \<open>A value can forge an event: the header of a change is searched for anywhere in a line, so a row whose string
  column holds such a header is cut there, and the rest of it is read as another change.\<close>

theorem row_value_forges_event:
  "scan_events sf ''d'' ''t'' [''id'', ''note'', ''n'']
     (render_change ''d'' ''t'' (TInsert [TInt 1, TStr (''### DELETE FROM '' @ table_pattern ''d'' ''t''), TInt 9])) =
   [makeRowEvent InsertEvent ''d'' ''t'' [VInt 1] [''id'', ''note'', ''n''],
    makeRowEvent DeleteEvent ''d'' ''t'' [VInt 9] [''id'', ''note'', ''n'']]"
  by code_simp

end
