(* ===== verification/Mysql_Connector.thy ===== *)
theory Mysql_Connector
  imports Binlog_Text Executor
begin

section \<open>The MySQL connector\<close>

text \<open>
  The model of \<^verbatim>\<open>internal/connector/mysql.go\<close>: the preflight checks, the list of binary logs and
  the connector's own way of executing a rollback, which goes on after a failed batch. The server
  and the driver are outside the repository: \<open>mysql_server\<close> holds what the server answers to the
  queries of the package, with the errors of the query and of each row, and \<^typ>\<open>'c tx_driver\<close> runs
  transactions. \<open>None\<close> in place of a server is a connector without a connection.
\<close>

subsection \<open>The server\<close>

text \<open>The answer to \<^verbatim>\<open>SHOW BINARY LOGS\<close>: the column names, and the name and size of each row (or the error of
  converting them).\<close>

record binary_logs =
  bl_columns :: "string list outcome"
  bl_rows :: "(string \<times> int) outcome list"
  bl_err :: "go_error option"

text \<open>The other queries, in the order of the file: \<^verbatim>\<open>SHOW VARIABLES LIKE\<close> a name (its value, as a string
  and as a nullable integer),
  \<^verbatim>\<open>SELECT VERSION()\<close>, \<^verbatim>\<open>SHOW GRANTS\<close>, the size of a schema and of all (\<^const>\<open>None\<close> for SQL NULL), the table name of each
  of its columns, and the number of its foreign-key columns.\<close>

record mysql_server =
  ms_variable :: "string \<Rightarrow> string outcome"
  ms_int_variable :: "string \<Rightarrow> int option outcome"
  ms_version :: "string outcome"
  ms_binary_logs :: "binary_logs outcome"
  ms_grants :: "string query_rows outcome"
  ms_schema_size :: "string \<Rightarrow> int option outcome"
  ms_total_size :: "int option outcome"
  ms_column_tables :: "string \<Rightarrow> string outcome list outcome"
  ms_foreign_keys :: "string \<Rightarrow> nat outcome"

text \<open>\<^verbatim>\<open>Rows.Scan\<close> with \<open>n\<close> destinations: an error unless the rows have \<open>n\<close> columns.\<close>

definition scan_row :: "nat \<Rightarrow> nat \<Rightarrow> 'r outcome \<Rightarrow> 'r outcome" where
  "scan_row cols n r = (if n = cols then r
     else Err (Errorf (''sql: expected '' @ show_nat cols @ '' destination arguments in Scan, not '' @ show_nat n)))"

definition not_connected_error :: go_error where
  "not_connected_error = Errorf ''connector: not connected''"

subsection \<open>Binary logs\<close>

fun scan_files :: "nat \<Rightarrow> nat \<Rightarrow> (string \<times> int) outcome list \<Rightarrow> binlog_file list outcome" where
  "scan_files cols n [] = Ok []"
| "scan_files cols n (r # rs) =
     bindo (wrapo ''connector: scan'' (scan_row cols n r)) (\<lambda>(name, sz).
       bindo (scan_files cols n rs) (\<lambda>fs. Ok (\<lparr>bf_Name = name, bf_Size = sz, bf_Earliest = zero_time\<rparr> # fs)))"

definition GetBinlogFiles :: "mysql_server option \<Rightarrow> binlog_file list outcome" where
  "GetBinlogFiles db =
     (case db of
        None \<Rightarrow> Err not_connected_error
      | Some srv \<Rightarrow>
          bindo (wrapo ''connector: SHOW BINARY LOGS'' (ms_binary_logs srv)) (\<lambda>q.
          bindo (wrapo ''connector: columns'' (bl_columns q)) (\<lambda>columns.
            let hasEncrypted = list_ex (\<lambda>c. equal_fold_ascii c ''Encrypted'') columns in
            bindo (scan_files (length columns) (if hasEncrypted then 3 else 2) (bl_rows q)) (\<lambda>files.
              case bl_err q of Some e \<Rightarrow> Err (Wrapf ''connector: rows iteration'' e) | None \<Rightarrow> Ok files))))"

definition dir_of_basename :: "string \<Rightarrow> string" where
  "dir_of_basename v = (let dir = path_dir v in if dir \<noteq> ''.'' then dir @ ''/'' else [])"

definition GetBinlogDir :: "mysql_server option \<Rightarrow> string outcome" where
  "GetBinlogDir db =
     (case db of
        None \<Rightarrow> Err not_connected_error
      | Some srv \<Rightarrow>
          bindo (wrapo ''connector: query log_bin_basename'' (ms_variable srv ''log_bin_basename'')) (\<lambda>v.
            if v = [] then Err (Errorf ''connector: log_bin_basename is empty'') else Ok (dir_of_basename v)))"

definition GetBasedir :: "mysql_server option \<Rightarrow> string outcome" where
  "GetBasedir db =
     (case db of
        None \<Rightarrow> Err not_connected_error
      | Some srv \<Rightarrow>
          bindo (wrapo ''connector: query basedir'' (ms_variable srv ''basedir'')) (\<lambda>v.
            if v = [] then Err (Errorf ''connector: basedir is empty'') else Ok v))"

text \<open>\<^verbatim>\<open>ParseBinlog\<close> only checks that the requested files exist.\<close>

definition ParseBinlog :: "mysql_server option \<Rightarrow> string list \<Rightarrow> parse_result outcome" where
  "ParseBinlog db files =
     (if db = None then Err not_connected_error
      else if length files = 0 then Err (Errorf ''connector: no binlog files specified'')
      else bindo (wrapo ''connector: cannot list binlog files'' (GetBinlogFiles db)) (\<lambda>available.
        let missing = filter (\<lambda>f. f \<notin> set (map bf_Name available)) files in
        if length missing > 0 then
          Err (Errorf (''connector: binlog files not found: '' @ join '', '' missing))
        else Ok \<lparr>pr_Events = [], pr_TotalRows = 0, pr_Errors = []\<rparr>))"

subsection \<open>Executing a rollback\<close>

definition truncate_text :: "string \<Rightarrow> nat \<Rightarrow> string" where
  "truncate_text s n = (if length s \<le> n then s else take n s @ ''...'')"

fun exec_wrapped :: "(string \<Rightarrow> string) \<Rightarrow> 'c tx_driver \<Rightarrow> string list \<Rightarrow> 'c \<Rightarrow> go_error option \<times> 'c" where
  "exec_wrapped quoted drv [] c = (None, c)"
| "exec_wrapped quoted drv (s # ss) c =
     (case tx_exec drv s c of
        (Some e, c) \<Rightarrow> (Some (Wrapf (''exec '' @ quoted (truncate_text s 80)) e), c)
      | (None, c) \<Rightarrow> exec_wrapped quoted drv ss c)"

definition connector_batch :: "(string \<Rightarrow> string) \<Rightarrow> 'c tx_driver \<Rightarrow> string list \<Rightarrow> 'c \<Rightarrow> go_error option \<times> 'c" where
  "connector_batch quoted drv batch c =
     (case tx_begin drv c of
        (Some e, c) \<Rightarrow> (Some (Wrapf ''begin tx'' e), c)
      | (None, c) \<Rightarrow>
          apsnd (tx_rollback drv)
            (case exec_wrapped quoted drv batch c of
               (Some e, c) \<Rightarrow> (Some e, c)
             | (None, c) \<Rightarrow> tx_commit drv c))"

text \<open>The loop over the statements, \<open>n\<close> at a time; a failed batch is recorded and skipped.\<close>

function connector_batches :: "(string \<Rightarrow> string) \<Rightarrow> 'c tx_driver \<Rightarrow> nat \<Rightarrow> string list \<Rightarrow> exec_result \<Rightarrow> 'c \<Rightarrow>
    exec_result \<times> 'c" where
  "connector_batches quoted drv n sqls res c =
     (if n = 0 \<or> sqls = [] then (res, c)
      else case connector_batch quoted drv (take n sqls) c of
        (Some e, c) \<Rightarrow> connector_batches quoted drv n (drop n sqls)
          (res\<lparr>er_Errors := er_Errors res @
             [''batch '' @ show_nat (er_BatchesCompleted res) @ '': '' @ error_text e]\<rparr>) c
      | (None, c) \<Rightarrow> connector_batches quoted drv n (drop n sqls)
          (res\<lparr>er_BatchesCompleted := er_BatchesCompleted res + 1\<rparr>) c)"
  by pat_completeness auto
termination by (relation "measure (\<lambda>(_, _, n, sqls, _, _). length sqls)") auto

declare connector_batches.simps [simp del]

definition ExecuteRollback :: "(string \<Rightarrow> string) \<Rightarrow> 'c tx_driver \<Rightarrow> string list \<Rightarrow> exec_options \<Rightarrow> 'c option \<Rightarrow>
    exec_result outcome \<times> 'c option" where
  "ExecuteRollback quoted drv sqls opts db =
     (let empty = \<lparr>er_RowsAffected = 0, er_BatchesCompleted = 0, er_Errors = []\<rparr> in
      case db of
        None \<Rightarrow> (Err not_connected_error, None)
      | Some c \<Rightarrow>
          if length sqls = 0 then (Ok empty, Some c)
          else let batchSize = (if eo_BatchSize opts \<le> 0 then 100 else eo_BatchSize opts) in
            if eo_DryRun opts then (Ok empty, Some c)
            else let (res, c) = connector_batches quoted drv (nat batchSize) sqls empty c in (Ok res, Some c))"

subsection \<open>Versions and sizes\<close>

text \<open>\<^verbatim>\<open>strings.SplitN(s, sep, n)\<close> for a one-byte separator.\<close>

fun SplitN :: "nat \<Rightarrow> string \<Rightarrow> char \<Rightarrow> string list" where
  "SplitN 0 s d = []"
| "SplitN (Suc 0) s d = [s]"
| "SplitN (Suc n) s d = (case dropWhile (\<lambda>c. c \<noteq> d) s of
      [] \<Rightarrow> [s] | _ # rest \<Rightarrow> takeWhile (\<lambda>c. c \<noteq> d) s # SplitN n rest d)"

text \<open>\<^verbatim>\<open>fmt.Sscanf(s, "%d", &i)\<close> with the leading spaces it skips; a newline is not one of them. On an error \<open>i\<close>
  keeps its value.\<close>

definition sscanf_or :: "int \<Rightarrow> string \<Rightarrow> int" where
  "sscanf_or i s = (case scan_int (strip_front (length s) (filter (\<lambda>p. p \<noteq> [LF]) spaces) s) of Some i \<Rightarrow> i | None \<Rightarrow> i)"

definition sscanf_int :: "string \<Rightarrow> int" where
  "sscanf_int s = sscanf_or 0 s"

definition parseVersion :: "string \<Rightarrow> int \<times> int \<times> int" where
  "parseVersion v =
     (let pre = takeWhile (\<lambda>c. c = CHR ''.'' \<or> is_digit c) v;
          v = (if pre \<noteq> v \<and> pre \<noteq> [] then pre else v);
          parts = SplitN 4 v (CHR ''.'');
          part = (\<lambda>i. if i < length parts then sscanf_int (parts ! i) else 0)
      in (part 0, part 1, part 2))"

text \<open>\<^verbatim>\<open>formatBytes\<close>: the unit a size is shown in, and the text, where \<open>quot\<close> renders a quotient of two integers with one
  decimal.\<close>

function byte_unit :: "int \<Rightarrow> int \<Rightarrow> nat \<Rightarrow> int \<times> nat" where
  "byte_unit n dv ex = (if n \<ge> 1024 then byte_unit (n div 1024) (dv * 1024) (ex + 1) else (dv, ex))"
  by pat_completeness auto
termination by (relation "measure (\<lambda>(n, _, _). nat n)") auto

declare byte_unit.simps [simp del]

definition formatBytes :: "(int \<Rightarrow> int \<Rightarrow> string) \<Rightarrow> int \<Rightarrow> string outcome" where
  "formatBytes quot b =
     (if b < 1024 then Ok (show_int b @ '' B'')
      else let (dv, ex) = byte_unit (b div 1024) 1024 0 in
        if ex < length ''KMGTPE'' then Ok (quot b dv @ '' '' @ [''KMGTPE'' ! ex] @ ''B'') else Panic)"

subsection \<open>Preflight\<close>

definition check_result :: "string \<Rightarrow> preflight_status \<Rightarrow> string \<Rightarrow> preflight_check" where
  "check_result name status message = \<lparr>pc_Name = name, pc_Status = status, pc_Message = message\<rparr>"

text \<open>\<open>err_text\<close> is the message of a failed query; \<^verbatim>\<open>%v\<close> of an error is its text.\<close>

definition checkVersion :: "mysql_server \<Rightarrow> preflight_check" where
  "checkVersion srv =
     (case ms_version srv of
        Ok v \<Rightarrow> if fst (parseVersion v) < 8
          then check_result ''MySQL Version'' PreflightFail (''MySQL '' @ v @ '' detected; MySQL 8.0+ required'')
          else check_result ''MySQL Version'' PreflightPass v
      | Err e \<Rightarrow> check_result ''MySQL Version'' PreflightFail (''cannot query version: '' @ error_text e)
      | Panic \<Rightarrow> check_result ''MySQL Version'' PreflightFail [])"

definition checkBinlogFormat :: "(string \<Rightarrow> string) \<Rightarrow> mysql_server \<Rightarrow> preflight_check" where
  "checkBinlogFormat uni srv =
     (case ms_variable srv ''binlog_format'' of
        Ok v \<Rightarrow> if ToUpper uni v \<noteq> ''ROW''
          then check_result ''Binlog Format'' PreflightFail (''binlog_format is '' @ v @ ''; ROW required for PITR'')
          else check_result ''Binlog Format'' PreflightPass ''binlog_format is ROW''
      | Err e \<Rightarrow> check_result ''Binlog Format'' PreflightFail (''cannot query binlog_format: '' @ error_text e)
      | Panic \<Rightarrow> check_result ''Binlog Format'' PreflightFail [])"

definition checkLogBin :: "(string \<Rightarrow> string) \<Rightarrow> mysql_server \<Rightarrow> preflight_check" where
  "checkLogBin uni srv =
     (case ms_variable srv ''log_bin'' of
        Ok v \<Rightarrow> if ToUpper uni v \<noteq> ''ON'' \<and> v \<noteq> ''1''
          then check_result ''Binary Logging Enabled'' PreflightFail ''binary logging is not enabled (log_bin is OFF)''
          else check_result ''Binary Logging Enabled'' PreflightPass ''binary logging is ON''
      | Err e \<Rightarrow> check_result ''Binary Logging Enabled'' PreflightFail (''cannot query log_bin: '' @ error_text e)
      | Panic \<Rightarrow> check_result ''Binary Logging Enabled'' PreflightFail [])"

definition required_privileges :: "string list" where
  "required_privileges = [''SELECT'', ''REPLICATION SLAVE'', ''REPLICATION CLIENT'']"

definition checkRequiredPrivileges :: "(string \<Rightarrow> string) \<Rightarrow> string list \<Rightarrow> string list" where
  "checkRequiredPrivileges uni grants =
     (let grantUpper = ToUpper uni (join '' '' grants) in
      filter (\<lambda>priv. \<not> Contains grantUpper priv \<and>
        \<not> Contains grantUpper ''ALL PRIVILEGES'' \<and> \<not> Contains grantUpper ''ALL'') required_privileges)"

definition checkPrivileges :: "(string \<Rightarrow> string) \<Rightarrow> mysql_server \<Rightarrow> preflight_check" where
  "checkPrivileges uni srv =
     (case ms_grants srv of
        Err e \<Rightarrow> check_result ''User Privileges'' PreflightFail (''cannot query grants: '' @ error_text e)
      | Panic \<Rightarrow> check_result ''User Privileges'' PreflightFail []
      | Ok (rows, err) \<Rightarrow>
          (case scan_all rows of
             Err e \<Rightarrow> check_result ''User Privileges'' PreflightFail (''cannot scan grant: '' @ error_text e)
           | Panic \<Rightarrow> check_result ''User Privileges'' PreflightFail []
           | Ok grants \<Rightarrow>
               (case err of
                  Some e \<Rightarrow> check_result ''User Privileges'' PreflightFail (''rows iteration: '' @ error_text e)
                | None \<Rightarrow>
                    let missing = checkRequiredPrivileges uni grants in
                    if length missing > 0
                    then check_result ''User Privileges'' PreflightWarn (''missing recommended privileges: '' @ join '', '' missing)
                    else check_result ''User Privileges'' PreflightPass ''required privileges granted'')))"

definition checkDatabaseSize :: "(int \<Rightarrow> int \<Rightarrow> string) \<Rightarrow> string \<Rightarrow> mysql_server \<Rightarrow> preflight_check outcome" where
  "checkDatabaseSize quot dbName srv =
     (let c = check_result ''Database Size'' in
      if dbName = [] then Ok (c PreflightWarn ''no database configured; skipping size check'')
      else case ms_schema_size srv dbName of
        Err e \<Rightarrow> Ok (c PreflightWarn (''cannot estimate database size: '' @ error_text e))
      | Panic \<Rightarrow> Panic
      | Ok None \<Rightarrow> Ok (c PreflightWarn ''database appears empty or has no tables'')
      | Ok (Some n) \<Rightarrow> bindo (formatBytes quot n) (\<lambda>t.
          Ok (c PreflightPass (''estimated database size: '' @ show_int n @ '' bytes ('' @ t @ '')''))))"

text \<open>The counting loop: a row that cannot be scanned is skipped.\<close>

fun count_columns :: "string outcome list \<Rightarrow> string \<Rightarrow> nat \<Rightarrow> nat \<Rightarrow> nat \<times> nat" where
  "count_columns [] lastTable tables columns = (tables, columns)"
| "count_columns (Ok t # rs) lastTable tables columns =
     (if t \<noteq> lastTable then count_columns rs t (tables + 1) (columns + 1)
      else count_columns rs lastTable tables (columns + 1))"
| "count_columns (_ # rs) lastTable tables columns = count_columns rs lastTable tables columns"

definition checkColumnMetadata :: "(string \<Rightarrow> string) \<Rightarrow> string \<Rightarrow> mysql_server \<Rightarrow> preflight_check" where
  "checkColumnMetadata quoted dbName srv =
     (let c = check_result ''Column Metadata'' in
      if dbName = [] then c PreflightWarn ''no database configured; skipping column metadata check''
      else case ms_column_tables srv dbName of
        Err e \<Rightarrow> c PreflightFail (''cannot query column metadata: '' @ error_text e)
      | Panic \<Rightarrow> c PreflightFail []
      | Ok rows \<Rightarrow> let (tables, columns) = count_columns rows [] 0 0 in
          c PreflightPass (''found '' @ show_nat tables @ '' tables with '' @ show_nat columns @
            '' columns in database '' @ quoted dbName))"

definition checkForeignKeys :: "(string \<Rightarrow> string) \<Rightarrow> string \<Rightarrow> mysql_server \<Rightarrow> preflight_check" where
  "checkForeignKeys quoted dbName srv =
     (let c = check_result ''Foreign Key Dependencies'' in
      if dbName = [] then c PreflightWarn ''no database configured; skipping FK check''
      else case ms_foreign_keys srv dbName of
        Err e \<Rightarrow> c PreflightWarn (''cannot query FK constraints: '' @ error_text e)
      | Panic \<Rightarrow> c PreflightWarn []
      | Ok n \<Rightarrow> if n > 0
          then c PreflightPass (''found '' @ show_nat n @ '' foreign key constraint(s) in database '' @ quoted dbName)
          else c PreflightPass (''no foreign key constraints in database '' @ quoted dbName))"

text \<open>A failed check_result among the first four fails the whole; the others are reported only.\<close>

definition Preflight :: "(string \<Rightarrow> string) \<Rightarrow> (string \<Rightarrow> string) \<Rightarrow> (int \<Rightarrow> int \<Rightarrow> string) \<Rightarrow> string \<Rightarrow>
    mysql_server option \<Rightarrow> preflight_result outcome" where
  "Preflight uni quoted quot dbName db =
     (case db of
        None \<Rightarrow> Err not_connected_error
      | Some srv \<Rightarrow>
          let ver = checkVersion srv; bf = checkBinlogFormat uni srv; lb = checkLogBin uni srv;
              priv = checkPrivileges uni srv;
              status = (if list_ex (\<lambda>c. pc_Status c = PreflightFail) [ver, bf, lb, priv] then PreflightFail
                else PreflightPass)
          in bindo (checkDatabaseSize quot dbName srv) (\<lambda>sz.
            let rest = [bf, lb, priv, sz, checkColumnMetadata quoted dbName srv, checkForeignKeys quoted dbName srv]
            in Ok (if pc_Status ver = PreflightPass
              then \<lparr>pf_Status = status, pf_Version = pc_Message ver, pf_Checks = ver\<lparr>pc_Message := []\<rparr> # rest\<rparr>
              else \<lparr>pf_Status = status, pf_Version = [], pf_Checks = ver # rest\<rparr>)))"

end
