(* ===== verification/Preflight_Runner.thy ===== *)
theory Preflight_Runner
  imports Mysql_Connector
begin

section \<open>The preflight runner\<close>

text \<open>
  The model of \<^verbatim>\<open>internal/rollback/preflight.go\<close>: six checks over the same server, among them
  whether the binary logs reach back to the recovery time. \<open>now\<close> is the clock. The rendering of hours
  without decimals, of a duration and of an instant are parameters.
\<close>

record duration_lib =
  dl_round_hours :: "int \<Rightarrow> string"
  dl_duration :: "int \<Rightarrow> string"
  dl_rfc3339 :: "go_time \<Rightarrow> string"
  dl_quot :: "int \<Rightarrow> int \<Rightarrow> string"

abbreviation (input) hour_ns :: int where "hour_ns \<equiv> 3600 * 1000000000"

text \<open>\<^verbatim>\<open>formatDuration\<close>; the float arithmetic of hours is exact on the whole seconds it is used with.\<close>

definition formatDuration :: "duration_lib \<Rightarrow> int \<Rightarrow> string" where
  "formatDuration lib d =
     (if d \<ge> 24 * hour_ns then show_int (d div (24 * hour_ns)) @ ''d''
      else if d \<ge> hour_ns then dl_round_hours lib d @ ''h''
      else dl_duration lib d)"

text \<open>\<^verbatim>\<open>time.Since\<close> saturates at the range of a duration.\<close>

definition time_since :: "go_time \<Rightarrow> go_time \<Rightarrow> int" where
  "time_since now t = max (- (2 ^ 63)) (min (2 ^ 63 - 1) (now - t))"

definition runner_version :: "mysql_server \<Rightarrow> preflight_check" where
  "runner_version srv =
     (let c = check_result ''MySQL Version'' in
      case ms_version srv of
        Ok v \<Rightarrow> let (major, minor, _) = parseVersion v in
          if major < 5 \<or> major = 5 \<and> minor < 7
          then c PreflightFail (''MySQL '' @ v @ '' detected; 5.7+ required'')
          else c PreflightPass v
      | Err e \<Rightarrow> c PreflightFail (''cannot query version: '' @ error_text e)
      | Panic \<Rightarrow> c PreflightFail [])"

definition runner_binlog_format :: "(string \<Rightarrow> string) \<Rightarrow> mysql_server \<Rightarrow> preflight_check" where
  "runner_binlog_format uni srv =
     (let c = check_result ''Binlog Format'' in
      case ms_variable srv ''binlog_format'' of
        Ok v \<Rightarrow> if ToUpper uni v \<noteq> ''ROW'' then c PreflightFail (''binlog_format is '' @ v @ ''; ROW required'')
          else c PreflightPass ''binlog_format is ROW''
      | Err e \<Rightarrow> c PreflightFail (''cannot query binlog_format: '' @ error_text e)
      | Panic \<Rightarrow> c PreflightFail [])"

definition checkBinlogRowImage :: "(string \<Rightarrow> string) \<Rightarrow> mysql_server \<Rightarrow> preflight_check" where
  "checkBinlogRowImage uni srv =
     (let c = check_result ''Binlog Row Image'' in
      case ms_variable srv ''binlog_row_image'' of
        Ok v \<Rightarrow> if ToUpper uni v \<noteq> ''FULL''
          then c PreflightWarn (''binlog_row_image is '' @ v @ ''; FULL recommended for PITR'')
          else c PreflightPass ''binlog_row_image is FULL''
      | Err e \<Rightarrow> c PreflightWarn (''cannot query binlog_row_image: '' @ error_text e)
      | Panic \<Rightarrow> c PreflightWarn [])"

text \<open>The loop over the binary logs: it scans two columns and skips a row it cannot scan.\<close>

fun count_logs :: "nat \<Rightarrow> (string \<times> int) outcome list \<Rightarrow> nat \<Rightarrow> int \<Rightarrow> nat \<times> int" where
  "count_logs cols [] files totalSize = (files, totalSize)"
| "count_logs cols (r # rs) files totalSize =
     (case scan_row cols 2 r of
        Ok (name, sz) \<Rightarrow> count_logs cols rs (files + 1) (goint (totalSize + sz))
      | _ \<Rightarrow> count_logs cols rs files totalSize)"

definition retention_seconds :: "mysql_server \<Rightarrow> int option" where
  "retention_seconds srv =
     (case ms_int_variable srv ''binlog_expire_logs_seconds'' of
        Ok v \<Rightarrow> v
      | _ \<Rightarrow> (case ms_int_variable srv ''expire_logs_days'' of
          Ok (Some d) \<Rightarrow> Some (goint (d * 86400))
        | _ \<Rightarrow> None))"

definition checkBinlogAvailability :: "duration_lib \<Rightarrow> go_time \<Rightarrow> go_time \<Rightarrow> mysql_server \<Rightarrow> preflight_check outcome" where
  "checkBinlogAvailability lib now recoveryTime srv =
     (let c = check_result ''Binlog Availability'' in
      case ms_binary_logs srv of
        Err e \<Rightarrow> Ok (c PreflightFail (''cannot query binary logs: '' @ error_text e))
      | Panic \<Rightarrow> Panic
      | Ok q \<Rightarrow>
          let cols = (case bl_columns q of Ok cs \<Rightarrow> length cs | _ \<Rightarrow> 0);
              (fileCount, totalSize) = count_logs cols (bl_rows q) 0 0
          in (case bl_err q of
              Some e \<Rightarrow> Ok (c PreflightFail (''error iterating binary logs: '' @ error_text e))
            | None \<Rightarrow>
              if fileCount = 0 then Ok (c PreflightFail ''no binary logs found on the server'')
              else let expire = retention_seconds srv; age = time_since now recoveryTime in
                if \<not> IsZero recoveryTime \<and>
                   (case expire of Some s \<Rightarrow> s > 0 \<and> age > goint (s * 1000000000) | None \<Rightarrow> False)
                then Ok (c PreflightFail (''recovery time '' @ dl_rfc3339 lib recoveryTime @ '' is '' @
                  dl_round_hours lib age @ ''h ago but binlogs expire after '' @
                  formatDuration lib (goint (the expire * 1000000000))))
                else bindo (formatBytes (dl_quot lib) totalSize) (\<lambda>t.
                  Ok (c PreflightPass (show_nat fileCount @ '' binary logs found ('' @ t @ '')'' @
                    (case expire of Some s \<Rightarrow> '', retention: '' @ formatDuration lib (goint (s * 1000000000))
                     | None \<Rightarrow> []))))))"

definition runner_privileges :: "(string \<Rightarrow> string) \<Rightarrow> string list \<Rightarrow> string list" where
  "runner_privileges uni grants =
     (let grantUpper = ToUpper uni (join '' '' grants) in
      if Contains grantUpper ''ALL PRIVILEGES'' \<or> Contains grantUpper '' ALL '' then []
      else filter (\<lambda>priv. \<not> Contains grantUpper priv) required_privileges)"

definition checkPermissions :: "(string \<Rightarrow> string) \<Rightarrow> mysql_server \<Rightarrow> preflight_check" where
  "checkPermissions uni srv =
     (let c = check_result ''Permissions'' in
      case ms_grants srv of
        Err e \<Rightarrow> c PreflightFail (''cannot query grants: '' @ error_text e)
      | Panic \<Rightarrow> c PreflightFail []
      | Ok (rows, err) \<Rightarrow>
          let grants = List.map_filter (\<lambda>r. case r of Ok g \<Rightarrow> Some g | _ \<Rightarrow> None) rows;
              missing = runner_privileges uni grants
          in if length missing > 0 then c PreflightFail (''missing required privileges: '' @ join '', '' missing)
             else c PreflightPass ''required privileges granted'')"

definition checkDiskSpace :: "duration_lib \<Rightarrow> mysql_server \<Rightarrow> preflight_check outcome" where
  "checkDiskSpace lib srv =
     (let c = check_result ''Disk Space'' in
      case ms_variable srv ''datadir'' of
        Err e \<Rightarrow> Ok (c PreflightWarn (''cannot query datadir: '' @ error_text e))
      | Panic \<Rightarrow> Panic
      | Ok dataDir \<Rightarrow>
          (case ms_total_size srv of
             Err e \<Rightarrow> Ok (c PreflightWarn (''cannot estimate data size: '' @ error_text e))
           | Panic \<Rightarrow> Panic
           | Ok dataSize \<Rightarrow>
               (case dataSize of
                  Some n \<Rightarrow> if n > 0
                    then bindo (formatBytes (dl_quot lib) n) (\<lambda>t.
                      Ok (c PreflightPass (''datadir: '' @ dataDir @ '', estimated data: '' @ t)))
                    else Ok (c PreflightPass (''datadir: '' @ dataDir))
                | None \<Rightarrow> Ok (c PreflightPass (''datadir: '' @ dataDir)))))"

definition Runner_Run :: "(string \<Rightarrow> string) \<Rightarrow> duration_lib \<Rightarrow> go_time \<Rightarrow> go_time \<Rightarrow> mysql_server \<Rightarrow>
    preflight_result outcome" where
  "Runner_Run uni lib now recoveryTime srv =
     (let vc = runner_version srv; bf = runner_binlog_format uni srv; ri = checkBinlogRowImage uni srv;
          pc = checkPermissions uni srv
      in bindo (checkBinlogAvailability lib now recoveryTime srv) (\<lambda>ba.
         bindo (checkDiskSpace lib srv) (\<lambda>dc.
           Ok \<lparr>pf_Status = (if list_ex (\<lambda>c. pc_Status c = PreflightFail) [vc, bf, ba, pc] then PreflightFail
                  else PreflightPass),
               pf_Version = (if pc_Status vc = PreflightPass then pc_Message vc else []),
               pf_Checks = [vc, bf, ri, ba, pc, dc]\<rparr>)))"

subsection \<open>Sizes\<close>

text \<open>A size of 64 bits has a unit: the loop of \<^verbatim>\<open>formatBytes\<close> makes at most five rounds.\<close>

lemma byte_unit_bound: "0 \<le> n \<Longrightarrow> n < 1024 ^ (k + 1) \<Longrightarrow> snd (byte_unit n dv ex) \<le> ex + k"
proof (induction n dv ex arbitrary: k rule: byte_unit.induct)
  case (1 n dv ex)
  show ?case
  proof (cases "n \<ge> 1024")
    case True
    with 1(3) obtain k' where k: "k = Suc k'" by (cases k) auto
    have "n div 1024 < 1024 ^ (k' + 1)" using 1(3) by (simp add: k div_less_iff_less_mult)
    with 1(1) [OF True, of k'] True show ?thesis by (subst byte_unit.simps) (simp add: k)
  next
    case False
    then show ?thesis by (subst byte_unit.simps) simp
  qed
qed

lemma formatBytes_returns: "b < 2 ^ 63 \<Longrightarrow> formatBytes quot b \<noteq> Panic"
proof (cases "b < 1024")
  case False
  assume "b < 2 ^ 63"
  with False have "0 \<le> b div 1024" "b div 1024 < 1024 ^ (5 + 1)" by auto
  from byte_unit_bound [OF this, of 1024 0] have "snd (byte_unit (b div 1024) 1024 0) < length ''KMGTPE''" by simp
  with False show ?thesis by (auto simp: formatBytes_def Let_def split: prod.splits)
qed (simp add: formatBytes_def)

end
