(* ===== verification/Connector_Correct.thy ===== *)
theory Connector_Correct
  imports Preflight_Runner
begin

section \<open>What the connector and the preflight checks promise\<close>

text \<open>
  What a passed preflight says of the server, the accounting of a rollback that goes on after failed
  batches, and two checks that do not do what they are for.
\<close>

subsection \<open>Preflight\<close>

text \<open>What the four deciding checks look at.\<close>

definition server_ready :: "(string \<Rightarrow> string) \<Rightarrow> mysql_server \<Rightarrow> bool" where
  "server_ready uni srv \<longleftrightarrow>
     (case ms_version srv of Ok v \<Rightarrow> 8 \<le> fst (parseVersion v) | _ \<Rightarrow> False) \<and>
     (case ms_variable srv ''binlog_format'' of Ok v \<Rightarrow> ToUpper uni v = ''ROW'' | _ \<Rightarrow> False) \<and>
     (case ms_variable srv ''log_bin'' of Ok v \<Rightarrow> ToUpper uni v = ''ON'' \<or> v = ''1'' | _ \<Rightarrow> False) \<and>
     (case ms_grants srv of Ok (rows, None) \<Rightarrow> (case scan_all rows of Ok _ \<Rightarrow> True | _ \<Rightarrow> False) | _ \<Rightarrow> False)"

lemma pc_Status_check [simp]: "pc_Status (check_result name status message) = status"
  by (simp add: check_result_def)

lemma checks_ready:
  "list_ex (\<lambda>c. pc_Status c = PreflightFail)
     [checkVersion srv, checkBinlogFormat uni srv, checkLogBin uni srv, checkPrivileges uni srv] \<longleftrightarrow>
   \<not> server_ready uni srv"
proof -
  have "pc_Status (checkVersion srv) = PreflightFail \<longleftrightarrow>
      \<not> (case ms_version srv of Ok v \<Rightarrow> 8 \<le> fst (parseVersion v) | _ \<Rightarrow> False)"
    by (auto simp: checkVersion_def split: outcome.splits)
  moreover have "pc_Status (checkBinlogFormat uni srv) = PreflightFail \<longleftrightarrow>
      \<not> (case ms_variable srv ''binlog_format'' of Ok v \<Rightarrow> ToUpper uni v = ''ROW'' | _ \<Rightarrow> False)"
    by (auto simp: checkBinlogFormat_def split: outcome.splits)
  moreover have "pc_Status (checkLogBin uni srv) = PreflightFail \<longleftrightarrow>
      \<not> (case ms_variable srv ''log_bin'' of Ok v \<Rightarrow> ToUpper uni v = ''ON'' \<or> v = ''1'' | _ \<Rightarrow> False)"
    by (auto simp: checkLogBin_def split: outcome.splits)
  moreover have "pc_Status (checkPrivileges uni srv) = PreflightFail \<longleftrightarrow>
      \<not> (case ms_grants srv of Ok (rows, None) \<Rightarrow> (case scan_all rows of Ok _ \<Rightarrow> True | _ \<Rightarrow> False) | _ \<Rightarrow> False)"
    by (auto simp: checkPrivileges_def Let_def split: outcome.splits option.splits prod.splits)
  ultimately show ?thesis unfolding server_ready_def by auto
qed


definition sample_server :: mysql_server where
  "sample_server = \<lparr>ms_variable = (\<lambda>v. if v = ''binlog_format'' then Ok ''row'' else if v = ''log_bin'' then Ok ''ON''
       else if v = ''log_bin_basename'' then Ok ''/var/lib/mysql/binlog'' else Ok ''x''),
     ms_int_variable = (\<lambda>_. Ok (Some 2592000)), ms_version = Ok ''8.0'',
     ms_binary_logs = Ok \<lparr>bl_columns = Ok [''Log_name'', ''File_size'', ''Encrypted''],
       bl_rows = [Ok (''binlog.000001'', 157)], bl_err = None\<rparr>,
     ms_grants = Ok ([Ok ''GRANT ALL''], None),
     ms_schema_size = (\<lambda>_. Ok None), ms_total_size = Ok None, ms_column_tables = (\<lambda>_. Ok [Ok ''t'', Ok ''t'']),
     ms_foreign_keys = (\<lambda>_. Ok 0)\<rparr>"


text \<open>The runner of the rollback package never passes on MySQL 8.0.14 or later. The server answers
  \<^verbatim>\<open>SHOW BINARY LOGS\<close> with a third column, every row fails to scan into two variables and is skipped, and the
  runner reports that there are no binary logs.\<close>

theorem runner_fails_with_encrypted_column:
  assumes "ms_binary_logs srv = Ok q" "bl_columns q = Ok cs" "length cs = 3"
    and "Runner_Run uni lib now recoveryTime srv = Ok r"
  shows "pf_Status r = PreflightFail"
proof -
  have "count_logs 3 rows files n = (files, n)" for rows files n
    by (induction rows) (simp_all add: scan_row_def)
  then have "\<exists>c. checkBinlogAvailability lib now recoveryTime srv = Ok c \<and> pc_Status c = PreflightFail"
    using assms(1-3) by (auto simp: checkBinlogAvailability_def Let_def split: option.splits)
  with assms(4) show ?thesis by (auto simp: Runner_Run_def Let_def bindo_Ok_iff)
qed

definition sample_durations :: duration_lib where
  "sample_durations = \<lparr>dl_round_hours = (\<lambda>_. ''1''), dl_duration = (\<lambda>_. ''1s''), dl_rfc3339 = (\<lambda>_. ''t''),
     dl_quot = (\<lambda>_ _. ''1.0'')\<rparr>"

lemma runner_fails_with_encrypted_column_witness:
  "\<exists>r. Runner_Run (\<lambda>s. s) sample_durations 0 zero_time sample_server = Ok r \<and> pf_Status r = PreflightFail"
proof -
  let ?run = "Runner_Run (\<lambda>s. s) sample_durations 0 zero_time sample_server"
  let ?q = "\<lparr>bl_columns = Ok [''Log_name'', ''File_size'', ''Encrypted''], bl_rows = [Ok (''binlog.000001'', 157)], bl_err = None\<rparr>"
  have q: "ms_binary_logs sample_server = Ok ?q" by (simp add: sample_server_def)
  have "(case ?run of Ok r \<Rightarrow> True | _ \<Rightarrow> False)" by code_simp
  then obtain r where "?run = Ok r" by (auto split: outcome.splits)
  with runner_fails_with_encrypted_column [OF q _ _ this] show ?thesis by simp
qed

text \<open>A grant of nothing to a user whose name contains these letters counts as a grant of everything.\<close>

lemma grant_check_accepts_any_all:
  "checkRequiredPrivileges (\<lambda>s. s) [''GRANT USAGE ON *.* TO small''] = []"
  by code_simp

subsection \<open>Rollback\<close>

lemma exec_wrapped_atomic:
  assumes "atomic_driver drv comm pend" "exec_wrapped quoted drv ss c = (r, c')"
  shows "comm c' = comm c \<and> (r = None \<longrightarrow> pend c' = pend c @ ss)"
  using assms(2)
proof (induction ss arbitrary: c)
  case (Cons s ss)
  obtain r1 c1 where c1: "tx_exec drv s c = (r1, c1)" by fastforce
  then have step: "comm c1 = comm c \<and> (r1 = None \<longrightarrow> pend c1 = pend c @ [s])"
    using assms(1) by (simp add: atomic_driver_def)
  show ?case using step Cons.IH [of c1] Cons.prems by (cases r1) (auto simp: c1)
qed simp

lemma connector_batch_atomic:
  assumes "atomic_driver drv comm pend" "connector_batch quoted drv batch c = (r, c')"
  shows "comm c' = (if r = None then comm c @ batch else comm c)"
proof -
  obtain r1 c1 where c1: "tx_begin drv c = (r1, c1)" by fastforce
  obtain r2 c2 where c2: "exec_wrapped quoted drv batch c1 = (r2, c2)" by fastforce
  obtain r3 c3 where c3: "tx_commit drv c2 = (r3, c3)" by fastforce
  have "comm c1 = comm c \<and> (r1 = None \<longrightarrow> pend c1 = [])"
    "comm c3 = (if r3 = None then comm c2 @ pend c2 else comm c2)"
    "\<And>c. comm (tx_rollback drv c) = comm c"
    using assms(1) c1 c3 by (simp_all add: atomic_driver_def)
  with exec_wrapped_atomic [OF assms(1) c2] assms(2) show ?thesis
    by (cases r1; cases r2) (auto simp: connector_batch_def c1 c2 c3)
qed

text \<open>The batches: consecutive runs of \<open>n\<close> statements, the last one maybe shorter.\<close>

function chunks :: "nat \<Rightarrow> 'a list \<Rightarrow> 'a list list" where
  "chunks n xs = (if n = 0 \<or> xs = [] then [] else take n xs # chunks n (drop n xs))"
  by pat_completeness auto
termination by (relation "measure (\<lambda>(_, xs). length xs)") auto

declare chunks.simps [simp del]

lemma chunks_simps [simp]: "chunks n [] = []" "0 < n \<Longrightarrow> xs \<noteq> [] \<Longrightarrow> chunks n xs = take n xs # chunks n (drop n xs)"
  by (subst chunks.simps; simp)+

lemma connector_batches_result:
  assumes "atomic_driver drv comm pend" "0 < n" "connector_batches quoted drv n sqls res c = (res', c')"
  shows "\<exists>oks. length oks = length (chunks n sqls) \<and>
    comm c' = comm c @ concat (map fst (filter snd (zip (chunks n sqls) oks))) \<and>
    er_BatchesCompleted res' = er_BatchesCompleted res + length (filter (\<lambda>ok. ok) oks) \<and>
    length (er_Errors res') = length (er_Errors res) + length (filter Not oks) \<and>
    er_RowsAffected res' = er_RowsAffected res"
  using assms(3)
proof (induction "length sqls" arbitrary: sqls res c rule: less_induct)
  case less
  show ?case
  proof (cases "sqls = []")
    case True
    with less.prems show ?thesis by (subst (asm) connector_batches.simps) simp
  next
    case False
    obtain r1 c1 where c1: "connector_batch quoted drv (take n sqls) c = (r1, c1)" by fastforce
    have comm1: "comm c1 = (if r1 = None then comm c @ take n sqls else comm c)"
      by (rule connector_batch_atomic [OF assms(1) c1])
    let ?res1 = "case r1 of None \<Rightarrow> res\<lparr>er_BatchesCompleted := er_BatchesCompleted res + 1\<rparr>
      | Some e \<Rightarrow> res\<lparr>er_Errors := er_Errors res @
          [''batch '' @ show_nat (er_BatchesCompleted res) @ '': '' @ error_text e]\<rparr>"
    have run: "connector_batches quoted drv n (drop n sqls) ?res1 c1 = (res', c')"
      using less.prems False assms(2) by (subst (asm) connector_batches.simps) (simp add: c1 split: option.splits)
    have "length (drop n sqls) < length sqls" using False assms(2) by simp
    from less.hyps [OF this run] obtain oks where oks: "length oks = length (chunks n (drop n sqls))"
      "comm c' = comm c1 @ concat (map fst (filter snd (zip (chunks n (drop n sqls)) oks)))"
      "er_BatchesCompleted res' = er_BatchesCompleted ?res1 + length (filter (\<lambda>ok. ok) oks)"
      "length (er_Errors res') = length (er_Errors ?res1) + length (filter Not oks)"
      "er_RowsAffected res' = er_RowsAffected ?res1" by blast
    show ?thesis
      by (rule exI [of _ "(r1 = None) # oks"])
        (use oks comm1 False assms(2) in \<open>auto split: option.splits\<close>)
  qed
qed

text \<open>A rollback by the connector commits exactly the batches it counts as completed, in order, and reports one
  error for each of the others: a failed batch does not stop those behind it.\<close>

theorem ExecuteRollback_accounts:
  assumes "atomic_driver drv comm pend" "sqls \<noteq> []" "\<not> eo_DryRun opts"
    and "ExecuteRollback quoted drv sqls opts (Some c) = (r, c')"
  shows "\<exists>res d oks. r = Ok res \<and> c' = Some d \<and>
    (let batches = chunks (if eo_BatchSize opts \<le> 0 then 100 else nat (eo_BatchSize opts)) sqls in
     length oks = length batches \<and> comm d = comm c @ concat (map fst (filter snd (zip batches oks))) \<and>
     er_BatchesCompleted res = length (filter (\<lambda>ok. ok) oks) \<and> length (er_Errors res) = length (filter Not oks))"
proof -
  let ?n = "nat (if eo_BatchSize opts \<le> 0 then 100 else eo_BatchSize opts)"
  let ?res0 = "\<lparr>er_RowsAffected = 0, er_BatchesCompleted = 0, er_Errors = []\<rparr>"
  have n: "?n = (if eo_BatchSize opts \<le> 0 then 100 else nat (eo_BatchSize opts))" "0 < ?n" by auto
  obtain res d where run: "connector_batches quoted drv ?n sqls ?res0 c = (res, d)" by fastforce
  with assms(2-4) have "r = Ok res" "c' = Some d" by (auto simp: ExecuteRollback_def Let_def)
  with connector_batches_result [OF assms(1) n(2) run] show ?thesis unfolding n(1) Let_def by auto
qed

lemma ExecuteRollback_accounts_witness:
  "\<exists>res d. ExecuteRollback (\<lambda>s. s) (log_driver (\<lambda>p s. if s = ''b'' then Some EOF else None)) [''a'', ''b'', ''c'']
     \<lparr>eo_BatchSize = 2, eo_DryRun = False\<rparr> (Some ([], [])) = (Ok res, Some d) \<and>
     er_BatchesCompleted res + length (er_Errors res) = 2"
proof -
  let ?drv = "log_driver (\<lambda>p s. if s = ''b'' then Some EOF else None)" and ?sqls = "[''a'', ''b'', ''c'']"
  let ?opts = "\<lparr>eo_BatchSize = 2, eo_DryRun = False\<rparr>"
  have two: "length (chunks 2 ?sqls) = 2" by code_simp
  obtain r c' where run: "ExecuteRollback (\<lambda>s. s) ?drv ?sqls ?opts (Some ([], [])) = (r, c')" by fastforce
  obtain res d oks where "r = Ok res" "c' = Some d" "length oks = length (chunks 2 ?sqls)"
    "er_BatchesCompleted res = length (filter (\<lambda>ok. ok) oks)" "length (er_Errors res) = length (filter Not oks)"
    using ExecuteRollback_accounts [OF log_driver_atomic _ _ run] by (auto simp: Let_def)
  with run two sum_length_filter_compl [of "\<lambda>ok. ok" oks] show ?thesis by auto
qed

end
