(* ===== verification/Mysql_Open.thy ===== *)
theory Mysql_Open
  imports Connector_Types "HOL-Library.Multiset"
begin

section \<open>Opening and closing a connection\<close>

text \<open>
  \<^verbatim>\<open>Connect\<close> and \<^verbatim>\<open>Close\<close> of \<^verbatim>\<open>internal/connector/mysql.go\<close>. The driver is outside the repository: \<open>my_new\<close> is the
  configuration its \<^verbatim>\<open>NewConfig\<close> gives, \<open>my_duration\<close> parses a duration, \<open>my_open\<close> opens a pool for a configuration, \<open>my_ping\<close>
  asks whether the server is alive and \<open>my_close\<close> is the error of closing a pool. Pools are numbered as they are
  opened; the driver keeps which of them are open.
\<close>

record driver_config =
  dc_User :: string
  dc_Passwd :: string
  dc_Net :: string
  dc_Addr :: string
  dc_DBName :: string
  dc_ParseTime :: bool
  dc_LocalTime :: bool
  dc_Collation :: string
  dc_TLSConfig :: string
  dc_Timeout :: int
  dc_ReadTimeout :: int
  dc_WriteTimeout :: int

record mysql_driver =
  my_new :: driver_config
  my_duration :: "string \<Rightarrow> int outcome"
  my_open :: "driver_config \<Rightarrow> go_error option"
  my_ping :: "driver_config \<Rightarrow> go_error option"
  my_close :: "go_error option"

text \<open>The connector, and the pools of the process (whether each is open).\<close>

record mysql_connection =
  mc_db :: "nat option"
  mc_config :: "conn_config option"
  mc_pools :: "bool list"

subsection \<open>The operations\<close>

definition duration_param :: "mysql_driver \<Rightarrow> string \<Rightarrow> (int \<Rightarrow> driver_config \<Rightarrow> driver_config) \<Rightarrow> driver_config \<Rightarrow> driver_config" where
  "duration_param lib v set_to cfg = (case my_duration lib v of Ok d \<Rightarrow> set_to d cfg | _ \<Rightarrow> cfg)"

definition apply_param :: "mysql_driver \<Rightarrow> string \<times> string \<Rightarrow> driver_config \<Rightarrow> driver_config" where
  "apply_param lib = (\<lambda>(k, v) cfg.
     if k = ''tls'' then cfg\<lparr>dc_TLSConfig := v\<rparr>
     else if k = ''timeout'' then duration_param lib v (\<lambda>d cfg. cfg\<lparr>dc_Timeout := d\<rparr>) cfg
     else if k = ''readTimeout'' then duration_param lib v (\<lambda>d cfg. cfg\<lparr>dc_ReadTimeout := d\<rparr>) cfg
     else if k = ''writeTimeout'' then duration_param lib v (\<lambda>d cfg. cfg\<lparr>dc_WriteTimeout := d\<rparr>) cfg
     else if k = ''charset'' then cfg\<lparr>dc_Collation := v\<rparr>
     else cfg)"

definition driver_config_of :: "mysql_driver \<Rightarrow> conn_config \<Rightarrow> driver_config" where
  "driver_config_of lib cfg =
     (let host = (if cc_Host cfg = [] then ''127.0.0.1'' else cc_Host cfg);
          port = (if cc_Port cfg = 0 then 3306 else cc_Port cfg)
      in fold (apply_param lib) (cc_Params cfg)
           ((my_new lib)\<lparr>dc_User := cc_User cfg, dc_Passwd := cc_Password cfg, dc_Net := ''tcp'',
              dc_Addr := host @ '':'' @ show_int port, dc_DBName := cc_Database cfg, dc_ParseTime := True, dc_LocalTime := True,
              dc_Collation := ''utf8mb4_general_ci''\<rparr>))"

definition Connect :: "mysql_driver \<Rightarrow> conn_config \<Rightarrow> mysql_connection \<Rightarrow> unit outcome \<times> mysql_connection" where
  "Connect lib cfg m =
     (case my_open lib (driver_config_of lib cfg) of
        Some e \<Rightarrow> (Err (Wrapf ''connector: sql.Open'' e), m)
      | None \<Rightarrow>
          (let n = length (mc_pools m); m = m\<lparr>mc_pools := mc_pools m @ [True]\<rparr> in
           case my_ping lib (driver_config_of lib cfg) of
             Some e \<Rightarrow> (Err (Wrapf ''connector: ping failed'' e), m\<lparr>mc_pools := (mc_pools m)[n := False]\<rparr>)
           | None \<Rightarrow> (Ok (), m\<lparr>mc_db := Some n, mc_config := Some cfg\<rparr>)))"

definition Connector_Close :: "mysql_driver \<Rightarrow> mysql_connection \<Rightarrow> go_error option \<times> mysql_connection" where
  "Connector_Close lib m =
     (case mc_db m of
        Some n \<Rightarrow> (my_close lib, m\<lparr>mc_db := None, mc_pools := (mc_pools m)[n := False]\<rparr>)
      | None \<Rightarrow> (None, m))"

definition no_connection :: mysql_connection where
  "no_connection = \<lparr>mc_db = None, mc_config = None, mc_pools = []\<rparr>"

subsection \<open>What holds of them\<close>

definition duration_or :: "int \<Rightarrow> mysql_driver \<Rightarrow> string \<Rightarrow> int" where
  "duration_or old lib v = (case my_duration lib v of Ok d \<Rightarrow> d | _ \<Rightarrow> old)"

text \<open>Go ranges over the parameters in any order; with distinct keys the order does not matter.\<close>

lemma apply_param_eq:
  "apply_param lib (k, v) cfg = cfg\<lparr>dc_TLSConfig := if k = ''tls'' then v else dc_TLSConfig cfg,
     dc_Timeout := if k = ''timeout'' then duration_or (dc_Timeout cfg) lib v else dc_Timeout cfg,
     dc_ReadTimeout := if k = ''readTimeout'' then duration_or (dc_ReadTimeout cfg) lib v else dc_ReadTimeout cfg,
     dc_WriteTimeout := if k = ''writeTimeout'' then duration_or (dc_WriteTimeout cfg) lib v else dc_WriteTimeout cfg,
     dc_Collation := if k = ''charset'' then v else dc_Collation cfg\<rparr>"
  by (simp add: apply_param_def duration_param_def duration_or_def split: outcome.splits)

lemma apply_param_commute:
  assumes "fst p \<noteq> fst q"
  shows "apply_param lib p \<circ> apply_param lib q = apply_param lib q \<circ> apply_param lib p"
proof
  fix cfg
  obtain k v j u where pq: "p = (k, v)" "q = (j, u)" by fastforce
  have once: "\<not> (k = c \<and> j = c)" for c using assms pq by auto
  show "(apply_param lib p \<circ> apply_param lib q) cfg = (apply_param lib q \<circ> apply_param lib p) cfg"
    unfolding pq comp_apply apply_param_eq
    using once [of "''tls''"] once [of "''timeout''"] once [of "''readTimeout''"] once [of "''writeTimeout''"] once [of "''charset''"]
    by (intro driver_config.equality) simp_all
qed

lemma param_order_irrelevant:
  assumes "distinct (map fst ps)" "mset ps = mset qs"
  shows "fold (apply_param lib) ps = fold (apply_param lib) qs"
proof (rule fold_multiset_equiv [OF _ assms(2)])
  fix p q
  assume pq: "p \<in> set ps" "q \<in> set ps"
  show "apply_param lib p \<circ> apply_param lib q = apply_param lib q \<circ> apply_param lib p"
  proof (cases "fst p = fst q")
    case True
    then have "p = q" using assms(1) pq by (metis eq_key_imp_eq_value prod.collapse)
    then show ?thesis by simp
  qed (rule apply_param_commute)
qed

text \<open>The open pools. Only the pool of the connector is open, also after a failed attempt.\<close>

definition open_pools :: "bool list \<Rightarrow> nat set" where
  "open_pools ps = {n. n < length ps \<and> ps ! n}"

lemma open_pools_simps [simp]:
  "open_pools [] = {}" "open_pools (ps @ [True]) = insert (length ps) (open_pools ps)"
  "open_pools (ps @ [False]) = open_pools ps"
  by (auto simp: open_pools_def nth_append less_Suc_eq)

lemma open_pools_close [simp]: "open_pools (ps[n := False]) = open_pools ps - {n}"
proof -
  have "ps[n := False] ! i \<longleftrightarrow> i \<noteq> n \<and> ps ! i" if "i < length ps" for i
    using that by (cases "i = n") simp_all
  then show ?thesis by (auto simp: open_pools_def)
qed

definition one_pool :: "mysql_connection \<Rightarrow> bool" where
  "one_pool m \<longleftrightarrow> open_pools (mc_pools m) = set_option (mc_db m)"

lemma one_pool_none: "one_pool no_connection"
  by (simp add: one_pool_def no_connection_def)

lemma one_pool_Close: "one_pool m \<Longrightarrow> one_pool (snd (Connector_Close lib m))"
  by (simp add: one_pool_def Connector_Close_def split: option.splits)

text \<open>The first connect keeps this; one while connected does not, since nothing closes the pool it replaces.\<close>

lemma one_pool_Connect:
  assumes "one_pool m" "mc_db m = None"
  shows "one_pool (snd (Connect lib cfg m))"
  using assms by (simp add: one_pool_def Connect_def Let_def split: option.splits)

lemma reconnect_leaks_pool:
  assumes "one_pool m" "mc_db m = Some n" "Connect lib cfg m = (Ok u, m')"
  shows "open_pools (mc_pools (snd (Connector_Close lib m'))) = {n}" "mc_db (snd (Connector_Close lib m')) = None"
proof -
  from assms(3) have "mc_pools m' = mc_pools m @ [True]" "mc_db m' = Some (length (mc_pools m))"
    by (auto simp: Connect_def Let_def split: option.splits)
  moreover have "open_pools (mc_pools m) = {n}" using assms(1,2) by (simp add: one_pool_def)
  moreover from this have "length (mc_pools m) \<notin> {n}" by (auto simp: open_pools_def)
  ultimately show "open_pools (mc_pools (snd (Connector_Close lib m'))) = {n}" "mc_db (snd (Connector_Close lib m')) = None"
    by (simp_all add: Connector_Close_def)
qed

lemma Connect_failed: "Connect lib cfg m = (Err e, m') \<Longrightarrow> mc_db m' = mc_db m \<and> mc_config m' = mc_config m"
  by (auto simp: Connect_def Let_def split: option.splits)

end
