(* ===== verification/Checkpoint.thy ===== *)
theory Checkpoint
  imports Binlog_Text Keyed_Store Executor
begin

section \<open>Checkpoints\<close>

text \<open>
  The model of \<^verbatim>\<open>internal/checkpoint\<close>: one file per recovery, replaced by writing a temporary file
  and renaming it. The disk maps paths to contents; a file holds the JSON of a checkpoint, which
  \<^verbatim>\<open>encoding/json\<close> reads back as it was written, or something else. The failures of the calls of
  \<^verbatim>\<open>os\<close> are inputs. The lock of the manager makes every operation atomic for the others.
\<close>

record checkpoint_plan =
  pl_RecoveryID :: string
  pl_TableName :: string
  pl_RecoveryTime :: go_time
  pl_TotalBatches :: int
  pl_TableOrder :: "string list"

record checkpoint =
  cp_RecoveryID :: string
  cp_TableName :: string
  cp_RecoveryTime :: go_time
  cp_TotalBatches :: int
  cp_CompletedBatches :: int
  cp_TableOrder :: "string list"
  cp_LastCommitAt :: go_time
  cp_Status :: string
  cp_Checksum :: string

datatype file_content = Json checkpoint | Garbled go_error

type_synonym disk = "(string \<times> file_content) list"

text \<open>What fails: creating the directory, writing the temporary file (with what is left of it), renaming it.\<close>

record disk_faults =
  df_mkdir :: "go_error option"
  df_write :: "(go_error \<times> file_content option) option"
  df_rename :: "go_error option"

definition no_faults :: disk_faults where
  "no_faults = \<lparr>df_mkdir = None, df_write = None, df_rename = None\<rparr>"

subsection \<open>Paths and files\<close>

definition checkpointDir :: "string \<Rightarrow> string" where
  "checkpointDir dataDir = path_join dataDir ''checkpoints''"

definition checkpointPath :: "string \<Rightarrow> string \<Rightarrow> string" where
  "checkpointPath dataDir i = path_join (checkpointDir dataDir) (i @ ''.json'')"

definition atomicWrite :: "disk_faults \<Rightarrow> string \<Rightarrow> checkpoint \<Rightarrow> disk \<Rightarrow> unit outcome \<times> disk" where
  "atomicWrite f dataDir cp d =
     (let path = checkpointPath dataDir (cp_RecoveryID cp); tmpPath = path @ ''.tmp'' in
      case df_write f of
        Some (e, left) \<Rightarrow> (Err (Wrapf ''checkpoint: write tmp'' e),
          (case left of Some c \<Rightarrow> AList.update tmpPath c d | None \<Rightarrow> d))
      | None \<Rightarrow>
          let d = AList.update tmpPath (Json cp) d in
          (case df_rename f of
             Some e \<Rightarrow> (Err (Wrapf ''checkpoint: rename'' e), AList.delete tmpPath d)
           | None \<Rightarrow> (Ok (), AList.update path (Json cp) (AList.delete tmpPath d))))"

definition file_missing :: go_error where
  "file_missing = Errorf ''no such file or directory''"

definition readCheckpoint :: "string \<Rightarrow> string \<Rightarrow> disk \<Rightarrow> checkpoint outcome" where
  "readCheckpoint dataDir i d =
     (case map_of d (checkpointPath dataDir i) of
        None \<Rightarrow> Err (Wrapf (''checkpoint: read '' @ i) file_missing)
      | Some (Garbled e) \<Rightarrow> Err (Wrapf (''checkpoint: unmarshal '' @ i) e)
      | Some (Json cp) \<Rightarrow> Ok cp)"

subsection \<open>Operations\<close>

definition CreateCheckpoint :: "disk_faults \<Rightarrow> string \<Rightarrow> go_time \<Rightarrow> checkpoint_plan \<Rightarrow> disk \<Rightarrow>
    checkpoint outcome \<times> disk" where
  "CreateCheckpoint f dataDir now plan d =
     (case df_mkdir f of
        Some e \<Rightarrow> (Err (Wrapf ''checkpoint: create dir'' e), d)
      | None \<Rightarrow>
          let cp = \<lparr>cp_RecoveryID = pl_RecoveryID plan, cp_TableName = pl_TableName plan,
                cp_RecoveryTime = pl_RecoveryTime plan, cp_TotalBatches = pl_TotalBatches plan,
                cp_CompletedBatches = 0, cp_TableOrder = pl_TableOrder plan, cp_LastCommitAt = now,
                cp_Status = ''in_progress'', cp_Checksum = []\<rparr>
          in apfst (\<lambda>r. bindo r (\<lambda>_. Ok cp)) (atomicWrite f dataDir cp d))"

definition UpdateBatch :: "disk_faults \<Rightarrow> string \<Rightarrow> go_time \<Rightarrow> string \<Rightarrow> int \<Rightarrow> disk \<Rightarrow> unit outcome \<times> disk" where
  "UpdateBatch f dataDir now i completed d =
     (case readCheckpoint dataDir i d of
        Ok cp \<Rightarrow> atomicWrite f dataDir (cp\<lparr>cp_CompletedBatches := completed, cp_LastCommitAt := now\<rparr>) d
      | Err e \<Rightarrow> (Err e, d)
      | Panic \<Rightarrow> (Panic, d))"

text \<open>\<open>digest\<close> is the SHA-256 of the JSON of a checkpoint, in hexadecimal.\<close>

definition Complete :: "(checkpoint \<Rightarrow> string) \<Rightarrow> disk_faults \<Rightarrow> string \<Rightarrow> go_time \<Rightarrow> string \<Rightarrow> disk \<Rightarrow>
    unit outcome \<times> disk" where
  "Complete digest f dataDir now i d =
     (case readCheckpoint dataDir i d of
        Ok cp \<Rightarrow>
          let cp = cp\<lparr>cp_Status := ''complete'', cp_LastCommitAt := now\<rparr>
          in atomicWrite f dataDir (cp\<lparr>cp_Checksum := digest cp\<rparr>) d
      | Err e \<Rightarrow> (Err e, d)
      | Panic \<Rightarrow> (Panic, d))"

text \<open>The names of the files of the directory, in the order of \<^verbatim>\<open>os.ReadDir\<close>.\<close>

definition dir_names :: "string \<Rightarrow> disk \<Rightarrow> string list" where
  "dir_names dir d = sort (remdups (map (\<lambda>(p, _). drop (length dir + 1) p)
     (filter (\<lambda>(p, _). HasPrefix p (dir @ ''/'') \<and> CHR ''/'' \<notin> set (drop (length dir + 1) p)) d)))"

text \<open>The checkpoints that can be read, newest first (\<^verbatim>\<open>sort.Slice\<close> leaves the order of equal times open).\<close>

definition listCheckpoints :: "string \<Rightarrow> disk \<Rightarrow> checkpoint list" where
  "listCheckpoints dataDir d =
     (let names = filter (\<lambda>n. HasSuffix n ''.json'') (dir_names (checkpointDir dataDir) d);
          cps = List.map_filter (\<lambda>n. case readCheckpoint dataDir (TrimSuffix n ''.json'') d of
            Ok cp \<Rightarrow> Some cp | _ \<Rightarrow> None) names
      in sort_key (\<lambda>cp. - cp_LastCommitAt cp) cps)"

definition GetLastCheckpoint :: "string \<Rightarrow> disk \<Rightarrow> checkpoint option" where
  "GetLastCheckpoint dataDir d = (case listCheckpoints dataDir d of [] \<Rightarrow> None | cp # _ \<Rightarrow> Some cp)"

definition ListCheckpoints :: "string \<Rightarrow> disk \<Rightarrow> checkpoint list" where
  "ListCheckpoints dataDir d = listCheckpoints dataDir d"

subsection \<open>Writing is atomic\<close>

text \<open>The path of a checkpoint ends in \<^verbatim>\<open>.json\<close>, so it is never a temporary file.\<close>

lemma last_Split_append: "d \<notin> set t \<Longrightarrow> last (Split (s @ t) d) = last (Split s d) @ t"
proof (induction s)
  case (Cons c s)
  obtain x xs where "Split (s @ t) d = x # xs" by (cases "Split (s @ t) d") auto
  moreover obtain y ys where "Split s d = y # ys" by (cases "Split s d") auto
  moreover have "length (Split (s @ t) d) = length (Split s d)"
    using Cons.prems by (induction s) (auto simp: Split_no_sep split: list.splits)
  ultimately show ?case using Cons by (auto split: list.splits if_splits)
qed (simp add: Split_no_sep)

lemma clean_parts_last: "p \<notin> {[], ''.'', ''..''} \<Longrightarrow> clean_parts rooted (ps @ [p]) out = clean_parts rooted ps out @ [p]"
  by (induction ps arbitrary: out) auto

lemma join_last: "\<exists>t. join sep (xs @ [x]) = t @ x"
proof (induction sep xs rule: join.induct)
  case (3 sep s t ss)
  then show ?case by (metis append_Cons append.assoc join.simps(3))
qed auto

lemma path_clean_suffix:
  assumes "d = CHR ''/''" "d \<notin> set t" "length t > 2"
  shows "\<exists>u. path_clean (s @ t) = u @ t"
proof -
  have "s @ t \<noteq> []" using assms(3) by auto
  obtain ps p where sp: "Split (s @ t) d = ps @ [p]" by (metis Split_not_Nil append_butlast_last_id)
  have "p = last (Split s d) @ t" using last_Split_append [OF assms(2), of s] sp by simp
  then have "length p > 2" "\<exists>u. p = u @ t" using assms(3) by auto
  then have p: "p \<notin> {[], ''.'', ''..''}" "\<exists>u. p = u @ t" by auto
  have "\<exists>u. join ''/'' (clean_parts rooted (Split (s @ t) d) []) = u @ t" for rooted
    using join_last [of "''/''" "clean_parts rooted ps []" p] p by (metis clean_parts_last sp append.assoc)
  then obtain u where "join ''/'' (clean_parts (hd (s @ t) = d) (Split (s @ t) d) []) = u @ t" by blast
  with \<open>s @ t \<noteq> []\<close> assms(1,3) show ?thesis
    by (auto simp: path_clean_def Let_def intro: exI [of _ "CHR ''/'' # u"])
qed

lemma checkpointPath_json: "\<exists>u. checkpointPath dataDir i = u @ ''.json''"
proof -
  have "\<exists>u. path_clean (s @ ''.json'') = u @ ''.json''" for s
    by (rule path_clean_suffix [OF refl]) simp_all
  from this [of i] this [of "checkpointDir dataDir @ ''/'' @ i"] show ?thesis
    by (simp add: checkpointPath_def path_join_def)
qed

lemma tmp_not_path: "checkpointPath dataDir j \<noteq> checkpointPath dataDir i @ ''.tmp''"
proof
  assume eq: "checkpointPath dataDir j = checkpointPath dataDir i @ ''.tmp''"
  obtain u where "checkpointPath dataDir j = u @ ''.json''" using checkpointPath_json by blast
  then have "last (checkpointPath dataDir j) = CHR ''n''" by simp
  with eq show False by simp
qed

lemma atomicWrite_result:
  assumes "atomicWrite f dataDir cp d = (r, d')"
  shows "\<forall>p. p \<noteq> checkpointPath dataDir (cp_RecoveryID cp) \<longrightarrow>
      p \<noteq> checkpointPath dataDir (cp_RecoveryID cp) @ ''.tmp'' \<longrightarrow> map_of d' p = map_of d p"
    and "map_of d' (checkpointPath dataDir (cp_RecoveryID cp)) =
      (if r = Ok () then Some (Json cp) else map_of d (checkpointPath dataDir (cp_RecoveryID cp)))"
    and "r = Ok () \<or> (\<exists>e. r = Err e)"
    and "df_write f = None \<Longrightarrow> map_of d' (checkpointPath dataDir (cp_RecoveryID cp) @ ''.tmp'') = None"
  using assms by (auto simp: atomicWrite_def Let_def go_map_simps split: option.splits prod.splits)

lemma atomicWrite_read:
  assumes "atomicWrite f dataDir cp d = (r, d')"
  shows "readCheckpoint dataDir j d' =
    (if r = Ok () \<and> checkpointPath dataDir j = checkpointPath dataDir (cp_RecoveryID cp) then Ok cp
     else readCheckpoint dataDir j d)"
  using atomicWrite_result(1,2) [OF assms] tmp_not_path [of dataDir j "cp_RecoveryID cp"]
  by (cases "checkpointPath dataDir j = checkpointPath dataDir (cp_RecoveryID cp)") (auto simp: readCheckpoint_def)

text \<open>C21. A checkpoint is never lost in an update: whatever call of the file system fails, and whatever the failure
  leaves behind, afterwards the recovery's checkpoint is the updated one if the update reported success and the old one
  if it reported an error, and every other checkpoint is as it was.\<close>

theorem checkpoint_update_atomic:
  assumes "readCheckpoint dataDir i d = Ok cp" "cp_RecoveryID cp = i"
    and "UpdateBatch f dataDir now i n d = (r, d')"
  shows "(r = Ok () \<and> readCheckpoint dataDir i d' = Ok (cp\<lparr>cp_CompletedBatches := n, cp_LastCommitAt := now\<rparr>) \<or>
      (\<exists>e. r = Err e) \<and> readCheckpoint dataDir i d' = Ok cp) \<and>
    (\<forall>j. checkpointPath dataDir j \<noteq> checkpointPath dataDir i \<longrightarrow> readCheckpoint dataDir j d' = readCheckpoint dataDir j d)"
proof -
  have wr: "atomicWrite f dataDir (cp\<lparr>cp_CompletedBatches := n, cp_LastCommitAt := now\<rparr>) d = (r, d')"
    using assms(1,3) by (simp add: UpdateBatch_def)
  show ?thesis
    using atomicWrite_result(3) [OF wr] assms(1,2) atomicWrite_read [OF wr] by auto
qed

definition sample_checkpoint :: checkpoint where
  "sample_checkpoint = \<lparr>cp_RecoveryID = ''op'', cp_TableName = ''t'', cp_RecoveryTime = 0, cp_TotalBatches = 2,
     cp_CompletedBatches = 0, cp_TableOrder = [], cp_LastCommitAt = 0, cp_Status = ''in_progress'', cp_Checksum = []\<rparr>"

lemma checkpoint_update_atomic_witness:
  "readCheckpoint ''d'' ''op'' (snd (UpdateBatch \<lparr>df_mkdir = None, df_write = Some (EOF, Some (Garbled EOF)), df_rename = None\<rparr>
     ''d'' 1 ''op'' 1 [(''d/checkpoints/op.json'', Json sample_checkpoint)])) = Ok sample_checkpoint"
proof -
  let ?f = "\<lparr>df_mkdir = None, df_write = Some (EOF, Some (Garbled EOF)), df_rename = None\<rparr>"
  let ?d = "[(''d/checkpoints/op.json'', Json sample_checkpoint)]"
  have read: "readCheckpoint ''d'' ''op'' ?d = Ok sample_checkpoint" by code_simp
  have own: "cp_RecoveryID sample_checkpoint = ''op''" by (simp add: sample_checkpoint_def)
  have "fst (UpdateBatch ?f ''d'' 1 ''op'' 1 ?d) \<noteq> Ok ()" by code_simp
  moreover obtain r d' where run: "UpdateBatch ?f ''d'' 1 ''op'' 1 ?d = (r, d')" by fastforce
  ultimately show ?thesis using checkpoint_update_atomic [OF read own run] by auto
qed

end
