(* ===== verification/Ws_Types.thy ===== *)
theory Ws_Types
  imports Complex_Main Prelude
begin

section \<open>Messages between platform and agents\<close>

text \<open>
  The messages of \<^verbatim>\<open>internal/ws/types.go\<close>, and what the two ends see of a text on the wire: \<^verbatim>\<open>encoding/json\<close>
  reads it into a response and into a command, and each reading may fail. A JSON number is a rational.
\<close>

datatype json = JStr string | JNum rat | JList "json list" | JOther

record command =
  cm_Cmd :: string
  cm_Type :: string
  cm_Params :: "(string \<times> json) list"

record 'r ws_response =
  rs_Cmd :: string
  rs_Status :: string
  rs_Result :: "'r option"
  rs_Error :: string

record 'r wire_message =
  wm_response :: "'r ws_response option"
  wm_command :: "command option"

definition is_response :: "'r ws_response \<Rightarrow> bool" where
  "is_response r \<longleftrightarrow> rs_Cmd r \<noteq> [] \<and> rs_Status r \<noteq> []"

text \<open>The renewal and progress commands, which agents send.\<close>

definition CmdCertRenewal :: string where "CmdCertRenewal = ''cert_renewal''"
definition CmdPITRProgress :: string where "CmdPITRProgress = ''pitr_progress''"

end
