(* ===== verification/Agent_Serve.thy ===== *)
theory Agent_Serve
  imports Ws_Types Reverse Preflight_Runner Checkpoint
begin

section \<open>The commands of the agent\<close>

text \<open>
  The model of the handlers of \<^verbatim>\<open>cmd/agent/serve.go\<close>, the dispatcher of
  \<^verbatim>\<open>internal/ws/agent/dispatcher.go\<close>. The
  parameters of a command are decoded JSON; a JSON number is a rational, and \<open>int_of_float\<close> is its conversion
  to a 64-bit integer as on amd64, where a value out of range gives the smallest integer. What a handler meets outside is in
  \<open>agent_world\<close>: the server it connects to, the program it runs, and the texts of times.
\<close>

subsection \<open>Replies and parameters\<close>

definition okResp :: "command \<Rightarrow> 'r \<Rightarrow> 'r ws_response" where
  "okResp cmd r = \<lparr>rs_Cmd = cm_Cmd cmd, rs_Status = ''ok'', rs_Result = Some r, rs_Error = []\<rparr>"

definition errResp :: "command \<Rightarrow> string \<Rightarrow> 'r ws_response" where
  "errResp cmd message = \<lparr>rs_Cmd = cm_Cmd cmd, rs_Status = ''error'', rs_Result = None, rs_Error = message\<rparr>"

definition paramString :: "(string \<times> json) list \<Rightarrow> string \<Rightarrow> string" where
  "paramString params key = (case map_of params key of Some (JStr s) \<Rightarrow> TrimSpace s | _ \<Rightarrow> [])"

definition int_of_float :: "rat \<Rightarrow> int" where
  "int_of_float f = (let i = (if f < 0 then \<lceil>f\<rceil> else \<lfloor>f\<rfloor>) in if - (2 ^ 63) \<le> i \<and> i < 2 ^ 63 then i else - (2 ^ 63))"

definition paramUint32 :: "(string \<times> json) list \<Rightarrow> string \<Rightarrow> 32 word" where
  "paramUint32 params key = (case map_of params key of
      Some (JNum f) \<Rightarrow> if f \<le> 0 then 0 else word_of_int (int_of_float f)
    | _ \<Rightarrow> 0)"

text \<open>The dispatcher: a map from command types to handlers; a handler that panics takes the agent down, so its
  result is an outcome.\<close>

definition RegisterHandler :: "string \<Rightarrow> 'h \<Rightarrow> (string \<times> 'h) list \<Rightarrow> (string \<times> 'h) list" where
  "RegisterHandler cmdType handler d = AList.update cmdType handler d"

definition Dispatch :: "(string \<times> (command \<Rightarrow> 's \<Rightarrow> 'r ws_response outcome \<times> 's)) list \<Rightarrow> command \<Rightarrow> 's \<Rightarrow>
    'r ws_response outcome \<times> 's" where
  "Dispatch d cmd s = (case map_of d (cm_Type cmd) of
      None \<Rightarrow> (Ok (errResp cmd (''unknown command type: '' @ cm_Type cmd)), s)
    | Some handler \<Rightarrow> handler cmd s)"

subsection \<open>The world of a handler\<close>

record agent_config =
  ac_MySQL :: conn_config
  ac_BinlogDir :: string
  ac_MySQLBinlogPath :: string
  ac_DataDir :: string

record agent_world =
  aw_connect :: "mysql_server outcome"
  aw_query :: "string \<Rightarrow> string list \<Rightarrow> string query_rows outcome"
  aw_run :: "string \<Rightarrow> string list \<Rightarrow> process"
  aw_parse_time :: "string \<Rightarrow> go_time option"
  aw_local_time :: "go_time \<Rightarrow> string"
  aw_scan_float :: "string \<Rightarrow> 64 word option"
  aw_show_float :: "64 word \<Rightarrow> string"
  aw_quoted :: "string \<Rightarrow> string"
  aw_upper :: "string \<Rightarrow> string"
  aw_quot :: "int \<Rightarrow> int \<Rightarrow> string"

text \<open>An access error of MySQL becomes advice on granting the access.\<close>

definition friendlyConnError :: "agent_world \<Rightarrow> conn_config \<Rightarrow> go_error \<Rightarrow> go_error" where
  "friendlyConnError w cfg err =
     (case as_mysql err of
        Some (n, m) \<Rightarrow> if n = 1045 then
            Errorf (''MySQL access denied (user '' @ aw_quoted w (cc_User cfg) @ '', database '' @ aw_quoted w (cc_Database cfg) @
              ''): '' @ m @ ''. The MySQL account must be allowed from this agent's host. '' @
              ''On the MySQL server run: CREATE USER IF NOT EXISTS ''  @ [CHR 0x27] @ cc_User cfg @ [CHR 0x27] @ ''@'' @
              [CHR 0x27] @ ''%'' @ [CHR 0x27] @ '' IDENTIFIED BY '' @ [CHR 0x27] @ ''<password>'' @ [CHR 0x27] @ ''; '' @
              ''GRANT SELECT, REPLICATION SLAVE, REPLICATION CLIENT ON *.* TO '' @ [CHR 0x27] @ cc_User cfg @ [CHR 0x27] @
              ''@'' @ [CHR 0x27] @ ''%'' @ [CHR 0x27] @ ''; GRANT SELECT ON '' @ backtick (cc_Database cfg) @ ''.* TO '' @
              [CHR 0x27] @ cc_User cfg @ [CHR 0x27] @ ''@'' @ [CHR 0x27] @ ''%'' @ [CHR 0x27] @ ''; FLUSH PRIVILEGES;'')
          else err
      | None \<Rightarrow> err)"

definition resolveDataDir :: "mysql_server outcome \<Rightarrow> string outcome" where
  "resolveDataDir conn =
     bindo (wrapo ''connect'' conn) (\<lambda>srv.
     bindo (wrapo ''query log_bin_basename'' (ms_variable srv ''log_bin_basename'')) (\<lambda>v.
       if v = [] then Err (Errorf (''log_bin_basename is empty '' @ [CHR 0xE2, CHR 0x80, CHR 0x94] @
         '' binary logging may not be enabled''))
       else Ok (dir_of_basename v)))"

definition connect_failed :: "agent_world \<Rightarrow> agent_config \<Rightarrow> command \<Rightarrow> go_error \<Rightarrow> 'r ws_response" where
  "connect_failed w cfg cmd e = errResp cmd (''connect to MySQL: '' @ error_text (friendlyConnError w (ac_MySQL cfg) e))"

subsection \<open>Preflight\<close>

record preflight_reply =
  fr_preflight :: preflight_result
  fr_binlogFiles :: "string list"
  fr_totalSize :: int
  fr_binlogDir :: string

text \<open>A handler that panics takes the agent down; the outcome keeps it.\<close>

definition handlePreflight :: "agent_world \<Rightarrow> agent_config \<Rightarrow> command \<Rightarrow> preflight_reply ws_response outcome" where
  "handlePreflight w cfg cmd =
     (case aw_connect w of
        Err e \<Rightarrow> Ok (connect_failed w cfg cmd e)
      | Panic \<Rightarrow> Panic
      | Ok srv \<Rightarrow>
          (case Preflight (aw_upper w) (aw_quoted w) (aw_quot w) (cc_Database (ac_MySQL cfg)) (Some srv) of
             Err e \<Rightarrow> Ok (errResp cmd (''preflight: '' @ error_text e))
           | Panic \<Rightarrow> Panic
           | Ok pf \<Rightarrow>
               (case GetBinlogFiles (Some srv) of
                  Err e \<Rightarrow> Ok (errResp cmd (''list binlog files: '' @ error_text e))
                | Panic \<Rightarrow> Panic
                | Ok binlogs \<Rightarrow> Ok (okResp cmd
                    \<lparr>fr_preflight = pf, fr_binlogFiles = map bf_Name binlogs,
                     fr_totalSize = foldl (\<lambda>t bf. goint (t + bf_Size bf)) 0 binlogs,
                     fr_binlogDir = (if ac_BinlogDir cfg \<noteq> [] then ac_BinlogDir cfg
                       else case resolveDataDir (aw_connect w) of Ok dir \<Rightarrow> dir | _ \<Rightarrow> [])\<rparr>))))"

subsection \<open>Parsing\<close>

definition buildBinlogParseOpts :: "agent_world \<Rightarrow> (string \<times> json) list \<Rightarrow> agent_config \<Rightarrow> binlog_parse_opts outcome" where
  "buildBinlogParseOpts w params cfg =
     (let tbl = paramString params ''targetTable''; startTime = paramString params ''startTime'';
          endTime = paramString params ''endTime'';
          time = (\<lambda>name s. if s = [] then Ok None else case aw_parse_time w s of
            None \<Rightarrow> Err (Errorf (''invalid '' @ name @ '' '' @ aw_quoted w s @ '': expected RFC3339''))
          | Some t \<Rightarrow> Ok (Some t))
      in if tbl = [] then Err (Errorf (''missing required param '' @ [CHR 0x27] @ ''targetTable'' @ [CHR 0x27]))
         else bindo (time ''startTime'' startTime) (\<lambda>st. bindo (time ''endTime'' endTime) (\<lambda>en.
           Ok \<lparr>bo_TargetTable = tbl, bo_StartTime = st, bo_EndTime = en, bo_StartPos = paramUint32 params ''startPos'',
               bo_StopPos = paramUint32 params ''stopPos'', bo_MySQLBinlogPath = ac_MySQLBinlogPath cfg\<rparr>)))"

record preview_entry =
  ve_sequence :: int
  ve_sqlType :: string
  ve_tableName :: string
  ve_originalSql :: string
  ve_reverseSql :: string
  ve_rowsAffected :: int

record parse_reply =
  yr_operationId :: string
  yr_totalRows :: int
  yr_reverseSql :: "string list"
  yr_preview :: "preview_entry list"
  yr_sqlSample :: string

text \<open>The entry for the event with index \<open>i\<close>: the batch is newest first, so its statement is at the mirrored
  index.\<close>

definition preview_at :: "row_event list \<Rightarrow> string list \<Rightarrow> nat \<Rightarrow> preview_entry" where
  "preview_at events sqls i =
     (let ev = events ! i; revIdx = length sqls - 1 - i in
      \<lparr>ve_sequence = int i + 1, ve_sqlType = re_Type ev, ve_tableName = re_Table ev, ve_originalSql = [],
       ve_reverseSql = (if revIdx < length sqls then sqls ! revIdx else []), ve_rowsAffected = 1\<rparr>)"

text \<open>A list parameter: its non-empty strings.\<close>

definition string_params :: "(string \<times> json) list \<Rightarrow> string \<Rightarrow> string list" where
  "string_params params key = (case map_of params key of
      Some (JList raw) \<Rightarrow> List.map_filter (\<lambda>f. case f of JStr s \<Rightarrow> if s \<noteq> [] then Some s else None | _ \<Rightarrow> None) raw
    | _ \<Rightarrow> [])"

text \<open>The files to parse: those requested, or all the server has; or the reply the handler ends with.\<close>

definition select_files :: "agent_world \<Rightarrow> agent_config \<Rightarrow> command \<Rightarrow> parse_reply ws_response outcome + string list" where
  "select_files w cfg cmd =
     (let requested = string_params (cm_Params cmd) ''binlogFiles'' in
      if length requested > 0 then Inr requested
      else case aw_connect w of
        Err e \<Rightarrow> Inl (Ok (connect_failed w cfg cmd e))
      | Panic \<Rightarrow> Inl Panic
      | Ok srv \<Rightarrow>
          (case GetBinlogFiles (Some srv) of
             Err e \<Rightarrow> Inl (Ok (errResp cmd (''list binlog files: '' @ error_text e)))
           | Panic \<Rightarrow> Inl Panic
           | Ok binlogs \<Rightarrow> if length binlogs = 0 then Inl (Ok (errResp cmd ''no binlog files to parse''))
               else Inr (map bf_Name binlogs)))"

definition reply_to_parse :: "agent_world \<Rightarrow> command \<Rightarrow> parse_result \<Rightarrow> parse_reply ws_response" where
  "reply_to_parse w cmd res =
     (let opID = paramString (cm_Params cmd) ''operationId''; events = pr_Events res in
      if length events = 0 then okResp cmd
        \<lparr>yr_operationId = opID, yr_totalRows = 0, yr_reverseSql = [], yr_preview = [], yr_sqlSample = []\<rparr>
      else case ReverseSQLBatch (aw_show_float w) events [] of
        (_, Some e) \<Rightarrow> errResp cmd (''generate reverse SQL: '' @ error_text e)
      | (sqls, None) \<Rightarrow>
          let maxEntries = (if length sqls > 1000 then 1000 else length sqls) in
          okResp cmd \<lparr>yr_operationId = opID, yr_totalRows = int (length events), yr_reverseSql = sqls,
            yr_preview = map (preview_at events sqls) [0..<maxEntries],
            yr_sqlSample = (if length sqls > 0 then sqls ! 0 else [])\<rparr>)"

definition binlog_dir :: "agent_world \<Rightarrow> agent_config \<Rightarrow> string outcome" where
  "binlog_dir w cfg = (if ac_BinlogDir cfg \<noteq> [] then Ok (ac_BinlogDir cfg) else resolveDataDir (aw_connect w))"

definition handlePITRParse :: "agent_world \<Rightarrow> agent_config \<Rightarrow> command \<Rightarrow> parse_reply ws_response outcome" where
  "handlePITRParse w cfg cmd =
     (case buildBinlogParseOpts w (cm_Params cmd) cfg of
        Err e \<Rightarrow> Ok (errResp cmd (error_text e))
      | Panic \<Rightarrow> Panic
      | Ok opts \<Rightarrow>
          (case select_files w cfg cmd of
             Inl resp \<Rightarrow> resp
           | Inr selected \<Rightarrow>
               (case binlog_dir w cfg of
                  Err e \<Rightarrow> Ok (errResp cmd (''resolve binlog directory: '' @ error_text e))
                | Panic \<Rightarrow> Panic
                | Ok dataDir \<Rightarrow>
                    (case parseBinlogWithMySQLBinlog (aw_quoted w) (aw_scan_float w) (aw_local_time w) (aw_query w)
                            (aw_run w) (binlogPaths dataDir selected) opts of
                       Err e \<Rightarrow> Ok (errResp cmd (''parse binlogs: '' @ error_text e))
                     | Panic \<Rightarrow> Panic
                     | Ok res \<Rightarrow> Ok (reply_to_parse w cmd res)))))"

end
