(* ===== verification/Agent_Execute.thy ===== *)
theory Agent_Execute
  imports Agent_Serve
begin

section \<open>The execute command and the daemon\<close>

text \<open>
  The rest of \<^verbatim>\<open>cmd/agent/serve.go\<close>: \<^verbatim>\<open>handlePITRExecute\<close>, which runs a batch with checkpoints and
  progress notifications, \<^verbatim>\<open>handlePITRCancel\<close>, the status and shutdown commands, and the handlers the
  daemon registers. The database session and the driver are those of the executor.
\<close>

subsection \<open>State\<close>

text \<open>A progress notification, the parameters of a \<^verbatim>\<open>pitr_progress\<close> command.\<close>

record progress_note =
  pn_operationId :: string
  pn_batchesComplete :: int
  pn_batchesTotal :: int
  pn_rowsRestored :: int
  pn_estimatedRemaining :: string

text \<open>The daemon: the session, the disk, the keys of \<^verbatim>\<open>cancels\<close>, whether the root context is cancelled, and the
  notifications sent so far.\<close>

record 'c daemon =
  dm_db :: 'c
  dm_disk :: disk
  dm_cancels :: "string list"
  dm_stopped :: bool
  dm_sent :: "progress_note list"

text \<open>What an execution meets outside: opening the database, the driver, whether the context of the operation is
  done after the calls made in a session, and for each callback the clock and the faults of the disk.\<close>

record 'c exec_world =
  ew_open :: "go_error option"
  ew_driver :: "'c tx_driver"
  ew_done :: "'c \<Rightarrow> bool"
  ew_clock :: "nat \<Rightarrow> go_time"
  ew_faults :: "nat \<Rightarrow> disk_faults"
  ew_digest :: "checkpoint \<Rightarrow> string"
  ew_duration :: "int \<Rightarrow> string"

record exec_reply =
  xr_operationId :: string
  xr_cancelled :: bool
  xr_rowsAffected :: nat
  xr_batchesCompleted :: nat
  xr_batchesTotal :: nat
  xr_errors :: "batch_error list"

subsection \<open>Helpers\<close>

text \<open>Division of Go integers truncates and panics on zero.\<close>

definition go_div :: "int \<Rightarrow> int \<Rightarrow> int outcome" where
  "go_div a b = (if b = 0 then Panic else Ok (goint (a sdiv b)))"

definition estimate_batches :: "nat \<Rightarrow> int \<Rightarrow> int outcome" where
  "estimate_batches n batchSize = go_div (goint (goint (int n + batchSize) - 1)) batchSize"

definition second_ns :: int where "second_ns = 1000000000"

text \<open>\<^verbatim>\<open>Duration.Round(time.Second)\<close>: halves away from zero, saturating.\<close>

definition round_second :: "int \<Rightarrow> int" where
  "round_second d =
     (let r = \<bar>d\<bar> mod second_ns in
      if 2 * r < second_ns then (if d < 0 then d + r else d - r)
      else if d < 0 then max (- (2 ^ 63)) (d - second_ns + r)
      else min (2 ^ 63 - 1) (d + second_ns - r))"

definition batch_size_param :: "(string \<times> json) list \<Rightarrow> int" where
  "batch_size_param params = (case map_of params ''batchSize'' of
      Some (JNum f) \<Rightarrow> if f > 0 then int_of_float f else 100
    | _ \<Rightarrow> 100)"

definition execute_plan :: "agent_world \<Rightarrow> (string \<times> json) list \<Rightarrow> string \<Rightarrow> int \<Rightarrow> checkpoint_plan" where
  "execute_plan w params opID estTotal =
     \<lparr>pl_RecoveryID = opID, pl_TableName = paramString params ''targetTable'',
      pl_RecoveryTime = (let s = paramString params ''recoveryTime'' in
        if s = [] then zero_time else case aw_parse_time w s of Some t \<Rightarrow> t | None \<Rightarrow> zero_time),
      pl_TotalBatches = estTotal, pl_TableOrder = []\<rparr>"

subsection \<open>The callback\<close>

text \<open>\<^verbatim>\<open>OnBatch\<close> for the \<open>k\<close>-th call: the rows so far, the disk and the notifications.\<close>

definition completed_batches :: "batch_result \<Rightarrow> int" where
  "completed_batches b = (if br_Error b = None then int (br_BatchNum b) + 1 else int (br_BatchNum b))"

definition on_batch :: "'c exec_world \<Rightarrow> string \<Rightarrow> string \<Rightarrow> int \<Rightarrow> go_time \<Rightarrow> nat \<Rightarrow> batch_result \<Rightarrow>
    int \<times> disk \<times> progress_note list \<Rightarrow> int \<times> disk \<times> progress_note list" where
  "on_batch e dataDir opID estTotal execStart k b st =
     (case st of (rows, d, sent) \<Rightarrow>
        let rows = goint (rows + int (br_RowsAffected b)); completed = completed_batches b;
            d = snd (UpdateBatch (ew_faults e k) dataDir (ew_clock e k) opID completed d);
            remaining = (if completed > 0 then
                let perBatch = goint (time_since (ew_clock e k) execStart sdiv completed)
                in ew_duration e (round_second (goint (perBatch * goint (estTotal - completed))))
              else ''calculating...'')
        in (rows, d, sent @ [\<lparr>pn_operationId = opID, pn_batchesComplete = completed, pn_batchesTotal = estTotal,
             pn_rowsRestored = rows, pn_estimatedRemaining = remaining\<rparr>]))"

text \<open>The first callback has number 1, the creation of the checkpoint number 0.\<close>

fun on_batches :: "'c exec_world \<Rightarrow> string \<Rightarrow> string \<Rightarrow> int \<Rightarrow> go_time \<Rightarrow> nat \<Rightarrow> batch_result list \<Rightarrow>
    int \<times> disk \<times> progress_note list \<Rightarrow> int \<times> disk \<times> progress_note list" where
  "on_batches e dataDir opID estTotal execStart k [] st = st"
| "on_batches e dataDir opID estTotal execStart k (b # bs) st =
     on_batches e dataDir opID estTotal execStart (k + 1) bs (on_batch e dataDir opID estTotal execStart k b st)"

subsection \<open>The command\<close>

text \<open>From the opened database on: the checkpoint, the batches, the callbacks, and the mark on the checkpoint
  unless the operation was cancelled.\<close>

definition run_execute :: "agent_world \<Rightarrow> 'c exec_world \<Rightarrow> agent_config \<Rightarrow> command \<Rightarrow> string \<Rightarrow> string list \<Rightarrow> int \<Rightarrow>
    'c daemon \<Rightarrow> exec_reply ws_response outcome \<times> 'c daemon" where
  "run_execute w e cfg cmd opID sqls batchSize s =
     (case estimate_batches (length sqls) batchSize of
        Ok estTotal \<Rightarrow>
          let dataDir = ac_DataDir cfg;
              d = snd (CreateCheckpoint (ew_faults e 0) dataDir (ew_clock e 0)
                    (execute_plan w (cm_Params cmd) opID estTotal) (dm_disk s));
              (r, calls, c) = Execute (ew_driver e) (ew_clock e 0) (ew_clock e 0) sqls
                \<lparr>ro_BatchSize = batchSize, ro_MaxBatchBytes = 0, ro_DryRun = False, ro_OnBatch = True\<rparr> (Some (dm_db s));
              (_, d, sent) = on_batches e dataDir opID estTotal (ew_clock e 0) 1 calls (0, d, dm_sent s);
              c = (case c of Some c \<Rightarrow> c | None \<Rightarrow> dm_db s);
              s = s\<lparr>dm_db := c, dm_disk := d, dm_sent := sent\<rparr>
          in (case r of
                Err err \<Rightarrow> if ew_done e c then (Panic, s)
                  else (Ok (errResp cmd (''execute rollback: '' @ error_text err)), s)
              | Panic \<Rightarrow> (Panic, s)
              | Ok res \<Rightarrow>
                  let k = length calls + 1;
                      d = (if ew_done e c then d
                           else snd (Complete (ew_digest e) (ew_faults e k) dataDir (ew_clock e k) opID d))
                  in (Ok (okResp cmd \<lparr>xr_operationId = opID, xr_cancelled = ew_done e c,
                        xr_rowsAffected = rr_RowsAffected res, xr_batchesCompleted = rr_BatchesComplete res,
                        xr_batchesTotal = rr_BatchesTotal res, xr_errors = rr_Errors res\<rparr>), s\<lparr>dm_disk := d\<rparr>))
      | _ \<Rightarrow> (Panic, s))"

text \<open>The whole handler; the deferred function removes the operation from \<^verbatim>\<open>cancels\<close> on every way out.\<close>

definition handlePITRExecute :: "agent_world \<Rightarrow> 'c exec_world \<Rightarrow> agent_config \<Rightarrow> command \<Rightarrow> 'c daemon \<Rightarrow>
    exec_reply ws_response outcome \<times> 'c daemon" where
  "handlePITRExecute w e cfg cmd s =
     (let opID = paramString (cm_Params cmd) ''operationId''; sqls = string_params (cm_Params cmd) ''sql'';
          batchSize = batch_size_param (cm_Params cmd) in
      if opID = [] then (Ok (errResp cmd (''missing required param '' @ [CHR 0x27] @ ''operationId'' @ [CHR 0x27])), s)
      else if length sqls = 0 then (Ok (errResp cmd (''missing required param '' @ [CHR 0x27] @ ''sql'' @ [CHR 0x27])), s)
      else apsnd (\<lambda>s. s\<lparr>dm_cancels := removeAll opID (dm_cancels s)\<rparr>)
        (let s = s\<lparr>dm_cancels := List.insert opID (dm_cancels s)\<rparr> in
         case ew_open e of
           Some err \<Rightarrow> (Ok (errResp cmd (''open MySQL: '' @ error_text err)), s)
         | None \<Rightarrow> run_execute w e cfg cmd opID sqls batchSize s))"

subsection \<open>The other commands\<close>

record cancel_reply =
  kr_operationId :: string
  kr_cancelled :: bool

text \<open>\<^verbatim>\<open>handlePITRCancel\<close>: the cancel function it calls ends the context of the operation; its effect on the
  calls that follow is \<open>ew_done\<close>. It is passed on as \<open>cancel\<close>, on the session.\<close>

definition handlePITRCancel :: "('c \<Rightarrow> 'c) \<Rightarrow> command \<Rightarrow> 'c daemon \<Rightarrow> cancel_reply ws_response outcome \<times> 'c daemon" where
  "handlePITRCancel cancel cmd s =
     (let opID = paramString (cm_Params cmd) ''operationId''; ok = opID \<in> set (dm_cancels s);
          s = (if ok then s\<lparr>dm_db := cancel (dm_db s)\<rparr> else s)
      in (Ok (okResp cmd \<lparr>kr_operationId = opID, kr_cancelled = ok\<rparr>), s))"

datatype mysql_status = Connected string int string | Unreachable string

record status_reply =
  sr_agentId :: string
  sr_uptime :: string
  sr_startedAt :: string
  sr_mysql :: mysql_status

definition checkMySQL :: "agent_world \<Rightarrow> agent_config \<Rightarrow> mysql_status" where
  "checkMySQL w cfg =
     (case aw_connect w of
        Err e \<Rightarrow> Unreachable (error_text (friendlyConnError w (ac_MySQL cfg) e))
      | Panic \<Rightarrow> Unreachable []
      | Ok _ \<Rightarrow> Connected (cc_Host (ac_MySQL cfg)) (cc_Port (ac_MySQL cfg)) (cc_Database (ac_MySQL cfg)))"

definition handleStatus :: "duration_lib \<Rightarrow> agent_world \<Rightarrow> agent_config \<Rightarrow> string \<Rightarrow> go_time \<Rightarrow> go_time \<Rightarrow> command \<Rightarrow> 's \<Rightarrow>
    status_reply ws_response outcome \<times> 's" where
  "handleStatus lib w cfg agentID started now cmd s =
     (Ok (okResp cmd \<lparr>sr_agentId = agentID, sr_uptime = dl_duration lib (round_second (time_since now started)),
        sr_startedAt = dl_rfc3339 lib started, sr_mysql = checkMySQL w cfg\<rparr>), s)"

definition handleShutdown :: "command \<Rightarrow> 'c daemon \<Rightarrow> string ws_response outcome \<times> 'c daemon" where
  "handleShutdown cmd s = (Ok (okResp cmd ''shutting down''), s\<lparr>dm_stopped := True\<rparr>)"

subsection \<open>The daemon's dispatcher\<close>

datatype agent_result = RStatus status_reply | RShutdown string | RPreflight preflight_reply | RParse parse_reply
  | RExecute exec_reply | RCancel cancel_reply

definition map_resp :: "('a \<Rightarrow> 'b) \<Rightarrow> 'a ws_response outcome \<Rightarrow> 'b ws_response outcome" where
  "map_resp f r = bindo r (\<lambda>r. Ok \<lparr>rs_Cmd = rs_Cmd r, rs_Status = rs_Status r,
     rs_Result = map_option f (rs_Result r), rs_Error = rs_Error r\<rparr>)"

text \<open>The handlers of \<^verbatim>\<open>NewServeCommand\<close>, each with the worlds it meets at this command.\<close>

record 'c daemon_world =
  dw_agentID :: string
  dw_started :: go_time
  dw_now :: go_time
  dw_durations :: duration_lib
  dw_world :: agent_world
  dw_exec :: "'c exec_world"
  dw_cancel :: "'c \<Rightarrow> 'c"

definition daemon_handlers :: "'c daemon_world \<Rightarrow> agent_config \<Rightarrow>
    (string \<times> (command \<Rightarrow> 'c daemon \<Rightarrow> agent_result ws_response outcome \<times> 'c daemon)) list" where
  "daemon_handlers dw cfg =
     RegisterHandler ''pitr_cancel'' (\<lambda>cmd s. apfst (map_resp RCancel) (handlePITRCancel (dw_cancel dw) cmd s))
     (RegisterHandler ''pitr_execute'' (\<lambda>cmd s. apfst (map_resp RExecute) (handlePITRExecute (dw_world dw) (dw_exec dw) cfg cmd s))
     (RegisterHandler ''pitr_parse'' (\<lambda>cmd s. (map_resp RParse (handlePITRParse (dw_world dw) cfg cmd), s))
     (RegisterHandler ''preflight'' (\<lambda>cmd s. (map_resp RPreflight (handlePreflight (dw_world dw) cfg cmd), s))
     (RegisterHandler ''shutdown'' (\<lambda>cmd s. apfst (map_resp RShutdown) (handleShutdown cmd s))
     (RegisterHandler ''status'' (\<lambda>cmd s. apfst (map_resp RStatus) (handleStatus (dw_durations dw) (dw_world dw) cfg
        (dw_agentID dw) (dw_started dw) (dw_now dw) cmd s)) [])))))"

end
