(* ===== verification/Agent_Correct.thy ===== *)
theory Agent_Correct
  imports Agent_Execute Binlog_Text_Correct
begin

section \<open>The agent's commands undo what was done\<close>

text \<open>
  The parse and execute commands of the agent together: the statements of a parse reply, executed,
  lead the database back; the preview shows them event by event; and what happens to the checkpoint and to the
  agent when an execution goes wrong.
\<close>

subsection \<open>Parse replies\<close>

lemma reverse_from_None:
  assumes "reverse_from g pks evs stmts = (sqls, None)"
  shows "list_all (\<lambda>(i, ev). undo ev pks \<noteq> None) evs"
  using assms
proof (induction evs arbitrary: stmts)
  case (Cons ie evs)
  obtain i ev where ie: "ie = (i, ev)" by (cases ie)
  then show ?case using Cons ReverseSQL_no_Panic [of g ev pks]
    by (auto simp: ReverseSQL_Ok_iff split: outcome.splits)
qed simp

lemma ReverseSQLBatch_None:
  assumes "ReverseSQLBatch g events pks = (sqls, None)"
  shows "list_all (\<lambda>ev. undo ev pks \<noteq> None) events"
    and "sqls = map (\<lambda>ev. render g (the (undo ev pks))) (rev events)"
proof -
  have "list_all (\<lambda>(i, ev). undo ev pks \<noteq> None) (rev (zip [0..<length events] events))"
    using assms unfolding ReverseSQLBatch_def by (rule reverse_from_None)
  then have "\<forall>i<length events. undo (events ! i) pks \<noteq> None"
    by (auto simp: list_all_iff set_zip)
  then show all: "list_all (\<lambda>ev. undo ev pks \<noteq> None) events" by (simp add: list_all_length)
  from ReverseSQLBatch_eq [OF all, of g] assms
  show "sqls = map (\<lambda>ev. render g (the (undo ev pks))) (rev events)" by simp
qed

lemma handlePITRParse_ok:
  assumes "handlePITRParse w cfg cmd = Ok reply" "rs_Result reply = Some y"
  obtains opts selected dir res where "buildBinlogParseOpts w (cm_Params cmd) cfg = Ok opts"
    "select_files w cfg cmd = Inr selected" "binlog_dir w cfg = Ok dir"
    "parseBinlogWithMySQLBinlog (aw_quoted w) (aw_scan_float w) (aw_local_time w) (aw_query w) (aw_run w)
       (binlogPaths dir selected) opts = Ok res" "reply = reply_to_parse w cmd res"
  using assms
  by (auto simp: handlePITRParse_def select_files_def errResp_def connect_failed_def Let_def
      split: outcome.splits sum.splits if_splits)

lemma reply_to_parse_ok:
  assumes "rs_Result (reply_to_parse w cmd res) = Some y"
  shows "ReverseSQLBatch (aw_show_float w) (pr_Events res) [] = (yr_reverseSql y, None)"
    and "yr_totalRows y = int (length (pr_Events res))"
    and "yr_preview y = map (preview_at (pr_Events res) (yr_reverseSql y)) [0..<min 1000 (length (pr_Events res))]"
proof -
  obtain sqls err where b: "ReverseSQLBatch (aw_show_float w) (pr_Events res) [] = (sqls, err)" by fastforce
  have len: "length sqls = length (pr_Events res)" if "err = None"
    using ReverseSQLBatch_None(2) b that by fastforce
  have nil: "ReverseSQLBatch g [] [] = ([], None)" for g by (simp add: ReverseSQLBatch_def)
  show "ReverseSQLBatch (aw_show_float w) (pr_Events res) [] = (yr_reverseSql y, None)"
    and "yr_totalRows y = int (length (pr_Events res))"
    and "yr_preview y = map (preview_at (pr_Events res) (yr_reverseSql y)) [0..<min 1000 (length (pr_Events res))]"
    using assms b len nil
    by (auto simp: reply_to_parse_def okResp_def errResp_def Let_def min_def split: option.splits if_splits)
qed

text \<open>The preview shows what will be executed: in the reply to a parse command, entry \<open>i\<close> is numbered \<open>i + 1\<close>, names
  the type and table of event \<open>i\<close>, and carries the statement that reverses exactly this event, the one the batch holds
  at the mirrored position; there is an entry for each of the first thousand events.\<close>

theorem preview_matches_events:
  assumes "handlePITRParse w cfg cmd = Ok reply" "rs_Result reply = Some y"
  shows "\<exists>events. yr_totalRows y = int (length events) \<and> length (yr_reverseSql y) = length events \<and>
    length (yr_preview y) = min 1000 (length events) \<and>
    (\<forall>i < length (yr_preview y).
       ve_sequence (yr_preview y ! i) = int i + 1 \<and> ve_sqlType (yr_preview y ! i) = re_Type (events ! i) \<and>
       ve_tableName (yr_preview y ! i) = re_Table (events ! i) \<and>
       ReverseSQL (aw_show_float w) (events ! i) [] = Ok (ve_reverseSql (yr_preview y ! i)) \<and>
       ve_reverseSql (yr_preview y ! i) = rev (yr_reverseSql y) ! i)"
proof -
  obtain res where r: "reply = reply_to_parse w cmd res" using handlePITRParse_ok [OF assms] by metis
  let ?evs = "pr_Events res"
  have y: "rs_Result (reply_to_parse w cmd res) = Some y" using assms(2) r by simp
  note b = reply_to_parse_ok [OF y]
  have len: "length (yr_reverseSql y) = length ?evs" using ReverseSQLBatch_None(2) [OF b(1)] by simp
  have "ReverseSQL (aw_show_float w) (?evs ! i) [] = Ok (rev (yr_reverseSql y) ! i)" if "i < length ?evs" for i
    using ReverseSQLBatch_None [OF b(1)] that by (auto simp: ReverseSQL_Ok_iff list_all_length rev_map rev_nth)
  moreover have "ve_reverseSql (yr_preview y ! i) = rev (yr_reverseSql y) ! i" if "i < length (yr_preview y)" for i
  proof -
    have "i < length ?evs" using that by (simp add: b(3))
    then have "length ?evs - Suc i < length ?evs" by arith
    then show ?thesis using that len unfolding b(3) by (simp add: preview_at_def Let_def rev_nth)
  qed
  ultimately show ?thesis using b(2) len
    by (intro exI [of _ ?evs]) (auto simp: b(3) preview_at_def Let_def)
qed

subsection \<open>Executions\<close>

lemma handlePITRExecute_ok:
  assumes "handlePITRExecute w e cfg cmd s = (Ok reply, s')" "rs_Result reply = Some x"
  obtains res calls c d sent estTotal where
    "Execute (ew_driver e) (ew_clock e 0) (ew_clock e 0) (string_params (cm_Params cmd) ''sql'')
       \<lparr>ro_BatchSize = batch_size_param (cm_Params cmd), ro_MaxBatchBytes = 0, ro_DryRun = False, ro_OnBatch = True\<rparr>
       (Some (dm_db s)) = (Ok res, calls, Some c)"
    "estimate_batches (length (string_params (cm_Params cmd) ''sql'')) (batch_size_param (cm_Params cmd)) = Ok estTotal"
    "x = \<lparr>xr_operationId = paramString (cm_Params cmd) ''operationId'', xr_cancelled = ew_done e c,
       xr_rowsAffected = rr_RowsAffected res, xr_batchesCompleted = rr_BatchesComplete res,
       xr_batchesTotal = rr_BatchesTotal res, xr_errors = rr_Errors res\<rparr>"
    "dm_db s' = c" "reply = okResp cmd x"
proof -
  let ?opID = "paramString (cm_Params cmd) ''operationId''" and ?sqls = "string_params (cm_Params cmd) ''sql''"
  let ?n = "batch_size_param (cm_Params cmd)"
  let ?s = "s\<lparr>dm_cancels := List.insert ?opID (dm_cancels s)\<rparr>"
  obtain s1 where run: "run_execute w e cfg cmd ?opID ?sqls ?n ?s = (Ok reply, s1)" "dm_db s' = dm_db s1"
    using assms by (auto simp: handlePITRExecute_def errResp_def Let_def apsnd_def map_prod_def
        split: if_splits option.splits prod.splits)
  obtain estTotal where est: "estimate_batches (length ?sqls) ?n = Ok estTotal"
    using run(1) by (auto simp: run_execute_def split: outcome.splits)
  obtain r calls db where ex: "Execute (ew_driver e) (ew_clock e 0) (ew_clock e 0) ?sqls
       \<lparr>ro_BatchSize = ?n, ro_MaxBatchBytes = 0, ro_DryRun = False, ro_OnBatch = True\<rparr> (Some (dm_db s)) = (r, calls, db)"
    by (metis prod_cases3)
  obtain res c where ok: "r = Ok res" "db = Some c"
    using ex by (auto simp: Execute_def Let_def split: if_splits prod.splits)
  show thesis
    using run assms(2) est ex ok that [of res calls c estTotal]
    by (auto simp: run_execute_def Let_def okResp_def split: prod.splits if_splits)
qed

lemma string_params_strings:
  "map_of params key = Some (JList (map JStr ss)) \<Longrightarrow> [] \<notin> set ss \<Longrightarrow> string_params params key = ss"
proof -
  assume "map_of params key = Some (JList (map JStr ss))" "[] \<notin> set ss"
  moreover from this(2) have "List.map_filter (\<lambda>f. case f of JStr s \<Rightarrow> if s \<noteq> [] then Some s else None | _ \<Rightarrow> None) (map JStr ss) = ss"
    by (induction ss) (auto simp: map_filter_simps)
  ultimately show ?thesis by (simp add: string_params_def)
qed

lemma render_not_Nil: "render g st \<noteq> []"
  by (cases st) simp_all

text \<open>The reply to a parse command over a history, and a committed execution.\<close>

lemma parse_reply_of_history:
  assumes "buildBinlogParseOpts w (cm_Params pc) cfg = Ok opts" "select_files w cfg pc = Inr selected"
    and "binlog_dir w cfg = Ok dir" "SplitN2 (bo_TargetTable opts) ''.'' = [db, tbl]"
    and "cs = fst (queryColumnNames (aw_query w) db tbl)"
    and "prints (aw_run w) (aw_local_time w) opts (binlogPaths dir selected) (unlines (pre @ render_stream db tbl s)) None"
    and "list_all line_ok (pre @ render_stream db tbl s)" "list_all (\<lambda>l. \<not> is_header db tbl l) pre"
    and "list_all (\<lambda>(ch, noise). change_ok ch \<and> noise_ok db tbl noise) s"
    and "events = map (change_event db tbl cs \<circ> fst) s" "table_history tbl cs (map fst s) D E"
    and "handlePITRParse w cfg pc = Ok reply" "rs_Result reply = Some y"
  shows "\<exists>sts. yr_reverseSql y = map (render (aw_show_float w)) sts \<and>
    ReverseSQLBatch (aw_show_float w) events [] = (yr_reverseSql y, None) \<and>
    (\<exists>D'. exec_all sts E D') \<and> {D'. exec_all sts E D'} \<subseteq> {D}"
proof -
  let ?g = "aw_show_float w"
  note h = history_parsed [OF assms(4-11), of "aw_quoted w" "aw_scan_float w" ?g]
  have reply: "reply = reply_to_parse w pc \<lparr>pr_Events = events, pr_TotalRows = int (length events), pr_Errors = []\<rparr>"
    using assms(1-3,12) h by (simp add: handlePITRParse_def)
  obtain sts where sts: "ReverseSQLBatch ?g events [] = (map (render ?g) sts, None)"
    "\<exists>D'. exec_all sts E D'" "{D'. exec_all sts E D'} \<subseteq> {D}" using h by blast
  have "yr_reverseSql y = map (render ?g) sts"
    using reply_to_parse_ok(1) [of w pc "\<lparr>pr_Events = events, pr_TotalRows = int (length events), pr_Errors = []\<rparr>" y]
      assms(13) reply sts(1) by simp
  with sts show ?thesis by auto
qed

lemma execution_commits_all:
  assumes "string_params (cm_Params ec) ''sql'' = sqls"
    and "atomic_driver (ew_driver e) comm pend" "no_retryable (ew_driver e)"
    and "handlePITRExecute w' e cfg' ec s0 = (Ok xreply, s1)" "rs_Result xreply = Some x" "xr_errors x = []"
  shows "comm (dm_db s1) = comm (dm_db s0) @ sqls"
proof -
  obtain res calls c where run: "Execute (ew_driver e) (ew_clock e 0) (ew_clock e 0) sqls
       \<lparr>ro_BatchSize = batch_size_param (cm_Params ec), ro_MaxBatchBytes = 0, ro_DryRun = False, ro_OnBatch = True\<rparr>
       (Some (dm_db s0)) = (Ok res, calls, Some c)" and "xr_errors x = rr_Errors res" "dm_db s1 = c"
    using handlePITRExecute_ok [OF assms(4,5)] unfolding assms(1) by (metis exec_reply.select_convs(6))
  with Execute_all_or_prefix [OF assms(2) _ _ run] assms(3,6) show ?thesis by auto
qed

definition sample_world :: "string \<Rightarrow> agent_world" where
  "sample_world text = \<lparr>aw_connect = Err EOF, aw_query = sample_query, aw_run = (\<lambda>_ _. Ran text None),
     aw_parse_time = (\<lambda>_. None), aw_local_time = (\<lambda>_. []), aw_scan_float = (\<lambda>_. None), aw_show_float = (\<lambda>_. []),
     aw_quoted = (\<lambda>s. s), aw_upper = (\<lambda>s. s), aw_quot = (\<lambda>_ _. [])\<rparr>"

definition sample_agent :: agent_config where
  "sample_agent = \<lparr>ac_MySQL = \<lparr>cc_Host = ''h'', cc_Port = 3306, cc_User = ''u'', cc_Password = ''p'', cc_Database = ''d'',
     cc_Params = []\<rparr>, ac_BinlogDir = ''b'', ac_MySQLBinlogPath = [], ac_DataDir = ''d''\<rparr>"

definition parse_cmd :: command where
  "parse_cmd = \<lparr>cm_Cmd = ''1'', cm_Type = ''pitr_parse'',
     cm_Params = [(''targetTable'', JStr ''d.t''), (''binlogFiles'', JList [JStr ''f''])]\<rparr>"

definition execute_cmd :: "string list \<Rightarrow> json \<Rightarrow> command" where
  "execute_cmd sqls n = \<lparr>cm_Cmd = ''2'', cm_Type = ''pitr_execute'',
     cm_Params = [(''operationId'', JStr ''op''), (''sql'', JList (map JStr sqls)), (''batchSize'', n)]\<rparr>"

definition log_exec :: "(string list \<Rightarrow> string \<Rightarrow> go_error option) \<Rightarrow> (string list \<times> string list) exec_world" where
  "log_exec f = \<lparr>ew_open = None, ew_driver = log_driver f, ew_done = (\<lambda>_. False), ew_clock = (\<lambda>_. 0),
     ew_faults = (\<lambda>_. no_faults), ew_digest = (\<lambda>_. ''x''), ew_duration = (\<lambda>_. [])\<rparr>"

definition fresh_daemon :: "(string list \<times> string list) daemon" where
  "fresh_daemon = \<lparr>dm_db = ([], []), dm_disk = [], dm_cancels = [], dm_stopped = False, dm_sent = []\<rparr>"

lemma log_driver_calm: "no_retryable (log_driver (\<lambda>_ _. None))"
proof -
  have "exec_stmts (log_driver (\<lambda>_ _. None)) batch c = (None, (fst c, snd c @ batch))" for batch c
    by (induction batch arbitrary: c) (simp_all add: log_driver_def)
  then have "fst (executeBatch (log_driver (\<lambda>_ _. None)) batch c) = None" for batch c
    by (simp add: executeBatch_def) (simp add: log_driver_def)
  then show ?thesis by (auto simp: no_retryable_def prod_eq_iff)
qed

lemma sample_env:
  "buildBinlogParseOpts (sample_world text) (cm_Params parse_cmd) sample_agent = Ok sample_opts"
  "select_files (sample_world text) sample_agent parse_cmd = Inr [''f'']"
  "binlog_dir (sample_world text) sample_agent = Ok ''b''"
  "SplitN2 (bo_TargetTable sample_opts) ''.'' = [''d'', ''t'']"
  "[''id''] = fst (queryColumnNames (aw_query (sample_world text)) ''d'' ''t'')"
  "prints (aw_run (sample_world text)) (aw_local_time (sample_world text)) sample_opts (binlogPaths ''b'' [''f'']) text None"
proof -
  show "buildBinlogParseOpts (sample_world text) (cm_Params parse_cmd) sample_agent = Ok sample_opts" by code_simp
  show "select_files (sample_world text) sample_agent parse_cmd = Inr [''f'']" by code_simp
  show "binlog_dir (sample_world text) sample_agent = Ok ''b''" by code_simp
  show "SplitN2 (bo_TargetTable sample_opts) ''.'' = [''d'', ''t'']" by code_simp
  show "[''id''] = fst (queryColumnNames (aw_query (sample_world text)) ''d'' ''t'')" by code_simp
  show "prints (aw_run (sample_world text)) (aw_local_time (sample_world text)) sample_opts (binlogPaths ''b'' [''f'']) text None"
    by (simp add: prints_def sample_world_def)
qed

text \<open>The reply to the sample parse command, for a run that prints the sample text.\<close>

definition sample_parsed :: parse_result where
  "sample_parsed = \<lparr>pr_Events = [makeRowEvent InsertEvent ''d'' ''t'' [VInt 1] [''id'']], pr_TotalRows = 1, pr_Errors = []\<rparr>"

definition sample_reply :: parse_reply where
  "sample_reply = the (rs_Result (reply_to_parse (sample_world sample_text) parse_cmd sample_parsed))"

lemma sample_parse:
  "handlePITRParse (sample_world sample_text) sample_agent parse_cmd =
   Ok (reply_to_parse (sample_world sample_text) parse_cmd sample_parsed)"
proof -
  let ?w = "sample_world sample_text"
  have "parseBinlogWithMySQLBinlog (aw_quoted ?w) (aw_scan_float ?w) (aw_local_time ?w) (aw_query ?w) (aw_run ?w)
      (binlogPaths ''b'' [''f'']) sample_opts = Ok sample_parsed"
    using history_parsed [OF sample_env(4) sample_env(5) [of sample_text] sample_env(6) [unfolded sample_text_def]
      sample_lines sample_pre sample_stream sample_events sample_history, THEN conjunct1, folded sample_text_def]
    by (simp add: sample_parsed_def)
  with sample_env(1-3) show ?thesis by (simp add: handlePITRParse_def)
qed

lemma sample_result: "rs_Result (reply_to_parse (sample_world sample_text) parse_cmd sample_parsed) = Some sample_reply"
  and sample_statements: "yr_reverseSql sample_reply = [''DELETE FROM `t` WHERE `id` = 1 LIMIT 1;'']"
  by code_simp+

subsection \<open>Checkpoints of an execution\<close>

text \<open>The number of batches completed after the last of some callbacks.\<close>

definition progress_of :: "batch_result list \<Rightarrow> int" where
  "progress_of calls = (if calls = [] then 0 else completed_batches (last calls))"

lemma run_batches_progress:
  assumes "run_batches drv True i batches res calls c = (res', calls', c')"
    and "rr_BatchesComplete res = i" "progress_of calls = int i"
  shows "progress_of calls' = int (rr_BatchesComplete res')"
  using assms
proof (induction batches arbitrary: i res calls c)
  case (Cons b batches)
  obtain r c1 where r: "executeWithRetry drv b c = (r, c1)" by fastforce
  show ?case
  proof (cases r)
    case (Ok n)
    show ?thesis
      by (rule Cons.IH [OF Cons.prems(1) [simplified, unfolded r Ok, simplified]])
        (use Cons.prems in \<open>simp_all add: progress_of_def completed_batches_def\<close>)
  qed (use Cons.prems r in \<open>auto simp: progress_of_def completed_batches_def\<close>)
qed simp

lemma Execute_progress:
  assumes "Execute drv started completed sqls opts (Some c) = (Ok res, calls, db)" "ro_OnBatch opts"
  shows "progress_of calls = int (rr_BatchesComplete res)"
proof -
  have none: "progress_of [] = 0" by (simp add: progress_of_def)
  show ?thesis
    using assms by (auto simp: Execute_def Let_def none split: if_splits prod.splits dest!: run_batches_progress)
qed

text \<open>Without faults a write succeeds, so a checkpoint that exists can be updated and completed.\<close>

lemma atomicWrite_no_faults:
  "fst (atomicWrite no_faults dataDir cp d) = Ok ()"
  "cp_RecoveryID cp = i \<Longrightarrow> readCheckpoint dataDir i (snd (atomicWrite no_faults dataDir cp d)) = Ok cp"
proof -
  show ok: "fst (atomicWrite no_faults dataDir cp d) = Ok ()"
    by (simp add: atomicWrite_def no_faults_def Let_def)
  show "readCheckpoint dataDir i (snd (atomicWrite no_faults dataDir cp d)) = Ok cp" if "cp_RecoveryID cp = i"
    using atomicWrite_read [where f = no_faults and dataDir = dataDir and cp = cp and d = d and j = i, OF prod.collapse [symmetric]] ok that by simp
qed

lemma CreateCheckpoint_no_faults:
  assumes "pl_RecoveryID plan = i"
  shows "\<exists>cp. readCheckpoint dataDir i (snd (CreateCheckpoint no_faults dataDir now plan d)) = Ok cp \<and>
    cp_RecoveryID cp = i \<and> cp_CompletedBatches cp = 0"
proof -
  have "df_mkdir no_faults = None" by (simp add: no_faults_def)
  with assms show ?thesis by (simp add: CreateCheckpoint_def Let_def atomicWrite_no_faults)
qed

lemma UpdateBatch_no_faults:
  assumes "readCheckpoint dataDir i d = Ok cp" "cp_RecoveryID cp = i"
  shows "readCheckpoint dataDir i (snd (UpdateBatch no_faults dataDir now i n d)) =
    Ok (cp\<lparr>cp_CompletedBatches := n, cp_LastCommitAt := now\<rparr>)"
  using assms by (simp add: UpdateBatch_def atomicWrite_no_faults)

lemma Complete_no_faults:
  assumes "readCheckpoint dataDir i d = Ok cp" "cp_RecoveryID cp = i"
  shows "\<exists>cp'. readCheckpoint dataDir i (snd (Complete digest no_faults dataDir now i d)) = Ok cp' \<and>
    cp_Status cp' = ''complete'' \<and> cp_CompletedBatches cp' = cp_CompletedBatches cp"
  using assms by (simp add: Complete_def Let_def atomicWrite_no_faults)

lemma on_batches_no_faults:
  assumes "\<forall>k. ew_faults e k = no_faults" "on_batches e dataDir opID n st0 k calls (rows, d, sent) = (rows', d', sent')"
    and "readCheckpoint dataDir opID d = Ok cp" "cp_RecoveryID cp = opID" "cp_CompletedBatches cp = m"
  shows "\<exists>cp'. readCheckpoint dataDir opID d' = Ok cp' \<and> cp_RecoveryID cp' = opID \<and>
    cp_CompletedBatches cp' = (if calls = [] then m else progress_of calls)"
  using assms(2-5)
proof (induction calls arbitrary: k rows d sent cp m)
  case (Cons b calls)
  let ?now = "ew_clock e k"
  from UpdateBatch_no_faults [OF Cons.prems(2,3), of ?now "completed_batches b"] assms(1)
  have read: "readCheckpoint dataDir opID (snd (UpdateBatch (ew_faults e k) dataDir ?now opID (completed_batches b) d)) =
    Ok (cp\<lparr>cp_CompletedBatches := completed_batches b, cp_LastCommitAt := ?now\<rparr>)" by simp
  obtain rows1 sent1 where step: "on_batch e dataDir opID n st0 k b (rows, d, sent) =
      (rows1, snd (UpdateBatch (ew_faults e k) dataDir ?now opID (completed_batches b) d), sent1)"
    by (simp add: on_batch_def Let_def)
  from Cons.IH [OF Cons.prems(1) [simplified, unfolded step] read] Cons.prems(3)
  show ?case by (auto simp: progress_of_def)
qed auto

text \<open>What a checkpoint says of a finished execution: when the file system does not fail and the operation was not
  cancelled, after the reply to an execute command the checkpoint of the operation has status complete, and the number
  of batches the reply counts, whether or not the reply reports errors.\<close>

theorem checkpoint_complete_after_execute:
  assumes "handlePITRExecute w e cfg cmd s = (Ok reply, s')" "rs_Result reply = Some x" "\<not> xr_cancelled x"
    and "\<forall>k. ew_faults e k = no_faults"
  shows "\<exists>cp. readCheckpoint (ac_DataDir cfg) (xr_operationId x) (dm_disk s') = Ok cp \<and> cp_Status cp = ''complete'' \<and>
    cp_CompletedBatches cp = int (xr_batchesCompleted x)"
proof -
  let ?opID = "paramString (cm_Params cmd) ''operationId''" and ?dir = "ac_DataDir cfg"
  let ?sqls = "string_params (cm_Params cmd) ''sql''"
  obtain res calls c d sent n where
    ex: "Execute (ew_driver e) (ew_clock e 0) (ew_clock e 0) ?sqls
       \<lparr>ro_BatchSize = batch_size_param (cm_Params cmd), ro_MaxBatchBytes = 0, ro_DryRun = False, ro_OnBatch = True\<rparr>
       (Some (dm_db s)) = (Ok res, calls, Some c)"
    and n: "estimate_batches (length ?sqls) (batch_size_param (cm_Params cmd)) = Ok n"
    and x: "x = \<lparr>xr_operationId = ?opID, xr_cancelled = ew_done e c,
       xr_rowsAffected = rr_RowsAffected res, xr_batchesCompleted = rr_BatchesComplete res,
       xr_batchesTotal = rr_BatchesTotal res, xr_errors = rr_Errors res\<rparr>"
    by (rule handlePITRExecute_ok [OF assms(1,2)])
  let ?plan = "execute_plan w (cm_Params cmd) ?opID n"
  let ?d = "snd (CreateCheckpoint no_faults ?dir (ew_clock e 0) ?plan (dm_disk s))"
  obtain cp where cp: "readCheckpoint ?dir ?opID ?d = Ok cp" "cp_RecoveryID cp = ?opID" "cp_CompletedBatches cp = 0"
    using CreateCheckpoint_no_faults [of ?plan ?opID ?dir "ew_clock e 0" "dm_disk s"] by (auto simp: execute_plan_def)
  obtain rows d' sent' where run: "on_batches e ?dir ?opID n (ew_clock e 0) 1 calls (0, ?d, dm_sent s) = (rows, d', sent')"
    by (metis prod_cases3)
  from on_batches_no_faults [OF assms(4) run cp] obtain cp' where cp': "readCheckpoint ?dir ?opID d' = Ok cp'"
    "cp_RecoveryID cp' = ?opID" "cp_CompletedBatches cp' = progress_of calls"
    by (auto simp: progress_of_def)
  have "dm_disk s' = snd (Complete (ew_digest e) no_faults ?dir (ew_clock e (length calls + 1)) ?opID d')"
    using assms ex n run x
    by (auto simp: handlePITRExecute_def run_execute_def errResp_def Let_def split: if_splits option.splits)
  with Complete_no_faults [OF cp'(1,2)] cp'(3) Execute_progress [OF ex] show ?thesis by (auto simp: x)
qed

lemma checkpoint_complete_after_execute_witness:
  "\<exists>cp. readCheckpoint ''d'' ''op'' (dm_disk (snd (handlePITRExecute (sample_world [])
      (log_exec (\<lambda>_ s. if s = ''B'' then Some EOF else None)) sample_agent (execute_cmd [''A'', ''B''] (JNum 1)) fresh_daemon))) = Ok cp \<and>
    cp_Status cp = ''complete'' \<and> cp_CompletedBatches cp = 1"
proof -
  let ?e = "log_exec (\<lambda>_ s. if s = ''B'' then Some EOF else None)"
  let ?run = "handlePITRExecute (sample_world []) ?e sample_agent (execute_cmd [''A'', ''B''] (JNum 1)) fresh_daemon"
  have "(case fst ?run of Ok r \<Rightarrow> map_option (\<lambda>x. (xr_operationId x, xr_cancelled x, xr_batchesCompleted x,
      length (xr_errors x))) (rs_Result r) | _ \<Rightarrow> None) = Some (''op'', False, 1, 1)"
    by code_simp
  then obtain r x where run: "?run = (Ok r, snd ?run)" "rs_Result r = Some x" "\<not> xr_cancelled x"
    and x: "xr_operationId x = ''op''" "xr_batchesCompleted x = 1"
    by (cases "fst ?run") (auto simp: prod_eq_iff)
  have "\<forall>k. ew_faults ?e k = no_faults" by (simp add: log_exec_def)
  moreover have "ac_DataDir sample_agent = ''d''" by (simp add: sample_agent_def)
  ultimately show ?thesis using checkpoint_complete_after_execute [OF run] x by simp
qed

text \<open>A fraction crashes the agent: an execute command with statements and a batch size between 0 and 1, which a JSON number can
  be, passes the check for a positive size, is truncated to 0, and the estimate of the number of batches divides by it.\<close>

theorem fractional_batch_size_panics:
  assumes "map_of (cm_Params cmd) ''batchSize'' = Some (JNum f)" "0 < f" "f < 1"
    and "paramString (cm_Params cmd) ''operationId'' \<noteq> []" "string_params (cm_Params cmd) ''sql'' \<noteq> []"
    and "ew_open e = None"
  shows "fst (handlePITRExecute w e cfg cmd s) = Panic"
proof -
  have "\<lfloor>f\<rfloor> = 0" using assms(2,3) by (simp add: floor_eq_iff)
  then have "batch_size_param (cm_Params cmd) = 0"
    using assms(1,2) by (simp add: batch_size_param_def int_of_float_def)
  then show ?thesis using assms(4-6) by (simp add: handlePITRExecute_def run_execute_def estimate_batches_def go_div_def Let_def)
qed

lemma fractional_batch_size_panics_witness:
  "fst (handlePITRExecute (sample_world []) (log_exec (\<lambda>_ _. None)) sample_agent (execute_cmd [''A''] (JNum (1 / 2))) fresh_daemon) = Panic"
proof (rule fractional_batch_size_panics [where f = "1 / 2"])
  show "paramString (cm_Params (execute_cmd [''A''] (JNum (1 / 2)))) ''operationId'' \<noteq> []"
    and "string_params (cm_Params (execute_cmd [''A''] (JNum (1 / 2)))) ''sql'' \<noteq> []"
    by code_simp+
qed (simp_all add: execute_cmd_def log_exec_def)

lemma preview_matches_events_witness:
  "length (yr_preview sample_reply) = 1 \<and> ve_reverseSql (yr_preview sample_reply ! 0) = ''DELETE FROM `t` WHERE `id` = 1 LIMIT 1;''"
proof -
  obtain events :: "row_event list" where e: "length (yr_reverseSql sample_reply) = length events"
    "length (yr_preview sample_reply) = min 1000 (length events)"
    "\<forall>i < length (yr_preview sample_reply). ve_reverseSql (yr_preview sample_reply ! i) = rev (yr_reverseSql sample_reply) ! i"
    using preview_matches_events [OF sample_parse sample_result] by blast
  have "length events = 1" using e(1) by (simp add: sample_statements)
  with e(2,3) show ?thesis by (simp add: sample_statements)
qed

end
