(* ===== verification/Agent_Config.thy ===== *)
theory Agent_Config
  imports Hex Mysql_Connector
begin

section \<open>The agent's configuration\<close>

text \<open>
  The model of \<^verbatim>\<open>internal/config\<close> and of the checks of the commands that load a configuration. Key
  derivation, AES-GCM, JSON and the parser of data source names are outside the repository and are
  parameters; so are the random numbers and the files.
\<close>

subsection \<open>Data\<close>

record mysql_config =
  mc_Host :: string
  mc_Port :: int
  mc_User :: string
  mc_Password :: string
  mc_Database :: string
  mc_Params :: "(string \<times> string) list"

record server_config =
  sv_URL :: string
  sv_CertFile :: string
  sv_KeyFile :: string
  sv_CAFile :: string

record config =
  cf_MySQL :: mysql_config
  cf_Server :: server_config
  cf_DataDir :: string
  cf_BinlogDir :: string
  cf_MySQLBinlogPath :: string

definition BuildConnConfig :: "mysql_config \<Rightarrow> conn_config" where
  "BuildConnConfig m =
     \<lparr>cc_Host = (if mc_Host m = [] then ''127.0.0.1'' else mc_Host m), cc_Port = (if mc_Port m = 0 then 3306 else mc_Port m),
      cc_User = mc_User m, cc_Password = mc_Password m, cc_Database = mc_Database m, cc_Params = mc_Params m\<rparr>"

definition Validate :: "config \<Rightarrow> unit outcome" where
  "Validate c =
     (let m = cf_MySQL c;
          errs = (if mc_User m = [] then [''mysql.user is required''] else []) @
            (if mc_Password m = [] then [''mysql.password is required''] else []) @
            (if mc_Database m = [] then [''mysql.database is required''] else [])
      in if length errs > 0 then Err (Errorf (''config validation failed: '' @ join ''; '' errs)) else Ok ())"

subsection \<open>Encryption\<close>

text \<open>The cryptography the package uses: a source of random bytes, PBKDF2 and AES-GCM. \<^verbatim>\<open>aes.NewCipher\<close> fails for a
  key that does not have 16, 24 or 32 bytes.\<close>

record crypto_lib =
  cl_random :: "nat \<Rightarrow> bytes outcome"
  cl_pbkdf2 :: "bytes \<Rightarrow> bytes \<Rightarrow> nat \<Rightarrow> nat \<Rightarrow> bytes"
  cl_seal :: "bytes \<Rightarrow> bytes \<Rightarrow> bytes \<Rightarrow> bytes"
  cl_open :: "bytes \<Rightarrow> bytes \<Rightarrow> bytes \<Rightarrow> bytes outcome"

definition SaltLen :: nat where "SaltLen = 16"
definition NonceLen :: nat where "NonceLen = 12"
definition KeyLen :: nat where "KeyLen = 32"
definition PBKDF2Iterations :: nat where "PBKDF2Iterations = 100000"

definition deriveKey :: "crypto_lib \<Rightarrow> string \<Rightarrow> bytes \<Rightarrow> bytes" where
  "deriveKey lib passphrase salt = cl_pbkdf2 lib (bytes_of_string passphrase) salt PBKDF2Iterations KeyLen"

definition new_cipher :: "bytes \<Rightarrow> unit outcome" where
  "new_cipher key = (if length key \<in> {16, 24, 32} then Ok ()
     else Err (Errorf (''crypto/aes: invalid key size '' @ show_nat (length key))))"

definition Encrypt :: "crypto_lib \<Rightarrow> bytes \<Rightarrow> string \<Rightarrow> bytes outcome" where
  "Encrypt lib plaintext passphrase =
     bindo (wrapo ''config: generate salt'' (cl_random lib SaltLen)) (\<lambda>salt.
     let key = deriveKey lib passphrase salt in
     bindo (wrapo ''config: new cipher'' (new_cipher key)) (\<lambda>_.
     bindo (wrapo ''config: generate nonce'' (cl_random lib NonceLen)) (\<lambda>nonce.
     let ciphertext = cl_seal lib key nonce plaintext
     in Ok (hex_encode (salt @ nonce @ ciphertext)))))"

definition Decrypt :: "crypto_lib \<Rightarrow> bytes \<Rightarrow> string \<Rightarrow> bytes outcome" where
  "Decrypt lib ciphertext passphrase =
     bindo (wrapo ''config: hex decode'' (hex_decode ciphertext)) (\<lambda>raw.
     if length raw < SaltLen + NonceLen
     then Err (Errorf (''config: ciphertext too short: '' @ show_nat (length raw) @ '' bytes''))
     else let salt = take SaltLen raw; nonce = take NonceLen (drop SaltLen raw); encData = drop (SaltLen + NonceLen) raw;
              key = deriveKey lib passphrase salt
       in bindo (wrapo ''config: new cipher'' (new_cipher key)) (\<lambda>_.
          wrapo ''config: decrypt'' (cl_open lib key nonce encData)))"

subsection \<open>Files\<close>

record json_lib =
  jl_marshal :: "config \<Rightarrow> bytes outcome"
  jl_unmarshal :: "bytes \<Rightarrow> config outcome"

type_synonym byte_files = "(string \<times> bytes) list"

definition LoadConfig :: "crypto_lib \<Rightarrow> json_lib \<Rightarrow> string \<Rightarrow> string \<Rightarrow> byte_files \<Rightarrow> config outcome" where
  "LoadConfig lib js path passphrase files =
     (case map_of files path of
        None \<Rightarrow> Err (Wrapf (''config: read file '' @ path) (Errorf (''open '' @ path @ '': no such file or directory'')))
      | Some raw \<Rightarrow>
          bindo (wrapo (''config: decrypt '' @ path) (Decrypt lib raw passphrase)) (\<lambda>plaintext.
          bindo (wrapo (''config: unmarshal '' @ path) (jl_unmarshal js plaintext)) (\<lambda>cfg.
          bindo (Validate cfg) (\<lambda>_. Ok cfg))))"

text \<open>\<open>fault\<close> is the error of writing the file.\<close>

definition SaveConfig :: "crypto_lib \<Rightarrow> json_lib \<Rightarrow> go_error option \<Rightarrow> string \<Rightarrow> string \<Rightarrow> config \<Rightarrow> byte_files \<Rightarrow>
    unit outcome \<times> byte_files" where
  "SaveConfig lib js fault path passphrase cfg files =
     (case wrapo ''config: marshal'' (jl_marshal js cfg) of
        Ok data \<Rightarrow>
          (case wrapo ''config: encrypt'' (Encrypt lib data passphrase) of
             Ok encrypted \<Rightarrow>
               (case fault of
                  Some e \<Rightarrow> (Err (Wrapf (''config: write '' @ path) e), files)
                | None \<Rightarrow> (Ok (), AList.update path encrypted files))
           | Err e \<Rightarrow> (Err e, files)
           | Panic \<Rightarrow> (Panic, files))
      | Err e \<Rightarrow> (Err e, files)
      | Panic \<Rightarrow> (Panic, files))"

text \<open>The command that encrypts a plain configuration.\<close>

definition config_encrypt :: "crypto_lib \<Rightarrow> json_lib \<Rightarrow> go_error option \<Rightarrow> string \<Rightarrow> string \<Rightarrow> string \<Rightarrow> byte_files \<Rightarrow>
    unit outcome \<times> byte_files" where
  "config_encrypt lib js fault inp outp passphrase files =
     (if inp = [] then (Err (Errorf ''--input is required''), files)
      else if outp = [] then (Err (Errorf ''--output is required''), files)
      else if passphrase = [] then (Err (Errorf ''--passphrase is required''), files)
      else case map_of files inp of
        None \<Rightarrow> (Err (Wrapf ''config encrypt: read input'' (Errorf (''open '' @ inp @ '': no such file or directory''))), files)
      | Some raw \<Rightarrow>
          (case wrapo ''config encrypt: input is not a valid agent config'' (jl_unmarshal js raw) of
             Ok cfg \<Rightarrow> apfst (wrapo ''config encrypt'') (SaveConfig lib js fault outp passphrase cfg files)
           | Err e \<Rightarrow> (Err e, files)
           | Panic \<Rightarrow> (Panic, files)))"

subsection \<open>Data source names\<close>

text \<open>What the driver's parser finds in a data source name.\<close>

record dsn_parts =
  dp_User :: string
  dp_Passwd :: string
  dp_Addr :: string
  dp_DBName :: string
  dp_Params :: "(string \<times> string) list"
  dp_TLSConfig :: string

definition host_port :: "string \<Rightarrow> string \<times> int" where
  "host_port addr =
     (if addr = [] then (''127.0.0.1'', 3306)
      else let parts = SplitN 2 addr (CHR '':'')
        in (parts ! 0, if length parts > 1 then sscanf_or 3306 (parts ! 1) else 3306))"

definition ParseDSNToConnConfig :: "(string \<Rightarrow> dsn_parts outcome) \<Rightarrow> string \<Rightarrow> conn_config outcome" where
  "ParseDSNToConnConfig parse dsn =
     bindo (wrapo ''config: parse DSN'' (parse dsn)) (\<lambda>p.
       let (host, port) = host_port (dp_Addr p)
       in Ok \<lparr>cc_Host = host, cc_Port = port, cc_User = dp_User p, cc_Password = dp_Passwd p, cc_Database = dp_DBName p,
           cc_Params = (if dp_TLSConfig p \<noteq> [] then AList.update ''tls'' (dp_TLSConfig p) (dp_Params p) else dp_Params p)\<rparr>)"

subsection \<open>Start of the daemon\<close>

record serve_options =
  so_ConfigFile :: string
  so_Passphrase :: string
  so_AgentID :: string

text \<open>The common name in a certificate file; \<open>pem\<close> finds the first block and \<open>x509\<close> its common name.\<close>

definition certCNFromFile :: "(bytes \<Rightarrow> bytes option) \<Rightarrow> (bytes \<Rightarrow> string outcome) \<Rightarrow> byte_files \<Rightarrow> string \<Rightarrow> string outcome" where
  "certCNFromFile pem x509 files certFile =
     (case map_of files certFile of
        None \<Rightarrow> Err (Wrapf ''read client certificate'' (Errorf (''open '' @ certFile @ '': no such file or directory'')))
      | Some data \<Rightarrow>
          (case pem data of
             None \<Rightarrow> Err (Errorf (''no PEM block in '' @ certFile))
           | Some block \<Rightarrow>
               bindo (wrapo ''parse client certificate'' (x509 block)) (\<lambda>cn.
                 if cn = [] then Err (Errorf ''client certificate has empty CommonName'') else Ok cn)))"

text \<open>The checks of the serve command: the configuration and the agent's identity, or the error it exits with.\<close>

definition serve_start :: "crypto_lib \<Rightarrow> json_lib \<Rightarrow> (bytes \<Rightarrow> bytes option) \<Rightarrow> (bytes \<Rightarrow> string outcome) \<Rightarrow> byte_files \<Rightarrow>
    serve_options \<Rightarrow> (config \<times> string) outcome" where
  "serve_start lib js pem x509 files opts =
     (if so_ConfigFile opts = [] then Err (Errorf ''--config is required'')
      else if so_Passphrase opts = [] then Err (Errorf ''--passphrase is required'')
      else bindo (wrapo ''serve: load config'' (LoadConfig lib js (so_ConfigFile opts) (so_Passphrase opts) files)) (\<lambda>cfg.
        let sv = cf_Server cfg in
        if sv_URL sv = [] then Err (Errorf ''serve: config field server.url is required'')
        else if sv_CertFile sv = [] \<or> sv_KeyFile sv = [] \<or> sv_CAFile sv = [] then
          Err (Errorf ''serve: config fields server.cert_file, server.key_file, and server.ca_file are required'')
        else if so_AgentID opts = [] then
          (case certCNFromFile pem x509 files (sv_CertFile sv) of
             Ok cn \<Rightarrow> Ok (cfg, cn)
           | Err e \<Rightarrow> Err (Errorf (''serve: derive agent id from client certificate: '' @ error_text e @
               '' (pass --agent-id explicitly)''))
           | Panic \<Rightarrow> Panic)
        else Ok (cfg, so_AgentID opts)))"

subsection \<open>Properties\<close>

text \<open>The documented behaviour of the cryptography: random bytes and keys have the length asked for, and opening what
  was sealed with the same key and nonce gives it back.\<close>

definition crypto_ok :: "crypto_lib \<Rightarrow> bool" where
  "crypto_ok lib \<longleftrightarrow> (\<forall>n bs. cl_random lib n = Ok bs \<longrightarrow> length bs = n) \<and>
     (\<forall>p s i n. length (cl_pbkdf2 lib p s i n) = n) \<and>
     (\<forall>k n p. length k = KeyLen \<longrightarrow> cl_open lib k n (cl_seal lib k n p) = Ok p)"

lemma Decrypt_Encrypt:
  assumes "crypto_ok lib" "Encrypt lib plaintext passphrase = Ok c"
  shows "Decrypt lib c passphrase = Ok plaintext"
proof -
  obtain salt nonce where r: "cl_random lib SaltLen = Ok salt" "cl_random lib NonceLen = Ok nonce"
    and c: "c = hex_encode (salt @ nonce @ cl_seal lib (deriveKey lib passphrase salt) nonce plaintext)"
    using assms(2) by (auto simp: Encrypt_def outcome_simps Let_def)
  have len: "length salt = SaltLen" "length nonce = NonceLen" using assms(1) r by (auto simp: crypto_ok_def)
  have key: "length (deriveKey lib passphrase salt) = KeyLen" using assms(1) by (simp add: crypto_ok_def deriveKey_def)
  then have cipher: "new_cipher (deriveKey lib passphrase salt) = Ok ()" by (simp add: new_cipher_def KeyLen_def)
  show ?thesis using assms(1) len key cipher by (simp add: Decrypt_def c crypto_ok_def Let_def)
qed


definition plain_crypto :: crypto_lib where
  "plain_crypto = \<lparr>cl_random = (\<lambda>n. Ok (replicate n 7)), cl_pbkdf2 = (\<lambda>_ _ _ n. replicate n 1), cl_seal = (\<lambda>_ _ p. p),
     cl_open = (\<lambda>_ _ c. Ok c)\<rparr>"

definition sample_config :: "string \<Rightarrow> config" where
  "sample_config password =
     \<lparr>cf_MySQL = \<lparr>mc_Host = [], mc_Port = 0, mc_User = ''u'', mc_Password = password, mc_Database = ''d'', mc_Params = []\<rparr>,
      cf_Server = \<lparr>sv_URL = [], sv_CertFile = [], sv_KeyFile = [], sv_CAFile = []\<rparr>, cf_DataDir = ''d'', cf_BinlogDir = [],
      cf_MySQLBinlogPath = []\<rparr>"


text \<open>An address in brackets, as IPv6 is written, is cut at its first colon.\<close>

lemma host_port_ipv6: "host_port ''[::1]:3307'' = (''['', 3306)"
  by code_simp

end
