(* ===== verification/Flashback_Run.thy ===== *)
theory Flashback_Run
  imports Agent_Config Agent_Serve
begin

section \<open>The flashback command\<close>

text \<open>
  The model of \<^verbatim>\<open>RunFlashback\<close> and of the command around it (\<^verbatim>\<open>cmd/agent/flashback.go\<close>). The connector it
  works with is an interface, \<^verbatim>\<open>connector.Connector\<close>; \<open>mysql_connector\<close> is the implementation of
  \<^verbatim>\<open>internal/connector/mysql.go\<close> once connected. The files it writes and the lines a dry run prints are part of
  its result.
\<close>

subsection \<open>The interface\<close>

record 'c connector =
  cn_Preflight :: "preflight_result outcome"
  cn_GetBinlogFiles :: "binlog_file list outcome"
  cn_GetBinlogDir :: "string outcome"
  cn_ExecuteRollback :: "string list \<Rightarrow> exec_options \<Rightarrow> 'c \<Rightarrow> exec_result outcome \<times> 'c"

record text_funs =
  tf_upper :: "string \<Rightarrow> string"
  tf_quoted :: "string \<Rightarrow> string"
  tf_quot :: "int \<Rightarrow> int \<Rightarrow> string"

definition mysql_connector :: "text_funs \<Rightarrow> 'c tx_driver \<Rightarrow> string \<Rightarrow> mysql_server \<Rightarrow> 'c connector" where
  "mysql_connector tf drv database srv =
     \<lparr>cn_Preflight = Preflight (tf_upper tf) (tf_quoted tf) (tf_quot tf) database (Some srv),
      cn_GetBinlogFiles = GetBinlogFiles (Some srv), cn_GetBinlogDir = GetBinlogDir (Some srv),
      cn_ExecuteRollback = (\<lambda>sqls opts c.
        case ExecuteRollback (tf_quoted tf) drv sqls opts (Some c) of (r, c') \<Rightarrow> (r, case c' of Some c \<Rightarrow> c | None \<Rightarrow> c))\<rparr>"

subsection \<open>Options and world\<close>

record 'c flashback_options =
  fo_Connector :: "'c connector option"
  fo_DSN :: string
  fo_TargetTable :: string
  fo_RecoveryTime :: string
  fo_OutputFile :: string
  fo_DryRun :: bool
  fo_BatchSize :: int
  fo_ConfigFile :: string
  fo_Passphrase :: string

text \<open>What the command meets outside: the parser of times (an error for a malformed one), connecting, the server
  behind a fresh connection, \<^verbatim>\<open>mysqlbinlog\<close> with the connection it asks for column names, and the faults of the
  output file: of creating it, of writing its \<open>k\<close>-th line, of closing it.\<close>

record 'c flashback_world =
  fw_parse_time :: "string \<Rightarrow> go_time outcome"
  fw_crypto :: crypto_lib
  fw_json :: json_lib
  fw_dsn :: "string \<Rightarrow> dsn_parts outcome"
  fw_files :: byte_files
  fw_connect :: "conn_config \<Rightarrow> 'c connector outcome"
  fw_discover :: "conn_config \<Rightarrow> mysql_server outcome"
  fw_query :: "conn_config \<Rightarrow> string \<Rightarrow> string list \<Rightarrow> string query_rows outcome"
  fw_run :: "string \<Rightarrow> string list \<Rightarrow> process"
  fw_local_time :: "go_time \<Rightarrow> string"
  fw_scan_float :: "string \<Rightarrow> 64 word option"
  fw_show_float :: "64 word \<Rightarrow> string"
  fw_quoted :: "string \<Rightarrow> string"
  fw_create :: "go_error option"
  fw_write :: "nat \<Rightarrow> go_error option"
  fw_close :: "go_error option"

text \<open>The effects: the session, the output files and the lines of a dry run.\<close>

record 'c flashback_state =
  fs_db :: 'c
  fs_output :: "(string \<times> string) list"
  fs_printed :: "string list"

subsection \<open>Steps\<close>

definition resolveConnConfig :: "'c flashback_world \<Rightarrow> 'c flashback_options \<Rightarrow> conn_config outcome" where
  "resolveConnConfig w opts =
     (if fo_ConfigFile opts \<noteq> [] then
        bindo (wrapo ''load config'' (LoadConfig (fw_crypto w) (fw_json w) (fo_ConfigFile opts) (fo_Passphrase opts) (fw_files w)))
          (\<lambda>cfg. Ok (BuildConnConfig (cf_MySQL cfg)))
      else if fo_DSN opts \<noteq> [] then ParseDSNToConnConfig (fw_dsn w) (fo_DSN opts)
      else Err (Errorf ''either --mysql-dsn or --config must be provided''))"

text \<open>The directory as a fresh connection finds it, with the defaults of host and port.\<close>

definition data_dir :: "'c flashback_world \<Rightarrow> conn_config \<Rightarrow> string outcome" where
  "data_dir w cfg = resolveDataDir (fw_discover w
     (cfg\<lparr>cc_Host := (if cc_Host cfg = [] then ''127.0.0.1'' else cc_Host cfg),
          cc_Port := (if cc_Port cfg = 0 then 3306 else cc_Port cfg)\<rparr>))"

text \<open>The loop of \<^verbatim>\<open>writeSQLToFile\<close> from line \<open>k\<close> on; what was written before a failure stays.\<close>

fun write_lines :: "(nat \<Rightarrow> go_error option) \<Rightarrow> nat \<Rightarrow> string list \<Rightarrow> string \<Rightarrow> unit outcome \<times> string" where
  "write_lines wr k [] text = (Ok (), text)"
| "write_lines wr k (s # ss) text =
     (case wr k of
        Some e \<Rightarrow> (Err (Wrapf ''write'' e), text)
      | None \<Rightarrow> write_lines wr (k + 1) ss (text @ s @ [LF]))"

definition writeSQLToFile :: "'c flashback_world \<Rightarrow> string \<Rightarrow> string list \<Rightarrow> (string \<times> string) list \<Rightarrow>
    unit outcome \<times> (string \<times> string) list" where
  "writeSQLToFile w path sqls files =
     (case fw_create w of
        Some e \<Rightarrow> (Err (Wrapf ''create file'' e), files)
      | None \<Rightarrow>
          let (r, text) = write_lines (fw_write w) 0 sqls []; files = AList.update path text files
          in (case r of
                Ok _ \<Rightarrow> (case fw_close w of Some e \<Rightarrow> (Err e, files) | None \<Rightarrow> (Ok (), files))
              | Err e \<Rightarrow> (Err e, files)
              | Panic \<Rightarrow> (Panic, files)))"

text \<open>Up to the statements: recovery time, connection, preflight, list of binary logs, directory, parse, reverse
  batch. Nothing here changes a file or the database.\<close>

definition flashback_statements :: "'c flashback_world \<Rightarrow> 'c flashback_options \<Rightarrow> (string list \<times> 'c connector) outcome" where
  "flashback_statements w opts =
     bindo (wrapo (''flashback: parse recovery-time '' @ fw_quoted w (fo_RecoveryTime opts)) (fw_parse_time w (fo_RecoveryTime opts)))
       (\<lambda>recoveryTime.
     let noCfg = \<lparr>cc_Host = [], cc_Port = 0, cc_User = [], cc_Password = [], cc_Database = [], cc_Params = []\<rparr> in
     bindo (case fo_Connector opts of
         Some conn \<Rightarrow> Ok (noCfg, conn)
       | None \<Rightarrow> bindo (wrapo ''flashback: resolve config'' (resolveConnConfig w opts)) (\<lambda>connCfg.
           bindo (wrapo ''flashback: connect'' (fw_connect w connCfg)) (\<lambda>conn. Ok (connCfg, conn)))) (\<lambda>(connCfg, conn).
     bindo (wrapo ''flashback: preflight'' (cn_Preflight conn)) (\<lambda>preflightRes.
     if pf_Status preflightRes = PreflightFail then Err (Errorf (''flashback: preflight FAILED '' @ [CHR 0xE2, CHR 0x80, CHR 0x94] @ '' aborting''))
     else bindo (wrapo ''flashback: list binlogs'' (cn_GetBinlogFiles conn)) (\<lambda>binlogs.
     if length binlogs = 0 then Err (Errorf ''flashback: no binlog files found on server'')
     else bindo (case cn_GetBinlogDir conn of
         Ok dir \<Rightarrow> if dir = [] then wrapo ''flashback: resolve binlog directory'' (data_dir w connCfg) else Ok dir
       | Err _ \<Rightarrow> wrapo ''flashback: resolve binlog directory'' (data_dir w connCfg)
       | Panic \<Rightarrow> Panic) (\<lambda>dataDir.
     bindo (wrapo ''flashback: parse binlogs'' (parseBinlogWithMySQLBinlog (fw_quoted w) (fw_scan_float w) (fw_local_time w)
         (fw_query w connCfg) (fw_run w) (binlogPaths dataDir (map bf_Name binlogs))
         \<lparr>bo_TargetTable = fo_TargetTable opts, bo_StartTime = None, bo_EndTime = Some recoveryTime, bo_StartPos = 0,
          bo_StopPos = 0, bo_MySQLBinlogPath = []\<rparr>)) (\<lambda>parseRes.
     if length (pr_Events parseRes) = 0 then
       Err (Errorf (''flashback: no row events found for table '' @ fw_quoted w (fo_TargetTable opts) @ '' before '' @ fo_RecoveryTime opts))
     else case ReverseSQLBatch (fw_show_float w) (pr_Events parseRes) [] of
       (_, Some e) \<Rightarrow> Err (Wrapf ''flashback: generate reverse SQL'' e)
     | (sqls, None) \<Rightarrow> Ok (sqls, conn)))))))"

text \<open>The output mode.\<close>

definition RunFlashback :: "'c flashback_world \<Rightarrow> 'c flashback_options \<Rightarrow> 'c flashback_state \<Rightarrow>
    unit outcome \<times> 'c flashback_state" where
  "RunFlashback w opts s =
     (case flashback_statements w opts of
        Err e \<Rightarrow> (Err e, s)
      | Panic \<Rightarrow> (Panic, s)
      | Ok (sqls, conn) \<Rightarrow>
          if fo_DryRun opts then
            (Ok (), s\<lparr>fs_printed := fs_printed s @ map (\<lambda>q. ''[flashback-dry-run] '' @ q) sqls\<rparr>)
          else if fo_OutputFile opts \<noteq> [] then
            (case writeSQLToFile w (fo_OutputFile opts) sqls (fs_output s) of
               (r, files) \<Rightarrow> (wrapo ''flashback: write output'' r, s\<lparr>fs_output := files\<rparr>))
          else
            (case cn_ExecuteRollback conn sqls \<lparr>eo_BatchSize = fo_BatchSize opts, eo_DryRun = False\<rparr> (fs_db s) of
               (r, c) \<Rightarrow> (bindo (wrapo ''flashback: execute rollback'' r) (\<lambda>_. Ok ()), s\<lparr>fs_db := c\<rparr>)))"

definition flashback_command :: "'c flashback_world \<Rightarrow> 'c flashback_options \<Rightarrow> 'c flashback_state \<Rightarrow>
    unit outcome \<times> 'c flashback_state" where
  "flashback_command w opts s =
     (if fo_ConfigFile opts = [] \<and> fo_DSN opts = [] then (Err (Errorf ''either --mysql-dsn or --config is required''), s)
      else if fo_RecoveryTime opts = [] then (Err (Errorf ''--recovery-time is required''), s)
      else if fo_TargetTable opts = [] then (Err (Errorf ''--target-table is required''), s)
      else if fo_ConfigFile opts \<noteq> [] \<and> fo_Passphrase opts = [] then
        (Err (Errorf ''--passphrase is required when using --config''), s)
      else RunFlashback w opts s)"

end
