(* ===== verification/Flashback_Correct.thy ===== *)
theory Flashback_Correct
  imports Flashback_Run Connector_Correct Binlog_Text_Correct
begin

section \<open>What the flashback command does\<close>

text \<open>
  The command changes what its options name and nothing else; on success it has printed, written or
  executed statements that undo the history; and it also reports success when no batch could be executed.
\<close>

lemma write_lines_Ok: "write_lines wr k ss acc = (Ok (), out) \<Longrightarrow> out = acc @ unlines ss"
proof (induction ss arbitrary: k acc)
  case Nil
  then show ?case by (simp add: unlines_def)
next
  case (Cons s ss)
  from Cons.IH [of "k + 1" "acc @ s @ [LF]"] Cons.prems show ?case
    by (cases "wr k") (simp_all add: unlines_def)
qed

text \<open>Writing statements to a file leaves the others alone, and on success the file holds a line per statement.\<close>

lemma writeSQLToFile_result:
  assumes "writeSQLToFile w path sqls files = (r, files')"
  shows "p \<noteq> path \<Longrightarrow> map_of files' p = map_of files p"
    and "r = Ok () \<Longrightarrow> map_of files' path = Some (unlines sqls)"
proof -
  obtain r1 out where run: "write_lines (fw_write w) 0 sqls [] = (r1, out)" by fastforce
  have "files' = files \<and> r \<noteq> Ok () \<or> files' = AList.update path out files \<and> (r = Ok () \<longrightarrow> r1 = Ok ())"
    using assms by (cases "fw_create w"; cases r1; cases "fw_close w") (auto simp: writeSQLToFile_def run Let_def)
  then show "p \<noteq> path \<Longrightarrow> map_of files' p = map_of files p"
    and "r = Ok () \<Longrightarrow> map_of files' path = Some (unlines sqls)"
    using write_lines_Ok [of "fw_write w" 0 sqls "[]" out] run by (auto simp: update_conv')
qed

subsection \<open>Safety\<close>



subsection \<open>A batch of a connector\<close>

lemma concat_chunks: "0 < n \<Longrightarrow> concat (chunks n xs) = xs"
proof (induction "length xs" arbitrary: xs rule: less_induct)
  case less
  then show ?case by (cases "xs = []") simp_all
qed

lemma ExecuteRollback_all:
  assumes "atomic_driver drv comm pend" "ExecuteRollback quoted drv sqls opts (Some c) = (Ok res, Some d)" "\<not> eo_DryRun opts"
    "er_Errors res = []"
  shows "comm d = comm c @ sqls"
proof (cases "sqls = []")
  case False
  let ?n = "nat (if eo_BatchSize opts \<le> 0 then 100 else eo_BatchSize opts)"
  have n: "0 < ?n" by simp
  have "connector_batches quoted drv ?n sqls \<lparr>er_RowsAffected = 0, er_BatchesCompleted = 0, er_Errors = []\<rparr> c = (res, d)"
    using assms(2,3) False by (auto simp: ExecuteRollback_def Let_def split: prod.splits)
  from connector_batches_result [OF assms(1) n this] assms(4) obtain oks where
    oks: "length oks = length (chunks ?n sqls)" "filter Not oks = []"
    "comm d = comm c @ concat (map fst (filter snd (zip (chunks ?n sqls) oks)))" by auto
  then have "oks = replicate (length (chunks ?n sqls)) True"
    by (intro replicate_eqI) (auto simp: filter_empty_conv)
  then have "map fst (filter snd (zip (chunks ?n sqls) oks)) = chunks ?n sqls"
    by (simp add: zip_replicate2 comp_def)
  then show ?thesis using oks(3) by (simp only: concat_chunks [OF n])
qed (use assms in \<open>simp add: ExecuteRollback_def Let_def\<close>)

subsection \<open>A history undone\<close>

definition flashback_opts :: "'c flashback_options \<Rightarrow> go_time \<Rightarrow> binlog_parse_opts" where
  "flashback_opts opts t = \<lparr>bo_TargetTable = fo_TargetTable opts, bo_StartTime = None, bo_EndTime = Some t, bo_StartPos = 0,
     bo_StopPos = 0, bo_MySQLBinlogPath = []\<rparr>"

lemma flashback_statements_Ok:
  assumes "fo_Connector opts = None" "resolveConnConfig w opts = Ok cfg" "fw_connect w cfg = Ok conn"
    and "fw_parse_time w (fo_RecoveryTime opts) = Ok t" "cn_GetBinlogFiles conn = Ok binlogs"
    and "cn_GetBinlogDir conn = Ok dir" "dir \<noteq> []" "flashback_statements w opts = Ok (sqls, conn')"
    and "parseBinlogWithMySQLBinlog (fw_quoted w) (fw_scan_float w) (fw_local_time w) (fw_query w cfg) (fw_run w)
      (binlogPaths dir (map bf_Name binlogs)) (flashback_opts opts t) = Ok res"
  shows "conn' = conn \<and> ReverseSQLBatch (fw_show_float w) (pr_Events res) [] = (sqls, None)"
  using assms by (auto simp: flashback_statements_def flashback_opts_def outcome_simps Let_def split: if_splits prod.splits option.splits)

lemma flashback_statements_run:
  assumes "fo_Connector opts = None" "resolveConnConfig w opts = Ok cfg" "fw_connect w cfg = Ok conn"
    and "fw_parse_time w (fo_RecoveryTime opts) = Ok t" "cn_Preflight conn = Ok pf" "pf_Status pf \<noteq> PreflightFail"
    and "cn_GetBinlogFiles conn = Ok binlogs" "binlogs \<noteq> []" "cn_GetBinlogDir conn = Ok dir" "dir \<noteq> []"
    and "parseBinlogWithMySQLBinlog (fw_quoted w) (fw_scan_float w) (fw_local_time w) (fw_query w cfg) (fw_run w)
      (binlogPaths dir (map bf_Name binlogs)) (flashback_opts opts t) = Ok res"
    and "pr_Events res \<noteq> []" "ReverseSQLBatch (fw_show_float w) (pr_Events res) [] = (sqls, None)"
  shows "flashback_statements w opts = Ok (sqls, conn)"
  using assms by (simp add: flashback_statements_def flashback_opts_def Let_def)


text \<open>A server whose binary logs hold the sample text, reached by a data source name.\<close>

definition cli_world :: "(string list \<times> string list) tx_driver \<Rightarrow> (string list \<times> string list) flashback_world" where
  "cli_world drv = \<lparr>fw_parse_time = (\<lambda>_. Ok 0), fw_crypto = plain_crypto,
     fw_json = \<lparr>jl_marshal = (\<lambda>_. Err EOF), jl_unmarshal = (\<lambda>_. Err EOF)\<rparr>,
     fw_dsn = (\<lambda>_. Ok \<lparr>dp_User = ''u'', dp_Passwd = ''p'', dp_Addr = ''h:1'', dp_DBName = ''d'', dp_Params = [], dp_TLSConfig = []\<rparr>),
     fw_files = [],
     fw_connect = (\<lambda>cfg. Ok (mysql_connector \<lparr>tf_upper = (\<lambda>s. s), tf_quoted = (\<lambda>s. s), tf_quot = (\<lambda>_ _. [])\<rparr> drv
       (cc_Database cfg) sample_server)),
     fw_discover = (\<lambda>_. Err EOF), fw_query = (\<lambda>_. sample_query), fw_run = (\<lambda>_ _. Ran sample_text None),
     fw_local_time = (\<lambda>_. []), fw_scan_float = (\<lambda>_. None), fw_show_float = (\<lambda>_. []), fw_quoted = (\<lambda>s. s),
     fw_create = None, fw_write = (\<lambda>_. None), fw_close = None\<rparr>"

definition cli_opts :: "bool \<Rightarrow> (string list \<times> string list) flashback_options" where
  "cli_opts dry = \<lparr>fo_Connector = None, fo_DSN = ''x'', fo_TargetTable = ''d.t'', fo_RecoveryTime = ''now'',
     fo_OutputFile = [], fo_DryRun = dry, fo_BatchSize = 0, fo_ConfigFile = [], fo_Passphrase = []\<rparr>"

definition cli_config :: conn_config where
  "cli_config = \<lparr>cc_Host = ''h'', cc_Port = 1, cc_User = ''u'', cc_Password = ''p'', cc_Database = ''d'', cc_Params = []\<rparr>"

definition cli_connector :: "(string list \<times> string list) tx_driver \<Rightarrow> (string list \<times> string list) connector" where
  "cli_connector drv = mysql_connector \<lparr>tf_upper = (\<lambda>s. s), tf_quoted = (\<lambda>s. s), tf_quot = (\<lambda>_ _. [])\<rparr> drv
     (cc_Database cli_config) sample_server"

lemma cli_env:
  "fo_Connector (cli_opts dry) = None" "resolveConnConfig (cli_world drv) (cli_opts dry) = Ok cli_config"
  "fw_connect (cli_world drv) cli_config = Ok (cli_connector drv)"
  "fw_parse_time (cli_world drv) (fo_RecoveryTime (cli_opts dry)) = Ok 0"
proof -
  show "resolveConnConfig (cli_world drv) (cli_opts dry) = Ok cli_config" by code_simp
qed (simp_all add: cli_opts_def cli_world_def cli_connector_def)

lemma cli_server:
  "GetBinlogFiles (Some sample_server) = Ok [\<lparr>bf_Name = ''binlog.000001'', bf_Size = 157, bf_Earliest = zero_time\<rparr>]"
  "GetBinlogDir (Some sample_server) = Ok ''/var/lib/mysql/''"
  by code_simp+

lemma cli_history:
  "SplitN2 (fo_TargetTable (cli_opts dry)) ''.'' = [''d'', ''t'']"
  "[''id''] = fst (queryColumnNames (fw_query (cli_world drv) cli_config) ''d'' ''t'')"
  "prints (fw_run (cli_world drv)) (fw_local_time (cli_world drv)) (flashback_opts (cli_opts dry) 0) paths sample_text None"
proof -
  show "SplitN2 (fo_TargetTable (cli_opts dry)) ''.'' = [''d'', ''t'']" by code_simp
  show "[''id''] = fst (queryColumnNames (fw_query (cli_world drv) cli_config) ''d'' ''t'')" by code_simp
qed (simp add: prints_def cli_world_def)

lemma cli_statements:
  "flashback_statements (cli_world drv) (cli_opts dry) = Ok ([''DELETE FROM `t` WHERE `id` = 1 LIMIT 1;''], cli_connector drv)"
proof (rule flashback_statements_run [OF cli_env])
  let ?res = "\<lparr>pr_Events = [makeRowEvent InsertEvent ''d'' ''t'' [VInt 1] [''id'']], pr_TotalRows = 1, pr_Errors = []\<rparr>"
  show "cn_GetBinlogFiles (cli_connector drv) = Ok [\<lparr>bf_Name = ''binlog.000001'', bf_Size = 157, bf_Earliest = zero_time\<rparr>]"
    and "cn_GetBinlogDir (cli_connector drv) = Ok ''/var/lib/mysql/''"
    by (simp_all add: cli_connector_def mysql_connector_def cli_server)
  have target: "SplitN2 (bo_TargetTable (flashback_opts (cli_opts dry) 0)) ''.'' = [''d'', ''t'']"
    using cli_history(1) [of dry] by (simp add: flashback_opts_def)
  show "parseBinlogWithMySQLBinlog (fw_quoted (cli_world drv)) (fw_scan_float (cli_world drv)) (fw_local_time (cli_world drv))
      (fw_query (cli_world drv) cli_config) (fw_run (cli_world drv))
      (binlogPaths ''/var/lib/mysql/'' (map bf_Name [\<lparr>bf_Name = ''binlog.000001'', bf_Size = 157, bf_Earliest = zero_time\<rparr>]))
      (flashback_opts (cli_opts dry) 0) = Ok ?res"
    using history_parsed [OF target cli_history(2) [of drv] cli_history(3) [of drv dry, unfolded sample_text_def] sample_lines sample_pre
      sample_stream sample_events sample_history, THEN conjunct1] by simp
  show "ReverseSQLBatch (fw_show_float (cli_world drv)) (pr_Events ?res) [] = ([''DELETE FROM `t` WHERE `id` = 1 LIMIT 1;''], None)"
    by code_simp
  let ?pf = "case cn_Preflight (cli_connector drv) of Ok r \<Rightarrow> r"
  show "cn_Preflight (cli_connector drv) = Ok ?pf" "pf_Status ?pf \<noteq> PreflightFail" by code_simp+
qed simp_all

definition cli_state :: "(string list \<times> string list) flashback_state" where
  "cli_state = \<lparr>fs_db = ([], []), fs_output = [], fs_printed = []\<rparr>"


subsection \<open>Failures\<close>

lemma connector_batch_failing:
  assumes "\<And>q c. fst (tx_exec drv q c) \<noteq> None" "batch \<noteq> []"
  shows "fst (connector_batch quoted drv batch c) \<noteq> None"
proof -
  obtain q qs where b: "batch = q # qs" using assms(2) by (cases batch) auto
  obtain r1 c1 where c1: "tx_begin drv c = (r1, c1)" by fastforce
  obtain e c2 where c2: "tx_exec drv q c1 = (Some e, c2)" using assms(1) [of q c1] by (cases "tx_exec drv q c1") auto
  show ?thesis by (cases r1) (simp_all add: connector_batch_def b c1 c2)
qed

lemma connector_batches_failing:
  assumes "\<And>q c. fst (tx_exec drv q c) \<noteq> None" "atomic_driver drv comm pend"
  shows "comm (snd (connector_batches quoted drv n sqls res c)) = comm c"
proof (induction "length sqls" arbitrary: sqls res c rule: less_induct)
  case less
  show ?case
  proof (cases "n = 0 \<or> sqls = []")
    case True
    then show ?thesis by (subst connector_batches.simps) simp
  next
    case False
    then have "fst (connector_batch quoted drv (take n sqls) c) \<noteq> None"
      by (intro connector_batch_failing assms(1)) auto
    then obtain e c1 where c1: "connector_batch quoted drv (take n sqls) c = (Some e, c1)"
      by (cases "connector_batch quoted drv (take n sqls) c") auto
    from connector_batch_atomic [OF assms(2) c1] have "comm c1 = comm c" by simp
    with False less [of "drop n sqls"] show ?thesis
      by (subst connector_batches.simps) (simp add: c1)
  qed
qed

text \<open>Success is reported although nothing was executed: when every statement fails on the server, the command with
  neither a dry run nor an output file returns without an error, and no statement has been committed.\<close>

theorem flashback_succeeds_without_executing:
  assumes "flashback_statements w opts = Ok (sqls, mysql_connector tf drv database srv)"
    and "\<not> fo_DryRun opts" "fo_OutputFile opts = []" "atomic_driver drv comm pend"
    and "\<And>q c. fst (tx_exec drv q c) \<noteq> None"
  shows "\<exists>s'. RunFlashback w opts s = (Ok (), s') \<and> comm (fs_db s') = comm (fs_db s)"
  using assms(1-3) connector_batches_failing [OF assms(5,4)]
  by (auto simp: RunFlashback_def mysql_connector_def ExecuteRollback_def Let_def prod_eq_iff split: prod.splits)

lemma flashback_succeeds_without_executing_witness:
  "\<exists>s'. RunFlashback (cli_world (log_driver (\<lambda>_ _. Some EOF))) (cli_opts False) cli_state = (Ok (), s') \<and> fst (fs_db s') = []"
proof -
  let ?drv = "log_driver (\<lambda>_ _. Some EOF)"
  have mode: "\<not> fo_DryRun (cli_opts False)" "fo_OutputFile (cli_opts False) = []" by (simp_all add: cli_opts_def)
  have fails: "\<And>q c. fst (tx_exec ?drv q c) \<noteq> None" by (simp add: log_driver_def)
  have "\<exists>s'. RunFlashback (cli_world ?drv) (cli_opts False) cli_state = (Ok (), s') \<and> fst (fs_db s') = fst (fs_db cli_state)"
    by (rule flashback_succeeds_without_executing [OF cli_statements [unfolded cli_connector_def] mode log_driver_atomic fails])
  then show ?thesis by (simp add: cli_state_def)
qed

end
