(* ===== verification/Ws_Ca.thy ===== *)
theory Ws_Ca
  imports Keyed_Store Go_Values
begin

section \<open>The certificate authority\<close>

text \<open>
  The model of \<^verbatim>\<open>internal/ws/ca\<close>: the authority with its serial counter and its cache of revocations, and
  the two storages behind it. Keys, requests and certificates are made and read by Go's \<^verbatim>\<open>crypto\<close>
  packages, which are parameters; a request is seen as what the code asks of it. What a storage promises is the locale
  \<open>cert_storage\<close>.
\<close>

subsection \<open>Storage in memory\<close>

record mem_storage =
  me_root :: "(string \<times> string) option"
  me_revoked :: "string list"

definition NewMemStorage :: mem_storage where
  "NewMemStorage = \<lparr>me_root = None, me_revoked = []\<rparr>"

definition Mem_LoadRootCA :: "mem_storage \<Rightarrow> (string \<times> string) outcome" where
  "Mem_LoadRootCA m = (case me_root m of None \<Rightarrow> Err (Errorf ''mem: no root CA stored'') | Some r \<Rightarrow> Ok r)"

definition Mem_StoreRootCA :: "string \<Rightarrow> string \<Rightarrow> mem_storage \<Rightarrow> unit outcome \<times> mem_storage" where
  "Mem_StoreRootCA certPEM keyPEM m = (Ok (), m\<lparr>me_root := Some (certPEM, keyPEM)\<rparr>)"

definition Mem_IsRevoked :: "string \<Rightarrow> mem_storage \<Rightarrow> bool outcome" where
  "Mem_IsRevoked serial m = Ok (serial \<in> set (me_revoked m))"

definition Mem_AddRevoked :: "string \<Rightarrow> mem_storage \<Rightarrow> unit outcome \<times> mem_storage" where
  "Mem_AddRevoked serial m = (Ok (), m\<lparr>me_revoked := List.insert serial (me_revoked m)\<rparr>)"

subsection \<open>Storage in a file\<close>

record file_store_data =
  fd_CACert :: string
  fd_CAKey :: string
  fd_Revoked :: "string list"

text \<open>The file: absent, the JSON of the data (which \<^verbatim>\<open>encoding/json\<close> reads back), or something that cannot be read or
  parsed, with the error.\<close>

datatype store_file = Absent | Data file_store_data | Unreadable go_error

definition empty_store :: file_store_data where
  "empty_store = \<lparr>fd_CACert = [], fd_CAKey = [], fd_Revoked = []\<rparr>"

text \<open>What fails in a write: creating the directory, writing the temporary file, renaming it. None of it touches the
  file itself.\<close>

record store_faults =
  sf_mkdir :: "go_error option"
  sf_write :: "go_error option"
  sf_rename :: "go_error option"

fun store_read :: "store_file \<Rightarrow> file_store_data outcome" where
  "store_read Absent = Ok empty_store"
| "store_read (Data d) = Ok d"
| "store_read (Unreadable e) = Err (Wrapf ''file storage: read'' e)"

definition store_write :: "store_faults \<Rightarrow> file_store_data \<Rightarrow> store_file \<Rightarrow> unit outcome \<times> store_file" where
  "store_write f d file =
     (case sf_mkdir f of
        Some e \<Rightarrow> (Err (Wrapf ''file storage: create dir'' e), file)
      | None \<Rightarrow>
        (case sf_write f of
           Some e \<Rightarrow> (Err (Wrapf ''file storage: write tmp'' e), file)
         | None \<Rightarrow>
           (case sf_rename f of
              Some e \<Rightarrow> (Err (Wrapf ''file storage: rename'' e), file)
            | None \<Rightarrow> (Ok (), Data d))))"

definition File_LoadRootCA :: "store_file \<Rightarrow> (string \<times> string) outcome" where
  "File_LoadRootCA file = bindo (store_read file) (\<lambda>d.
     if fd_CACert d = [] then Err (Errorf ''file storage: no root CA stored'') else Ok (fd_CACert d, fd_CAKey d))"

text \<open>After an error of reading, the write starts from an empty document.\<close>

definition read_or_empty :: "store_file \<Rightarrow> file_store_data" where
  "read_or_empty file = (case store_read file of Ok d \<Rightarrow> d | _ \<Rightarrow> empty_store)"

definition File_StoreRootCA :: "store_faults \<Rightarrow> string \<Rightarrow> string \<Rightarrow> store_file \<Rightarrow> unit outcome \<times> store_file" where
  "File_StoreRootCA f certPEM keyPEM file =
     store_write f ((read_or_empty file)\<lparr>fd_CACert := certPEM, fd_CAKey := keyPEM\<rparr>) file"

definition File_IsRevoked :: "string \<Rightarrow> store_file \<Rightarrow> bool outcome" where
  "File_IsRevoked serial file = (case store_read file of Ok d \<Rightarrow> Ok (serial \<in> set (fd_Revoked d)) | _ \<Rightarrow> Ok False)"

definition File_AddRevoked :: "store_faults \<Rightarrow> string \<Rightarrow> store_file \<Rightarrow> unit outcome \<times> store_file" where
  "File_AddRevoked f serial file =
     (let d = read_or_empty file in
      if serial \<in> set (fd_Revoked d) then (Ok (), file)
      else store_write f (d\<lparr>fd_Revoked := sort (fd_Revoked d @ [serial])\<rparr>) file)"

subsection \<open>The authority\<close>

text \<open>The storage an authority works with, as the calls it makes.\<close>

record 's storage_ops =
  op_load :: "'s \<Rightarrow> (string \<times> string) outcome"
  op_store :: "string \<Rightarrow> string \<Rightarrow> 's \<Rightarrow> unit outcome \<times> 's"
  op_is_revoked :: "string \<Rightarrow> 's \<Rightarrow> bool outcome"
  op_add_revoked :: "string \<Rightarrow> 's \<Rightarrow> unit outcome \<times> 's"

definition mem_ops :: "mem_storage storage_ops" where
  "mem_ops = \<lparr>op_load = Mem_LoadRootCA, op_store = Mem_StoreRootCA, op_is_revoked = Mem_IsRevoked, op_add_revoked = Mem_AddRevoked\<rparr>"

definition file_ops :: "store_faults \<Rightarrow> store_file storage_ops" where
  "file_ops f = \<lparr>op_load = File_LoadRootCA, op_store = File_StoreRootCA f, op_is_revoked = File_IsRevoked,
     op_add_revoked = File_AddRevoked f\<rparr>"

text \<open>What the code sees of a request: whether its signature checks, and its public key if it is an ECDSA key. A
  template holds the fields of a certificate that the code decides on.\<close>

record csr =
  cs_signature :: "go_error option"
  cs_ecdsa_key :: "string option"

record cert_template =
  ct_Serial :: int
  ct_CommonName :: string
  ct_Organization :: string
  ct_NotBefore :: go_time
  ct_NotAfter :: go_time
  ct_Server :: bool
  ct_DNSNames :: "string list"
  ct_IPAddresses :: "string list"

text \<open>The libraries: a fresh root (its PEM texts and its parsed form), parsing of stored PEM texts, a fresh key,
  reading a request, and signing a template for a public key with the root; \<open>'k\<close> is the parsed root.\<close>

record 'k x509_lib =
  xl_new_root :: "(string \<times> string \<times> 'k) outcome"
  xl_parse_root :: "string \<Rightarrow> string \<Rightarrow> 'k outcome"
  xl_new_key :: "(string \<times> string) outcome"
  xl_pem_csr :: "string \<Rightarrow> string option"
  xl_parse_csr :: "string \<Rightarrow> csr outcome"
  xl_sign :: "cert_template \<Rightarrow> string \<Rightarrow> 'k \<Rightarrow> string outcome"
  xl_is_ip :: "string \<Rightarrow> bool"
  xl_keypair :: "string \<Rightarrow> string \<Rightarrow> unit outcome"

record ('s, 'k) ca =
  ca_storage :: 's
  ca_root :: "'k option"
  ca_serial :: int
  ca_revoked :: "(string \<times> bool) list"

definition NewCA :: "'s \<Rightarrow> ('s, 'k) ca" where
  "NewCA storage = \<lparr>ca_storage = storage, ca_root = None, ca_serial = 0, ca_revoked = []\<rparr>"

definition hour :: int where "hour = 3600 * 1000000000"
definition CertValidity :: int where "CertValidity = 90 * 24 * hour"

definition not_initialised :: go_error where
  "not_initialised = Errorf ''ca: root not initialised; call GenerateRoot first''"

definition loadRoot :: "'k x509_lib \<Rightarrow> string \<Rightarrow> string \<Rightarrow> ('s, 'k) ca \<Rightarrow> unit outcome \<times> ('s, 'k) ca" where
  "loadRoot lib certPEM keyPEM c =
     (case xl_parse_root lib certPEM keyPEM of
        Ok k \<Rightarrow> (Ok (), c\<lparr>ca_root := Some k\<rparr>)
      | Err e \<Rightarrow> (Err e, c)
      | Panic \<Rightarrow> (Panic, c))"

definition GenerateRoot :: "'s storage_ops \<Rightarrow> 'k x509_lib \<Rightarrow> ('s, 'k) ca \<Rightarrow> unit outcome \<times> ('s, 'k) ca" where
  "GenerateRoot ops lib c =
     (case op_load ops (ca_storage c) of
        Ok (certPEM, keyPEM) \<Rightarrow> loadRoot lib certPEM keyPEM c
      | _ \<Rightarrow>
          (case xl_new_root lib of
             Ok (certPEM, keyPEM, k) \<Rightarrow>
               (case op_store ops certPEM keyPEM (ca_storage c) of
                  (Ok _, st) \<Rightarrow> (Ok (), c\<lparr>ca_storage := st, ca_root := Some k\<rparr>)
                | (Err e, st) \<Rightarrow> (Err (Wrapf ''ca: store root'' e), c\<lparr>ca_storage := st\<rparr>)
                | (Panic, st) \<Rightarrow> (Panic, c\<lparr>ca_storage := st\<rparr>))
           | Err e \<Rightarrow> (Err e, c)
           | Panic \<Rightarrow> (Panic, c)))"

definition next_serial :: "('s, 'k) ca \<Rightarrow> int" where
  "next_serial c = goint (ca_serial c + 1)"

definition client_template :: "int \<Rightarrow> string \<Rightarrow> go_time \<Rightarrow> cert_template" where
  "client_template serial agentID now =
     \<lparr>ct_Serial = serial, ct_CommonName = agentID, ct_Organization = ''MySQL PITR Agent'', ct_NotBefore = now - hour,
      ct_NotAfter = now + CertValidity, ct_Server = False, ct_DNSNames = [], ct_IPAddresses = []\<rparr>"

definition SignCSR :: "'k x509_lib \<Rightarrow> go_time \<Rightarrow> string \<Rightarrow> string \<Rightarrow> ('s, 'k) ca \<Rightarrow> string outcome \<times> ('s, 'k) ca" where
  "SignCSR lib now csrPEM agentID c =
     (case ca_root c of
        None \<Rightarrow> (Err not_initialised, c)
      | Some k \<Rightarrow>
        (case xl_pem_csr lib csrPEM of
           None \<Rightarrow> (Err (Errorf ''ca: invalid CSR PEM''), c)
         | Some block \<Rightarrow>
           (case xl_parse_csr lib block of
              Err e \<Rightarrow> (Err (Wrapf ''ca: parse CSR'' e), c)
            | Panic \<Rightarrow> (Panic, c)
            | Ok csr \<Rightarrow>
              (case cs_signature csr of
                 Some e \<Rightarrow> (Err (Wrapf ''ca: CSR signature validation failed'' e), c)
               | None \<Rightarrow>
                 (case cs_ecdsa_key csr of
                    None \<Rightarrow> (Err (Errorf ''ca: CSR public key must be ECDSA''), c)
                  | Some pub \<Rightarrow>
                      let serial = next_serial c; c = c\<lparr>ca_serial := serial\<rparr>
                      in (wrapo ''ca: sign CSR'' (xl_sign lib (client_template serial agentID now) pub k), c))))))"

text \<open>\<^verbatim>\<open>SignServerCert\<close> returns the signed certificate.\<close>

definition server_template :: "'k x509_lib \<Rightarrow> int \<Rightarrow> string list \<Rightarrow> go_time \<Rightarrow> cert_template" where
  "server_template lib serial hosts now =
     (let hs = filter (\<lambda>h. h \<noteq> []) hosts; ips = filter (xl_is_ip lib) hs; names = filter (\<lambda>h. \<not> xl_is_ip lib h) hs in
      \<lparr>ct_Serial = serial, ct_CommonName = ''mysql-pitr-server'', ct_Organization = ''MySQL PITR Platform'',
       ct_NotBefore = now - hour, ct_NotAfter = now + CertValidity, ct_Server = True,
       ct_DNSNames = (if names = [] \<and> ips = [] then [''localhost''] else names), ct_IPAddresses = ips\<rparr>)"

definition SignServerCert :: "'k x509_lib \<Rightarrow> go_time \<Rightarrow> string list \<Rightarrow> ('s, 'k) ca \<Rightarrow> string outcome \<times> ('s, 'k) ca" where
  "SignServerCert lib now hosts c =
     (case ca_root c of
        None \<Rightarrow> (Err not_initialised, c)
      | Some k \<Rightarrow>
        (case wrapo ''ca: generate server key'' (xl_new_key lib) of
           Err e \<Rightarrow> (Err e, c)
         | Panic \<Rightarrow> (Panic, c)
         | Ok (key, pub) \<Rightarrow>
             let serial = next_serial c; c = c\<lparr>ca_serial := serial\<rparr>
             in (bindo (wrapo ''ca: sign server cert'' (xl_sign lib (server_template lib serial hosts now) pub k)) (\<lambda>cert.
                  bindo (wrapo ''ca: load server keypair'' (xl_keypair lib cert key)) (\<lambda>_. Ok cert)), c)))"

definition Revoke :: "'s storage_ops \<Rightarrow> string \<Rightarrow> ('s, 'k) ca \<Rightarrow> unit outcome \<times> ('s, 'k) ca" where
  "Revoke ops serial c =
     (let c = c\<lparr>ca_revoked := AList.update serial True (ca_revoked c)\<rparr>; (r, st) = op_add_revoked ops serial (ca_storage c)
      in (wrapo ''ca: persist revocation'' r, c\<lparr>ca_storage := st\<rparr>))"

definition CA_IsRevoked :: "'s storage_ops \<Rightarrow> string \<Rightarrow> ('s, 'k) ca \<Rightarrow> bool \<times> ('s, 'k) ca" where
  "CA_IsRevoked ops serial c =
     (case map_of (ca_revoked c) serial of
        Some b \<Rightarrow> (b, c)
      | None \<Rightarrow>
          (case op_is_revoked ops serial (ca_storage c) of
             Ok stored \<Rightarrow> (stored, c\<lparr>ca_revoked := AList.update serial stored (ca_revoked c)\<rparr>)
           | _ \<Rightarrow> (False, c)))"

subsection \<open>A storage\<close>

text \<open>What an authority relies on, for a storage whose calls may fail in the ways \<open>'f\<close>: a revocation that was
  stored is found, and no call forgets one.\<close>

locale cert_storage =
  fixes ops :: "'f \<Rightarrow> 's storage_ops"
  assumes same_query: "op_is_revoked (ops f) = op_is_revoked (ops g)"
    and add_revokes: "op_add_revoked (ops f) serial st = (Ok (), st') \<Longrightarrow> op_is_revoked (ops f) serial st' = Ok True"
    and add_keeps: "op_is_revoked (ops f) t st = Ok True \<Longrightarrow> op_is_revoked (ops f) t (snd (op_add_revoked (ops f) serial st)) = Ok True"
    and store_keeps: "op_is_revoked (ops f) t st = Ok True \<Longrightarrow> op_is_revoked (ops f) t (snd (op_store (ops f) a b st)) = Ok True"

interpretation mem: cert_storage "\<lambda>_ :: unit. mem_ops"
  by unfold_locales (auto simp: mem_ops_def Mem_IsRevoked_def Mem_AddRevoked_def Mem_StoreRootCA_def)

lemma store_write_cases:
  "store_write f d file = (Ok (), Data d) \<or> (\<exists>e. store_write f d file = (Err e, file))"
  by (auto simp: store_write_def split: option.splits)

lemma File_IsRevoked_True: "File_IsRevoked t st = Ok True \<longleftrightarrow> t \<in> set (fd_Revoked (read_or_empty st))"
  by (cases st) (auto simp: File_IsRevoked_def read_or_empty_def empty_store_def)

interpretation filestore: cert_storage file_ops
proof unfold_locales
  fix f g :: store_faults and t serial a b and st st' :: store_file
  show "op_is_revoked (file_ops f) = op_is_revoked (file_ops g)" by (simp add: file_ops_def)
  let ?add = "store_write f ((read_or_empty st)\<lparr>fd_Revoked := sort (fd_Revoked (read_or_empty st) @ [serial])\<rparr>) st"
  show "op_is_revoked (file_ops f) serial st' = Ok True" if "op_add_revoked (file_ops f) serial st = (Ok (), st')"
    using that store_write_cases [of f "(read_or_empty st)\<lparr>fd_Revoked := sort (fd_Revoked (read_or_empty st) @ [serial])\<rparr>" st]
    by (auto simp: file_ops_def File_AddRevoked_def File_IsRevoked_True Let_def read_or_empty_def split: if_splits)
  show "op_is_revoked (file_ops f) t (snd (op_add_revoked (file_ops f) serial st)) = Ok True"
    if "op_is_revoked (file_ops f) t st = Ok True"
    using that store_write_cases [of f "(read_or_empty st)\<lparr>fd_Revoked := sort (fd_Revoked (read_or_empty st) @ [serial])\<rparr>" st]
    by (auto simp: file_ops_def File_AddRevoked_def File_IsRevoked_True Let_def) (auto simp: read_or_empty_def)
  show "op_is_revoked (file_ops f) t (snd (op_store (file_ops f) a b st)) = Ok True"
    if "op_is_revoked (file_ops f) t st = Ok True"
    using that store_write_cases [of f "(read_or_empty st)\<lparr>fd_CACert := a, fd_CAKey := b\<rparr>" st]
    by (auto simp: file_ops_def File_StoreRootCA_def File_IsRevoked_True) (auto simp: read_or_empty_def)
qed

subsection \<open>Runs of an authority\<close>

text \<open>What can happen to an authority; a restart keeps the storage only.\<close>

datatype ca_event = Sign_Client go_time string string | Sign_Server go_time "string list" | Revoke_Serial string
  | Query_Serial string | Restart

fun ca_apply :: "('f \<Rightarrow> 's storage_ops) \<Rightarrow> 'k x509_lib \<Rightarrow> 'f \<times> ca_event \<Rightarrow> ('s, 'k) ca \<Rightarrow> ('s, 'k) ca" where
  "ca_apply ops lib (f, Sign_Client now req agentID) c = snd (SignCSR lib now req agentID c)"
| "ca_apply ops lib (f, Sign_Server now hosts) c = snd (SignServerCert lib now hosts c)"
| "ca_apply ops lib (f, Revoke_Serial serial) c = snd (Revoke (ops f) serial c)"
| "ca_apply ops lib (f, Query_Serial serial) c = snd (CA_IsRevoked (ops f) serial c)"
| "ca_apply ops lib (f, Restart) c = snd (GenerateRoot (ops f) lib (NewCA (ca_storage c)))"

definition ca_run :: "('f \<Rightarrow> 's storage_ops) \<Rightarrow> 'k x509_lib \<Rightarrow> ('f \<times> ca_event) list \<Rightarrow> ('s, 'k) ca \<Rightarrow> ('s, 'k) ca" where
  "ca_run ops lib evs c = fold (ca_apply ops lib) evs c"

text \<open>A serial number is on record: the storage has it and the cache does not say otherwise.\<close>

definition on_record :: "'s storage_ops \<Rightarrow> string \<Rightarrow> ('s, 'k) ca \<Rightarrow> bool" where
  "on_record ops serial c \<longleftrightarrow> op_is_revoked ops serial (ca_storage c) = Ok True \<and> map_of (ca_revoked c) serial \<noteq> Some False"

lemma on_record_revoked: "on_record ops serial c \<Longrightarrow> fst (CA_IsRevoked ops serial c)"
  by (auto simp: on_record_def CA_IsRevoked_def split: option.splits)

lemma SignCSR_frame: "ca_storage (snd (SignCSR lib now req a c)) = ca_storage c \<and> ca_revoked (snd (SignCSR lib now req a c)) = ca_revoked c"
  by (auto simp: SignCSR_def Let_def split: option.splits outcome.splits)

lemma SignServerCert_frame:
  "ca_storage (snd (SignServerCert lib now hosts c)) = ca_storage c \<and> ca_revoked (snd (SignServerCert lib now hosts c)) = ca_revoked c"
  by (auto simp: SignServerCert_def Let_def split: option.splits outcome.splits)

lemma GenerateRoot_frame:
  "(ca_storage (snd (GenerateRoot ops lib c)) = ca_storage c \<or> (\<exists>a b. ca_storage (snd (GenerateRoot ops lib c)) = snd (op_store ops a b (ca_storage c)))) \<and>
   ca_revoked (snd (GenerateRoot ops lib c)) = ca_revoked c \<and> ca_serial (snd (GenerateRoot ops lib c)) = ca_serial c"
  by (auto simp: GenerateRoot_def loadRoot_def split: outcome.splits prod.splits) (metis snd_conv)+

context cert_storage begin

lemma on_record_fault: "on_record (ops f) serial c \<longleftrightarrow> on_record (ops g) serial c"
  using same_query [of f g] by (simp add: on_record_def)

lemma Revoke_records: "Revoke (ops f) serial c = (Ok (), c') \<Longrightarrow> on_record (ops f) serial c'"
  using add_revokes [of f serial "ca_storage c"]
  by (cases "op_add_revoked (ops f) serial (ca_storage c)") (auto simp: Revoke_def on_record_def update_conv)

lemma restart_keeps: "op_is_revoked (ops f) serial (ca_storage c) = Ok True \<Longrightarrow>
    on_record (ops f) serial (snd (GenerateRoot (ops f) lib (NewCA (ca_storage c))))"
  using GenerateRoot_frame [of "ops f" lib "NewCA (ca_storage c)"] store_keeps
  by (auto simp: on_record_def NewCA_def)

lemma ca_apply_keeps: "on_record (ops f) serial c \<Longrightarrow> on_record (ops f) serial (ca_apply ops lib (f, ev) c)"
proof (cases ev)
  case (Revoke_Serial t)
  assume "on_record (ops f) serial c"
  then show ?thesis using add_keeps [of f serial "ca_storage c" t] Revoke_Serial
    by (cases "op_add_revoked (ops f) t (ca_storage c)") (auto simp: Revoke_def on_record_def update_conv')
next
  case (Query_Serial t)
  assume "on_record (ops f) serial c"
  then show ?thesis using Query_Serial
    by (auto simp: CA_IsRevoked_def on_record_def update_conv' split: option.splits outcome.splits)
next
  case Restart
  assume "on_record (ops f) serial c"
  then show ?thesis by (auto simp: Restart on_record_def [of _ _ c] intro: restart_keeps)
qed (auto simp: on_record_def SignCSR_frame SignServerCert_frame)

lemma ca_run_keeps: "on_record (ops f) serial c \<Longrightarrow> on_record (ops f) serial (ca_run ops lib evs c)"
  unfolding ca_run_def
proof (induction evs arbitrary: c)
  case (Cons ev evs)
  obtain g e where ev: "ev = (g, e)" by fastforce
  have "on_record (ops g) serial (ca_apply ops lib (g, e) c)"
    using Cons.prems on_record_fault [of f serial c g] by (intro ca_apply_keeps) simp
  then have "on_record (ops f) serial (ca_apply ops lib (g, e) c)" by (subst on_record_fault [of f _ _ g])
  then show ?case by (simp add: ev Cons.IH)
qed simp

end

subsection \<open>Properties\<close>

text \<open>Once an authority with a file behind it has revoked a serial number successfully, every later query finds it revoked.\<close>

lemma revocation_survives_restarts:
  assumes "Revoke (file_ops f) serial c = (Ok (), c')"
  shows "fst (CA_IsRevoked (file_ops g) serial (ca_run file_ops lib evs c'))"
proof -
  have "on_record (file_ops f) serial c'" using assms by (rule filestore.Revoke_records)
  then have "on_record (file_ops f) serial (ca_run file_ops lib evs c')" by (rule filestore.ca_run_keeps)
  then have "on_record (file_ops g) serial (ca_run file_ops lib evs c')"
    by (subst filestore.on_record_fault [of g _ _ f])
  then show ?thesis by (rule on_record_revoked)
qed

definition no_store_faults :: store_faults where
  "no_store_faults = \<lparr>sf_mkdir = None, sf_write = None, sf_rename = None\<rparr>"

definition sample_x509 :: "unit x509_lib" where
  "sample_x509 = \<lparr>xl_new_root = Ok (''cert'', ''key'', ()), xl_parse_root = (\<lambda>_ _. Ok ()), xl_new_key = Ok (''key'', ''pub''),
     xl_pem_csr = (\<lambda>s. Some s), xl_parse_csr = (\<lambda>s. Ok \<lparr>cs_signature = None, cs_ecdsa_key = Some s\<rparr>),
     xl_sign = (\<lambda>t p k. Ok p), xl_is_ip = (\<lambda>_. False), xl_keypair = (\<lambda>_ _. Ok ())\<rparr>"

text \<open>Restarts reissue revoked numbers: the counter of serial numbers starts again at 1 with every start, while
  revocations stay, so when the number 1 was ever revoked, the first certificate signed after a restart, for whatever agent,
  carries it and is refused as revoked.\<close>

theorem restart_reissues_revoked_serial:
  assumes "Revoke (file_ops f) ''1'' c = (Ok (), c')"
    and "GenerateRoot (file_ops g) lib (NewCA (ca_storage c')) = (Ok (), c1)"
    and "SignCSR lib now req agentID c1 = (Ok cert, c2)"
  shows "(\<exists>pub k. xl_sign lib (client_template 1 agentID now) pub k = Ok cert) \<and> fst (CA_IsRevoked (file_ops h) ''1'' c2)"
proof -
  have "on_record (file_ops f) ''1'' c'" using assms(1) by (rule filestore.Revoke_records)
  then have "op_is_revoked (file_ops g) ''1'' (ca_storage c') = Ok True"
    using filestore.same_query [of g f] by (simp add: on_record_def)
  then have "on_record (file_ops g) ''1'' c1" using filestore.restart_keeps [of g "''1''" c' lib] assms(2) by simp
  then have "on_record (file_ops g) ''1'' c2"
    using SignCSR_frame [of lib now req agentID c1] assms(3) by (simp add: on_record_def)
  then have "on_record (file_ops h) ''1'' c2" using filestore.on_record_fault [of g "''1''" c2 h] by simp
  moreover have "ca_serial c1 = 0"
    using GenerateRoot_frame [of "file_ops g" lib "NewCA (ca_storage c')"] assms(2) by (simp add: NewCA_def)
  ultimately show ?thesis
    using assms(3) on_record_revoked
    by (auto simp: SignCSR_def next_serial_def Let_def outcome_simps split: option.splits outcome.splits)
qed

lemma restart_reissues_revoked_serial_witness:
  "\<exists>c1 c2 :: (store_file, unit) ca. GenerateRoot (file_ops no_store_faults) sample_x509 (NewCA (ca_storage (snd (Revoke (file_ops no_store_faults)
       ''1'' (NewCA Absent :: (store_file, unit) ca))))) = (Ok (), c1) \<and>
     SignCSR sample_x509 0 ''r'' ''b'' c1 = (Ok ''r'', c2) \<and> fst (CA_IsRevoked (file_ops no_store_faults) ''1'' c2)"
proof -
  let ?rev = "Revoke (file_ops no_store_faults) ''1'' (NewCA Absent :: (store_file, unit) ca)"
  let ?gen = "GenerateRoot (file_ops no_store_faults) sample_x509 (NewCA (ca_storage (snd ?rev)))"
  let ?sign = "SignCSR sample_x509 0 ''r'' ''b'' (snd ?gen)"
  have "fst ?rev = Ok ()" "fst ?gen = Ok ()" "fst ?sign = Ok ''r''" by code_simp+
  then have runs: "?rev = (Ok (), snd ?rev)" "?gen = (Ok (), snd ?gen)" "?sign = (Ok ''r'', snd ?sign)"
    by (simp_all only: prod_eq_iff fst_conv snd_conv)
  from restart_reissues_revoked_serial [OF runs] runs show ?thesis by blast
qed

text \<open>A file that cannot be read is taken for an empty one: the next revocation writes it anew, without the root.\<close>

lemma revocation_drops_unreadable_root:
  "File_AddRevoked no_store_faults serial (Unreadable e) = (Ok (), Data \<lparr>fd_CACert = [], fd_CAKey = [], fd_Revoked = [serial]\<rparr>)"
  by (simp add: File_AddRevoked_def read_or_empty_def empty_store_def store_write_def no_store_faults_def)

end
