(* ===== verification/Ws_Hub.thy ===== *)
theory Ws_Hub
  imports Ws_Types Executor
begin

section \<open>The hub\<close>

text \<open>
  The model of \<^verbatim>\<open>internal/ws/hub/hub.go\<close>. Connections are numbered as they are accepted and calls of \<^verbatim>\<open>SendToAgent\<close>
  as they begin; the channel a call waits on belongs to that call. What the goroutines do between two waits is one
  step: the registration of a connection and the start of its read pump, one message, the end of a pump, a call's
  look-up of the connection, its registration there, its write, its return. The JSON readings of a message, the errors of the sockets and the
  clock are inputs of the steps.
\<close>

subsection \<open>State\<close>

datatype phase = Starting | Pumping | Ended | Dropped

record agent_conn =
  hc_agentID :: string
  hc_connectedAt :: go_time
  hc_lastSeen :: go_time
  hc_open :: bool
  hc_phase :: phase
  hc_pending :: "(string \<times> nat) list"

datatype 'r call_state = Loaded | Registered | Awaiting | Returned "'r ws_response outcome"

text \<open>A call: its arguments, the connection it found, its channel of capacity one, and how far it got.\<close>

record 'r hub_call =
  sc_agentID :: string
  sc_cmd :: command
  sc_conn :: "nat option"
  sc_value :: "'r ws_response option"
  sc_closed :: bool
  sc_state :: "'r call_state"

text \<open>The hub: \<^verbatim>\<open>conns\<close>, all connections and calls, the state of the handler of signing requests, what was written to
  agents on the hub's own account, the notifications passed on, the hooks called (connect or not), and whether a
  panic has crashed the server, as one in a goroutine without recovery does.\<close>

record ('r, 'k) hub =
  hb_conns :: "(string \<times> nat) list"
  hb_objs :: "agent_conn list"
  hb_calls :: "'r hub_call list"
  hb_closed :: bool
  hb_csr :: 'k
  hb_written :: "(nat \<times> 'r ws_response) list"
  hb_progress :: "(string \<times> command) list"
  hb_hooks :: "(bool \<times> string) list"
  hb_crashed :: bool

text \<open>What is configured: the handler of signing requests with its result as the payload of a response, and the
  handlers of progress and of the life cycle.\<close>

record ('r, 'k) hub_env =
  he_sign :: "(go_time \<Rightarrow> string \<Rightarrow> string \<Rightarrow> 'k \<Rightarrow> string outcome \<times> 'k) option"
  he_certificate :: "string \<Rightarrow> 'r"
  he_progress :: bool
  he_connect :: bool
  he_disconnect :: bool

definition NewHub :: "'k \<Rightarrow> ('r, 'k) hub" where
  "NewHub k = \<lparr>hb_conns = [], hb_objs = [], hb_calls = [], hb_closed = False, hb_csr = k, hb_written = [], hb_progress = [],
     hb_hooks = [], hb_crashed = False\<rparr>"

definition upd_obj :: "nat \<Rightarrow> (agent_conn \<Rightarrow> agent_conn) \<Rightarrow> ('r, 'k) hub \<Rightarrow> ('r, 'k) hub" where
  "upd_obj n f h = h\<lparr>hb_objs := (hb_objs h)[n := f (hb_objs h ! n)]\<rparr>"

definition upd_call :: "nat \<Rightarrow> ('r hub_call \<Rightarrow> 'r hub_call) \<Rightarrow> ('r, 'k) hub \<Rightarrow> ('r, 'k) hub" where
  "upd_call k f h = h\<lparr>hb_calls := (hb_calls h)[k := f (hb_calls h ! k)]\<rparr>"

subsection \<open>Connections\<close>

definition IsConnected :: "string \<Rightarrow> ('r, 'k) hub \<Rightarrow> bool" where
  "IsConnected agentID h \<longleftrightarrow> map_of (hb_conns h) agentID \<noteq> None"

record agent_info =
  ai_ID :: string
  ai_ConnectedAt :: go_time
  ai_LastSeen :: go_time
  ai_Status :: string

definition GetConnectedAgents :: "('r, 'k) hub \<Rightarrow> agent_info list" where
  "GetConnectedAgents h = map (\<lambda>(_, n). let ac = hb_objs h ! n in
     \<lparr>ai_ID = hc_agentID ac, ai_ConnectedAt = hc_connectedAt ac, ai_LastSeen = hc_lastSeen ac, ai_Status = ''online''\<rparr>) (hb_conns h)"

text \<open>\<^verbatim>\<open>HandleConnection\<close> in two steps: up to the entry in \<^verbatim>\<open>conns\<close>, and from there to the start of the read pump.\<close>

definition handle_connection :: "string \<Rightarrow> bool \<Rightarrow> go_time \<Rightarrow> ('r, 'k) hub \<Rightarrow> ('r, 'k) hub" where
  "handle_connection agentID revoked now h =
     (if agentID = [] \<or> revoked \<or> IsConnected agentID h then h
      else h\<lparr>hb_conns := AList.update agentID (length (hb_objs h)) (hb_conns h),
        hb_objs := hb_objs h @ [\<lparr>hc_agentID = agentID, hc_connectedAt = now, hc_lastSeen = now, hc_open = True,
          hc_phase = Starting, hc_pending = []\<rparr>]\<rparr>)"

text \<open>Whose connection it is, and whether it is revoked, the certificate of the TLS handshake says.\<close>

record peer_certificate =
  pe_CommonName :: string
  pe_Serial :: string

definition extractAgentID :: "peer_certificate list option \<Rightarrow> string" where
  "extractAgentID tls = (case tls of Some (c # _) \<Rightarrow> pe_CommonName c | _ \<Rightarrow> [])"

definition HandleConnection :: "(string \<Rightarrow> bool) option \<Rightarrow> peer_certificate list option \<Rightarrow> go_time \<Rightarrow> ('r, 'k) hub \<Rightarrow> ('r, 'k) hub" where
  "HandleConnection is_revoked tls now =
     handle_connection (extractAgentID tls)
       (case (is_revoked, tls) of (Some f, Some (c # _)) \<Rightarrow> f (pe_Serial c) | _ \<Rightarrow> False) now"

lemma HandleConnection_admits:
  assumes "HandleConnection is_revoked tls now h \<noteq> h"
  shows "\<exists>c cs. tls = Some (c # cs) \<and> pe_CommonName c \<noteq> [] \<and> (\<forall>f. is_revoked = Some f \<longrightarrow> \<not> f (pe_Serial c)) \<and>
    \<not> IsConnected (pe_CommonName c) h"
  using assms
  by (auto simp: HandleConnection_def handle_connection_def extractAgentID_def split: option.splits list.splits if_splits)

definition start_pump :: "('r, 'k) hub_env \<Rightarrow> nat \<Rightarrow> bool \<Rightarrow> ('r, 'k) hub \<Rightarrow> ('r, 'k) hub" where
  "start_pump env n deadline_fails h =
     (if n < length (hb_objs h) \<and> hc_phase (hb_objs h ! n) = Starting then
        let a = hc_agentID (hb_objs h ! n) in
        if deadline_fails then
          upd_obj n (\<lambda>c. c\<lparr>hc_open := False, hc_phase := Dropped\<rparr>) (h\<lparr>hb_conns := AList.delete a (hb_conns h)\<rparr>)
        else upd_obj n (\<lambda>c. c\<lparr>hc_phase := Pumping\<rparr>)
          (if he_connect env then h\<lparr>hb_hooks := hb_hooks h @ [(True, a)]\<rparr> else h)
      else h)"

subsection \<open>The read pump\<close>

definition cert_reply :: "('r, 'k) hub_env \<Rightarrow> go_time \<Rightarrow> string \<Rightarrow> command \<Rightarrow> 'k \<Rightarrow> 'r ws_response outcome \<times> 'k" where
  "cert_reply env now agentID cmd k =
     (let fail = (\<lambda>m. Ok \<lparr>rs_Cmd = cm_Cmd cmd, rs_Status = ''error'', rs_Result = None, rs_Error = m\<rparr>) in
      case he_sign env of
        None \<Rightarrow> (fail ''certificate renewal not supported'', k)
      | Some sign \<Rightarrow>
          (case map_of (cm_Params cmd) ''csr'' of
             Some (JStr csrPEM) \<Rightarrow>
               (case sign now csrPEM agentID k of
                  (Ok cert, k) \<Rightarrow>
                    (Ok \<lparr>rs_Cmd = cm_Cmd cmd, rs_Status = ''ok'', rs_Result = Some (he_certificate env cert), rs_Error = []\<rparr>, k)
                | (Err e, k) \<Rightarrow> (fail (''sign CSR: '' @ error_text e), k)
                | (Panic, k) \<Rightarrow> (Panic, k))
           | _ \<Rightarrow> (fail (''missing '' @ [CHR 0x27] @ ''csr'' @ [CHR 0x27] @ '' parameter''), k)))"

definition handleCertRenewal :: "('r, 'k) hub_env \<Rightarrow> go_time \<Rightarrow> nat \<Rightarrow> command \<Rightarrow> ('r, 'k) hub \<Rightarrow> ('r, 'k) hub" where
  "handleCertRenewal env now n cmd h =
     (let (reply, k) = cert_reply env now (hc_agentID (hb_objs h ! n)) cmd (hb_csr h); h = h\<lparr>hb_csr := k\<rparr> in
      case reply of
        Ok r \<Rightarrow> h\<lparr>hb_written := hb_written h @ [(n, r)]\<rparr>
      | _ \<Rightarrow> h\<lparr>hb_crashed := True\<rparr>)"

text \<open>A response goes into the channel of the call that waits for it, unless the channel is full; sending on a
  closed channel panics.\<close>

definition deliver :: "'r ws_response \<Rightarrow> nat \<Rightarrow> ('r, 'k) hub \<Rightarrow> ('r, 'k) hub" where
  "deliver r k h =
     (if sc_closed (hb_calls h ! k) then h\<lparr>hb_crashed := True\<rparr>
      else upd_call k (\<lambda>c. if sc_value c = None then c\<lparr>sc_value := Some r\<rparr> else c) h)"

definition waiting_call :: "'r wire_message \<Rightarrow> agent_conn \<Rightarrow> ('r ws_response \<times> nat) option" where
  "waiting_call msg ac = (case wm_response msg of
      Some r \<Rightarrow> if is_response r then map_option (Pair r) (map_of (hc_pending ac) (rs_Cmd r)) else None
    | None \<Rightarrow> None)"

definition other_message :: "('r, 'k) hub_env \<Rightarrow> go_time \<Rightarrow> nat \<Rightarrow> 'r wire_message \<Rightarrow> ('r, 'k) hub \<Rightarrow> ('r, 'k) hub" where
  "other_message env now n msg h = (case wm_command msg of
      None \<Rightarrow> h
    | Some cmd \<Rightarrow>
        if cm_Type cmd = CmdCertRenewal then handleCertRenewal env now n cmd h
        else if cm_Type cmd = CmdPITRProgress \<and> he_progress env
        then h\<lparr>hb_progress := hb_progress h @ [(hc_agentID (hb_objs h ! n), cmd)]\<rparr>
        else h)"

definition can_read :: "nat \<Rightarrow> ('r, 'k) hub \<Rightarrow> bool" where
  "can_read n h \<longleftrightarrow> n < length (hb_objs h) \<and> hc_phase (hb_objs h ! n) = Pumping"

definition read_message :: "('r, 'k) hub_env \<Rightarrow> nat \<Rightarrow> 'r wire_message \<Rightarrow> go_time \<Rightarrow> ('r, 'k) hub \<Rightarrow> ('r, 'k) hub" where
  "read_message env n msg now h =
     (if can_read n h \<and> hc_open (hb_objs h ! n) then
        let h = upd_obj n (\<lambda>c. c\<lparr>hc_lastSeen := now\<rparr>) h in
        (case waiting_call msg (hb_objs h ! n) of
           Some (r, k) \<Rightarrow> deliver r k h
         | None \<Rightarrow> other_message env now n msg h)
      else h)"

text \<open>The deferred function of the read pump: it removes the agent's entry, closes the socket and the channels of all
  waiting calls.\<close>

definition end_pump :: "('r, 'k) hub_env \<Rightarrow> nat \<Rightarrow> ('r, 'k) hub \<Rightarrow> ('r, 'k) hub" where
  "end_pump env n h =
     (if can_read n h then
        let ac = hb_objs h ! n; ks = map snd (hc_pending ac) in
        h\<lparr>hb_conns := AList.delete (hc_agentID ac) (hb_conns h),
          hb_objs := (hb_objs h)[n := ac\<lparr>hc_open := False, hc_phase := Ended, hc_pending := []\<rparr>],
          hb_calls := map (\<lambda>(k, c). if k \<in> set ks then c\<lparr>sc_closed := True\<rparr> else c) (zip [0..<length (hb_calls h)] (hb_calls h)),
          hb_hooks := hb_hooks h @ (if he_disconnect env then [(False, hc_agentID ac)] else [])\<rparr>
      else h)"

subsection \<open>Calls\<close>

text \<open>The way out of \<^verbatim>\<open>SendToAgent\<close>: the deferred function removes the command from the pending ones.\<close>

definition finish :: "nat \<Rightarrow> 'r ws_response outcome \<Rightarrow> ('r, 'k) hub \<Rightarrow> ('r, 'k) hub" where
  "finish k r h =
     (let c = hb_calls h ! k; h = upd_call k (\<lambda>c. c\<lparr>sc_state := Returned r\<rparr>) h in
      case sc_conn c of
        Some n \<Rightarrow> upd_obj n (\<lambda>ac. ac\<lparr>hc_pending := AList.delete (cm_Cmd (sc_cmd c)) (hc_pending ac)\<rparr>) h
      | None \<Rightarrow> h)"

definition in_state :: "'r call_state \<Rightarrow> nat \<Rightarrow> ('r, 'k) hub \<Rightarrow> bool" where
  "in_state s k h \<longleftrightarrow> k < length (hb_calls h) \<and> sc_state (hb_calls h ! k) = s"

definition send_begin :: "string \<Rightarrow> command \<Rightarrow> ('r, 'k) hub \<Rightarrow> ('r, 'k) hub" where
  "send_begin agentID cmd h =
     h\<lparr>hb_calls := hb_calls h @
       [\<lparr>sc_agentID = agentID, sc_cmd = cmd, sc_conn = map_of (hb_conns h) agentID, sc_value = None, sc_closed = False,
         sc_state = (if IsConnected agentID h then Loaded
           else Returned (Err (Errorf (''hub: agent '' @ agentID @ '' not connected''))))\<rparr>]\<rparr>"

definition send_register :: "nat \<Rightarrow> ('r, 'k) hub \<Rightarrow> ('r, 'k) hub" where
  "send_register k h =
     (if in_state Loaded k h then
        let c = hb_calls h ! k; h = upd_call k (\<lambda>c. c\<lparr>sc_state := Registered\<rparr>) h in
        (case sc_conn c of
           Some n \<Rightarrow> upd_obj n (\<lambda>ac. ac\<lparr>hc_pending := AList.update (cm_Cmd (sc_cmd c)) k (hc_pending ac)\<rparr>) h
         | None \<Rightarrow> h)
      else h)"

datatype write_result = Written | Marshal_Failed go_error | Deadline_Failed go_error | Write_Failed go_error

definition send_write :: "nat \<Rightarrow> write_result \<Rightarrow> ('r, 'k) hub \<Rightarrow> ('r, 'k) hub" where
  "send_write k w h =
     (if in_state Registered k h then
        let c = hb_calls h ! k; write_failed = (\<lambda>e. finish k (Err (Wrapf (''hub: write to agent '' @ sc_agentID c) e))
              (h\<lparr>hb_conns := AList.delete (sc_agentID c) (hb_conns h)\<rparr>))
        in (case w of
              Marshal_Failed e \<Rightarrow> finish k (Err (Wrapf ''hub: marshal command'' e)) h
            | Deadline_Failed e \<Rightarrow> finish k (Err (Wrapf ''hub: set write deadline'' e)) h
            | Write_Failed e \<Rightarrow> write_failed e
            | Written \<Rightarrow>
                if case sc_conn c of Some n \<Rightarrow> hc_open (hb_objs h ! n) | None \<Rightarrow> False
                then upd_call k (\<lambda>c. c\<lparr>sc_state := Awaiting\<rparr>) h
                else write_failed (Errorf ''use of closed network connection''))
      else h)"

datatype wake = Received | Context_Done go_error | Hub_Closed

definition send_return :: "nat \<Rightarrow> wake \<Rightarrow> ('r, 'k) hub \<Rightarrow> ('r, 'k) hub" where
  "send_return k why h =
     (if in_state Awaiting k h then
        let c = hb_calls h ! k in
        (case why of
           Received \<Rightarrow>
             (case sc_value c of
                Some r \<Rightarrow> finish k (Ok r) (upd_call k (\<lambda>c. c\<lparr>sc_value := None\<rparr>) h)
              | None \<Rightarrow> if sc_closed c then
                  finish k (Err (Errorf (''hub: agent '' @ sc_agentID c @ '' disconnected while awaiting response''))) h else h)
         | Context_Done e \<Rightarrow> finish k (Err e) h
         | Hub_Closed \<Rightarrow> if hb_closed h then finish k (Err (Errorf ''hub: closed'')) h else h)
      else h)"

definition Hub_Close :: "('r, 'k) hub \<Rightarrow> ('r, 'k) hub" where
  "Hub_Close h =
     (if hb_closed h then h
      else h\<lparr>hb_closed := True,
        hb_objs := map (\<lambda>(n, ac). if n \<in> snd ` set (hb_conns h) then ac\<lparr>hc_open := False\<rparr> else ac)
          (zip [0..<length (hb_objs h)] (hb_objs h))\<rparr>)"

subsection \<open>Runs\<close>

datatype 'r hub_event = Connection string bool go_time | Start_Pump nat bool | Read_Message nat "'r wire_message" go_time
  | Read_Error nat | Send_Begin string command
  | Send_Register nat | Send_Write nat write_result | Send_Return nat wake | Close_Hub

fun hub_apply :: "('r, 'k) hub_env \<Rightarrow> 'r hub_event \<Rightarrow> ('r, 'k) hub \<Rightarrow> ('r, 'k) hub" where
  "hub_apply env (Connection agentID revoked now) h = handle_connection agentID revoked now h"
| "hub_apply env (Start_Pump n fails) h = start_pump env n fails h"
| "hub_apply env (Read_Message n msg now) h = read_message env n msg now h"
| "hub_apply env (Read_Error n) h = end_pump env n h"
| "hub_apply env (Send_Begin agentID cmd) h = send_begin agentID cmd h"
| "hub_apply env (Send_Register k) h = send_register k h"
| "hub_apply env (Send_Write k w) h = send_write k w h"
| "hub_apply env (Send_Return k why) h = send_return k why h"
| "hub_apply env Close_Hub h = Hub_Close h"

text \<open>The states a new hub can get into, and the events that led there, the latest first.\<close>

inductive hub_trace :: "('r, 'k) hub_env \<Rightarrow> 'r hub_event list \<Rightarrow> ('r, 'k) hub \<Rightarrow> bool" for env where
  start: "hub_trace env [] (NewHub k)"
| step: "hub_trace env evs h \<Longrightarrow> \<not> hb_crashed h \<Longrightarrow> hub_trace env (ev # evs) (hub_apply env ev h)"

end
