(* ===== verification/Ws_Hub_Correct.thy ===== *)
theory Ws_Hub_Correct
  imports Ws_Hub Ws_Ca
begin

section \<open>What the hub promises\<close>

text \<open>
  An invariant of all states a hub can get into, by induction on the events: connections and calls refer to each
  other properly, an open channel is only closed by the pump of its connection, and a call holds or returned only
  a response that its own connection sent for its own command. The interface to the handler of signing requests is a
  locale, and the certificate authority provides it.
\<close>

subsection \<open>The invariant\<close>

definition answered :: "'r hub_event list \<Rightarrow> nat \<Rightarrow> string \<Rightarrow> 'r ws_response \<Rightarrow> bool" where
  "answered evs n cmd r \<longleftrightarrow>
     (\<exists>msg now. Read_Message n msg now \<in> set evs \<and> wm_response msg = Some r \<and> is_response r \<and> rs_Cmd r = cmd)"

definition call_ok :: "'r hub_event list \<Rightarrow> agent_conn list \<Rightarrow> 'r hub_call \<Rightarrow> bool" where
  "call_ok evs objs c \<longleftrightarrow> (case sc_conn c of
       None \<Rightarrow> (\<exists>e. sc_state c = Returned (Err e)) \<and> sc_value c = None
     | Some n \<Rightarrow> n < length objs \<and> hc_agentID (objs ! n) = sc_agentID c \<and>
         (\<forall>r. sc_value c = Some r \<or> sc_state c = Returned (Ok r) \<longrightarrow> answered evs n (cm_Cmd (sc_cmd c)) r)) \<and>
     (sc_state c = Loaded \<longrightarrow> \<not> sc_closed c)"

definition entry_ok :: "'r hub_call list \<Rightarrow> nat \<Rightarrow> string \<times> nat \<Rightarrow> bool" where
  "entry_ok calls n = (\<lambda>(cmd, k). k < length calls \<and> sc_conn (calls ! k) = Some n \<and> cm_Cmd (sc_cmd (calls ! k)) = cmd \<and>
     \<not> sc_closed (calls ! k) \<and> sc_state (calls ! k) \<noteq> Loaded)"

definition conn_ok :: "agent_conn list \<Rightarrow> string \<times> nat \<Rightarrow> bool" where
  "conn_ok objs = (\<lambda>(a, n). n < length objs \<and> hc_agentID (objs ! n) = a)"

definition hub_ok :: "'r hub_event list \<Rightarrow> ('r, 'k) hub \<Rightarrow> bool" where
  "hub_ok evs h \<longleftrightarrow> (\<forall>x\<in>set (hb_conns h). conn_ok (hb_objs h) x) \<and> (\<forall>c\<in>set (hb_calls h). call_ok evs (hb_objs h) c) \<and>
     (\<forall>n<length (hb_objs h). \<forall>x\<in>set (hc_pending (hb_objs h ! n)). entry_ok (hb_calls h) n x)"

lemma hub_okD:
  assumes "hub_ok evs h"
  shows "(a, n) \<in> set (hb_conns h) \<Longrightarrow> conn_ok (hb_objs h) (a, n)"
    and "k < length (hb_calls h) \<Longrightarrow> call_ok evs (hb_objs h) (hb_calls h ! k)"
    and "n < length (hb_objs h) \<Longrightarrow> x \<in> set (hc_pending (hb_objs h ! n)) \<Longrightarrow> entry_ok (hb_calls h) n x"
  using assms by (auto simp: hub_ok_def)

text \<open>The pieces survive when connections keep their agent and calls keep their connection and command.\<close>

definition extends :: "agent_conn list \<Rightarrow> agent_conn list \<Rightarrow> bool" where
  "extends objs objs' \<longleftrightarrow> length objs \<le> length objs' \<and> (\<forall>n<length objs. hc_agentID (objs' ! n) = hc_agentID (objs ! n))"

lemma extends_refl [simp]: "extends objs objs"
  by (simp add: extends_def)

lemma extends_append [simp]: "extends objs (objs @ xs)"
  by (auto simp: extends_def nth_append)

lemma extends_update: "hc_agentID ac = hc_agentID (objs ! n) \<Longrightarrow> extends objs (objs[n := ac])"
  by (auto simp: extends_def) (metis nth_list_update_eq nth_list_update_neq)

lemma answered_more: "answered evs n cmd r \<Longrightarrow> answered (ev # evs) n cmd r"
  by (auto simp: answered_def)

lemma conn_ok_extends: "conn_ok objs x \<Longrightarrow> extends objs objs' \<Longrightarrow> conn_ok objs' x"
  by (auto simp: conn_ok_def extends_def)

lemma AList_delete_subset: "x \<in> set (AList.delete k xs) \<Longrightarrow> x \<in> set xs"
  by (induction xs) (auto simp: AList.delete_eq split: if_splits)

lemma AList_update_cases: "x \<in> set (AList.update k v xs) \<Longrightarrow> x = (k, v) \<or> x \<in> set xs"
  by (induction xs) (auto split: if_splits)

lemma call_ok_extends: "call_ok evs objs c \<Longrightarrow> extends objs objs' \<Longrightarrow> call_ok evs objs' c"
  by (fastforce simp: call_ok_def extends_def split: option.splits)

lemma call_ok_closed: "call_ok evs objs c \<Longrightarrow> sc_state c \<noteq> Loaded \<Longrightarrow> call_ok evs objs (c\<lparr>sc_closed := True\<rparr>)"
  by (simp add: call_ok_def split: option.splits)

lemma hub_ok_more: "hub_ok evs h \<Longrightarrow> hub_ok (ev # evs) h"
  by (auto simp: hub_ok_def call_ok_def split: option.splits intro: answered_more)

text \<open>The three pieces of the state an operation may touch.\<close>

lemma hub_ok_cong:
  "hb_conns h' = hb_conns h \<Longrightarrow> hb_objs h' = hb_objs h \<Longrightarrow> hb_calls h' = hb_calls h \<Longrightarrow> hub_ok evs h' = hub_ok evs h"
  by (simp add: hub_ok_def)

lemma ok_conns:
  assumes "hub_ok evs h" "\<And>x. x \<in> set (hb_conns h') \<Longrightarrow> x \<in> set (hb_conns h) \<or> conn_ok (hb_objs h) x"
    "hb_objs h' = hb_objs h" "hb_calls h' = hb_calls h"
  shows "hub_ok evs h'"
  using assms by (auto simp: hub_ok_def)

lemma ok_upd_obj:
  assumes ok: "hub_ok evs h" and keep: "n < length (hb_objs h) \<Longrightarrow> hc_agentID (f (hb_objs h ! n)) = hc_agentID (hb_objs h ! n)"
    and entries: "\<And>x. n < length (hb_objs h) \<Longrightarrow> x \<in> set (hc_pending (f (hb_objs h ! n))) \<Longrightarrow>
      x \<in> set (hc_pending (hb_objs h ! n)) \<or> entry_ok (hb_calls h) n x"
  shows "hub_ok evs (upd_obj n f h)"
proof (cases "n < length (hb_objs h)")
  case True
  have ext: "extends (hb_objs h) (hb_objs (upd_obj n f h))"
    by (simp add: upd_obj_def extends_update keep [OF True])
  have "entry_ok (hb_calls h) m x" if "m < length (hb_objs h)" "x \<in> set (hc_pending (hb_objs (upd_obj n f h) ! m))" for m x
    using that entries [OF True, of x] hub_okD(3) [OF ok, of m x] True by (cases "m = n") (auto simp: upd_obj_def)
  with ok ext show ?thesis
    by (auto simp: hub_ok_def upd_obj_def intro: conn_ok_extends call_ok_extends)
next
  case False
  with ok show ?thesis by (simp add: upd_obj_def list_update_beyond)
qed

lemma ok_upd_call:
  assumes ok: "hub_ok evs h" and new: "k < length (hb_calls h) \<Longrightarrow> call_ok evs (hb_objs h) (f (hb_calls h ! k))"
    and same: "\<And>c. sc_conn (f c) = sc_conn c" "\<And>c. sc_cmd (f c) = sc_cmd c" "\<And>c. sc_closed (f c) = sc_closed c"
    and not_back: "\<And>c. sc_state (f c) = Loaded \<Longrightarrow> sc_state c = Loaded"
  shows "hub_ok evs (upd_call k f h)"
proof (cases "k < length (hb_calls h)")
  case True
  have "entry_ok (hb_calls (upd_call k f h)) n x" if "entry_ok (hb_calls h) n x" for n x
    using that not_back [of "hb_calls h ! k"] True
    by (cases "snd x = k") (auto simp: entry_ok_def upd_call_def same nth_list_update split: prod.splits)
  moreover have "call_ok evs (hb_objs h) c" if "c \<in> set (hb_calls (upd_call k f h))" for c
    using that new [OF True] ok set_update_subset_insert [of "hb_calls h" k "f (hb_calls h ! k)"]
    by (auto simp: upd_call_def hub_ok_def)
  ultimately show ?thesis
    using ok by (auto simp: hub_ok_def upd_call_def)
next
  case False
  with ok show ?thesis by (simp add: upd_call_def list_update_beyond)
qed

subsection \<open>Every event keeps it\<close>

lemma ok_handle_connection: "hub_ok evs h \<Longrightarrow> hub_ok evs (handle_connection a revoked now h)"
  by (auto simp: handle_connection_def hub_ok_def conn_ok_def nth_append dest!: AList_update_cases
    intro: call_ok_extends [OF _ extends_append])

lemma ok_conns_delete: "hub_ok evs h \<Longrightarrow> hub_ok evs (h\<lparr>hb_conns := AList.delete a (hb_conns h)\<rparr>)"
  by (rule ok_conns [where h = h]) (auto dest: AList_delete_subset)

lemma ok_start_pump:
  assumes ok: "hub_ok evs h"
  shows "hub_ok evs (start_pump env n fails h)"
proof -
  have "hub_ok evs (h\<lparr>hb_hooks := hooks\<rparr>)" for hooks using ok by (simp add: hub_ok_cong [of "h\<lparr>hb_hooks := hooks\<rparr>" h])
  with ok ok_conns_delete [OF ok] show ?thesis
    by (auto simp: start_pump_def Let_def intro!: ok_upd_obj)
qed

lemma other_message_frame:
  "hb_conns (other_message env now n msg h) = hb_conns h" "hb_objs (other_message env now n msg h) = hb_objs h"
  "hb_calls (other_message env now n msg h) = hb_calls h"
  by (auto simp: other_message_def handleCertRenewal_def Let_def split: option.splits prod.splits outcome.splits)

lemma ok_deliver:
  assumes ok: "hub_ok evs h" and k: "k < length (hb_calls h)" "sc_conn (hb_calls h ! k) = Some n"
    and r: "answered evs n (cm_Cmd (sc_cmd (hb_calls h ! k))) r"
  shows "hub_ok evs (deliver r k h)"
proof (cases "sc_closed (hb_calls h ! k)")
  case True
  then have "deliver r k h = h\<lparr>hb_crashed := True\<rparr>" by (simp add: deliver_def)
  with ok show ?thesis by (simp add: hub_ok_cong [of "h\<lparr>hb_crashed := True\<rparr>" h])
next
  case False
  have "hub_ok evs (upd_call k (\<lambda>c. if sc_value c = None then c\<lparr>sc_value := Some r\<rparr> else c) h)"
    using hub_okD(2) [OF ok k(1)] k(2) r by (intro ok_upd_call [OF ok]) (auto simp: call_ok_def split: if_splits)
  with False show ?thesis by (simp add: deliver_def)
qed

lemma ok_read_message:
  assumes ok: "hub_ok evs h" and ev: "Read_Message n msg now \<in> set evs"
  shows "hub_ok evs (read_message env n msg now h)"
proof (cases "can_read n h \<and> hc_open (hb_objs h ! n)")
  case True
  let ?h = "upd_obj n (\<lambda>c. c\<lparr>hc_lastSeen := now\<rparr>) h"
  have ok': "hub_ok evs ?h" by (rule ok_upd_obj [OF ok]) auto
  have "hub_ok evs (deliver r k ?h)" if w: "waiting_call msg (hb_objs ?h ! n) = Some (r, k)" for r k
  proof -
    have msg: "wm_response msg = Some r" "is_response r" "map_of (hc_pending (hb_objs ?h ! n)) (rs_Cmd r) = Some k"
      using w by (auto simp: waiting_call_def split: option.splits if_splits)
    have "n < length (hb_objs ?h)" using True by (simp add: can_read_def upd_obj_def)
    with hub_okD(3) [OF ok' this map_of_SomeD [OF msg(3)]] ev msg show ?thesis
      by (intro ok_deliver [OF ok']) (auto simp: entry_ok_def answered_def)
  qed
  moreover have "hub_ok evs (other_message env now n msg ?h)"
    using ok' by (simp add: hub_ok_cong [OF other_message_frame])
  ultimately show ?thesis
    using True by (auto simp: read_message_def Let_def split: option.splits)
next
  case False
  with ok show ?thesis by (auto simp: read_message_def)
qed

lemma ok_end_pump:
  assumes ok: "hub_ok evs h"
  shows "hub_ok evs (end_pump env n h)"
proof (cases "can_read n h")
  case True
  then have n: "n < length (hb_objs h)" by (simp add: can_read_def)
  let ?ks = "snd ` set (hc_pending (hb_objs h ! n))" and ?h = "end_pump env n h"
  have objs: "hb_objs ?h = (hb_objs h)[n := (hb_objs h ! n)\<lparr>hc_open := False, hc_phase := Ended, hc_pending := []\<rparr>]"
    using True by (simp add: end_pump_def Let_def)
  have calls: "length (hb_calls ?h) = length (hb_calls h)"
    "\<And>k. k < length (hb_calls h) \<Longrightarrow>
       hb_calls ?h ! k = (if k \<in> ?ks then (hb_calls h ! k)\<lparr>sc_closed := True\<rparr> else hb_calls h ! k)"
    using True by (auto simp: end_pump_def Let_def)
  have ext: "extends (hb_objs h) (hb_objs ?h)" by (simp add: objs extends_update)
  have mine: "sc_conn (hb_calls h ! k) = Some n \<and> sc_state (hb_calls h ! k) \<noteq> Loaded" if "k \<in> ?ks" for k
    using that hub_okD(3) [OF ok n] by (fastforce simp: entry_ok_def)
  have "conn_ok (hb_objs ?h) x" if "x \<in> set (hb_conns ?h)" for x
  proof -
    have "x \<in> set (hb_conns h)" using that True by (auto simp: end_pump_def Let_def dest: AList_delete_subset)
    with ok ext show ?thesis by (auto simp: hub_ok_def intro: conn_ok_extends)
  qed
  moreover have "call_ok evs (hb_objs ?h) (hb_calls ?h ! k)" if "k < length (hb_calls ?h)" for k
    using that call_ok_extends [OF hub_okD(2) [OF ok, of k] ext] mine [of k]
    by (simp add: calls call_ok_closed del: image_iff)
  moreover have "entry_ok (hb_calls ?h) m x" if "m < length (hb_objs ?h)" "x \<in> set (hc_pending (hb_objs ?h ! m))" for m x
  proof -
    have m: "m \<noteq> n" "x \<in> set (hc_pending (hb_objs h ! m))" "m < length (hb_objs h)"
      using that n by (auto simp: objs nth_list_update split: if_splits)
    from hub_okD(3) [OF ok m(3,2)] mine [of "snd x"] m(1) show ?thesis
      by (auto simp: entry_ok_def calls split: prod.splits)
  qed
  ultimately show ?thesis by (auto simp: hub_ok_def in_set_conv_nth)
next
  case False
  with ok show ?thesis by (simp add: end_pump_def)
qed

text \<open>A call returns.\<close>

lemma ok_finish:
  assumes ok: "hub_ok evs h" and n: "sc_conn (hb_calls h ! k) = Some n"
    and r: "\<And>x. r = Ok x \<Longrightarrow> answered evs n (cm_Cmd (sc_cmd (hb_calls h ! k))) x"
  shows "hub_ok evs (finish k r h)"
proof -
  have "hub_ok evs (upd_call k (\<lambda>c. c\<lparr>sc_state := Returned r\<rparr>) h)"
    using hub_okD(2) [OF ok, of k] n r by (intro ok_upd_call [OF ok]) (auto simp: call_ok_def)
  then show ?thesis
    unfolding finish_def Let_def n option.case by (rule ok_upd_obj) (auto dest: AList_delete_subset)
qed

lemma call_connected: "hub_ok evs h \<Longrightarrow> in_state s k h \<Longrightarrow> s \<in> {Loaded, Registered, Awaiting} \<Longrightarrow>
    \<exists>n. sc_conn (hb_calls h ! k) = Some n \<and> n < length (hb_objs h)"
  by (auto simp: in_state_def call_ok_def dest!: hub_okD(2) split: option.splits)

lemma ok_send_begin:
  assumes ok: "hub_ok evs h"
  shows "hub_ok evs (send_begin a cmd h)"
  using ok by (fastforce simp: send_begin_def hub_ok_def call_ok_def entry_ok_def conn_ok_def IsConnected_def nth_append
    dest: map_of_SomeD split: option.splits)

lemma ok_send_register:
  assumes ok: "hub_ok evs h"
  shows "hub_ok evs (send_register k h)"
proof (cases "in_state Loaded k h")
  case True
  obtain n where n: "sc_conn (hb_calls h ! k) = Some n" using call_connected [OF ok True] by auto
  let ?h = "upd_call k (\<lambda>c. c\<lparr>sc_state := Registered\<rparr>) h"
  have k: "k < length (hb_calls h)" "sc_state (hb_calls h ! k) = Loaded" using True by (auto simp: in_state_def)
  have "hub_ok evs ?h"
    using hub_okD(2) [OF ok k(1)] n k by (intro ok_upd_call [OF ok]) (auto simp: call_ok_def)
  moreover have "entry_ok (hb_calls ?h) n (cm_Cmd (sc_cmd (hb_calls h ! k)), k)"
    using hub_okD(2) [OF ok k(1)] n k by (auto simp: entry_ok_def upd_call_def call_ok_def)
  ultimately show ?thesis
    using True n by (auto simp: send_register_def Let_def intro!: ok_upd_obj dest: AList_update_cases)
next
  case False
  with ok show ?thesis by (simp add: send_register_def)
qed

lemma ok_send_write:
  assumes ok: "hub_ok evs h"
  shows "hub_ok evs (send_write k w h)"
proof (cases "in_state Registered k h")
  case True
  obtain n where n: "sc_conn (hb_calls h ! k) = Some n" using call_connected [OF ok True] by auto
  have fail: "hub_ok evs (finish k (Err e) h)" for e by (rule ok_finish [OF ok n]) simp
  from ok_conns_delete [OF ok] have fail': "hub_ok evs (finish k (Err e) (h\<lparr>hb_conns := AList.delete a (hb_conns h)\<rparr>))" for a e
    by (rule ok_finish) (auto simp: n)
  have "hub_ok evs (upd_call k (\<lambda>c. c\<lparr>sc_state := Awaiting\<rparr>) h)"
    using hub_okD(2) [OF ok, of k] n True by (intro ok_upd_call [OF ok]) (auto simp: call_ok_def in_state_def)
  with True n fail fail' show ?thesis
    by (cases w) (auto simp: send_write_def Let_def)
next
  case False
  with ok show ?thesis by (simp add: send_write_def)
qed

lemma ok_send_return:
  assumes ok: "hub_ok evs h"
  shows "hub_ok evs (send_return k why h)"
proof (cases "in_state Awaiting k h")
  case True
  obtain n where n: "sc_conn (hb_calls h ! k) = Some n" using call_connected [OF ok True] by auto
  have k: "k < length (hb_calls h)" using True by (simp add: in_state_def)
  have fail: "hub_ok evs (finish k (Err e) h)" for e by (rule ok_finish [OF ok n]) simp
  let ?h = "upd_call k (\<lambda>c. c\<lparr>sc_value := None\<rparr>) h"
  have "hub_ok evs ?h"
    using hub_okD(2) [OF ok k] n by (intro ok_upd_call [OF ok]) (auto simp: call_ok_def)
  then have "hub_ok evs (finish k (Ok r) ?h)" if "sc_value (hb_calls h ! k) = Some r" for r
    using hub_okD(2) [OF ok k] n that k by (intro ok_finish [where n = n]) (auto simp: call_ok_def upd_call_def)
  with ok fail True show ?thesis
    by (cases why) (auto simp: send_return_def Let_def split: option.splits)
next
  case False
  with ok show ?thesis by (simp add: send_return_def)
qed

lemma ok_Hub_Close:
  assumes ok: "hub_ok evs h"
  shows "hub_ok evs (Hub_Close h)"
proof (cases "hb_closed h")
  case False
  have "extends (hb_objs h) (hb_objs (Hub_Close h))"
    using False by (auto simp: Hub_Close_def extends_def)
  moreover have "hc_pending (hb_objs (Hub_Close h) ! n) = hc_pending (hb_objs h ! n)" "length (hb_objs (Hub_Close h)) = length (hb_objs h)"
    if "n < length (hb_objs h)" for n
    using False that by (auto simp: Hub_Close_def)
  moreover have "length (hb_objs (Hub_Close h)) = length (hb_objs h)"
    using False by (simp add: Hub_Close_def)
  moreover have "hb_calls (Hub_Close h) = hb_calls h" "hb_conns (Hub_Close h) = hb_conns h"
    using False by (auto simp: Hub_Close_def)
  ultimately show ?thesis
    using ok by (auto simp: hub_ok_def intro: conn_ok_extends call_ok_extends)
qed (use ok in \<open>simp add: Hub_Close_def\<close>)

lemma hub_ok_step:
  assumes "hub_ok evs h"
  shows "hub_ok (ev # evs) (hub_apply env ev h)"
proof -
  have "hub_ok (ev # evs) h" by (rule hub_ok_more [OF assms])
  then show ?thesis
    by (cases ev) (auto intro: ok_handle_connection ok_start_pump ok_read_message ok_end_pump ok_send_begin ok_send_register
      ok_send_write ok_send_return ok_Hub_Close)
qed

lemma hub_ok_reachable: "hub_trace env evs h \<Longrightarrow> hub_ok evs h"
proof (induction rule: hub_trace.induct)
  case (start k)
  then show ?case by (simp add: hub_ok_def NewHub_def)
next
  case (step evs h ev)
  then show ?case by (simp add: hub_ok_step)
qed


subsection \<open>The handler of signing requests\<close>

text \<open>What the hub needs of it: that it does not panic. The certificate authority provides it when the X.509
  library does not panic.\<close>

locale csr_handler =
  fixes sign :: "'p \<Rightarrow> go_time \<Rightarrow> string \<Rightarrow> string \<Rightarrow> 'k \<Rightarrow> string outcome \<times> 'k"
    and sound :: "'p \<Rightarrow> bool"
  assumes sign_returns: "sound p \<Longrightarrow> fst (sign p now csr a k) \<noteq> Panic"
begin

lemma reply_returns:
  assumes "sound p"
  shows "\<exists>r k'. cert_reply (env\<lparr>he_sign := Some (sign p)\<rparr>) now a cmd k = (Ok r, k')"
proof -
  have "\<And>csr. fst (sign p now csr a k) \<noteq> Panic" by (rule sign_returns [OF assms])
  then show ?thesis
    by (auto simp: cert_reply_def Let_def split: option.splits json.splits prod.splits outcome.splits) (metis fst_conv)
qed

lemma other_message_stays_up:
  assumes "sound p" "\<not> hb_crashed h"
  shows "\<not> hb_crashed (other_message (env\<lparr>he_sign := Some (sign p)\<rparr>) now n msg h)"
proof (cases "wm_command msg")
  case (Some cmd)
  with assms(2) reply_returns [OF assms(1), of env now "hc_agentID (hb_objs h ! n)" cmd "hb_csr h"] show ?thesis
    by (auto simp: other_message_def handleCertRenewal_def Let_def split: prod.splits outcome.splits)
qed (use assms(2) in \<open>simp add: other_message_def\<close>)

lemma read_stays_up:
  assumes p: "sound p" and ok: "hub_ok evs h" and up: "\<not> hb_crashed h"
  shows "\<not> hb_crashed (read_message (env\<lparr>he_sign := Some (sign p)\<rparr>) n msg now h)"
proof (cases "can_read n h \<and> hc_open (hb_objs h ! n)")
  case True
  let ?h = "upd_obj n (\<lambda>c. c\<lparr>hc_lastSeen := now\<rparr>) h"
  have up': "\<not> hb_crashed ?h" using up by (simp add: upd_obj_def)
  have "\<not> hb_crashed (deliver r k ?h)" if "waiting_call msg (hb_objs ?h ! n) = Some (r, k)" for r k
  proof -
    have n: "n < length (hb_objs h)" using True by (simp add: can_read_def)
    with that have "(rs_Cmd r, k) \<in> set (hc_pending (hb_objs h ! n))"
      by (auto simp: waiting_call_def upd_obj_def dest: map_of_SomeD split: option.splits if_splits)
    from hub_okD(3) [OF ok n this] up show ?thesis
      by (simp add: deliver_def entry_ok_def upd_obj_def upd_call_def)
  qed
  with True other_message_stays_up [OF p up'] show ?thesis
    by (auto simp: read_message_def Let_def split: option.splits)
qed (use up in \<open>auto simp: read_message_def\<close>)

lemma step_stays_up:
  assumes "sound p" "hub_ok evs h" "\<not> hb_crashed h"
  shows "\<not> hb_crashed (hub_apply (env\<lparr>he_sign := Some (sign p)\<rparr>) ev h)"
proof (cases ev)
  case (Read_Message n msg now)
  with read_stays_up [OF assms] show ?thesis by simp
qed (use assms(3) in \<open>auto simp: handle_connection_def start_pump_def end_pump_def send_begin_def send_register_def send_write_def
  send_return_def Hub_Close_def finish_def upd_obj_def upd_call_def Let_def split: write_result.splits wake.splits option.splits\<close>)

lemma stays_up:
  assumes "sound p" "hub_trace (env\<lparr>he_sign := Some (sign p)\<rparr>) evs h"
  shows "\<not> hb_crashed h"
  using assms(2)
proof (induction rule: hub_trace.induct)
  case (start k)
  then show ?case by (simp add: NewHub_def)
next
  case (step evs h ev)
  then show ?case by (intro step_stays_up [OF assms(1) hub_ok_reachable])
qed

end

definition x509_total :: "'k x509_lib \<Rightarrow> bool" where
  "x509_total lib \<longleftrightarrow> (\<forall>b. xl_parse_csr lib b \<noteq> Panic) \<and> (\<forall>t pub k. xl_sign lib t pub k \<noteq> Panic)"

lemma SignCSR_returns: "x509_total lib \<Longrightarrow> fst (SignCSR lib now csr a c) \<noteq> Panic"
  by (auto simp: SignCSR_def x509_total_def Let_def split: option.splits outcome.splits)

interpretation ca: csr_handler SignCSR x509_total
  by unfold_locales (rule SignCSR_returns)

subsection \<open>Who is admitted\<close>



end
