(* ===== verification/Ws_Hub_Waits.thy ===== *)
theory Ws_Hub_Waits
  imports Ws_Hub_Correct
begin

section \<open>Calls of the hub come back\<close>

text \<open>
  A second invariant, for runs whose commands have distinct ids: a call that waits on a live connection is found
  there, and one whose connection has ended has its response or a closed channel. From it: an answered call returns
  its answer, and the end of a connection wakes all its callers. The properties of the hub stand at the end.
\<close>

subsection \<open>Calls that wait\<close>

definition live :: "agent_conn \<Rightarrow> bool" where
  "live ac \<longleftrightarrow> hc_phase ac = Starting \<or> hc_phase ac = Pumping"

definition waits_at :: "agent_conn \<Rightarrow> nat \<Rightarrow> 'r hub_call \<Rightarrow> bool" where
  "waits_at ac k c \<longleftrightarrow> sc_state c = Registered \<or> sc_state c = Awaiting \<longrightarrow>
     (live ac \<longrightarrow> map_of (hc_pending ac) (cm_Cmd (sc_cmd c)) = Some k) \<and>
     (hc_phase ac = Ended \<and> sc_state c = Awaiting \<longrightarrow> sc_closed c \<or> sc_value c \<noteq> None)"

definition waits_ok :: "agent_conn list \<Rightarrow> nat \<Rightarrow> 'r hub_call \<Rightarrow> bool" where
  "waits_ok objs k c \<longleftrightarrow> (\<forall>n. sc_conn c = Some n \<longrightarrow> waits_at (objs ! n) k c)"

definition hub_waits :: "('r, 'k) hub \<Rightarrow> bool" where
  "hub_waits h \<longleftrightarrow> (\<forall>n<length (hb_objs h). hc_open (hb_objs h ! n) \<longrightarrow> live (hb_objs h ! n)) \<and>
     (\<forall>k<length (hb_calls h). waits_ok (hb_objs h) k (hb_calls h ! k))"

definition distinct_commands :: "('r, 'k) hub \<Rightarrow> bool" where
  "distinct_commands h \<longleftrightarrow> distinct (map (\<lambda>c. cm_Cmd (sc_cmd c)) (hb_calls h))"

lemma hub_waitsD:
  assumes "hub_waits h"
  shows "n < length (hb_objs h) \<Longrightarrow> hc_open (hb_objs h ! n) \<Longrightarrow> live (hb_objs h ! n)"
    and "k < length (hb_calls h) \<Longrightarrow> sc_conn (hb_calls h ! k) = Some n \<Longrightarrow> waits_at (hb_objs h ! n) k (hb_calls h ! k)"
  using assms by (auto simp: hub_waits_def waits_ok_def)

lemma w_cong: "hb_objs h' = hb_objs h \<Longrightarrow> hb_calls h' = hb_calls h \<Longrightarrow> hub_waits h' = hub_waits h"
  by (simp add: hub_waits_def)

lemma hub_waitsI:
  assumes "\<And>n. n < length (hb_objs h) \<Longrightarrow> hc_open (hb_objs h ! n) \<Longrightarrow> live (hb_objs h ! n)"
    and "\<And>k n. k < length (hb_calls h) \<Longrightarrow> sc_conn (hb_calls h ! k) = Some n \<Longrightarrow> waits_at (hb_objs h ! n) k (hb_calls h ! k)"
  shows "hub_waits h"
  using assms by (auto simp: hub_waits_def waits_ok_def)

lemma w_upd_call:
  assumes w: "hub_waits h" and conn: "sc_conn (f (hb_calls h ! k)) = sc_conn (hb_calls h ! k)"
    and f: "\<And>n. sc_conn (hb_calls h ! k) = Some n \<Longrightarrow> waits_at (hb_objs h ! n) k (hb_calls h ! k) \<Longrightarrow>
      waits_at (hb_objs h ! n) k (f (hb_calls h ! k))"
  shows "hub_waits (upd_call k f h)"
proof (rule hub_waitsI)
  fix k' n
  assume k': "k' < length (hb_calls (upd_call k f h))" "sc_conn (hb_calls (upd_call k f h) ! k') = Some n"
  show "waits_at (hb_objs (upd_call k f h) ! n) k' (hb_calls (upd_call k f h) ! k')"
  proof (cases "k' = k")
    case True
    with k' hub_waitsD(2) [OF w, of k n] f [of n] conn show ?thesis by (simp add: upd_call_def)
  next
    case False
    with k' hub_waitsD(2) [OF w, of k' n] show ?thesis by (simp add: upd_call_def)
  qed
qed (use hub_waitsD(1) [OF w] in \<open>simp add: upd_call_def\<close>)

lemma w_upd_obj:
  assumes w: "hub_waits h" and open': "hc_open (f (hb_objs h ! n)) \<Longrightarrow> hc_open (hb_objs h ! n) \<and> (live (hb_objs h ! n) \<longrightarrow> live (f (hb_objs h ! n)))"
    and f: "\<And>k. k < length (hb_calls h) \<Longrightarrow> sc_conn (hb_calls h ! k) = Some n \<Longrightarrow> waits_at (hb_objs h ! n) k (hb_calls h ! k) \<Longrightarrow>
      waits_at (f (hb_objs h ! n)) k (hb_calls h ! k)"
  shows "hub_waits (upd_obj n f h)"
proof (rule hub_waitsI)
  fix m
  assume "m < length (hb_objs (upd_obj n f h))" "hc_open (hb_objs (upd_obj n f h) ! m)"
  with hub_waitsD(1) [OF w, of m] open' show "live (hb_objs (upd_obj n f h) ! m)"
    by (cases "m = n") (auto simp: upd_obj_def)
next
  fix k m
  assume "k < length (hb_calls (upd_obj n f h))" "sc_conn (hb_calls (upd_obj n f h) ! k) = Some m"
  with hub_waitsD(2) [OF w, of k m] f [of k] show "waits_at (hb_objs (upd_obj n f h) ! m) k (hb_calls (upd_obj n f h) ! k)"
    by (cases "m = n \<and> n < length (hb_objs h)") (auto simp: upd_obj_def list_update_beyond)
qed

lemma w_handle_connection:
  assumes ok: "hub_ok evs h" and w: "hub_waits h"
  shows "hub_waits (handle_connection a revoked now h)"
proof (rule hub_waitsI)
  fix k n
  assume k: "k < length (hb_calls (handle_connection a revoked now h))" "sc_conn (hb_calls (handle_connection a revoked now h) ! k) = Some n"
  then have "k < length (hb_calls h)" "sc_conn (hb_calls h ! k) = Some n" by (auto simp: handle_connection_def split: if_splits)
  with hub_okD(2) [OF ok, of k] hub_waitsD(2) [OF w, of k n]
  show "waits_at (hb_objs (handle_connection a revoked now h) ! n) k (hb_calls (handle_connection a revoked now h) ! k)"
    by (auto simp: handle_connection_def call_ok_def nth_append)
qed (use hub_waitsD(1) [OF w] in \<open>auto simp: handle_connection_def nth_append live_def split: if_splits\<close>)

lemma w_start_pump:
  assumes w: "hub_waits h"
  shows "hub_waits (start_pump env n fails h)"
proof -
  have w1: "hub_waits (upd_obj n (\<lambda>c. c\<lparr>hc_open := False, hc_phase := Dropped\<rparr>) h')" if "hub_waits h'" for h' :: "('a, 'b) hub"
    by (rule w_upd_obj [OF that]) (auto simp: waits_at_def live_def)
  have w2: "hub_waits (upd_obj n (\<lambda>c. c\<lparr>hc_phase := Pumping\<rparr>) h')"
    if "hub_waits h'" "hc_phase (hb_objs h' ! n) = Starting" for h' :: "('a, 'b) hub"
    using that by (intro w_upd_obj) (auto simp: waits_at_def live_def)
  show ?thesis
    using w by (auto simp: start_pump_def Let_def intro!: w1 w2 simp: w_cong [of "h\<lparr>hb_conns := x\<rparr>" h for x] w_cong [of "h\<lparr>hb_hooks := x\<rparr>" h for x])
qed

lemma w_deliver:
  assumes w: "hub_waits h"
  shows "hub_waits (deliver r k h)"
proof -
  have "hub_waits (upd_call k (\<lambda>c. if sc_value c = None then c\<lparr>sc_value := Some r\<rparr> else c) h)"
    by (rule w_upd_call [OF w]) (auto simp: waits_at_def)
  with w show ?thesis by (simp add: deliver_def w_cong [of "h\<lparr>hb_crashed := x\<rparr>" h for x])
qed

lemma w_read_message:
  assumes w: "hub_waits h"
  shows "hub_waits (read_message env n msg now h)"
proof -
  have "hub_waits (upd_obj n (\<lambda>c. c\<lparr>hc_lastSeen := now\<rparr>) h)"
    by (rule w_upd_obj [OF w]) (auto simp: waits_at_def live_def)
  with w w_deliver [OF this] show ?thesis
    by (auto simp: read_message_def Let_def w_cong [OF other_message_frame(2,3)] split: option.splits)
qed

lemma w_end_pump:
  assumes w: "hub_waits h"
  shows "hub_waits (end_pump env n h)"
proof (cases "can_read n h")
  case True
  let ?h = "end_pump env n h" and ?ks = "snd ` set (hc_pending (hb_objs h ! n))"
  have n: "n < length (hb_objs h)" "live (hb_objs h ! n)" using True by (auto simp: can_read_def live_def)
  have objs: "hb_objs ?h = (hb_objs h)[n := (hb_objs h ! n)\<lparr>hc_open := False, hc_phase := Ended, hc_pending := []\<rparr>]"
    using True by (simp add: end_pump_def Let_def)
  have calls: "length (hb_calls ?h) = length (hb_calls h)"
    "\<And>k. k < length (hb_calls h) \<Longrightarrow>
       hb_calls ?h ! k = (if k \<in> ?ks then (hb_calls h ! k)\<lparr>sc_closed := True\<rparr> else hb_calls h ! k)"
    using True by (auto simp: end_pump_def Let_def)
  show ?thesis
  proof (rule hub_waitsI)
    fix k m
    assume k: "k < length (hb_calls ?h)" "sc_conn (hb_calls ?h ! k) = Some m"
    then have "waits_at (hb_objs h ! m) k (hb_calls h ! k)"
      using hub_waitsD(2) [OF w, of k m] by (simp add: calls split: if_splits)
    moreover have "k \<in> ?ks" if "map_of (hc_pending (hb_objs h ! n)) x = Some k" for x
      using map_of_SomeD [OF that] by force
    ultimately show "waits_at (hb_objs ?h ! m) k (hb_calls ?h ! k)"
      using k(1) n by (cases "m = n") (auto simp: objs calls waits_at_def live_def simp del: image_iff)
  qed (use hub_waitsD(1) [OF w] n in \<open>auto simp: objs nth_list_update split: if_splits\<close>)
qed (use w in \<open>simp add: end_pump_def\<close>)

lemma w_Hub_Close:
  assumes ok: "hub_ok evs h" and w: "hub_waits h"
  shows "hub_waits (Hub_Close h)"
proof (cases "hb_closed h")
  case False
  have objs: "length (hb_objs (Hub_Close h)) = length (hb_objs h)" "hb_calls (Hub_Close h) = hb_calls h"
    "\<And>n. n < length (hb_objs h) \<Longrightarrow> hb_objs (Hub_Close h) ! n = (if n \<in> snd ` set (hb_conns h)
       then (hb_objs h ! n)\<lparr>hc_open := False\<rparr> else hb_objs h ! n)"
    using False by (auto simp: Hub_Close_def)
  have waits: "waits_at (ac\<lparr>hc_open := False\<rparr>) k c = waits_at ac k c" for ac k and c :: "'a hub_call"
    by (simp add: waits_at_def live_def)
  show ?thesis
  proof (rule hub_waitsI)
    fix k n
    assume k: "k < length (hb_calls (Hub_Close h))" "sc_conn (hb_calls (Hub_Close h) ! k) = Some n"
    then have n: "n < length (hb_objs h)" using hub_okD(2) [OF ok, of k] by (simp add: objs call_ok_def)
    from k hub_waitsD(2) [OF w, of k n] show "waits_at (hb_objs (Hub_Close h) ! n) k (hb_calls (Hub_Close h) ! k)"
      by (simp add: objs(2) objs(3) [OF n] waits)
  qed (use hub_waitsD(1) [OF w] in \<open>auto simp: objs live_def split: if_splits\<close>)
qed (use w in \<open>simp add: Hub_Close_def\<close>)

text \<open>Other calls have other commands, so the way out of one leaves the entries of the others.\<close>

lemma other_command:
  assumes "distinct_commands h" "k < length (hb_calls h)" "k' < length (hb_calls h)" "k' \<noteq> k"
  shows "cm_Cmd (sc_cmd (hb_calls h ! k')) \<noteq> cm_Cmd (sc_cmd (hb_calls h ! k))"
  using assms by (auto simp: distinct_commands_def distinct_conv_nth)

text \<open>No event takes a command id back.\<close>

lemma commands_upd_call:
  assumes "\<And>c. sc_cmd (f c) = sc_cmd c"
  shows "map (\<lambda>c. cm_Cmd (sc_cmd c)) (hb_calls (upd_call k f h)) = map (\<lambda>c. cm_Cmd (sc_cmd c)) (hb_calls h)"
proof (cases "k < length (hb_calls h)")
  case True
  then have "cm_Cmd (sc_cmd (hb_calls (upd_call k f h) ! i)) = cm_Cmd (sc_cmd (hb_calls h ! i))" for i
    by (cases "i = k") (auto simp: upd_call_def assms)
  then show ?thesis by (intro nth_equalityI) (auto simp: upd_call_def)
qed (simp add: upd_call_def list_update_beyond)

lemma w_finish':
  assumes w: "hub_waits (upd_call k (\<lambda>c. c\<lparr>sc_state := Returned r\<rparr>) h)" and d: "distinct_commands h" and k: "k < length (hb_calls h)"
  shows "hub_waits (finish k r h)"
proof -
  let ?h = "upd_call k (\<lambda>c. c\<lparr>sc_state := Returned r\<rparr>) h" and ?cmd = "cm_Cmd (sc_cmd (hb_calls h ! k))"
  have "hub_waits (upd_obj n (\<lambda>ac. ac\<lparr>hc_pending := AList.delete ?cmd (hc_pending ac)\<rparr>) ?h)" for n
  proof (rule w_upd_obj [OF w])
    fix k'
    assume "k' < length (hb_calls ?h)" "waits_at (hb_objs ?h ! n) k' (hb_calls ?h ! k')"
    then show "waits_at ((hb_objs ?h ! n)\<lparr>hc_pending := AList.delete ?cmd (hc_pending (hb_objs ?h ! n))\<rparr>) k' (hb_calls ?h ! k')"
      using other_command [OF d k, of k'] k
      by (cases "k' = k") (auto simp: upd_call_def waits_at_def live_def delete_conv')
  qed (simp add: live_def)
  with w show ?thesis by (auto simp: finish_def Let_def split: option.splits)
qed

lemma w_finish:
  assumes w: "hub_waits h" and d: "distinct_commands h" and k: "k < length (hb_calls h)"
  shows "hub_waits (finish k r h)"
  by (rule w_finish' [OF w_upd_call [OF w] d k]) (auto simp: waits_at_def)

lemma w_send_begin:
  assumes w: "hub_waits h"
  shows "hub_waits (send_begin a cmd h)"
proof (rule hub_waitsI)
  fix k n
  assume "k < length (hb_calls (send_begin a cmd h))" "sc_conn (hb_calls (send_begin a cmd h) ! k) = Some n"
  with hub_waitsD(2) [OF w, of k n] show "waits_at (hb_objs (send_begin a cmd h) ! n) k (hb_calls (send_begin a cmd h) ! k)"
    by (auto simp: send_begin_def nth_append waits_at_def split: if_splits)
qed (use hub_waitsD(1) [OF w] in \<open>simp add: send_begin_def\<close>)

lemma w_send_register:
  assumes ok: "hub_ok evs h" and w: "hub_waits h" and d: "distinct_commands h"
  shows "hub_waits (send_register k h)"
proof (cases "in_state Loaded k h")
  case True
  obtain n where n: "sc_conn (hb_calls h ! k) = Some n" "n < length (hb_objs h)" using call_connected [OF ok True] by auto
  let ?h = "send_register k h"
  have k: "k < length (hb_calls h)" using True by (simp add: in_state_def)
  have calls: "hb_calls ?h = (hb_calls h)[k := (hb_calls h ! k)\<lparr>sc_state := Registered\<rparr>]"
    and objs: "hb_objs ?h = (hb_objs h)[n := (hb_objs h ! n)\<lparr>hc_pending :=
      AList.update (cm_Cmd (sc_cmd (hb_calls h ! k))) k (hc_pending (hb_objs h ! n))\<rparr>]"
    using True n(1) by (auto simp: send_register_def Let_def upd_obj_def upd_call_def)
  show ?thesis
  proof (rule hub_waitsI)
    fix k' m
    assume k': "k' < length (hb_calls ?h)" "sc_conn (hb_calls ?h ! k') = Some m"
    show "waits_at (hb_objs ?h ! m) k' (hb_calls ?h ! k')"
    proof (cases "k' = k")
      case True
      with k k' n show ?thesis by (auto simp: calls objs waits_at_def update_conv')
    next
      case False
      with k' hub_waitsD(2) [OF w, of k' m] other_command [OF d k, of k'] show ?thesis
        by (cases "m = n") (auto simp: calls objs waits_at_def live_def update_conv' n(2))
    qed
  qed (use hub_waitsD(1) [OF w] n in \<open>auto simp: objs nth_list_update live_def split: if_splits\<close>)
qed (use w in \<open>simp add: send_register_def\<close>)

lemma w_send_write:
  assumes ok: "hub_ok evs h" and w: "hub_waits h" and d: "distinct_commands h"
  shows "hub_waits (send_write k wr h)"
proof (cases "in_state Registered k h")
  case True
  then have k: "k < length (hb_calls h)" by (simp add: in_state_def)
  have fail: "hub_waits (finish k (Err e) h)" for e by (rule w_finish [OF w d k])
  have fail': "hub_waits (finish k (Err e) (h\<lparr>hb_conns := x\<rparr>))" for e x
    using d k by (intro w_finish) (simp_all add: w w_cong [of "h\<lparr>hb_conns := x\<rparr>" h] distinct_commands_def)
  have "hub_waits (upd_call k (\<lambda>c. c\<lparr>sc_state := Awaiting\<rparr>) h)"
    if "sc_conn (hb_calls h ! k) = Some n" "hc_open (hb_objs h ! n)" for n
    using that True hub_okD(2) [OF ok k] hub_waitsD(1) [OF w, of n]
    by (intro w_upd_call [OF w]) (auto simp: waits_at_def in_state_def live_def call_ok_def)
  with True fail fail' show ?thesis
    by (cases wr) (auto simp: send_write_def Let_def split: option.splits)
qed (use w in \<open>simp add: send_write_def\<close>)

lemma w_send_return:
  assumes w: "hub_waits h" and d: "distinct_commands h"
  shows "hub_waits (send_return k why h)"
proof (cases "in_state Awaiting k h")
  case True
  then have k: "k < length (hb_calls h)" by (simp add: in_state_def)
  have fail: "hub_waits (finish k (Err e) h)" for e by (rule w_finish [OF w d k])
  let ?h = "upd_call k (\<lambda>c. c\<lparr>sc_value := None\<rparr>) h"
  have "hub_waits (finish k (Ok r) ?h)" for r
  proof (rule w_finish')
    have "upd_call k (\<lambda>c. c\<lparr>sc_state := Returned (Ok r)\<rparr>) ?h = upd_call k (\<lambda>c. c\<lparr>sc_value := None, sc_state := Returned (Ok r)\<rparr>) h"
      by (simp add: upd_call_def nth_list_update k)
    moreover have "hub_waits (upd_call k (\<lambda>c. c\<lparr>sc_value := None, sc_state := Returned (Ok r)\<rparr>) h)"
      by (rule w_upd_call [OF w]) (auto simp: waits_at_def)
    ultimately show "hub_waits (upd_call k (\<lambda>c. c\<lparr>sc_state := Returned (Ok r)\<rparr>) ?h)" by simp
    show "distinct_commands ?h" using d by (simp add: distinct_commands_def commands_upd_call)
  qed (simp add: upd_call_def k)
  with True fail w show ?thesis
    by (cases why) (auto simp: send_return_def Let_def split: option.splits)
qed (use w in \<open>simp add: send_return_def\<close>)

lemma commands_upd_obj: "hb_calls (upd_obj n f h) = hb_calls h"
  by (simp add: upd_obj_def)

lemma commands_finish: "map (\<lambda>c. cm_Cmd (sc_cmd c)) (hb_calls (finish k r h)) = map (\<lambda>c. cm_Cmd (sc_cmd c)) (hb_calls h)"
  by (simp add: finish_def Let_def commands_upd_obj commands_upd_call split: option.splits)

lemma commands_end_pump: "map (\<lambda>c. cm_Cmd (sc_cmd c)) (hb_calls (end_pump env n h)) = map (\<lambda>c. cm_Cmd (sc_cmd c)) (hb_calls h)"
  by (auto simp: end_pump_def Let_def intro!: nth_equalityI)

lemma commands_grow: "\<exists>ids. map (\<lambda>c. cm_Cmd (sc_cmd c)) (hb_calls (hub_apply env ev h)) = map (\<lambda>c. cm_Cmd (sc_cmd c)) (hb_calls h) @ ids"
  by (cases ev) (auto simp: handle_connection_def start_pump_def read_message_def deliver_def other_message_frame send_begin_def
    send_register_def send_write_def send_return_def Hub_Close_def Let_def commands_upd_obj commands_upd_call commands_finish
    commands_end_pump split: option.splits write_result.splits wake.splits)

lemma distinct_before: "distinct_commands (hub_apply env ev h) \<Longrightarrow> distinct_commands h"
  using commands_grow [of env ev h] by (auto simp: distinct_commands_def)

lemma hub_waits_reachable: "hub_trace env evs h \<Longrightarrow> distinct_commands h \<Longrightarrow> hub_waits h"
proof (induction rule: hub_trace.induct)
  case (start k)
  then show ?case by (simp add: hub_waits_def NewHub_def)
next
  case (step evs h ev)
  have ok: "hub_ok evs h" by (rule hub_ok_reachable [OF step.hyps(1)])
  have d: "distinct_commands h" by (rule distinct_before [OF step.prems])
  show ?case
    using step.IH [OF d] by (cases ev) (auto intro: w_handle_connection [OF ok] w_start_pump w_read_message w_end_pump w_send_begin
      w_send_register [OF ok _ d] w_send_write [OF ok _ d] w_send_return [OF _ d] w_Hub_Close [OF ok])
qed

subsection \<open>A sample run\<close>

fun hub_exec :: "('r, 'k) hub_env \<Rightarrow> 'r hub_event list \<Rightarrow> ('r, 'k) hub \<Rightarrow> ('r, 'k) hub option" where
  "hub_exec env [] h = Some h"
| "hub_exec env (ev # evs) h = (if hb_crashed h then None else hub_exec env evs (hub_apply env ev h))"

lemma hub_exec_trace: "hub_trace env past h \<Longrightarrow> hub_exec env evs h = Some h' \<Longrightarrow> hub_trace env (rev evs @ past) h'"
proof (induction evs arbitrary: past h)
  case (Cons ev evs)
  then show ?case using hub_trace.step [of env past h ev] by (fastforce split: if_splits)
qed simp

definition hub_sample_env :: "(string, (unit, unit) ca) hub_env" where
  "hub_sample_env = \<lparr>he_sign = Some (SignCSR sample_x509), he_certificate = (\<lambda>c. c), he_progress = True, he_connect = True,
     he_disconnect = True\<rparr>"

definition hub_sample_reply :: "string ws_response" where
  "hub_sample_reply = \<lparr>rs_Cmd = ''c1'', rs_Status = ''ok'', rs_Result = Some ''r'', rs_Error = []\<rparr>"

text \<open>An agent connects, and two commands are sent to it; the first is answered.\<close>

definition hub_sample_start :: "'r hub_event list" where
  "hub_sample_start = [Connection ''a'' False 1, Start_Pump 0 False,
     Send_Begin ''a'' \<lparr>cm_Cmd = ''c1'', cm_Type = ''status'', cm_Params = []\<rparr>, Send_Register 0, Send_Write 0 Written,
     Send_Begin ''a'' \<lparr>cm_Cmd = ''c2'', cm_Type = ''status'', cm_Params = []\<rparr>, Send_Register 1, Send_Write 1 Written]"

definition sample_hub :: "string hub_event list \<Rightarrow> (string, (unit, unit) ca) hub" where
  "sample_hub evs = fold (hub_apply hub_sample_env) (hub_sample_start @ evs) (NewHub (NewCA ()))"

definition hub_sample_message :: "string hub_event" where
  "hub_sample_message = Read_Message 0 \<lparr>wm_response = Some hub_sample_reply, wm_command = None\<rparr> 2"

lemma hub_sample_trace:
  assumes "hub_exec hub_sample_env (hub_sample_start @ evs) (NewHub (NewCA ())) = Some (sample_hub evs)"
  shows "hub_trace hub_sample_env (rev (hub_sample_start @ evs)) (sample_hub evs)"
  using hub_exec_trace [OF hub_trace.start assms] by simp

lemmas hub_sample_defs = hub_sample_env_def hub_sample_reply_def hub_sample_start_def sample_hub_def hub_sample_message_def NewCA_def NewHub_def
  handle_connection_def start_pump_def send_begin_def send_register_def send_write_def send_return_def read_message_def
  end_pump_def deliver_def waiting_call_def is_response_def upd_obj_def upd_call_def in_state_def finish_def
  IsConnected_def can_read_def Let_def AList.delete_eq

lemma hub_sample_answered: "hub_trace hub_sample_env (rev (hub_sample_start @ [hub_sample_message, Send_Return 0 Received]))
    (sample_hub [hub_sample_message, Send_Return 0 Received])"
  by (rule hub_sample_trace) (simp add: hub_sample_defs)

text \<open>The way of a response through the read pump to the call.\<close>

lemma answer_reaches_caller:
  assumes trace: "hub_trace env evs h" and d: "distinct_commands h" and wait: "in_state Awaiting k h"
    and n: "sc_conn (hb_calls h ! k) = Some n" "hc_phase (hb_objs h ! n) = Pumping" "hc_open (hb_objs h ! n)"
    and empty: "sc_value (hb_calls h ! k) = None"
    and msg: "wm_response msg = Some r" "is_response r" "rs_Cmd r = cm_Cmd (sc_cmd (hb_calls h ! k))"
  shows "sc_state (hb_calls (send_return k Received (read_message env n msg now h)) ! k) = Returned (Ok r)"
proof -
  have ok: "hub_ok evs h" by (rule hub_ok_reachable [OF trace])
  have k: "k < length (hb_calls h)" "sc_state (hb_calls h ! k) = Awaiting" using wait by (auto simp: in_state_def)
  have nl: "n < length (hb_objs h)" using hub_okD(2) [OF ok k(1)] n(1) by (simp add: call_ok_def)
  have entry: "map_of (hc_pending (hb_objs h ! n)) (rs_Cmd r) = Some k"
    using hub_waitsD(2) [OF hub_waits_reachable [OF trace d] k(1) n(1)] n(2) k(2) msg(3) by (simp add: waits_at_def live_def)
  have "\<not> sc_closed (hb_calls h ! k)"
    using hub_okD(3) [OF ok nl map_of_SomeD [OF entry]] by (simp add: entry_ok_def)
  with entry nl n empty msg k show ?thesis
    by (auto simp: read_message_def can_read_def waiting_call_def deliver_def upd_obj_def upd_call_def send_return_def
      in_state_def finish_def Let_def)
qed

subsection \<open>Properties\<close>

text \<open>C7. A response that \<^verbatim>\<open>SendToAgent\<close> returns was read from the connection on which it sent its command, that
  connection belongs to the agent it was asked to reach, and the response carries the id of the command: no agent
  can answer for another one.\<close>

theorem response_is_for_the_command:
  assumes trace: "hub_trace env evs h" and k: "k < length (hb_calls h)" and r: "sc_state (hb_calls h ! k) = Returned (Ok r)"
  shows "\<exists>n msg now. sc_conn (hb_calls h ! k) = Some n \<and> hc_agentID (hb_objs h ! n) = sc_agentID (hb_calls h ! k) \<and>
    Read_Message n msg now \<in> set evs \<and> wm_response msg = Some r \<and> rs_Cmd r = cm_Cmd (sc_cmd (hb_calls h ! k))"
  using hub_okD(2) [OF hub_ok_reachable [OF trace] k] r by (fastforce simp: call_ok_def answered_def split: option.splits)

lemma response_is_for_the_command_witness:
  "let h = sample_hub [hub_sample_message, Send_Return 0 Received]; evs = rev (hub_sample_start @ [hub_sample_message, Send_Return 0 Received]) in
    \<exists>n msg now. sc_conn (hb_calls h ! 0) = Some n \<and> hc_agentID (hb_objs h ! n) = sc_agentID (hb_calls h ! 0) \<and>
      Read_Message n msg now \<in> set evs \<and> wm_response msg = Some hub_sample_reply \<and> rs_Cmd hub_sample_reply = cm_Cmd (sc_cmd (hb_calls h ! 0))"
  unfolding Let_def by (rule response_is_for_the_command [OF hub_sample_answered]) (simp_all add: hub_sample_defs)

text \<open>When commands have distinct ids, the response to a command reaches its caller: if a call waits on a
  connection that is being read, its channel is empty and a response with the id of its command arrives, the
  call returns that response.\<close>

theorem answered_call_returns:
  assumes trace: "hub_trace env evs h" and d: "distinct_commands h" and wait: "in_state Awaiting k h"
    and n: "sc_conn (hb_calls h ! k) = Some n" "hc_phase (hb_objs h ! n) = Pumping" "hc_open (hb_objs h ! n)"
    and empty: "sc_value (hb_calls h ! k) = None"
    and msg: "wm_response msg = Some r" "is_response r" "rs_Cmd r = cm_Cmd (sc_cmd (hb_calls h ! k))"
  shows "sc_state (hb_calls (send_return k Received (read_message env n msg now h)) ! k) = Returned (Ok r)"
  by (rule answer_reaches_caller [OF trace d wait n empty msg])

lemma answered_call_returns_witness:
  "sc_state (hb_calls (send_return 0 Received (read_message hub_sample_env 0 \<lparr>wm_response = Some hub_sample_reply, wm_command = None\<rparr> 2
    (sample_hub []))) ! 0) = Returned (Ok hub_sample_reply)"
  by (rule answered_call_returns [OF hub_sample_trace]) (simp_all add: hub_sample_defs distinct_commands_def)

text \<open>C25. The end of a connection wakes the calls that wait on it: with distinct command ids, a call that awaits its
  response on a connection whose read pump has ended can return, with the response if one came and an error if not.\<close>

theorem disconnect_wakes_senders:
  assumes trace: "hub_trace env evs h" and d: "distinct_commands h" and wait: "in_state Awaiting k h"
    and n: "sc_conn (hb_calls h ! k) = Some n" "hc_phase (hb_objs h ! n) = Ended"
  shows "sc_state (hb_calls (send_return k Received h) ! k) = Returned (case sc_value (hb_calls h ! k) of Some r \<Rightarrow> Ok r
    | None \<Rightarrow> Err (Errorf (''hub: agent '' @ sc_agentID (hb_calls h ! k) @ '' disconnected while awaiting response'')))"
proof -
  have k: "k < length (hb_calls h)" "sc_state (hb_calls h ! k) = Awaiting" using wait by (auto simp: in_state_def)
  have "sc_closed (hb_calls h ! k) \<or> sc_value (hb_calls h ! k) \<noteq> None"
    using hub_waitsD(2) [OF hub_waits_reachable [OF trace d] k(1) n(1)] n(2) k(2) by (simp add: waits_at_def)
  with n k show ?thesis
    by (auto simp: send_return_def in_state_def finish_def upd_call_def upd_obj_def Let_def split: option.splits)
qed

lemma disconnect_wakes_senders_witness:
  "sc_state (hb_calls (send_return 1 Received (sample_hub [hub_sample_message, Read_Error 0])) ! 1) =
    Returned (case sc_value (hb_calls (sample_hub [hub_sample_message, Read_Error 0]) ! 1) of Some r \<Rightarrow> Ok r
      | None \<Rightarrow> Err (Errorf (''hub: agent '' @ sc_agentID (hb_calls (sample_hub [hub_sample_message, Read_Error 0]) ! 1) @
          '' disconnected while awaiting response'')))"
  by (rule disconnect_wakes_senders [OF hub_sample_trace, where n = 0]) (simp_all add: hub_sample_defs distinct_commands_def)

text \<open>C26. With the certificate authority as its handler of signing requests, no sequence of events crashes the hub,
  provided the X.509 library does not panic: in particular, no response is ever sent on a closed channel.\<close>

theorem hub_with_ca_stays_up:
  assumes "x509_total lib" "hub_trace (env\<lparr>he_sign := Some (SignCSR lib)\<rparr>) evs h"
  shows "\<not> hb_crashed h"
  by (rule ca.stays_up [OF assms])

lemma hub_with_ca_stays_up_witness: "\<not> hb_crashed (sample_hub [hub_sample_message, Send_Return 0 Received])"
proof (rule hub_with_ca_stays_up)
  show "x509_total sample_x509" by (simp add: x509_total_def sample_x509_def)
  have "hub_sample_env\<lparr>he_sign := Some (SignCSR sample_x509)\<rparr> = hub_sample_env" by (simp add: hub_sample_env_def)
  with hub_sample_answered show "hub_trace (hub_sample_env\<lparr>he_sign := Some (SignCSR sample_x509)\<rparr>)
      (rev (hub_sample_start @ [hub_sample_message, Send_Return 0 Received])) (sample_hub [hub_sample_message, Send_Return 0 Received])"
    by simp
qed

text \<open>The certificate that the hub returns for a renewal is made out for the agent of the connection, whatever name the
  signing request has, with a fresh serial number.\<close>

theorem renewed_certificate_names_the_agent:
  assumes "cert_reply (env\<lparr>he_sign := Some (SignCSR lib)\<rparr>) now a cmd c = (Ok r, c')" "rs_Status r = ''ok''"
  shows "\<exists>key pub cert. ca_root c = Some key \<and> xl_sign lib (client_template (next_serial c) a now) pub key = Ok cert \<and>
    rs_Result r = Some (he_certificate env cert) \<and> rs_Cmd r = cm_Cmd cmd \<and> ca_serial c' = next_serial c"
  using assms by (fastforce simp: cert_reply_def SignCSR_def Let_def split: option.splits json.splits outcome.splits prod.splits)

lemma renewed_certificate_names_the_agent_witness:
  "let c = (NewCA ())\<lparr>ca_root := Some ()\<rparr>; cmd = \<lparr>cm_Cmd = ''r1'', cm_Type = ''cert_renewal'', cm_Params = [(''csr'', JStr ''pem'')]\<rparr>;
     r = \<lparr>rs_Cmd = ''r1'', rs_Status = ''ok'', rs_Result = Some ''pem'', rs_Error = []\<rparr> in
   \<exists>key pub cert. ca_root c = Some key \<and> xl_sign sample_x509 (client_template (next_serial c) ''a'' 5) pub key = Ok cert \<and>
     rs_Result r = Some (he_certificate hub_sample_env cert) \<and> rs_Cmd r = cm_Cmd cmd \<and>
     ca_serial (c\<lparr>ca_serial := next_serial c\<rparr>) = next_serial c"
  unfolding Let_def
  by (rule renewed_certificate_names_the_agent [where now = 5 and a = "''a''" and env = hub_sample_env])
    (simp_all add: cert_reply_def SignCSR_def sample_x509_def Let_def NewCA_def hub_sample_env_def)

text \<open>C38. The read pump of a connection that was given up removes the entry of the connection that replaced it: after
  a failed write the agent can connect anew, and when the old pump ends, the agent counts as not connected although
  its new connection is open and being read.\<close>

theorem stale_pump_unregisters_live_connection:
  fixes env :: "('r, 'k) hub_env"
  assumes "a \<noteq> []"
  shows "let h = fold (hub_apply env) [Connection a False t0, Start_Pump 0 False, Send_Begin a cmd, Send_Register 0,
      Send_Write 0 (Write_Failed e), Connection a False t1, Start_Pump 1 False] (NewHub k);
      h' = hub_apply env (Read_Error 0) h
    in IsConnected a h \<and> \<not> IsConnected a h' \<and> hc_phase (hb_objs h' ! 1) = Pumping \<and> hc_open (hb_objs h' ! 1)"
proof -
  define obj where "obj = (\<lambda>t p ps. \<lparr>hc_agentID = a, hc_connectedAt = t, hc_lastSeen = t, hc_open = p \<noteq> Ended, hc_phase = p, hc_pending = ps\<rparr>)"
  define call :: "'r call_state \<Rightarrow> 'r hub_call" where
    "call = (\<lambda>st. \<lparr>sc_agentID = a, sc_cmd = cmd, sc_conn = Some 0, sc_value = None, sc_closed = False, sc_state = st\<rparr>)"
  define hooks where "hooks = (if he_connect env then [(True, a)] else [])"
  define st :: "(string \<times> nat) list \<Rightarrow> agent_conn list \<Rightarrow> 'r hub_call list \<Rightarrow> (bool \<times> string) list \<Rightarrow> ('r, 'k) hub"
    where "st = (\<lambda>conns objs calls hs. (NewHub k)\<lparr>hb_conns := conns, hb_objs := objs, hb_calls := calls, hb_hooks := hs\<rparr>)"
  note ops = handle_connection_def start_pump_def send_begin_def send_register_def send_write_def upd_obj_def upd_call_def
    in_state_def finish_def obj_def call_def st_def NewHub_def IsConnected_def hooks_def AList.delete_eq Let_def
  have "hub_apply env (Connection a False t0) (NewHub k) = st [(a, 0)] [obj t0 Starting []] [] []"
    using assms by (simp add: ops)
  moreover have "hub_apply env (Start_Pump 0 False) (st [(a, 0)] [obj t0 Starting []] [] []) = st [(a, 0)] [obj t0 Pumping []] [] hooks"
    by (simp add: ops)
  moreover have "hub_apply env (Send_Begin a cmd) (st [(a, 0)] [obj t0 Pumping []] [] hooks) =
      st [(a, 0)] [obj t0 Pumping []] [call Loaded] hooks"
    by (simp add: ops)
  moreover have "hub_apply env (Send_Register 0) (st [(a, 0)] [obj t0 Pumping []] [call Loaded] hooks) =
      st [(a, 0)] [obj t0 Pumping [(cm_Cmd cmd, 0)]] [call Registered] hooks"
    by (simp add: ops)
  moreover have "hub_apply env (Send_Write 0 (Write_Failed e)) (st [(a, 0)] [obj t0 Pumping [(cm_Cmd cmd, 0)]] [call Registered] hooks) =
      st [] [obj t0 Pumping []] [call (Returned (Err (Wrapf (''hub: write to agent '' @ a) e)))] hooks"
    by (simp add: ops)
  moreover have "hub_apply env (Connection a False t1) (st [] [obj t0 Pumping []] cs hooks) =
      st [(a, 1)] [obj t0 Pumping [], obj t1 Starting []] cs hooks" for cs
    using assms by (simp add: ops)
  moreover have "hub_apply env (Start_Pump 1 False) (st [(a, 1)] [obj t0 Pumping [], obj t1 Starting []] cs hooks) =
      st [(a, 1)] [obj t0 Pumping [], obj t1 Pumping []] cs (hooks @ hooks)" for cs
    by (simp add: ops)
  moreover have "IsConnected a (st [(a, 1)] objs cs hs)" for objs cs hs
    by (simp add: ops)
  moreover have "\<not> IsConnected a (hub_apply env (Read_Error 0) (st [(a, 1)] [obj t0 Pumping [], ac] cs hs)) \<and>
      hb_objs (hub_apply env (Read_Error 0) (st [(a, 1)] [obj t0 Pumping [], ac] cs hs)) ! 1 = ac" for ac cs hs
    by (simp add: ops end_pump_def can_read_def)
  ultimately show ?thesis
    by (simp add: obj_def del: hub_apply.simps One_nat_def)
qed

lemma stale_pump_unregisters_live_connection_witness:
  "let cmd = \<lparr>cm_Cmd = ''c1'', cm_Type = ''status'', cm_Params = []\<rparr>;
     h = fold (hub_apply hub_sample_env) [Connection ''a'' False 1, Start_Pump 0 False, Send_Begin ''a'' cmd, Send_Register 0,
       Send_Write 0 (Write_Failed (Errorf ''timeout'')), Connection ''a'' False 2, Start_Pump 1 False] (NewHub (NewCA ()));
     h' = hub_apply hub_sample_env (Read_Error 0) h
   in IsConnected ''a'' h \<and> \<not> IsConnected ''a'' h' \<and> hc_phase (hb_objs h' ! 1) = Pumping \<and> hc_open (hb_objs h' ! 1)"
  unfolding Let_def by (rule stale_pump_unregisters_live_connection [unfolded Let_def]) simp

text \<open>The renewal does not ask whether the certificate of the connection has been revoked since.\<close>

lemma renewal_ignores_revocation:
  "fst (cert_reply (env\<lparr>he_sign := Some (SignCSR lib)\<rparr>) now a cmd (snd (Revoke ops serial c))) =
   fst (cert_reply (env\<lparr>he_sign := Some (SignCSR lib)\<rparr>) now a cmd c)"
  by (auto simp: cert_reply_def SignCSR_def Revoke_def next_serial_def Let_def split: option.splits json.splits prod.splits
    outcome.splits)

end
