(* ===== verification/Ws_Hub_Life.thy ===== *)
theory Ws_Hub_Life
  imports Ws_Hub
begin

section \<open>The life of a connection\<close>

text \<open>
  The phases of a connection of the hub are ordered, and whatever happens a connection only moves forward: it is
  never reopened, pumped again or handed to another agent.
\<close>

instantiation phase :: linorder
begin

fun phase_rank :: "phase \<Rightarrow> nat" where
  "phase_rank Starting = 0"
| "phase_rank Pumping = 1"
| "phase_rank Ended = 2"
| "phase_rank Dropped = 3"

definition less_eq_phase :: "phase \<Rightarrow> phase \<Rightarrow> bool" where
  "less_eq_phase p q \<longleftrightarrow> phase_rank p \<le> phase_rank q"

definition less_phase :: "phase \<Rightarrow> phase \<Rightarrow> bool" where
  "less_phase p q \<longleftrightarrow> phase_rank p < phase_rank q"

instance
proof
  fix p q :: phase
  show "p \<le> q \<Longrightarrow> q \<le> p \<Longrightarrow> p = q" by (cases p; cases q) (simp_all add: less_eq_phase_def)
qed (auto simp: less_eq_phase_def less_phase_def)

end

lemma phase_bounds [simp]: "Starting \<le> p" "p \<le> Dropped"
  by (cases p; simp add: less_eq_phase_def)+

lemma phase_steps [simp]: "Pumping \<le> Ended"
  by (simp add: less_eq_phase_def)

definition ages_to :: "agent_conn \<Rightarrow> agent_conn \<Rightarrow> bool" where
  "ages_to c d \<longleftrightarrow> hc_agentID d = hc_agentID c \<and> hc_connectedAt d = hc_connectedAt c \<and> hc_phase c \<le> hc_phase d \<and> (hc_open d \<longrightarrow> hc_open c)"

definition hub_ages :: "('r, 'k) hub \<Rightarrow> ('r, 'k) hub \<Rightarrow> bool" where
  "hub_ages h h' \<longleftrightarrow> list_all2 ages_to (hb_objs h) (take (length (hb_objs h)) (hb_objs h')) \<and> length (hb_objs h) \<le> length (hb_objs h')"

lemma hub_ages_iff:
  "hub_ages h h' \<longleftrightarrow> length (hb_objs h) \<le> length (hb_objs h') \<and> (\<forall>n < length (hb_objs h). ages_to (hb_objs h ! n) (hb_objs h' ! n))"
  by (auto simp: hub_ages_def list_all2_conv_all_nth min_def)

lemma ages_to_refl [simp]: "ages_to c c"
  by (simp add: ages_to_def)

lemma hub_ages_refl [simp]: "hub_ages h h"
  by (simp add: hub_ages_iff)

lemma ages_to_trans: "ages_to b c \<Longrightarrow> ages_to c d \<Longrightarrow> ages_to b d"
  unfolding ages_to_def by (metis order_trans)

lemma hub_ages_trans:
  assumes "hub_ages h h'" "hub_ages h' h''"
  shows "hub_ages h h''"
  using assms unfolding hub_ages_iff by (meson ages_to_trans less_le_trans order_trans)

lemma hub_ages_objs: "hb_objs h' = hb_objs h \<Longrightarrow> hub_ages h h'"
  by (simp add: hub_ages_iff)

lemma hub_ages_upd:
  assumes "\<And>c. hb_objs g ! n = c \<Longrightarrow> ages_to c (f c)" "hb_objs g = hb_objs h"
  shows "hub_ages h (upd_obj n f g)"
proof -
  have "ages_to (hb_objs h ! i) ((hb_objs h)[n := f (hb_objs h ! n)] ! i)" if "i < length (hb_objs h)" for i
    using assms that by (cases "i = n") simp_all
  with assms(2) show ?thesis by (simp add: hub_ages_iff upd_obj_def)
qed

text \<open>Every event.\<close>

lemma finish_ages: "hb_objs g = hb_objs h \<Longrightarrow> hub_ages h (finish k r g)"
  by (auto simp: finish_def Let_def upd_call_def ages_to_def intro!: hub_ages_upd intro: hub_ages_objs split: option.splits)

lemma read_message_ages: "hub_ages h (read_message env n msg now h)"
proof -
  let ?h = "upd_obj n (\<lambda>c. c\<lparr>hc_lastSeen := now\<rparr>) h"
  have 1: "hub_ages h ?h" by (rule hub_ages_upd) (simp_all add: ages_to_def)
  have "hb_objs (deliver r k ?h) = hb_objs ?h" for r k by (simp add: deliver_def upd_call_def)
  moreover have "hb_objs (other_message env now n msg ?h) = hb_objs ?h"
    by (simp add: other_message_def handleCertRenewal_def Let_def split: option.splits prod.splits outcome.splits)
  ultimately show ?thesis
    using 1 by (auto simp: read_message_def Let_def hub_ages_iff split: option.splits prod.splits)
qed

theorem hub_step_ages: "hub_ages h (hub_apply env ev h)"
proof (cases ev)
  case (Connection a revoked now)
  then show ?thesis by (simp add: handle_connection_def hub_ages_iff nth_append)
next
  case (Start_Pump n fails)
  then show ?thesis by (auto simp: start_pump_def Let_def ages_to_def intro!: hub_ages_upd intro: hub_ages_objs)
next
  case (Read_Error n)
  then show ?thesis by (auto simp: end_pump_def can_read_def Let_def hub_ages_iff nth_list_update ages_to_def)
next
  case (Send_Write k w)
  then show ?thesis
    by (auto simp: send_write_def Let_def upd_call_def intro!: finish_ages intro: hub_ages_objs split: write_result.splits)
next
  case (Send_Return k why)
  then show ?thesis
    by (auto simp: send_return_def Let_def upd_call_def intro!: finish_ages intro: hub_ages_objs split: wake.splits option.splits)
next
  case (Send_Register k)
  then show ?thesis
    by (auto simp: send_register_def Let_def upd_call_def ages_to_def intro!: hub_ages_upd intro: hub_ages_objs split: option.splits)
next
  case Close_Hub
  then show ?thesis by (auto simp: Hub_Close_def hub_ages_iff ages_to_def)
qed (simp_all add: read_message_ages send_begin_def hub_ages_objs)

text \<open>So a connection whose pump has ended, or that was dropped, stays so and stays closed to the events of a pump.\<close>

lemma ended_stays:
  assumes "n < length (hb_objs h)" "Ended \<le> hc_phase (hb_objs h ! n)"
  shows "Ended \<le> hc_phase (hb_objs (fold (hub_apply env) evs h) ! n) \<and> \<not> can_read n (fold (hub_apply env) evs h)"
proof -
  have "hub_ages h (fold (hub_apply env) evs h)"
    by (induction evs arbitrary: h) (auto intro: hub_ages_trans hub_step_ages)
  with assms have "Ended \<le> hc_phase (hb_objs (fold (hub_apply env) evs h) ! n)"
    by (fastforce simp: hub_ages_iff ages_to_def)
  moreover from this have "hc_phase (hb_objs (fold (hub_apply env) evs h) ! n) \<noteq> Pumping" by (auto simp: less_eq_phase_def)
  ultimately show ?thesis by (simp add: can_read_def)
qed

end
