(* ===== verification/Ws_Client.thy ===== *)
theory Ws_Client
  imports Ws_Hub Agent_Serve
begin

section \<open>The agent's connection\<close>

text \<open>
  The model of \<^verbatim>\<open>internal/ws/agent/client.go\<close>. Connections are numbered as they are dialled; the connection
  manager is a program counter, and its steps are those between two waits: an attempt to connect, one message, the
  end of a connection. Between the look-up of a waiting call and the send on its channel the manager can be
  interrupted. Calls of \<^verbatim>\<open>SendCommand\<close> are numbered, and step as those of the hub. What the sockets, the dialler, the
  random numbers and the context of a call do is an input of the steps; the timing of
  heartbeats is in \<open>Ws_Heartbeat\<close>.
\<close>

subsection \<open>State\<close>

datatype 'r client_call_state = Queued | Sent | Done "'r ws_response option outcome"

text \<open>A call returns a response that is nil when it reads from a closed channel.\<close>

record 'r client_call =
  lc_cmd :: command
  lc_value :: "'r ws_response option"
  lc_closed :: bool
  lc_state :: "'r client_call_state"

datatype 'r manager = Unstarted | Looping | Reading nat | Delivering nat "'r ws_response" nat | Stopped

text \<open>The client: the current connection, which connections are open, the pending commands, all calls, the number of failed
  attempts, whether the context is cancelled and whether the client is closed, the manager, the state of the
  dispatcher's handlers, what was written where, and whether a panic has taken the agent down.\<close>

record ('r, 's) ws_client =
  cl_conn :: "nat option"
  cl_sockets :: "bool list"
  cl_pending :: "(string \<times> nat) list"
  cl_calls :: "'r client_call list"
  cl_attempt :: int
  cl_cancelled :: bool
  cl_closed :: bool
  cl_manager :: "'r manager"
  cl_state :: 's
  cl_replies :: "(nat \<times> 'r ws_response) list"
  cl_commands :: "(nat \<times> command) list"
  cl_crashed :: bool

type_synonym ('r, 's) dispatcher = "(string \<times> (command \<Rightarrow> 's \<Rightarrow> 'r ws_response outcome \<times> 's)) list"

definition NewClient :: "'s \<Rightarrow> ('r, 's) ws_client" where
  "NewClient s = \<lparr>cl_conn = None, cl_sockets = [], cl_pending = [], cl_calls = [], cl_attempt = 0, cl_cancelled = False,
     cl_closed = False, cl_manager = Unstarted, cl_state = s, cl_replies = [], cl_commands = [], cl_crashed = False\<rparr>"

definition upd_client_call :: "nat \<Rightarrow> ('r client_call \<Rightarrow> 'r client_call) \<Rightarrow> ('r, 's) ws_client \<Rightarrow> ('r, 's) ws_client" where
  "upd_client_call k f c = c\<lparr>cl_calls := (cl_calls c)[k := f (cl_calls c ! k)]\<rparr>"

subsection \<open>Connections\<close>

definition close_socket :: "nat option \<Rightarrow> ('r, 's) ws_client \<Rightarrow> ('r, 's) ws_client" where
  "close_socket conn c = (case conn of Some n \<Rightarrow> c\<lparr>cl_sockets := (cl_sockets c)[n := False]\<rparr> | None \<Rightarrow> c)"

text \<open>A new connection replaces the old one, which is closed.\<close>

definition setConn :: "('r, 's) ws_client \<Rightarrow> ('r, 's) ws_client" where
  "setConn c = (let c = close_socket (cl_conn c) c
     in c\<lparr>cl_conn := Some (length (cl_sockets c)), cl_sockets := cl_sockets c @ [True]\<rparr>)"

definition compareAndSwapConn :: "nat \<Rightarrow> nat option \<Rightarrow> ('r, 's) ws_client \<Rightarrow> ('r, 's) ws_client" where
  "compareAndSwapConn old new c = (if cl_conn c = Some old then c\<lparr>cl_conn := new\<rparr> else c)"

definition reconnectMinWait :: int where "reconnectMinWait = 1000000000"
definition reconnectMaxWait :: int where "reconnectMaxWait = 60 * 1000000000"

text \<open>The shift gives 0 from 64 on, and the product wraps; \<open>rand.Int63n\<close> panics unless its argument is positive.\<close>

definition Int63n :: "(int \<Rightarrow> int) \<Rightarrow> int \<Rightarrow> int outcome" where
  "Int63n rnd n = (if n \<le> 0 then Panic else Ok (rnd n))"

definition nextBackoff :: "(int \<Rightarrow> int) \<Rightarrow> int \<Rightarrow> int outcome" where
  "nextBackoff rnd attempt =
     (let shifted = (if 0 \<le> attempt \<and> attempt < 64 then goint (2 ^ nat attempt) else 0);
          backoff = goint (shifted * reconnectMinWait);
          backoff = (if reconnectMaxWait < backoff then reconnectMaxWait else backoff)
      in bindo (Int63n rnd (backoff sdiv 4)) (\<lambda>jitter. Ok (goint (backoff + jitter))))"

text \<open>One attempt: the wait, then the dial, whose success is an input.\<close>

definition reconnect :: "(int \<Rightarrow> int) \<Rightarrow> bool \<Rightarrow> ('r, 's) ws_client \<Rightarrow> unit outcome \<times> ('r, 's) ws_client" where
  "reconnect rnd dialled c =
     (case nextBackoff rnd (cl_attempt c) of
        Ok _ \<Rightarrow>
          if cl_cancelled c then (Err (Errorf ''context canceled''), c)
          else if dialled then (Ok (), (setConn c)\<lparr>cl_attempt := 0\<rparr>)
          else (Ok (), c\<lparr>cl_attempt := goint (cl_attempt c + 1)\<rparr>)
      | Err e \<Rightarrow> (Err e, c)
      | Panic \<Rightarrow> (Panic, c\<lparr>cl_crashed := True\<rparr>))"

text \<open>The deferred function of the manager, and one iteration of its loop up to the wait for messages.\<close>

definition manager_stop :: "('r, 's) ws_client \<Rightarrow> ('r, 's) ws_client" where
  "manager_stop c = (close_socket (cl_conn c) c)\<lparr>cl_conn := None, cl_manager := Stopped\<rparr>"

definition manager_step :: "(int \<Rightarrow> int) \<Rightarrow> bool \<Rightarrow> ('r, 's) ws_client \<Rightarrow> ('r, 's) ws_client" where
  "manager_step rnd dialled c =
     (case cl_manager c of
        Looping \<Rightarrow>
          if cl_cancelled c then manager_stop c
          else (case cl_conn c of
              Some n \<Rightarrow> c\<lparr>cl_manager := Reading n\<rparr>
            | None \<Rightarrow>
                (case reconnect rnd dialled c of
                   (Ok _, c) \<Rightarrow> (case cl_conn c of Some n \<Rightarrow> c\<lparr>cl_manager := Reading n\<rparr> | None \<Rightarrow> c)
                 | (Err _, c) \<Rightarrow> manager_stop c
                 | (Panic, c) \<Rightarrow> c))
      | _ \<Rightarrow> c)"

text \<open>The read pump ends: it closes its connection, and the manager clears it if it is still the current one.\<close>

definition pump_end :: "('r, 's) ws_client \<Rightarrow> ('r, 's) ws_client" where
  "pump_end c = (case cl_manager c of
      Reading n \<Rightarrow> (compareAndSwapConn n None (close_socket (Some n) c))\<lparr>cl_manager := Looping\<rparr>
    | _ \<Rightarrow> c)"

subsection \<open>Incoming messages\<close>

text \<open>The dispatcher runs the handler in the read pump; the response goes out on the current connection, if it can be
  encoded and there is one.\<close>

definition write_reply :: "('r ws_response \<Rightarrow> bool) \<Rightarrow> 'r ws_response \<Rightarrow> ('r, 's) ws_client \<Rightarrow> ('r, 's) ws_client" where
  "write_reply encodes r c =
     (if encodes r then
        (case cl_conn c of
           Some n \<Rightarrow> if cl_sockets c ! n then c\<lparr>cl_replies := cl_replies c @ [(n, r)]\<rparr> else c
         | None \<Rightarrow> c)
      else c)"

definition handleIncomingCommand :: "('r, 's) dispatcher option \<Rightarrow> ('r ws_response \<Rightarrow> bool) \<Rightarrow> command \<Rightarrow> ('r, 's) ws_client \<Rightarrow>
    ('r, 's) ws_client" where
  "handleIncomingCommand dispatch encodes cmd c =
     (case (case dispatch of
          Some d \<Rightarrow> Dispatch d cmd (cl_state c)
        | None \<Rightarrow> (Ok (errResp cmd (''unknown command type: '' @ cm_Type cmd)), cl_state c)) of
        (Ok r, s) \<Rightarrow> write_reply encodes r (c\<lparr>cl_state := s\<rparr>)
      | (_, s) \<Rightarrow> c\<lparr>cl_state := s, cl_crashed := True\<rparr>)"

definition handleMessage :: "('r, 's) dispatcher option \<Rightarrow> ('r ws_response \<Rightarrow> bool) \<Rightarrow> 'r wire_message \<Rightarrow> ('r, 's) ws_client \<Rightarrow>
    ('r, 's) ws_client" where
  "handleMessage dispatch encodes msg c =
     (case cl_manager c of
        Reading n \<Rightarrow>
          (case (case wm_response msg of
               Some r \<Rightarrow> if is_response r then map_option (Pair r) (map_of (cl_pending c) (rs_Cmd r)) else None
             | None \<Rightarrow> None) of
             Some (r, k) \<Rightarrow> c\<lparr>cl_manager := Delivering n r k\<rparr>
           | None \<Rightarrow>
               (case wm_command msg of
                  Some cmd \<Rightarrow> if cm_Cmd cmd \<noteq> [] \<and> cm_Type cmd \<noteq> [] then handleIncomingCommand dispatch encodes cmd c else c
                | None \<Rightarrow> c))
      | _ \<Rightarrow> c)"

text \<open>The send on the channel of the call that was found.\<close>

definition deliver_response :: "('r, 's) ws_client \<Rightarrow> ('r, 's) ws_client" where
  "deliver_response c =
     (case cl_manager c of
        Delivering n r k \<Rightarrow>
          if lc_closed (cl_calls c ! k) then c\<lparr>cl_crashed := True\<rparr>
          else (upd_client_call k (\<lambda>l. if lc_value l = None then l\<lparr>lc_value := Some r\<rparr> else l) c)\<lparr>cl_manager := Reading n\<rparr>
      | _ \<Rightarrow> c)"

subsection \<open>Commands of the agent\<close>

definition client_finish :: "nat \<Rightarrow> 'r ws_response option outcome \<Rightarrow> ('r, 's) ws_client \<Rightarrow> ('r, 's) ws_client" where
  "client_finish k r c =
     (let c = upd_client_call k (\<lambda>l. l\<lparr>lc_state := Done r\<rparr>) c
      in c\<lparr>cl_pending := AList.delete (cm_Cmd (lc_cmd (cl_calls c ! k))) (cl_pending c)\<rparr>)"

definition command_begin :: "command \<Rightarrow> ('r, 's) ws_client \<Rightarrow> ('r, 's) ws_client" where
  "command_begin cmd c =
     c\<lparr>cl_pending := AList.update (cm_Cmd cmd) (length (cl_calls c)) (cl_pending c),
       cl_calls := cl_calls c @ [\<lparr>lc_cmd = cmd, lc_value = None, lc_closed = False, lc_state = Queued\<rparr>]\<rparr>"

text \<open>The way a command goes out, for \<^verbatim>\<open>SendCommand\<close> and \<^verbatim>\<open>Send\<close> alike.\<close>

definition send_out :: "write_result \<Rightarrow> command \<Rightarrow> ('r, 's) ws_client \<Rightarrow> unit outcome \<times> ('r, 's) ws_client" where
  "send_out w cmd c =
     (case w of
        Marshal_Failed e \<Rightarrow> (Err (Wrapf ''ws client: marshal command'' e), c)
      | _ \<Rightarrow>
        (case cl_conn c of
           None \<Rightarrow> (Err (Errorf ''ws client: not connected''), c)
         | Some n \<Rightarrow>
             (case w of
                Deadline_Failed e \<Rightarrow> (Err (Wrapf ''ws client: set write deadline'' e), c)
              | Write_Failed e \<Rightarrow> (Err (Wrapf ''ws client: write'' e), c)
              | _ \<Rightarrow> if cl_sockets c ! n then (Ok (), c\<lparr>cl_commands := cl_commands c @ [(n, cmd)]\<rparr>)
                  else (Err (Wrapf ''ws client: write'' (Errorf ''use of closed network connection'')), c))))"

definition client_send :: "write_result \<Rightarrow> command \<Rightarrow> ('r, 's) ws_client \<Rightarrow> unit outcome \<times> ('r, 's) ws_client" where
  "client_send w cmd c = send_out w cmd c"

definition call_in :: "'r client_call_state \<Rightarrow> nat \<Rightarrow> ('r, 's) ws_client \<Rightarrow> bool" where
  "call_in st k c \<longleftrightarrow> k < length (cl_calls c) \<and> lc_state (cl_calls c ! k) = st"

definition command_write :: "nat \<Rightarrow> write_result \<Rightarrow> ('r, 's) ws_client \<Rightarrow> ('r, 's) ws_client" where
  "command_write k w c =
     (if call_in Queued k c then
        (case send_out w (lc_cmd (cl_calls c ! k)) c of
           (Ok _, c) \<Rightarrow> upd_client_call k (\<lambda>l. l\<lparr>lc_state := Sent\<rparr>) c
         | (Err e, c) \<Rightarrow> client_finish k (Err e) c
         | (Panic, c) \<Rightarrow> client_finish k Panic c)
      else c)"

datatype client_wake = From_Channel | Caller_Done go_error | Client_Done

definition command_return :: "nat \<Rightarrow> client_wake \<Rightarrow> ('r, 's) ws_client \<Rightarrow> ('r, 's) ws_client" where
  "command_return k why c =
     (if call_in Sent k c then
        (case why of
           From_Channel \<Rightarrow>
             (case lc_value (cl_calls c ! k) of
                Some r \<Rightarrow> client_finish k (Ok (Some r)) (upd_client_call k (\<lambda>l. l\<lparr>lc_value := None\<rparr>) c)
              | None \<Rightarrow> if lc_closed (cl_calls c ! k) then client_finish k (Ok None) c else c)
         | Caller_Done e \<Rightarrow> client_finish k (Err e) c
         | Client_Done \<Rightarrow> if cl_cancelled c then client_finish k (Err (Errorf ''ws client: closed'')) c else c)
      else c)"

text \<open>\<^verbatim>\<open>Close\<close>, which acts once: it cancels the context, closes the connection and then the channels of all waiting
  calls.\<close>

definition Client_Close :: "('r, 's) ws_client \<Rightarrow> ('r, 's) ws_client" where
  "Client_Close c =
     (if cl_closed c then c
      else let ks = map snd (cl_pending c); c = (close_socket (cl_conn c) c)\<lparr>cl_conn := None\<rparr>
        in c\<lparr>cl_cancelled := True, cl_closed := True, cl_pending := [],
             cl_calls := map (\<lambda>(k, l). if k \<in> set ks then l\<lparr>lc_closed := True\<rparr> else l) (zip [0..<length (cl_calls c)] (cl_calls c))\<rparr>)"

subsection \<open>The first connection\<close>

text \<open>A certificate is its chain and, when it has been parsed, the end of its leaf's validity.\<close>

record tls_cert =
  tc_chain :: "string list"
  tc_leaf :: "go_time option"

record tls_config =
  tl_Certificates :: "tls_cert list"
  tl_RootCAs :: string
  tl_ServerName :: string

record client_config =
  cg_ServerURL :: string
  cg_CertFile :: string
  cg_KeyFile :: string
  cg_CAPath :: string
  cg_AgentID :: string

text \<open>What \<^verbatim>\<open>crypto/tls\<close>, \<^verbatim>\<open>crypto/x509\<close> and \<^verbatim>\<open>net/url\<close> do.\<close>

record tls_lib =
  tb_load_keypair :: "string \<Rightarrow> string \<Rightarrow> tls_cert outcome"
  tb_has_certs :: "string \<Rightarrow> bool"
  tb_hostname :: "string \<Rightarrow> string outcome"

definition buildTLSConfig :: "tls_lib \<Rightarrow> (string \<Rightarrow> string outcome) \<Rightarrow> client_config \<Rightarrow> tls_config outcome" where
  "buildTLSConfig lib read_file cfg =
     bindo (wrapo ''load client cert'' (tb_load_keypair lib (cg_CertFile cfg) (cg_KeyFile cfg))) (\<lambda>cert.
     bindo (wrapo ''read CA file'' (read_file (cg_CAPath cfg))) (\<lambda>pem.
       if \<not> tb_has_certs lib pem then Err (Errorf (''no CA certificates found in '' @ cg_CAPath cfg))
       else bindo (wrapo ''parse server URL'' (tb_hostname lib (cg_ServerURL cfg))) (\<lambda>host.
         Ok \<lparr>tl_Certificates = [cert], tl_RootCAs = pem, tl_ServerName = host\<rparr>)))"

text \<open>\<^verbatim>\<open>Connect\<close> dials once and starts the connection manager.\<close>

definition Connect :: "tls_lib \<Rightarrow> (string \<Rightarrow> string outcome) \<Rightarrow> client_config \<Rightarrow> (tls_config \<Rightarrow> unit outcome) \<Rightarrow>
    ('r, 's) ws_client \<Rightarrow> tls_config outcome \<times> ('r, 's) ws_client" where
  "Connect lib read_file cfg dial c =
     (case wrapo ''ws client: build tls config'' (buildTLSConfig lib read_file cfg) of
        Ok tls \<Rightarrow>
          (case wrapo ''ws client: initial dial'' (dial tls) of
             Ok _ \<Rightarrow> (Ok tls, (setConn c)\<lparr>cl_manager := Looping\<rparr>)
           | Err e \<Rightarrow> (Err e, c)
           | Panic \<Rightarrow> (Panic, c))
      | Err e \<Rightarrow> (Err e, c)
      | Panic \<Rightarrow> (Panic, c))"

end
