(* ===== verification/Ws_Renewal.thy ===== *)
theory Ws_Renewal
  imports Ws_Client Agent_Execute
begin

section \<open>Renewal of the agent's certificate\<close>

text \<open>
  The model of \<^verbatim>\<open>internal/ws/agent/renewal.go\<close>. The result of a response is decoded JSON, read as an object by
  \<open>rn_object\<close>; keys are what the library makes of them.
\<close>

text \<open>What \<^verbatim>\<open>crypto/x509\<close> and \<^verbatim>\<open>crypto/tls\<close> do with certificates, requests and keys.\<close>

record ('r, 'key) renewal_lib =
  rn_parse_leaf :: "string \<Rightarrow> go_time option"
  rn_new_key :: "'key outcome"
  rn_request :: "string \<Rightarrow> 'key \<Rightarrow> string outcome"
  rn_key_pem :: "'key \<Rightarrow> string outcome"
  rn_keypair :: "string \<Rightarrow> string \<Rightarrow> tls_cert outcome"
  rn_object :: "'r \<Rightarrow> (string \<times> json) list option"
  rn_decimal :: "int \<Rightarrow> string"

definition day_ns :: int where "day_ns = 24 * 3600 * 1000000000"

text \<open>The days until the certificate expires; a leaf that had to be parsed is kept in the configuration. The division
  of \<^verbatim>\<open>remaining.Hours()\<close> by 24 is exact here.\<close>

definition CheckCertExpiry :: "('r, 'key) renewal_lib \<Rightarrow> go_time \<Rightarrow> tls_config option \<Rightarrow> int \<times> tls_config option" where
  "CheckCertExpiry lib now cfg =
     (case cfg of
        None \<Rightarrow> (- 1, cfg)
      | Some c \<Rightarrow>
          (case tl_Certificates c of
             [] \<Rightarrow> (- 1, cfg)
           | cert # certs \<Rightarrow>
               (case tc_chain cert of
                  [] \<Rightarrow> (- 1, cfg)
                | der # _ \<Rightarrow>
                    (let days = (\<lambda>notAfter. max 0 (time_since notAfter now sdiv day_ns)) in
                     case tc_leaf cert of
                       Some notAfter \<Rightarrow> (days notAfter, cfg)
                     | None \<Rightarrow>
                         (case rn_parse_leaf lib der of
                            None \<Rightarrow> (- 1, cfg)
                          | Some notAfter \<Rightarrow>
                              (days notAfter, Some (c\<lparr>tl_Certificates := cert\<lparr>tc_leaf := Some notAfter\<rparr> # certs\<rparr>)))))))"

definition GenerateCSR :: "('r, 'key) renewal_lib \<Rightarrow> string \<Rightarrow> (string \<times> 'key) outcome" where
  "GenerateCSR lib agentID =
     bindo (wrapo ''generate CSR key'' (rn_new_key lib)) (\<lambda>key.
     bindo (wrapo ''create CSR'' (rn_request lib agentID key)) (\<lambda>csr. Ok (csr, key)))"

definition renewal_command :: "('r, 'key) renewal_lib \<Rightarrow> go_time \<Rightarrow> string \<Rightarrow> command" where
  "renewal_command lib now csr =
     \<lparr>cm_Cmd = ''cert-renewal-'' @ rn_decimal lib now, cm_Type = CmdCertRenewal, cm_Params = [(''csr'', JStr csr)]\<rparr>"

text \<open>The certificate in the response, which panics on a nil response.\<close>

definition renewed_pem :: "('r, 'key) renewal_lib \<Rightarrow> 'r ws_response option \<Rightarrow> string outcome" where
  "renewed_pem lib resp =
     (case resp of
        None \<Rightarrow> Panic
      | Some r \<Rightarrow>
          if rs_Status r = ''error'' then Err (Errorf (''platform rejected CSR: '' @ rs_Error r))
          else (case Option.bind (rs_Result r) (rn_object lib) of
              None \<Rightarrow> Err (Errorf ''unexpected response result type'')
            | Some result \<Rightarrow>
                (case map_of result ''certificate'' of
                   Some (JStr pem) \<Rightarrow> if pem = [] then Err (Errorf (''missing '' @ [CHR 0x27] @ ''certificate'' @ [CHR 0x27] @
                       '' in platform response'')) else Ok pem
                 | _ \<Rightarrow> Err (Errorf (''missing '' @ [CHR 0x27] @ ''certificate'' @ [CHR 0x27] @ '' in platform response'')))))"

text \<open>The renewal: \<open>send\<close> is the call of \<^verbatim>\<open>SendCommand\<close>. The configuration is changed before the log line that
  reads the parsed leaf of the new certificate, and panics when there is none.\<close>

definition AutoRenew :: "('r, 'key) renewal_lib \<Rightarrow> go_time \<Rightarrow> (command \<Rightarrow> 'r ws_response option outcome) \<Rightarrow> string \<Rightarrow> tls_config \<Rightarrow>
    tls_cert outcome \<times> tls_config" where
  "AutoRenew lib now send agentID cfg =
     (case bindo (GenerateCSR lib agentID) (\<lambda>(csr, key).
           bindo (wrapo ''send CSR to platform'' (send (renewal_command lib now csr))) (\<lambda>resp.
           bindo (renewed_pem lib resp) (\<lambda>pem.
           bindo (wrapo ''marshal EC key'' (rn_key_pem lib key)) (\<lambda>keyPEM.
             wrapo ''parse renewed certificate'' (rn_keypair lib pem keyPEM))))) of
        Ok cert \<Rightarrow> (if tc_leaf cert = None then Panic else Ok cert, cfg\<lparr>tl_Certificates := [cert]\<rparr>)
      | Err e \<Rightarrow> (Err e, cfg)
      | Panic \<Rightarrow> (Panic, cfg))"

text \<open>One check of the background goroutine, at its start and at each tick: an error of the renewal is only logged.\<close>

definition renewal_due :: "int \<Rightarrow> bool" where
  "renewal_due days \<longleftrightarrow> 0 \<le> days \<and> days < 7"

definition renewal_check :: "('r, 'key) renewal_lib \<Rightarrow> go_time \<Rightarrow> (command \<Rightarrow> 'r ws_response option outcome) \<Rightarrow> string \<Rightarrow> tls_config \<Rightarrow>
    unit outcome \<times> tls_config" where
  "renewal_check lib now send agentID cfg =
     (case CheckCertExpiry lib now (Some cfg) of
        (days, cfg') \<Rightarrow>
          (let cfg = (case cfg' of Some c \<Rightarrow> c | None \<Rightarrow> cfg) in
           if renewal_due days then
             (case AutoRenew lib now send agentID cfg of
                (Panic, cfg) \<Rightarrow> (Panic, cfg)
              | (_, cfg) \<Rightarrow> (Ok (), cfg))
           else (Ok (), cfg)))"

end
