(* ===== verification/Ws_Heartbeat.thy ===== *)
theory Ws_Heartbeat
  imports Ws_Client
begin

section \<open>Heartbeats and read deadlines\<close>

text \<open>
  The timing of a connection, at both ends: the agent pings (\<^verbatim>\<open>startHeartbeat\<close> in \<^verbatim>\<open>ws/agent/client.go\<close>), the ping
  handler of the hub moves its read deadline and answers with a pong (\<^verbatim>\<open>HandleConnection\<close> in \<^verbatim>\<open>ws/hub/hub.go\<close>), and the
  pong handler of the agent moves the agent's. A read pump handles a message before it reads the next frame, and a
  read fails when its deadline has passed. Times are in nanoseconds; a run is the list of frames with their times of arrival.
\<close>

subsection \<open>The pumps\<close>

definition pingInterval :: int where "pingInterval = 30 * 1000000000"
definition pongWait :: int where "pongWait = 90 * 1000000000"
definition readDeadline :: int where "readDeadline = 90 * 1000000000"

text \<open>A frame: the ping or pong that moves the deadline, or a message with the time its handling takes.\<close>

datatype frame = Beat | Message int

text \<open>The loop of a read pump that is ready to read at \<open>now\<close>: when it ends, and the frames it has not read. The handler of a
  beat runs inside the read.\<close>

fun pump_reads :: "int \<Rightarrow> int \<Rightarrow> int \<Rightarrow> (int \<times> frame) list \<Rightarrow> int \<times> (int \<times> frame) list" where
  "pump_reads wait now deadline [] = (max now deadline, [])"
| "pump_reads wait now deadline ((arrival, f) # fs) =
     (let t = max now arrival in
      if deadline \<le> t then (max now deadline, (arrival, f) # fs)
      else case f of
          Beat \<Rightarrow> pump_reads wait t (t + wait) fs
        | Message d \<Rightarrow> pump_reads wait (t + d) deadline fs)"

definition client_pump :: "int \<Rightarrow> (int \<times> frame) list \<Rightarrow> int \<times> (int \<times> frame) list" where
  "client_pump start fs = pump_reads pongWait start (start + pongWait) fs"

definition hub_pump :: "int \<Rightarrow> (int \<times> frame) list \<Rightarrow> int \<times> (int \<times> frame) list" where
  "hub_pump start fs = pump_reads readDeadline start (start + readDeadline) fs"

text \<open>The connections on which a tick writes a ping: those made so far, until the context is cancelled.\<close>

definition heartbeats :: "('r, 's) ws_client \<Rightarrow> nat list" where
  "heartbeats c = (if cl_cancelled c then [] else [0..<length (cl_sockets c)])"

subsection \<open>Staying connected\<close>

text \<open>Frames that arrive in time: no more than \<open>gap\<close> after the last beat, and messages one at a time, each
  handled within \<open>work\<close>, where \<open>free\<close> is when the handling of the last one ends.\<close>

fun in_time :: "int \<Rightarrow> int \<Rightarrow> int \<Rightarrow> int \<Rightarrow> (int \<times> frame) list \<Rightarrow> bool" where
  "in_time gap work last_beat free [] \<longleftrightarrow> True"
| "in_time gap work last_beat free ((arrival, f) # fs) \<longleftrightarrow> last_beat \<le> arrival \<and> arrival \<le> last_beat + gap \<and>
     (case f of
        Beat \<Rightarrow> in_time gap work arrival free fs
      | Message d \<Rightarrow> free \<le> arrival \<and> 0 \<le> d \<and> d \<le> work \<and> in_time gap work last_beat (arrival + d) fs)"

lemma pump_reads_all:
  assumes "in_time gap work last_beat free fs" "gap + work < wait" "0 \<le> work"
    and "last_beat + wait \<le> deadline" "now \<le> max last_beat free" "free \<le> last_beat + gap + work"
  shows "snd (pump_reads wait now deadline fs) = []"
  using assms
proof (induction fs arbitrary: last_beat free now deadline)
  case (Cons tf fs)
  obtain t f where tf: "tf = (t, f)" by fastforce
  have t: "last_beat \<le> t" "t \<le> last_beat + gap" using Cons.prems(1) by (simp_all add: tf)
  then have early: "\<not> deadline \<le> max now t" using Cons.prems(2-6) by linarith
  show ?case
  proof (cases f)
    case Beat
    then have "snd (pump_reads wait (max now t) (max now t + wait) fs) = []"
      using Cons.IH [of t free "max now t + wait" "max now t"] Cons.prems t by (simp add: tf)
    with early Beat show ?thesis by (simp add: tf Let_def)
  next
    case (Message d)
    then have d: "free \<le> t" "0 \<le> d" "d \<le> work" "in_time gap work last_beat (t + d) fs"
      using Cons.prems(1) by (simp_all add: tf)
    then have "snd (pump_reads wait (max now t + d) deadline fs) = []"
      using Cons.IH [of last_beat "t + d" deadline "max now t + d"] Cons.prems t by simp
    with early Message show ?thesis by (simp add: tf Let_def)
  qed
qed simp



text \<open>A handler that runs past the deadline ends the connection: pongs that have arrived meanwhile are not read.\<close>

lemma long_handler_ends_connection:
  assumes "max now arrival < deadline" "deadline \<le> max now arrival + d"
  shows "pump_reads wait now deadline ((arrival, Message d) # fs) = (max now arrival + d, fs)"
  using assms by (cases fs) (auto simp: Let_def)

text \<open>Heartbeats are started with every connection and stop with the context only, so those of the connections that were
  lost go on ticking.\<close>

lemma setConn_adds_heartbeat:
  "\<not> cl_cancelled c \<Longrightarrow> heartbeats (setConn c) = heartbeats c @ [length (heartbeats c)]"
  by (simp add: heartbeats_def setConn_def close_socket_def Let_def split: option.splits)

end
