(* ===== verification/Ws_Client_Correct.thy ===== *)
theory Ws_Client_Correct
  imports Ws_Renewal
begin

section \<open>What the agent's connection promises\<close>

text \<open>
  Runs of the client as sequences of events, with the invariant that at most one connection is open and that a closed
  client has none; bounds of the wait before a new attempt, the end of the agent in a long outage, and what a
  renewal comes to.
\<close>

subsection \<open>Runs\<close>

datatype ('r, 'w) client_event =
    First_Connect tls_lib "string \<Rightarrow> string outcome" client_config "tls_config \<Rightarrow> unit outcome"
  | Manager_Step "int \<Rightarrow> int" bool | Message 'w "'r ws_response \<Rightarrow> bool" "'r wire_message" | Deliver_Response | Pump_End
  | Command_Begin command | Command_Write nat write_result | Command_Return nat client_wake | Send_Notice write_result command
  | Close_Client

fun client_apply :: "('w \<Rightarrow> ('r, 's) dispatcher option) \<Rightarrow> ('r, 'w) client_event \<Rightarrow> ('r, 's) ws_client \<Rightarrow> ('r, 's) ws_client" where
  "client_apply disp (First_Connect lib read_file cfg dial) c =
     (if cl_manager c = Unstarted \<and> \<not> cl_cancelled c then snd (Connect lib read_file cfg dial c) else c)"
| "client_apply disp (Manager_Step rnd dialled) c = manager_step rnd dialled c"
| "client_apply disp (Message w encodes msg) c = handleMessage (disp w) encodes msg c"
| "client_apply disp Deliver_Response c = deliver_response c"
| "client_apply disp Pump_End c = pump_end c"
| "client_apply disp (Command_Begin cmd) c = command_begin cmd c"
| "client_apply disp (Command_Write k w) c = command_write k w c"
| "client_apply disp (Command_Return k why) c = command_return k why c"
| "client_apply disp (Send_Notice w cmd) c = snd (client_send w cmd c)"
| "client_apply disp Close_Client c = Client_Close c"

text \<open>The states a client can get into from a new one whose handlers start in state \<open>s\<close>.\<close>

inductive client_trace :: "('w \<Rightarrow> ('r, 's) dispatcher option) \<Rightarrow> 's \<Rightarrow> ('r, 's) ws_client \<Rightarrow> bool" for disp s where
  start: "client_trace disp s (NewClient s)"
| step: "client_trace disp s c \<Longrightarrow> \<not> cl_crashed c \<Longrightarrow> client_trace disp s (client_apply disp ev c)"

subsection \<open>At most one connection is open\<close>

fun only_open :: "bool list \<Rightarrow> nat option \<Rightarrow> bool" where
  "only_open ss None \<longleftrightarrow> (\<forall>n<length ss. \<not> ss ! n)"
| "only_open ss (Some m) \<longleftrightarrow> m < length ss \<and> (\<forall>n<length ss. n \<noteq> m \<longrightarrow> \<not> ss ! n)"

definition one_open :: "('r, 's) ws_client \<Rightarrow> bool" where
  "one_open c \<longleftrightarrow> only_open (cl_sockets c) (cl_conn c) \<and> (cl_closed c \<longrightarrow> cl_cancelled c) \<and> (cl_cancelled c \<longrightarrow> cl_conn c = None)"

lemma one_open_cong: "cl_sockets c' = cl_sockets c \<Longrightarrow> cl_conn c' = cl_conn c \<Longrightarrow> cl_closed c' = cl_closed c \<Longrightarrow>
    cl_cancelled c' = cl_cancelled c \<Longrightarrow> one_open c' = one_open c"
  by (simp add: one_open_def)

lemma only_open_closed: "only_open ss (Some m) \<Longrightarrow> only_open (ss[m := False]) None"
  by (auto simp: nth_list_update)

lemma only_open_update: "only_open ss conn \<Longrightarrow> only_open (ss[n := False]) conn"
proof -
  have "ss[n := False] ! m \<Longrightarrow> ss ! m" if "m < length ss" for m
    using that by (cases "m = n") auto
  then show "only_open ss conn \<Longrightarrow> only_open (ss[n := False]) conn" by (cases conn) auto
qed

lemma only_open_new: "only_open ss None \<Longrightarrow> only_open (ss @ [True]) (Some (length ss))"
  by (auto simp: nth_append)

lemma open_close: "one_open c \<Longrightarrow> one_open ((close_socket (cl_conn c) c)\<lparr>cl_conn := None\<rparr>)"
  by (cases "cl_conn c") (auto simp: one_open_def close_socket_def nth_list_update)

lemma open_setConn:
  assumes "one_open c" "\<not> cl_cancelled c"
  shows "one_open (setConn c)"
proof -
  have "only_open (cl_sockets (close_socket (cl_conn c) c)) None"
    using open_close [OF assms(1)] by (simp add: one_open_def)
  from only_open_new [OF this] assms show ?thesis
    by (auto simp: one_open_def setConn_def Let_def close_socket_def split: option.splits)
qed

lemma setConn_frame: "cl_cancelled (setConn c) = cl_cancelled c" "cl_closed (setConn c) = cl_closed c"
  by (auto simp: setConn_def close_socket_def Let_def split: option.splits)

lemma open_manager_stop: "one_open c \<Longrightarrow> one_open (manager_stop c)"
  using open_close [of c] by (simp add: manager_stop_def one_open_cong [of "x\<lparr>cl_manager := m\<rparr>" x for x m])

lemma open_reconnect:
  assumes "one_open c" "\<not> cl_cancelled c"
  shows "one_open (snd (reconnect rnd dialled c))"
  using assms open_setConn [OF assms]
  by (auto simp: reconnect_def one_open_cong [of "x\<lparr>cl_attempt := a\<rparr>" x for x a] one_open_cong [of "x\<lparr>cl_crashed := b\<rparr>" x for x b]
    split: outcome.splits)

lemma open_manager_step:
  assumes ok: "one_open c"
  shows "one_open (manager_step rnd dialled c)"
proof (cases "cl_manager c = Looping \<and> \<not> cl_cancelled c \<and> cl_conn c = None")
  case True
  then have "one_open (snd (reconnect rnd dialled c))" using open_reconnect [OF ok] by simp
  with True show ?thesis
    by (auto simp: manager_step_def one_open_cong [of "x\<lparr>cl_manager := m\<rparr>" x for x m] open_manager_stop split: option.splits prod.splits outcome.splits)
next
  case False
  with ok open_manager_stop [OF ok] show ?thesis
    by (auto simp: manager_step_def one_open_cong [of "x\<lparr>cl_manager := m\<rparr>" x for x m] split: manager.splits option.splits)
qed

lemma open_pump_end: "one_open c \<Longrightarrow> one_open (pump_end c)"
  using only_open_closed [of "cl_sockets c"] only_open_update [of "cl_sockets c" "cl_conn c"]
  by (auto simp: one_open_def pump_end_def compareAndSwapConn_def close_socket_def simp del: only_open.simps split: manager.splits)

lemma write_reply_frame: "cl_sockets (write_reply encodes r c) = cl_sockets c" "cl_conn (write_reply encodes r c) = cl_conn c"
    "cl_closed (write_reply encodes r c) = cl_closed c" "cl_cancelled (write_reply encodes r c) = cl_cancelled c"
  by (auto simp: write_reply_def split: option.splits)

lemma open_handleMessage: "one_open c \<Longrightarrow> one_open (handleMessage d encodes msg c)"
  by (auto simp: one_open_def handleMessage_def handleIncomingCommand_def write_reply_frame
    split: manager.splits option.splits prod.splits outcome.splits)

lemma upd_client_call_frame: "cl_sockets (upd_client_call k f c) = cl_sockets c" "cl_conn (upd_client_call k f c) = cl_conn c"
    "cl_closed (upd_client_call k f c) = cl_closed c" "cl_cancelled (upd_client_call k f c) = cl_cancelled c"
  by (auto simp: upd_client_call_def)

lemma client_finish_frame: "cl_sockets (client_finish k r c) = cl_sockets c" "cl_conn (client_finish k r c) = cl_conn c"
    "cl_closed (client_finish k r c) = cl_closed c" "cl_cancelled (client_finish k r c) = cl_cancelled c"
  by (auto simp: client_finish_def upd_client_call_def Let_def)

lemma send_out_frame: "cl_sockets (snd (send_out w cmd c)) = cl_sockets c" "cl_conn (snd (send_out w cmd c)) = cl_conn c"
    "cl_closed (snd (send_out w cmd c)) = cl_closed c" "cl_cancelled (snd (send_out w cmd c)) = cl_cancelled c"
  by (auto simp: send_out_def split: write_result.splits option.splits)

lemma open_calls:
  assumes "one_open c"
  shows "one_open (deliver_response c)" "one_open (command_begin cmd c)" "one_open (command_write k w c)"
    "one_open (command_return k why c)" "one_open (snd (client_send w cmd c))"
proof -
  show "one_open (deliver_response c)"
    using assms by (auto simp: one_open_def deliver_response_def upd_client_call_frame split: manager.splits)
  show "one_open (command_begin cmd c)"
    using assms by (simp add: one_open_def command_begin_def)
  show "one_open (command_write k w c)"
    using assms send_out_frame [of w "lc_cmd (cl_calls c ! k)" c]
    by (auto simp: one_open_def command_write_def upd_client_call_frame client_finish_frame split: prod.splits outcome.splits)
  show "one_open (command_return k why c)"
    using assms by (auto simp: one_open_def command_return_def upd_client_call_frame client_finish_frame split: client_wake.splits option.splits)
  show "one_open (snd (client_send w cmd c))"
    using assms by (simp add: one_open_def client_send_def send_out_frame)
qed

lemma open_Close: "one_open c \<Longrightarrow> one_open (Client_Close c)"
  using open_close [of c] by (auto simp: Client_Close_def Let_def one_open_def close_socket_def split: option.splits)

lemma one_open_reachable: "client_trace disp s c \<Longrightarrow> one_open c"
proof (induction rule: client_trace.induct)
  case start
  then show ?case by (simp add: one_open_def NewClient_def)
next
  case (step c ev)
  have "one_open (snd (Connect lib read_file cfg dial c))" if "\<not> cl_cancelled c" for lib read_file cfg dial
    using open_setConn [OF step.IH that] step.IH
    by (auto simp: Connect_def one_open_cong [of "x\<lparr>cl_manager := m\<rparr>" x for x m] split: outcome.splits)
  with step.IH show ?case
    by (cases ev) (auto intro: open_manager_step open_handleMessage open_calls open_pump_end open_Close)
qed

subsection \<open>Waits and outages\<close>

lemma small_product: "0 \<le> x \<Longrightarrow> x \<le> 8589934592 \<Longrightarrow> goint (goint x * 1000000000) = x * 1000000000"
  by simp

lemma backoff_product:
  assumes "0 \<le> a" "a < 34"
  shows "goint (goint (2 ^ nat a) * 1000000000) = 2 ^ nat a * 1000000000"
proof (rule small_product)
  have "(2 :: int) ^ nat a \<le> 2 ^ 33" using assms by (intro power_increasing) auto
  then show "(2 :: int) ^ nat a \<le> 8589934592" by simp
qed simp

text \<open>Up to 33 failed attempts the wait before the next one is well defined: with the jitter below a quarter of the
  backoff it lies between the backoff, which doubles from one second up to 60 seconds, and a quarter more.\<close>

theorem nextBackoff_bounds:
  assumes "0 \<le> attempt" "attempt < 34" "\<And>n. 0 < n \<Longrightarrow> 0 \<le> rnd n \<and> rnd n < n"
  shows "\<exists>w b. nextBackoff rnd attempt = Ok w \<and> b = min (2 ^ nat attempt * 1000000000) 60000000000 \<and> b \<le> w \<and> 4 * w < 5 * b"
proof -
  define b :: int where "b = min (2 ^ nat attempt * 1000000000) 60000000000"
  have "(1 :: int) \<le> 2 ^ nat attempt" by simp
  then have b: "1000000000 \<le> b" "b \<le> 60000000000" by (auto simp: b_def)
  have "b sdiv 4 = b div 4" using b by (simp add: signed_divide_int_def)
  moreover have "0 < b div 4" "4 * (b div 4) \<le> b" using b by auto
  moreover have "nextBackoff rnd attempt = bindo (Int63n rnd (b sdiv 4)) (\<lambda>jitter. Ok (goint (b + jitter)))"
    using assms(1,2) by (auto simp: nextBackoff_def Let_def backoff_product reconnectMinWait_def reconnectMaxWait_def b_def min_def)
  ultimately have "nextBackoff rnd attempt = Ok (goint (b + rnd (b div 4)))" "0 \<le> rnd (b div 4)" "rnd (b div 4) < b div 4"
    using assms(3) [of "b div 4"] by (auto simp: Int63n_def)
  moreover have "goint (b + rnd (b div 4)) = b + rnd (b div 4)"
    using b calculation by (intro goint_id) auto
  ultimately have "nextBackoff rnd attempt = Ok (b + rnd (b div 4)) \<and> b \<le> b + rnd (b div 4) \<and> 4 * (b + rnd (b div 4)) < 5 * b"
    using \<open>4 * (b div 4) \<le> b\<close> by auto
  then show ?thesis unfolding b_def by blast
qed

lemma nextBackoff_bounds_witness:
  "\<exists>w b. nextBackoff (\<lambda>n. n - 1) 6 = Ok w \<and> b = min (2 ^ nat 6 * 1000000000) 60000000000 \<and> b \<le> w \<and> 4 * w < 5 * b"
  by (rule nextBackoff_bounds) auto

lemma nextBackoff_34: "nextBackoff rnd 34 = Panic"
  by (simp add: nextBackoff_def Let_def reconnectMinWait_def reconnectMaxWait_def goint_def Int63n_def signed_divide_int_def
    signed_take_bit_int_eq_self signed_take_bit_eq_if_negative)

lemma failed_attempt:
  assumes "cl_manager c = Looping" "\<not> cl_cancelled c" "cl_conn c = None" "0 \<le> cl_attempt c" "cl_attempt c < 34"
  shows "manager_step rnd False c = c\<lparr>cl_attempt := cl_attempt c + 1\<rparr>"
proof -
  have "(1 :: int) \<le> 2 ^ nat (cl_attempt c)" by simp
  then have "0 < min (2 ^ nat (cl_attempt c) * 1000000000) (60000000000 :: int) sdiv 4"
    by (auto simp: signed_divide_int_def min_def)
  then have "\<exists>w. nextBackoff rnd (cl_attempt c) = Ok w"
    using assms(4,5) by (auto simp: nextBackoff_def Let_def backoff_product reconnectMinWait_def reconnectMaxWait_def min_def Int63n_def)
  with assms show ?thesis by (auto simp: manager_step_def reconnect_def)
qed

lemma failed_attempts:
  assumes "cl_manager c = Looping" "\<not> cl_cancelled c" "cl_conn c = None" "cl_attempt c = 0" "n \<le> 34"
  shows "(manager_step rnd False ^^ n) c = c\<lparr>cl_attempt := int n\<rparr>"
  using assms(5)
proof (induction n)
  case 0
  then show ?case using assms(4) by simp
next
  case (Suc n)
  with failed_attempt [of "c\<lparr>cl_attempt := int n\<rparr>" rnd] assms(1-3) show ?case by simp
qed

text \<open>C36. An agent that cannot reach the platform does not try for ever: when 34 attempts have failed, the computation of the
  next wait overflows and \<^verbatim>\<open>rand.Int63n\<close> panics on it, so the 35th takes the agent down.\<close>

theorem outage_crashes_agent:
  assumes "cl_manager c = Looping" "\<not> cl_cancelled c" "cl_conn c = None" "cl_attempt c = 0" "\<not> cl_crashed c"
  shows "\<not> cl_crashed ((manager_step rnd False ^^ 34) c) \<and> cl_crashed ((manager_step rnd False ^^ 35) c)"
proof -
  have "(manager_step rnd False ^^ 35) c = manager_step rnd False ((manager_step rnd False ^^ 34) c)"
    by (simp add: numeral_eq_Suc)
  then show ?thesis
    using assms failed_attempts [OF assms(1-4), of 34 rnd] by (simp add: manager_step_def reconnect_def nextBackoff_34)
qed

definition offline_client :: "(string, unit) ws_client" where
  "offline_client = (NewClient ())\<lparr>cl_manager := Looping\<rparr>"

lemma outage_crashes_agent_witness:
  "\<not> cl_crashed ((manager_step (\<lambda>_. 0) False ^^ 34) offline_client) \<and> cl_crashed ((manager_step (\<lambda>_. 0) False ^^ 35) offline_client)"
  by (rule outage_crashes_agent) (simp_all add: offline_client_def NewClient_def)


definition sample_tls :: tls_lib where
  "sample_tls = \<lparr>tb_load_keypair = (\<lambda>_ _. Ok \<lparr>tc_chain = [''cert''], tc_leaf = None\<rparr>), tb_has_certs = (\<lambda>_. True),
     tb_hostname = (\<lambda>u. Ok u)\<rparr>"

definition connect_sample :: "(string, unit) client_event" where
  "connect_sample = First_Connect sample_tls (\<lambda>_. Ok ''ca'')
     \<lparr>cg_ServerURL = ''wss://p'', cg_CertFile = ''c'', cg_KeyFile = ''k'', cg_CAPath = ''ca'', cg_AgentID = ''a''\<rparr> (\<lambda>_. Ok ())"

definition online_client :: "(string, unit) ws_client" where
  "online_client = client_apply (\<lambda>_. None) connect_sample (NewClient ())"


subsection \<open>Closing and renewing\<close>

text \<open>When the client is closed, a call of \<^verbatim>\<open>SendCommand\<close> that waits for its response can return a nil response and no
  error, as its select may take the closed channel; the renewal that made the call then panics.\<close>

theorem close_during_renewal_panics:
  assumes "call_in Sent k c" "(cm_Cmd (lc_cmd (cl_calls c ! k)), k) \<in> set (cl_pending c)" "lc_value (cl_calls c ! k) = None"
    and "\<not> cl_closed c" and key: "GenerateCSR lib agentID = Ok (csr, key)"
  shows "lc_state (cl_calls (command_return k From_Channel (Client_Close c)) ! k) = Done (Ok None) \<and>
    AutoRenew lib now (\<lambda>_. Ok None) agentID cfg = (Panic, cfg)"
proof
  have k: "k < length (cl_calls c)" "lc_state (cl_calls c ! k) = Sent" using assms(1) by (auto simp: call_in_def)
  have "k \<in> snd ` set (cl_pending c)" using assms(2) by force
  with k assms(3,4) have "cl_calls (Client_Close c) ! k = (cl_calls c ! k)\<lparr>lc_closed := True\<rparr>"
      "length (cl_calls (Client_Close c)) = length (cl_calls c)"
    by (auto simp: Client_Close_def Let_def close_socket_def split: option.splits)
  with k assms(3) show "lc_state (cl_calls (command_return k From_Channel (Client_Close c)) ! k) = Done (Ok None)"
    by (simp add: command_return_def call_in_def client_finish_def upd_client_call_def Let_def)
  show "AutoRenew lib now (\<lambda>_. Ok None) agentID cfg = (Panic, cfg)"
    by (simp add: AutoRenew_def key renewed_pem_def)
qed

definition sample_renewal :: "(string, unit) renewal_lib" where
  "sample_renewal = \<lparr>rn_parse_leaf = (\<lambda>_. Some 0), rn_new_key = Ok (), rn_request = (\<lambda>a _. Ok a), rn_key_pem = (\<lambda>_. Ok ''key''),
     rn_keypair = (\<lambda>c _. Ok \<lparr>tc_chain = [c], tc_leaf = None\<rparr>), rn_object = (\<lambda>r. Some [(''certificate'', JStr r)]),
     rn_decimal = (\<lambda>_. ''1'')\<rparr>"

definition waiting_client :: "(string, unit) ws_client" where
  "waiting_client = command_write 0 Written (command_begin (renewal_command sample_renewal 1 ''a'') online_client)"

lemma waiting_client_state:
  "cl_calls waiting_client = [\<lparr>lc_cmd = renewal_command sample_renewal 1 ''a'', lc_value = None, lc_closed = False, lc_state = Sent\<rparr>]"
  "cl_pending waiting_client = [(''cert-renewal-1'', 0)]" "\<not> cl_closed waiting_client"
  by (simp_all add: waiting_client_def command_write_def command_begin_def online_client_def connect_sample_def sample_tls_def
    NewClient_def Connect_def buildTLSConfig_def setConn_def close_socket_def call_in_def send_out_def upd_client_call_def
    renewal_command_def sample_renewal_def)

lemma close_during_renewal_panics_witness:
  "lc_state (cl_calls (command_return 0 From_Channel (Client_Close waiting_client)) ! 0) = Done (Ok None) \<and>
    AutoRenew sample_renewal 1 (\<lambda>_. Ok None) ''a'' \<lparr>tl_Certificates = [], tl_RootCAs = [], tl_ServerName = []\<rparr> =
      (Panic, \<lparr>tl_Certificates = [], tl_RootCAs = [], tl_ServerName = []\<rparr>)"
  by (rule close_during_renewal_panics [where csr = "''a''" and key = "()"])
    (simp_all add: waiting_client_state call_in_def renewal_command_def GenerateCSR_def sample_renewal_def)

text \<open>No renewal succeeds when \<^verbatim>\<open>tls.X509KeyPair\<close> leaves the leaf of the certificate unparsed, as it does for a module
  of Go 1.22: once the platform has signed the request, the agent panics on the log line, with the new certificate already in its
  configuration.\<close>

theorem signed_renewal_panics:
  assumes unparsed: "\<And>c k cert. rn_keypair lib c k = Ok cert \<Longrightarrow> tc_leaf cert = None"
    and signed: "GenerateCSR lib agentID = Ok (csr, key)" "send (renewal_command lib now csr) = Ok (Some r)"
      "renewed_pem lib (Some r) = Ok pem" "rn_key_pem lib key = Ok keyPEM" "rn_keypair lib pem keyPEM = Ok cert"
  shows "AutoRenew lib now send agentID cfg = (Panic, cfg\<lparr>tl_Certificates := [cert]\<rparr>)"
  using unparsed [OF signed(5)] by (simp add: AutoRenew_def signed)

lemma signed_renewal_panics_witness:
  "AutoRenew sample_renewal 1 (\<lambda>cmd. Ok (Some \<lparr>rs_Cmd = cm_Cmd cmd, rs_Status = ''ok'', rs_Result = Some ''pem'', rs_Error = []\<rparr>))
     ''a'' \<lparr>tl_Certificates = [], tl_RootCAs = [], tl_ServerName = []\<rparr> =
   (Panic, \<lparr>tl_Certificates = [\<lparr>tc_chain = [''pem''], tc_leaf = None\<rparr>], tl_RootCAs = [], tl_ServerName = []\<rparr>)"
  by (subst signed_renewal_panics [where csr = "''a''" and key = "()" and r = "\<lparr>rs_Cmd = ''cert-renewal-1'', rs_Status = ''ok'',
      rs_Result = Some ''pem'', rs_Error = []\<rparr>" and pem = "''pem''" and keyPEM = "''key''" and
      cert = "\<lparr>tc_chain = [''pem''], tc_leaf = None\<rparr>"])
    (auto simp: sample_renewal_def GenerateCSR_def renewal_command_def renewed_pem_def)

end
