(* ===== verification/Ws_Session.thy ===== *)
theory Ws_Session
  imports Ws_Hub_Waits Ws_Client_Correct Agent_Correct
begin

section \<open>A command's way from the platform to the agent and back\<close>

text \<open>
  The composition of hub, client, dispatcher and handlers. Every handler answers under the id of its command with a
  well-formed response, so the hub can hand the answer to the caller; and since the client runs its handlers one after
  the other in the read pump, a cancel command never finds an operation to cancel.
\<close>

subsection \<open>Replies\<close>

definition well_formed_reply :: "command \<Rightarrow> 'r ws_response \<Rightarrow> bool" where
  "well_formed_reply cmd r \<longleftrightarrow> rs_Cmd r = cm_Cmd cmd \<and>
     (rs_Status r = ''ok'' \<and> rs_Result r \<noteq> None \<and> rs_Error r = [] \<or> rs_Status r = ''error'' \<and> rs_Result r = None)"

lemma wf_okResp [simp]: "well_formed_reply cmd (okResp cmd r)"
  by (simp add: well_formed_reply_def okResp_def)

lemma wf_errResp [simp]: "well_formed_reply cmd (errResp cmd m)"
  by (simp add: well_formed_reply_def errResp_def)

lemma wf_map_resp: "map_resp f o1 = Ok r \<Longrightarrow> (\<And>r'. o1 = Ok r' \<Longrightarrow> well_formed_reply cmd r') \<Longrightarrow> well_formed_reply cmd r"
  by (cases o1) (auto simp: map_resp_def well_formed_reply_def)

lemma wf_preflight: "handlePreflight w cfg cmd = Ok r \<Longrightarrow> well_formed_reply cmd r"
  by (auto simp: handlePreflight_def connect_failed_def split: outcome.splits)

lemma wf_reply_to_parse: "well_formed_reply cmd (reply_to_parse w cmd res)"
  by (auto simp: reply_to_parse_def Let_def split: prod.splits option.splits)

lemma wf_parse: "handlePITRParse w cfg cmd = Ok r \<Longrightarrow> well_formed_reply cmd r"
  by (auto simp: handlePITRParse_def select_files_def connect_failed_def wf_reply_to_parse Let_def
    split: outcome.splits sum.splits if_splits)

lemma wf_run_execute: "run_execute w e cfg cmd opID sqls n s = (Ok r, s') \<Longrightarrow> well_formed_reply cmd r"
  by (auto simp: run_execute_def Let_def split: outcome.splits prod.splits if_splits)

lemma wf_execute: "handlePITRExecute w e cfg cmd s = (Ok r, s') \<Longrightarrow> well_formed_reply cmd r"
  by (auto simp: handlePITRExecute_def Let_def apsnd_def map_prod_def split: if_splits option.splits prod.splits dest: wf_run_execute)

lemma wf_cancel: "handlePITRCancel f cmd s = (Ok r, s') \<Longrightarrow> well_formed_reply cmd r"
  by (auto simp: handlePITRCancel_def Let_def)

lemma daemon_handler_cases:
  assumes "map_of (daemon_handlers dw cfg) t = Some handler"
  shows "handler = (\<lambda>cmd s. apfst (map_resp RCancel) (handlePITRCancel (dw_cancel dw) cmd s)) \<and> t = ''pitr_cancel'' \<or>
    handler = (\<lambda>cmd s. apfst (map_resp RExecute) (handlePITRExecute (dw_world dw) (dw_exec dw) cfg cmd s)) \<and> t = ''pitr_execute'' \<or>
    handler = (\<lambda>cmd s. (map_resp RParse (handlePITRParse (dw_world dw) cfg cmd), s)) \<or>
    handler = (\<lambda>cmd s. (map_resp RPreflight (handlePreflight (dw_world dw) cfg cmd), s)) \<or>
    handler = (\<lambda>cmd s. apfst (map_resp RShutdown) (handleShutdown cmd s)) \<or>
    handler = (\<lambda>cmd s. apfst (map_resp RStatus) (handleStatus (dw_durations dw) (dw_world dw) cfg (dw_agentID dw) (dw_started dw)
      (dw_now dw) cmd s))"
  using assms by (auto simp: daemon_handlers_def RegisterHandler_def update_conv' split: if_splits)

lemma dispatch_well_formed:
  assumes "Dispatch (daemon_handlers dw cfg) cmd s = (Ok r, s')"
  shows "well_formed_reply cmd r"
proof (cases "map_of (daemon_handlers dw cfg) (cm_Type cmd)")
  case None
  with assms show ?thesis by (auto simp: Dispatch_def)
next
  case (Some handler)
  with assms have "handler cmd s = (Ok r, s')" by (simp add: Dispatch_def)
  with daemon_handler_cases [OF Some] show ?thesis
    by (auto simp: handleShutdown_def handleStatus_def apfst_def map_prod_def split: prod.splits
      elim!: wf_map_resp dest: wf_cancel wf_execute wf_parse wf_preflight)
qed

subsection \<open>Cancelling\<close>

lemma run_execute_cancels: "dm_cancels (snd (run_execute w e cfg cmd opID sqls n s)) = dm_cancels s"
  by (auto simp: run_execute_def Let_def split: outcome.splits prod.splits)

lemma execute_cancels: "dm_cancels s = [] \<Longrightarrow> dm_cancels (snd (handlePITRExecute w e cfg cmd s)) = []"
  by (simp add: handlePITRExecute_def Let_def run_execute_cancels split: option.splits)

lemma dispatch_cancels:
  assumes "dm_cancels s = []"
  shows "dm_cancels (snd (Dispatch (daemon_handlers dw cfg) cmd s)) = []"
proof (cases "map_of (daemon_handlers dw cfg) (cm_Type cmd)")
  case (Some handler)
  from daemon_handler_cases [OF Some] assms have "dm_cancels (snd (handler cmd s)) = []"
    by (auto simp: handlePITRCancel_def handleShutdown_def handleStatus_def Let_def execute_cancels)
  with Some show ?thesis by (simp add: Dispatch_def)
qed (use assms in \<open>simp add: Dispatch_def\<close>)

definition daemon_dispatcher :: "'c daemon_world \<times> agent_config \<Rightarrow> (agent_result, 'c daemon) dispatcher option" where
  "daemon_dispatcher = (\<lambda>(dw, cfg). Some (daemon_handlers dw cfg))"

lemma write_reply_state: "cl_state (write_reply encodes r c) = cl_state c"
  by (auto simp: write_reply_def split: option.splits)

lemma message_cancels:
  assumes "dm_cancels (cl_state c) = []"
  shows "dm_cancels (cl_state (handleMessage (daemon_dispatcher w) encodes msg c)) = []"
proof -
  have "dm_cancels (cl_state (handleIncomingCommand (daemon_dispatcher w) encodes cmd c)) = []" for cmd
    using dispatch_cancels [OF assms, of "fst w" "snd w" cmd]
    by (auto simp: handleIncomingCommand_def daemon_dispatcher_def write_reply_state split: prod.splits outcome.splits)
  with assms show ?thesis
    by (auto simp: handleMessage_def split: manager.splits option.splits prod.splits)
qed

lemma other_events_state:
  assumes "\<And>w encodes msg. ev \<noteq> Message w encodes msg"
  shows "cl_state (client_apply disp ev c) = cl_state c"
  using assms
  by (cases ev) (auto simp: Connect_def setConn_def close_socket_def manager_step_def reconnect_def manager_stop_def deliver_response_def
    upd_client_call_def pump_end_def compareAndSwapConn_def command_begin_def command_write_def client_finish_def send_out_def
    command_return_def client_send_def Client_Close_def Let_def
    split: outcome.splits option.splits manager.splits prod.splits write_result.splits client_wake.splits)

lemma cancels_reachable:
  assumes "client_trace daemon_dispatcher s c" "dm_cancels s = []"
  shows "dm_cancels (cl_state c) = []"
  using assms(1)
proof (induction rule: client_trace.induct)
  case start
  then show ?case using assms(2) by (simp add: NewClient_def)
next
  case (step c ev)
  then show ?case
  proof (cases "\<exists>w encodes msg. ev = Message w encodes msg")
    case True
    with step.IH show ?thesis by (auto simp: message_cancels)
  next
    case False
    then have "cl_state (client_apply daemon_dispatcher ev c) = cl_state c" by (intro other_events_state) blast
    with step.IH show ?thesis by simp
  qed
qed

subsection \<open>Samples\<close>

definition sample_daemon_world :: "(string list \<times> string list) daemon_world" where
  "sample_daemon_world = \<lparr>dw_agentID = ''a'', dw_started = 0, dw_now = 9,
     dw_durations = \<lparr>dl_round_hours = (\<lambda>_. []), dl_duration = (\<lambda>_. ''9s''), dl_rfc3339 = (\<lambda>_. ''t''), dl_quot = (\<lambda>_ _. [])\<rparr>,
     dw_world = sample_world [], dw_exec = log_exec (\<lambda>_ _. None), dw_cancel = (\<lambda>c. c)\<rparr>"

definition status_cmd :: command where
  "status_cmd = \<lparr>cm_Cmd = ''c1'', cm_Type = ''status'', cm_Params = []\<rparr>"

definition status_result :: "agent_result ws_response" where
  "status_result = okResp status_cmd (RStatus \<lparr>sr_agentId = ''a'', sr_uptime = ''9s'', sr_startedAt = ''t'',
     sr_mysql = checkMySQL (sample_world []) sample_agent\<rparr>)"

lemma status_dispatch: "Dispatch (daemon_handlers sample_daemon_world sample_agent) status_cmd s = (Ok status_result, s)"
  by (simp add: Dispatch_def daemon_handlers_def RegisterHandler_def update_conv' status_cmd_def handleStatus_def map_resp_def
    status_result_def okResp_def sample_daemon_world_def)

definition daemon_client :: "(agent_result, (string list \<times> string list) daemon) ws_client" where
  "daemon_client = client_apply daemon_dispatcher (Manager_Step (\<lambda>_. 0) True) (client_apply daemon_dispatcher
     (First_Connect sample_tls (\<lambda>_. Ok ''ca'') \<lparr>cg_ServerURL = ''wss://p'', cg_CertFile = ''c'', cg_KeyFile = ''k'', cg_CAPath = ''ca'',
       cg_AgentID = ''a''\<rparr> (\<lambda>_. Ok ())) (NewClient fresh_daemon))"

lemma daemon_client_state:
  "cl_manager daemon_client = Reading 0" "cl_conn daemon_client = Some 0" "cl_sockets daemon_client = [True]"
  "\<not> cl_crashed daemon_client" "cl_state daemon_client = fresh_daemon" "cl_replies daemon_client = []"
  by (simp_all add: daemon_client_def manager_step_def Connect_def buildTLSConfig_def sample_tls_def setConn_def close_socket_def NewClient_def)

lemma daemon_client_trace: "client_trace daemon_dispatcher fresh_daemon daemon_client"
  unfolding daemon_client_def
  by (rule client_trace.step [OF client_trace.step [OF client_trace.start]])
    (simp_all add: Connect_def buildTLSConfig_def sample_tls_def setConn_def close_socket_def NewClient_def)

definition plain_env :: "(agent_result, unit) hub_env" where
  "plain_env = \<lparr>he_sign = None, he_certificate = (\<lambda>_. RShutdown []), he_progress = False, he_connect = False, he_disconnect = False\<rparr>"

definition session_hub :: "(agent_result, unit) hub" where
  "session_hub = fold (hub_apply plain_env) hub_sample_start (NewHub ())"

lemmas session_defs = session_hub_def plain_env_def hub_sample_start_def NewHub_def handle_connection_def start_pump_def send_begin_def
  send_register_def send_write_def upd_obj_def upd_call_def in_state_def IsConnected_def Let_def

lemma session_trace: "hub_trace plain_env (rev hub_sample_start) session_hub"
proof -
  have "hub_exec plain_env hub_sample_start (NewHub ()) = Some session_hub" by (simp add: session_defs)
  from hub_exec_trace [OF hub_trace.start this] show ?thesis by simp
qed

subsection \<open>Properties\<close>

text \<open>C32. Whatever command the platform sends, a reply of the agent is well formed: it carries the id of the command, and
  is either a success with a result and no error text or an error without a result.\<close>

theorem agent_replies_well_formed:
  assumes "Dispatch (daemon_handlers dw cfg) cmd s = (Ok r, s')"
  shows "well_formed_reply cmd r"
  by (rule dispatch_well_formed [OF assms])

lemma agent_replies_well_formed_witness: "well_formed_reply status_cmd status_result"
  by (rule agent_replies_well_formed [OF status_dispatch])

text \<open>C37. A cancel command cannot interrupt anything: in every state that the client of the daemon gets into, when the
  handler of a cancel command runs no operation is registered, so it answers that nothing was cancelled.\<close>

theorem cancel_never_cancels:
  assumes "client_trace daemon_dispatcher s c" "dm_cancels s = []" "cm_Type cmd = ''pitr_cancel''"
  shows "Dispatch (daemon_handlers dw cfg) cmd (cl_state c) =
    (Ok (okResp cmd (RCancel \<lparr>kr_operationId = paramString (cm_Params cmd) ''operationId'', kr_cancelled = False\<rparr>)), cl_state c)"
  using cancels_reachable [OF assms(1,2)] assms(3)
  by (simp add: Dispatch_def daemon_handlers_def RegisterHandler_def update_conv' handlePITRCancel_def map_resp_def okResp_def)

lemma cancel_never_cancels_witness:
  "let cmd = \<lparr>cm_Cmd = ''c2'', cm_Type = ''pitr_cancel'', cm_Params = [(''operationId'', JStr ''op'')]\<rparr> in
   Dispatch (daemon_handlers sample_daemon_world sample_agent) cmd (cl_state daemon_client) =
    (Ok (okResp cmd (RCancel \<lparr>kr_operationId = paramString (cm_Params cmd) ''operationId'', kr_cancelled = False\<rparr>)),
     cl_state daemon_client)"
  unfolding Let_def by (rule cancel_never_cancels [OF daemon_client_trace]) (simp_all add: fresh_daemon_def)

text \<open>How the two ends see each other's messages: a command read as a response has no status, and a response read as a
  command has no type.\<close>

definition command_message :: "command \<Rightarrow> 'r wire_message" where
  "command_message cmd = \<lparr>wm_response = Some \<lparr>rs_Cmd = cm_Cmd cmd, rs_Status = [], rs_Result = None, rs_Error = []\<rparr>,
     wm_command = Some cmd\<rparr>"

definition response_message :: "'r ws_response \<Rightarrow> 'r wire_message" where
  "response_message r = \<lparr>wm_response = Some r, wm_command = Some \<lparr>cm_Cmd = rs_Cmd r, cm_Type = [], cm_Params = []\<rparr>\<rparr>"



end
