(* ===== verification/Server_Main.thy ===== *)
theory Server_Main
  imports Auth Org_Handlers Binlog_Text Ws_Ca
begin

section \<open>The server\<close>

text \<open>
  The model of \<^verbatim>\<open>internal/server/server.go\<close> and \<^verbatim>\<open>internal/server/router.go\<close>: the start of the certificate
  authority, the hooks that keep the registry of agents in step with the hub, and the table of routes. The matching
  of a request to a route is chi's; it is passed as \<open>pick\<close>. The environment is a map to strings, empty where unset.
\<close>

subsection \<open>Start\<close>

definition jwtSecret :: "(string \<Rightarrow> string) \<Rightarrow> string" where
  "jwtSecret getenv = (if getenv ''JWT_SECRET'' = [] then ''change-me-in-production'' else getenv ''JWT_SECRET'')"

definition cert_hosts :: "(string \<Rightarrow> string) \<Rightarrow> string list" where
  "cert_hosts getenv =
     (let hosts = Split (getenv ''AGENT_CERT_HOSTS'') (CHR '','') in if hosts = [] \<or> hd hosts = [] then [''localhost'', ''server''] else hosts)"

text \<open>The part of \<^verbatim>\<open>New\<close> that can fail: the root, and the certificate of the agent listener.\<close>

definition server_root :: "'s storage_ops \<Rightarrow> 'k x509_lib \<Rightarrow> 's \<Rightarrow> unit outcome \<times> ('s, 'k) ca" where
  "server_root ops lib st = GenerateRoot ops lib (NewCA st)"

definition server_new :: "'s storage_ops \<Rightarrow> 'k x509_lib \<Rightarrow> (string \<Rightarrow> string) \<Rightarrow> go_time \<Rightarrow> 's \<Rightarrow> string outcome \<times> ('s, 'k) ca" where
  "server_new ops lib getenv now st =
     (case server_root ops lib st of
        (Ok _, c) \<Rightarrow> SignServerCert lib now (cert_hosts getenv) c
      | (Err e, c) \<Rightarrow> (Err e, c)
      | (Panic, c) \<Rightarrow> (Panic, c))"

subsection \<open>Hooks of the hub\<close>

definition OnConnect :: "bytes \<Rightarrow> go_time \<Rightarrow> org_store \<Rightarrow> string \<Rightarrow> agent_store \<Rightarrow> agent_store" where
  "OnConnect rnd now orgs agentID s =
     (case Agent_Get s agentID of
        Ok a \<Rightarrow> snd (Agent_Update (a\<lparr>ag_Status := ''online'', ag_LastSeen := now\<rparr>) s)
      | _ \<Rightarrow>
          (let orgID = (case Org_ListAll orgs of o1 # _ \<Rightarrow> og_ID o1 | [] \<Rightarrow> [])
           in snd (Agent_Create rnd now
                \<lparr>ag_ID = agentID, ag_OrgID = orgID, ag_Hostname = agentID, ag_MySQLVersion = [], ag_Status = ''online'',
                 ag_LastSeen = now, ag_CreatedAt = now, ag_CertSerial = [], ag_RegistrationToken = [], ag_Approved = True\<rparr> s)))"

definition OnDisconnect :: "go_time \<Rightarrow> string \<Rightarrow> agent_store \<Rightarrow> agent_store" where
  "OnDisconnect now agentID s =
     (case Agent_Get s agentID of
        Ok a \<Rightarrow> snd (Agent_Update (a\<lparr>ag_Status := ''offline'', ag_LastSeen := now\<rparr>) s)
      | _ \<Rightarrow> s)"

subsection \<open>Routes\<close>

datatype endpoint = Register_User | Login | Refresh | List_Orgs | Create_Org | Invite_Member | Accept_Invite | List_Members
  | Register_Agent | List_Agents | Approve_Agent | Reject_Agent | Get_Agent | Start_Operation | List_Operations
  | Operation_Status | Cancel_Operation | Operation_Preview | Operation_Progress | Execute_Operation | Query_Audit
  | Export_Audit | Frontend

record route =
  rt_Method :: string
  rt_Pattern :: string
  rt_Protected :: bool
  rt_Endpoint :: endpoint

definition guard_routes :: "bool \<Rightarrow> (string \<times> string \<times> endpoint) list \<Rightarrow> route list" where
  "guard_routes protect = map (\<lambda>(m, p, e). \<lparr>rt_Method = m, rt_Pattern = p, rt_Protected = protect, rt_Endpoint = e\<rparr>)"

definition newWebRouter :: "route list" where
  "newWebRouter =
     guard_routes False
       [(''POST'', ''/api/auth/register'', Register_User), (''POST'', ''/api/auth/login'', Login),
        (''POST'', ''/api/auth/refresh'', Refresh)] @
     guard_routes True
       [(''GET'', ''/api/orgs/'', List_Orgs), (''POST'', ''/api/orgs/'', Create_Org),
        (''POST'', ''/api/orgs/{id}/invite'', Invite_Member), (''POST'', ''/api/orgs/{id}/accept'', Accept_Invite),
        (''GET'', ''/api/orgs/{id}/members'', List_Members),
        (''POST'', ''/api/agents/register'', Register_Agent), (''GET'', ''/api/agents/'', List_Agents),
        (''POST'', ''/api/agents/{id}/approve'', Approve_Agent), (''POST'', ''/api/agents/{id}/reject'', Reject_Agent),
        (''GET'', ''/api/agents/{id}/'', Get_Agent),
        (''POST'', ''/api/pitr/start'', Start_Operation), (''GET'', ''/api/pitr/'', List_Operations),
        (''GET'', ''/api/pitr/{id}/status'', Operation_Status), (''POST'', ''/api/pitr/{id}/cancel'', Cancel_Operation),
        (''GET'', ''/api/pitr/{id}/preview'', Operation_Preview), (''GET'', ''/api/pitr/{id}/progress'', Operation_Progress),
        (''POST'', ''/api/pitr/{id}/execute'', Execute_Operation),
        (''GET'', ''/api/audit/'', Query_Audit), (''GET'', ''/api/audit/export'', Export_Audit)] @
     guard_routes False [(''GET'', ''/*'', Frontend)]"

text \<open>A request goes to the handler of its route, through the middleware when the route is protected.\<close>

definition serve_web :: "(route list \<Rightarrow> string \<Rightarrow> string \<Rightarrow> route option) \<Rightarrow> jwt_lib \<Rightarrow> bytes \<Rightarrow> go_time \<Rightarrow>
    (endpoint \<Rightarrow> request \<Rightarrow> 's \<Rightarrow> 'b response \<times> 's) \<Rightarrow> string \<Rightarrow> string \<Rightarrow> string \<Rightarrow> request \<Rightarrow> 's \<Rightarrow> 'b response \<times> 's" where
  "serve_web pick lib secret now handlers meth path authHeader r s =
     (case pick newWebRouter meth path of
        None \<Rightarrow> (writeError StatusNotFound ''404 page not found'', s)
      | Some rt \<Rightarrow>
          if rt_Protected rt then AuthMiddleware lib secret now authHeader (handlers (rt_Endpoint rt)) r s
          else handlers (rt_Endpoint rt) r s)"

text \<open>The file that the handler of the frontend serves.\<close>

definition spa_file :: "(string \<Rightarrow> string) \<Rightarrow> (string \<Rightarrow> bool) \<Rightarrow> string \<Rightarrow> string" where
  "spa_file getenv exists urlPath =
     (let webDir = (if getenv ''WEB_DIR'' = [] then ''/usr/share/mysql-pitr/web'' else getenv ''WEB_DIR''); path = path_clean urlPath in
      if path \<noteq> ''/'' \<and> exists (path_join webDir path) then path_join webDir path
      else path_join webDir ''index.html'')"

subsection \<open>Properties\<close>

text \<open>The interface can be used only with a valid access token: when chi picks a route of the table, a request for
  anything but registering, logging in, refreshing a token and the frontend is answered with 401 and changes
  nothing, unless its Authorization header holds a scheme and a token that \<^verbatim>\<open>ValidateToken\<close> accepts.\<close>

theorem api_requires_token:
  assumes picked: "pick newWebRouter meth path = Some rt" "rt \<in> set newWebRouter"
    and endpoint: "rt_Endpoint rt \<notin> {Register_User, Login, Refresh, Frontend}"
    and no_token: "\<And>scheme tok c. authHeader = scheme @ '' '' @ tok \<Longrightarrow> ValidateToken lib now tok secret \<noteq> Ok c"
  shows "\<exists>m. serve_web pick lib secret now handlers meth path authHeader r s = (writeError StatusUnauthorized m, s)"
proof -
  have "rt_Protected rt" using picked(2) endpoint by (auto simp: newWebRouter_def guard_routes_def)
  moreover have "\<exists>m. AuthMiddleware lib secret now authHeader next r s = (writeError StatusUnauthorized m, s)" for "next"
  proof (rule AuthMiddleware_cases [of lib secret now authHeader "next" r s])
    fix scheme tok c
    assume "authHeader = scheme @ '' '' @ tok" "ValidateToken lib now tok secret = Ok c"
    with no_token show ?thesis by blast
  qed blast
  ultimately show ?thesis using picked(1) by (simp add: serve_web_def)
qed

definition exact_pick :: "route list \<Rightarrow> string \<Rightarrow> string \<Rightarrow> route option" where
  "exact_pick rts meth path = find (\<lambda>rt. rt_Method rt = meth \<and> rt_Pattern rt = path) rts"

lemma api_requires_token_witness:
  "\<exists>m. serve_web exact_pick two_token_lib [] 0 (\<lambda>_ _ n. (writeJSON StatusOK (), Suc n)) ''POST'' ''/api/pitr/start'' [] alice 0 =
    (writeError StatusUnauthorized m, 0)"
proof (rule api_requires_token)
  show "exact_pick newWebRouter ''POST'' ''/api/pitr/start'' = Some \<lparr>rt_Method = ''POST'', rt_Pattern = ''/api/pitr/start'',
      rt_Protected = True, rt_Endpoint = Start_Operation\<rparr>"
    by (simp add: exact_pick_def newWebRouter_def guard_routes_def)
  show "\<lparr>rt_Method = ''POST'', rt_Pattern = ''/api/pitr/start'', rt_Protected = True, rt_Endpoint = Start_Operation\<rparr>
      \<in> set newWebRouter"
    by (simp add: newWebRouter_def guard_routes_def)
qed simp_all

text \<open>C40. An administrator cannot keep an agent out by rejecting it: the rejection deletes its record, and when the agent
  connects again the hook of the hub creates a record for it that is approved.\<close>

theorem rejected_agent_returns_approved:
  assumes "Agents_Reject r orgs s = (writeJSON StatusOK AgentRejected, s')"
  shows "Agent_Get s' (rq_URLParam r ''id'') = Err (Errorf (''agent not found: '' @ rq_URLParam r ''id'')) \<and>
    (\<exists>a. Agent_Get (OnConnect rnd now orgs (rq_URLParam r ''id'') s') (rq_URLParam r ''id'') = Ok a \<and> ag_Approved a \<and>
      ag_Status a = ''online'')"
proof -
  have "rq_URLParam r ''id'' \<noteq> []" "map_of s' (rq_URLParam r ''id'') = None"
    using assms by (auto simp: Agents_Reject_def Let_def writeJSON_def writeError_def Agent_Delete_def delete_conv'
      split: if_splits outcome.splits option.splits prod.splits)
  then show ?thesis
    by (simp add: OnConnect_def Agent_Get_def Agent_Create_def fill_agent_def Let_def update_conv')
qed

lemma rejected_agent_returns_approved_witness:
  "Agent_Get (snd (Agents_Reject alice alices_store one_agent)) (rq_URLParam alice ''id'') =
      Err (Errorf (''agent not found: '' @ rq_URLParam alice ''id'')) \<and>
    (\<exists>a. Agent_Get (OnConnect [] 5 alices_store (rq_URLParam alice ''id'') (snd (Agents_Reject alice alices_store one_agent)))
      (rq_URLParam alice ''id'') = Ok a \<and> ag_Approved a \<and> ag_Status a = ''online'')"
proof (rule rejected_agent_returns_approved)
  show "Agents_Reject alice alices_store one_agent =
      (writeJSON StatusOK AgentRejected, snd (Agents_Reject alice alices_store one_agent))"
    by (simp only: prod_eq_iff fst_conv snd_conv) code_simp
qed

end
