(* ===== verification/Server_Start.thy ===== *)
theory Server_Start
  imports Server_Main Pitr_Correct Ws_Hub_Correct
begin

section \<open>The server as it starts\<close>

text \<open>
  \<^verbatim>\<open>New\<close> in \<^verbatim>\<open>internal/server/server.go\<close> as a whole: the certificate authority over the file of the data directory, the hub
  that uses it, the empty stores, and the TLS configuration of the agent listener (\<^verbatim>\<open>ServerTLSConfig\<close> in \<^verbatim>\<open>ws/ca/ca.go\<close>). \<open>files\<close>
  gives the storage at a path. The state it makes is one from which the invariants of the components hold.
\<close>

record 'k tls_config =
  tc_RequireAndVerifyClientCert :: bool
  tc_ClientCAs :: "'k list"
  tc_Certificates :: "string list"

definition ServerTLSConfig :: "('s, 'k) ca \<Rightarrow> 'k tls_config" where
  "ServerTLSConfig c = \<lparr>tc_RequireAndVerifyClientCert = True,
     tc_ClientCAs = (case ca_root c of Some k \<Rightarrow> [k] | None \<Rightarrow> []), tc_Certificates = []\<rparr>"

record ('s, 'k, 'r) platform =
  pl_TLSConfig :: "'k tls_config"
  pl_DataDir :: string
  pl_Hub :: "('r, ('s, 'k) ca) hub"
  pl_secret :: string
  pl_users :: user_store
  pl_orgs :: org_store
  pl_agents :: agent_store
  pl_pitr :: pitr_server

definition data_dir_env :: "(string \<Rightarrow> string) \<Rightarrow> string" where
  "data_dir_env getenv = (if getenv ''AGENT_DATA_DIR'' = [] then ''data'' else getenv ''AGENT_DATA_DIR'')"

definition New :: "'s storage_ops \<Rightarrow> 'k x509_lib \<Rightarrow> (string \<Rightarrow> string) \<Rightarrow> go_time \<Rightarrow> (string \<Rightarrow> 's) \<Rightarrow> ('s, 'k, 'r) platform outcome" where
  "New ops lib getenv now files =
     (case server_new ops lib getenv now (files (path_join (data_dir_env getenv) ''ca.json'')) of
        (Ok cert, c) \<Rightarrow>
          Ok \<lparr>pl_TLSConfig = (ServerTLSConfig c)\<lparr>tc_Certificates := [cert]\<rparr>, pl_DataDir = data_dir_env getenv, pl_Hub = NewHub c,
            pl_secret = jwtSecret getenv, pl_users = NewInMemoryUserStore, pl_orgs = NewInMemoryOrgStore, pl_agents = [],
            pl_pitr = pitr_init\<rparr>
      | (Err e, _) \<Rightarrow> Err e
      | (Panic, _) \<Rightarrow> Panic)"

lemma GenerateRoot_root: "GenerateRoot ops lib c = (Ok u, c') \<Longrightarrow> ca_root c' \<noteq> None"
  by (auto simp: GenerateRoot_def loadRoot_def split: outcome.splits prod.splits)

lemma SignServerCert_root: "ca_root (snd (SignServerCert lib now hosts c)) = ca_root c"
  by (simp add: SignServerCert_def Let_def split: option.splits outcome.splits)

lemma started_root:
  assumes "server_new ops lib getenv now st = (Ok cert, c)"
  shows "\<exists>k. ca_root c = Some k"
proof -
  obtain u c0 where root: "GenerateRoot ops lib (NewCA st) = (Ok u, c0)" "SignServerCert lib now (cert_hosts getenv) c0 = (Ok cert, c)"
    using assms by (auto simp: server_new_def server_root_def split: prod.splits outcome.splits)
  then show ?thesis using GenerateRoot_root [OF root(1)] SignServerCert_root [of lib now "cert_hosts getenv" c0] by auto
qed

text \<open>A server that starts is consistent: its hub, its operations and its organisations are in states from which their
  invariants hold, and the agent listener admits only clients with a certificate of the one root of its authority.\<close>

theorem started_server_consistent:
  assumes "New ops lib getenv now files = Ok p"
  shows "hub_ok [] (pl_Hub p) \<and> server_ok (pl_pitr p) \<and> org_inv (pl_orgs p) \<and>
    (\<exists>k. ca_root (hb_csr (pl_Hub p)) = Some k \<and> tc_ClientCAs (pl_TLSConfig p) = [k]) \<and> tc_RequireAndVerifyClientCert (pl_TLSConfig p) \<and>
    length (tc_Certificates (pl_TLSConfig p)) = 1"
proof -
  let ?st = "files (path_join (data_dir_env getenv) ''ca.json'')"
  obtain cert c where new: "server_new ops lib getenv now ?st = (Ok cert, c)"
    using assms by (auto simp: New_def split: prod.splits outcome.splits)
  obtain k where k: "ca_root c = Some k" using started_root [OF new] by blast
  have hub: "hub_ok [] (NewHub c)" by (rule hub_ok_reachable [OF hub_trace.start])
  have orgs: "org_inv NewInMemoryOrgStore" using org_wf_empty by (simp add: org_inv_def NewInMemoryOrgStore_def)
  from assms new k hub orgs server_ok_init show ?thesis by (auto simp: New_def ServerTLSConfig_def NewHub_def)
qed

end
