(* ===== verification/Recovery.thy ===== *)
theory Recovery
  imports Pitr_Run Agent_Correct Connector_Correct
begin

section \<open>A recovery from platform to database\<close>

text \<open>
  The goroutine of a recovery (\<^verbatim>\<open>runOperation\<close> in \<^verbatim>\<open>server/pitr/handler.go\<close>) together with the agent it commands.
  Its commands become messages, the agent's handlers answer them, and the replies are decoded into the results the
  goroutine waits for. JSON keeps the structure of a message; \<open>wire\<close> is what it makes of a string, which is the string itself
  when it is valid UTF-8. The goroutine runs here without interference by requests.
\<close>

subsection \<open>Messages\<close>

definition ws_params :: "(string \<Rightarrow> string) \<Rightarrow> agent_command \<Rightarrow> (string \<times> json) list" where
  "ws_params wire c = (case c of
      Cmd_Preflight op \<Rightarrow> [(''operationId'', JStr (wire op))]
    | Cmd_Parse op tbl end_time files start startPos stopPos \<Rightarrow>
        [(''operationId'', JStr (wire op)), (''targetTable'', JStr (wire tbl)), (''endTime'', JStr (wire end_time))] @
        (case files of Some fs \<Rightarrow> [(''binlogFiles'', JList (map (\<lambda>f. JStr (wire f)) fs))] | None \<Rightarrow> []) @
        (case start of Some t \<Rightarrow> [(''startTime'', JStr (wire t))] | None \<Rightarrow> []) @
        (case startPos of Some n \<Rightarrow> [(''startPos'', JNum (of_nat (unat n)))] | None \<Rightarrow> []) @
        (case stopPos of Some n \<Rightarrow> [(''stopPos'', JNum (of_nat (unat n)))] | None \<Rightarrow> [])
    | Cmd_Execute op sqls n tbl recovery_time \<Rightarrow>
        [(''operationId'', JStr (wire op)), (''sql'', JList (map (\<lambda>s. JStr (wire s)) sqls)), (''batchSize'', JNum (of_nat n)),
         (''targetTable'', JStr (wire tbl)), (''recoveryTime'', JStr (wire recovery_time))]
    | Cmd_Cancel op \<Rightarrow> [(''operationId'', JStr (wire op))])"

definition newCmdID :: "string \<Rightarrow> bytes \<Rightarrow> string" where
  "newCmdID kind rnd = kind @ ''-'' @ hex_lower rnd"

definition ws_command :: "(string \<Rightarrow> string) \<Rightarrow> bytes \<Rightarrow> agent_command \<Rightarrow> command" where
  "ws_command wire rnd c =
     \<lparr>cm_Cmd = newCmdID (case c of Cmd_Preflight _ \<Rightarrow> ''preflight'' | Cmd_Parse _ _ _ _ _ _ _ \<Rightarrow> ''parse''
        | Cmd_Execute _ _ _ _ _ \<Rightarrow> ''execute'' | Cmd_Cancel _ \<Rightarrow> ''cancel'') rnd,
      cm_Type = (case c of Cmd_Preflight _ \<Rightarrow> ''preflight'' | Cmd_Parse _ _ _ _ _ _ _ \<Rightarrow> ''pitr_parse''
        | Cmd_Execute _ _ _ _ _ \<Rightarrow> ''pitr_execute'' | Cmd_Cancel _ \<Rightarrow> ''pitr_cancel''),
      cm_Params = ws_params wire c\<rparr>"

text \<open>\<^verbatim>\<open>decodeResult\<close> into the three result types: the fields have the same names at both ends.\<close>

definition decode_preflight :: "(string \<Rightarrow> string) \<Rightarrow> agent_result \<Rightarrow> agent_preflight_result option" where
  "decode_preflight wire r = (case r of
      RPreflight f \<Rightarrow> Some \<lparr>pf_Preflight = Some (fr_preflight f), pf_BinlogFiles = map wire (fr_binlogFiles f),
        pf_TotalSize = fr_totalSize f, pf_BinlogDir = wire (fr_binlogDir f)\<rparr>
    | _ \<Rightarrow> None)"

definition decode_entry :: "(string \<Rightarrow> string) \<Rightarrow> preview_entry \<Rightarrow> reverse_sql_entry" where
  "decode_entry wire e = \<lparr>rs_Sequence = ve_sequence e, rs_SqlType = wire (ve_sqlType e), rs_TableName = wire (ve_tableName e),
     rs_OriginalSql = wire (ve_originalSql e), rs_ReverseSql = wire (ve_reverseSql e), rs_RowsAffected = ve_rowsAffected e\<rparr>"

definition decode_parse :: "(string \<Rightarrow> string) \<Rightarrow> agent_result \<Rightarrow> agent_parse_result option" where
  "decode_parse wire r = (case r of
      RParse y \<Rightarrow> Some \<lparr>pa_OperationID = wire (yr_operationId y), pa_TotalRows = yr_totalRows y, pa_ReverseSql = map wire (yr_reverseSql y),
        pa_Preview = map (decode_entry wire) (yr_preview y), pa_SQLSample = wire (yr_sqlSample y)\<rparr>
    | _ \<Rightarrow> None)"

definition decode_execute :: "(string \<Rightarrow> string) \<Rightarrow> agent_result \<Rightarrow> agent_execute_result option" where
  "decode_execute wire r = (case r of
      RExecute x \<Rightarrow> Some \<lparr>ex_OperationID = wire (xr_operationId x), ex_Cancelled = xr_cancelled x, ex_RowsAffected = xr_rowsAffected x,
        ex_BatchesCompleted = int (xr_batchesCompleted x), ex_BatchesTotal = int (xr_batchesTotal x),
        ex_Errors = map (\<lambda>e. \<lparr>ab_BatchNum = int (be_BatchNum e), ab_SQL = wire (be_SQL e), ab_Error = wire (be_Error e)\<rparr>) (xr_errors x)\<rparr>
    | _ \<Rightarrow> None)"

text \<open>What the goroutine sees of the agent's reply; an agent that panics is disconnected.\<close>

definition reply_of :: "(agent_result \<Rightarrow> 'a option) \<Rightarrow> agent_result ws_response outcome \<Rightarrow> 'a agent_reply" where
  "reply_of decode reply = (case reply of
      Ok r \<Rightarrow> if rs_Status r = ''error'' then Resp_Error (rs_Error r)
        else (case Option.bind (rs_Result r) decode of Some x \<Rightarrow> Result x | None \<Rightarrow> Undecodable ''unmarshal result'')
    | _ \<Rightarrow> Send_Failed ''agent disconnected while awaiting response'')"

subsection \<open>The run\<close>

text \<open>What step \<open>k\<close> of the run meets: the clock, whether the agent is connected, the random bytes of the id of its command, and the world of the
  agent's handlers.\<close>

record 'c recovery_env =
  rv_text :: text_lib
  rv_wire :: "string \<Rightarrow> string"
  rv_operator :: string
  rv_config :: agent_config
  rv_clock :: "nat \<Rightarrow> go_time"
  rv_connected :: "nat \<Rightarrow> bool"
  rv_random :: "nat \<Rightarrow> bytes"
  rv_world :: "nat \<Rightarrow> 'c daemon_world"

record 'c recovery =
  rc_op :: operation
  rc_pc :: pc
  rc_daemon :: "'c daemon"
  rc_reply :: "agent_result ws_response outcome"

definition recovery_input :: "'c recovery_env \<Rightarrow> nat \<Rightarrow> agent_result ws_response outcome \<Rightarrow> step_input" where
  "recovery_input env k reply =
     \<lparr>si_now = rv_clock env k, si_connected = rv_connected env k, si_preflight = reply_of (decode_preflight (rv_wire env)) reply,
      si_parse = reply_of (decode_parse (rv_wire env)) reply, si_execute = reply_of (decode_execute (rv_wire env)) reply\<rparr>"

definition recovery_step :: "'c recovery_env \<Rightarrow> nat \<Rightarrow> 'c recovery \<Rightarrow> 'c recovery" where
  "recovery_step env k R =
     (case thread_step (rv_text env) (recovery_input env k (rc_reply R)) (rv_operator env) (rc_pc R) (rc_op R) of
        (p, c, cmd, audit) \<Rightarrow>
          (case cmd of
             None \<Rightarrow> R\<lparr>rc_op := p, rc_pc := c\<rparr>
           | Some a \<Rightarrow>
               (case Dispatch (daemon_handlers (rv_world env k) (rv_config env)) (ws_command (rv_wire env) (rv_random env k) a)
                     (rc_daemon R) of
                  (reply, s) \<Rightarrow> \<lparr>rc_op = p, rc_pc = c, rc_daemon = s, rc_reply = reply\<rparr>)))"

text \<open>A run from start to end takes at most ten steps.\<close>

definition recovery_run :: "'c recovery_env \<Rightarrow> operation \<Rightarrow> 'c daemon \<Rightarrow> 'c recovery" where
  "recovery_run env p s = fold (recovery_step env) [0..<10] \<lparr>rc_op = p, rc_pc = Run_Begin, rc_daemon = s, rc_reply = Panic\<rparr>"

lemma finished_stays: "rc_pc R = Finished \<Longrightarrow> recovery_step env k R = R"
  by (simp add: recovery_step_def quiet_def)

lemma finished_run: "rc_pc R = Finished \<Longrightarrow> fold (recovery_step env) ks R = R"
  by (induction ks) (simp_all add: finished_stays)

subsection \<open>One step after the other\<close>

text \<open>A step either ends the run without completing it or goes on to the next wait.\<close>

definition gave_up :: "'c recovery \<Rightarrow> bool" where
  "gave_up R \<longleftrightarrow> rc_pc R = Finished \<and> op_State (rc_op R) \<noteq> StateCompleted"

text \<open>What of the operation the commands depend on, and that it has not been completed.\<close>

definition same_request :: "text_lib \<Rightarrow> operation \<Rightarrow> operation \<Rightarrow> bool" where
  "same_request lib p q \<longleftrightarrow> parse_command lib q = parse_command lib p \<and> op_Mode q = op_Mode p \<and> op_State q \<noteq> StateCompleted"

lemma same_request_refl: "op_State p \<noteq> StateCompleted \<Longrightarrow> same_request lib p p"
  by (simp add: same_request_def)

lemma quiet_dispatch:
  "map_of (daemon_handlers dw cfg) ''preflight'' = Some (\<lambda>cmd s. (map_resp RPreflight (handlePreflight (dw_world dw) cfg cmd), s))"
  "map_of (daemon_handlers dw cfg) ''pitr_parse'' = Some (\<lambda>cmd s. (map_resp RParse (handlePITRParse (dw_world dw) cfg cmd), s))"
  "map_of (daemon_handlers dw cfg) ''pitr_execute'' =
     Some (\<lambda>cmd s. apfst (map_resp RExecute) (handlePITRExecute (dw_world dw) (dw_exec dw) cfg cmd s))"
  by (simp_all add: daemon_handlers_def RegisterHandler_def update_conv')

definition goes_on :: "text_lib \<Rightarrow> operation \<Rightarrow> 'c recovery \<Rightarrow> 'c recovery \<Rightarrow> (pc \<Rightarrow> bool) \<Rightarrow> bool" where
  "goes_on lib p R R' next_pc \<longleftrightarrow> gave_up R' \<or> same_request lib p (rc_op R') \<and> next_pc (rc_pc R') \<and> rc_daemon R' = rc_daemon R"

lemma parse_command_frame [simp]:
  "parse_command lib (p\<lparr>op_State := s\<rparr>) = parse_command lib p" "parse_command lib (p\<lparr>op_PreflightRes := f\<rparr>) = parse_command lib p"
  "parse_command lib (p\<lparr>op_ParseRes := r\<rparr>) = parse_command lib p" "parse_command lib (p\<lparr>op_UpdatedAt := t\<rparr>) = parse_command lib p"
  "parse_command lib (p\<lparr>op_Progress := g\<rparr>) = parse_command lib p"
  by (simp_all add: parse_command_def)

lemma parse_command_type: "cm_Type (ws_command wire i (parse_command lib p)) = ''pitr_parse''"
  by (simp add: ws_command_def parse_command_def)

lemmas stage_defs = goes_on_def gave_up_def same_request_def recovery_step_def step_defs

lemma stage_begin:
  assumes "same_request (rv_text env) p (rc_op R)" "rc_pc R = Run_Begin"
  shows "goes_on (rv_text env) p R (recovery_step env k R) (\<lambda>c. c = Preflight_Wait)"
  using assms by (auto simp: stage_defs ws_command_def Dispatch_def quiet_dispatch)

lemma stage_preflight:
  assumes "same_request (rv_text env) p (rc_op R)" "rc_pc R = Preflight_Wait"
  shows "goes_on (rv_text env) p R (recovery_step env k R) (\<lambda>c. \<exists>pf. c = Confirm_Write pf)"
  using assms by (auto simp: stage_defs split: agent_reply.splits option.splits)

lemma stage_confirm:
  assumes "same_request (rv_text env) p (rc_op R)" "rc_pc R = Confirm_Write pf"
  shows "goes_on (rv_text env) p R (recovery_step env k R) (\<lambda>c. c = Parse_Check)"
  using assms by (auto simp: stage_defs)

lemma stage_check:
  assumes "same_request (rv_text env) p (rc_op R)" "rc_pc R = Parse_Check"
  shows "goes_on (rv_text env) p R (recovery_step env k R) (\<lambda>c. c = Parse_Write)"
  using assms by (auto simp: stage_defs)

lemma stage_write:
  assumes "same_request (rv_text env) p (rc_op R)" "rc_pc R = Parse_Write"
  shows "goes_on (rv_text env) p R (recovery_step env k R) (\<lambda>c. c = Parse_Wait)"
    and "rc_reply (recovery_step env k R) = map_resp RParse (handlePITRParse (dw_world (rv_world env k)) (rv_config env)
      (ws_command (rv_wire env) (rv_random env k) (parse_command (rv_text env) p)))"
  using assms by (auto simp: stage_defs Let_def Dispatch_def quiet_dispatch parse_command_type)

lemma stage_parse:
  assumes "same_request (rv_text env) p (rc_op R)" "rc_pc R = Parse_Wait"
  shows "goes_on (rv_text env) p R (recovery_step env k R)
    (\<lambda>c. \<exists>pr. c = Preview_Write pr \<and> reply_of (decode_parse (rv_wire env)) (rc_reply R) = Result pr)"
  using assms by (auto simp: stage_defs recovery_input_def split: agent_reply.splits)

lemma stage_preview:
  assumes "same_request (rv_text env) p (rc_op R)" "rc_pc R = Preview_Write pr" "op_Mode p \<noteq> ''preview''"
  shows "goes_on (rv_text env) p R (recovery_step env k R) (\<lambda>c. c = Exec_Begin (pa_ReverseSql pr))"
  using assms by (auto simp: stage_defs Let_def)

lemma stage_exec_begin:
  assumes "same_request (rv_text env) p (rc_op R)" "rc_pc R = Exec_Begin sqls"
  shows "goes_on (rv_text env) p R (recovery_step env k R) (\<lambda>c. c = Exec_Write sqls)"
  using assms by (auto simp: stage_defs)

text \<open>The execute command, and how the run ends.\<close>

lemma stage_exec_write:
  assumes "rc_pc R = Exec_Write sqls"
  obtains cmd reply s where "cm_Type cmd = ''pitr_execute''"
    "map_of (cm_Params cmd) ''sql'' = Some (JList (map JStr (map (rv_wire env) sqls)))"
    "handlePITRExecute (dw_world (rv_world env k)) (dw_exec (rv_world env k)) (rv_config env) cmd (rc_daemon R) = (reply, s)"
    "rc_daemon (recovery_step env k R) = s" "rc_reply (recovery_step env k R) = map_resp RExecute reply"
    "rc_pc (recovery_step env k R) = Exec_Wait sqls"
proof -
  let ?a = "Cmd_Execute (op_ID (rc_op R)) sqls 100 (op_TargetTable (rc_op R)) (tl_rfc3339 (rv_text env) (op_RecoveryTime (rc_op R)))"
  let ?cmd = "ws_command (rv_wire env) (rv_random env k) ?a"
  obtain reply s where run: "handlePITRExecute (dw_world (rv_world env k)) (dw_exec (rv_world env k)) (rv_config env) ?cmd
      (rc_daemon R) = (reply, s)" by fastforce
  show thesis
  proof (rule that [OF _ _ run])
    show "cm_Type ?cmd = ''pitr_execute''" by (simp add: ws_command_def)
    show "map_of (cm_Params ?cmd) ''sql'' = Some (JList (map JStr (map (rv_wire env) sqls)))"
      by (simp add: ws_command_def ws_params_def comp_def)
  qed (use assms run in \<open>simp_all add: recovery_step_def exec_write_def touch_def Let_def Dispatch_def quiet_dispatch ws_command_def\<close>)
qed

lemma stage_exec_wait:
  assumes "rc_pc R = Exec_Wait sqls" "op_State (rc_op (recovery_step env k R)) = StateCompleted"
  shows "\<exists>x. reply_of (decode_execute (rv_wire env)) (rc_reply R) = Result x \<and> ex_Errors x = []"
    and "rc_daemon (recovery_step env k R) = rc_daemon R"
  using assms by (auto simp: stage_defs recovery_input_def Let_def split: agent_reply.splits if_splits)

subsection \<open>The whole run\<close>

text \<open>The binary log that a parse command makes the agent read holds a history of the target table, as \<^verbatim>\<open>mysqlbinlog\<close>
  prints it, that leads from \<open>D\<close> to \<open>E\<close>.\<close>

definition logged_history :: "agent_world \<Rightarrow> agent_config \<Rightarrow> command \<Rightarrow> row_event list \<Rightarrow> db \<Rightarrow> db \<Rightarrow> bool" where
  "logged_history w cfg cmd events D E \<longleftrightarrow> (\<exists>opts selected dir db tbl pre s.
     buildBinlogParseOpts w (cm_Params cmd) cfg = Ok opts \<and> select_files w cfg cmd = Inr selected \<and> binlog_dir w cfg = Ok dir \<and>
     SplitN2 (bo_TargetTable opts) ''.'' = [db, tbl] \<and>
     prints (aw_run w) (aw_local_time w) opts (binlogPaths dir selected) (unlines (pre @ render_stream db tbl s)) None \<and>
     list_all line_ok (pre @ render_stream db tbl s) \<and> list_all (\<lambda>l. \<not> is_header db tbl l) pre \<and>
     list_all (\<lambda>(ch, noise). change_ok ch \<and> noise_ok db tbl noise) s \<and>
     events = map (change_event db tbl (fst (queryColumnNames (aw_query w) db tbl)) \<circ> fst) s \<and>
     table_history tbl (fst (queryColumnNames (aw_query w) db tbl)) (map fst s) D E)"

lemma logged_reply:
  assumes "logged_history w cfg cmd events D E" "handlePITRParse w cfg cmd = Ok reply" "rs_Result reply = Some y"
  shows "\<exists>sts. yr_reverseSql y = map (render (aw_show_float w)) sts \<and>
    ReverseSQLBatch (aw_show_float w) events [] = (yr_reverseSql y, None) \<and>
    (\<exists>D'. exec_all sts E D') \<and> {D'. exec_all sts E D'} \<subseteq> {D}"
  using assms(1) parse_reply_of_history [OF _ _ _ _ refl _ _ _ _ _ _ assms(2,3)] unfolding logged_history_def by blast

lemma decoded_parse:
  assumes "reply_of (decode_parse wire) (map_resp RParse r) = Result pr"
  shows "\<exists>reply y. r = Ok reply \<and> rs_Result reply = Some y \<and> pa_ReverseSql pr = map wire (yr_reverseSql y)"
  using assms by (cases r) (auto simp: reply_of_def map_resp_def decode_parse_def bind_eq_Some_conv split: option.splits if_splits)

lemma decoded_execute:
  assumes "reply_of (decode_execute wire) (map_resp RExecute r) = Result x" "ex_Errors x = []"
  shows "\<exists>reply y. r = Ok reply \<and> rs_Result reply = Some y \<and> xr_errors y = []"
  using assms by (cases r) (auto simp: reply_of_def map_resp_def decode_execute_def bind_eq_Some_conv split: option.splits if_splits)

lemma not_given_up: "op_State (rc_op (fold (recovery_step env) ks R)) = StateCompleted \<Longrightarrow> \<not> gave_up R"
  by (auto simp: gave_up_def finished_run)

text \<open>A completed run went through all ten steps.\<close>

lemma completed_run:
  assumes "op_State p \<noteq> StateCompleted" "op_Mode p \<noteq> ''preview''" "op_State (rc_op (recovery_run env p s)) = StateCompleted"
  obtains R4 R8 pr where "rc_daemon R4 = s" "rc_pc R4 = Parse_Write" "same_request (rv_text env) p (rc_op R4)"
    "reply_of (decode_parse (rv_wire env)) (rc_reply (recovery_step env 4 R4)) = Result pr"
    "rc_daemon R8 = s" "rc_pc R8 = Exec_Write (pa_ReverseSql pr)"
    "recovery_run env p s = recovery_step env 9 (recovery_step env 8 R8)"
proof -
  let ?lib = "rv_text env"
  define R where "R k = fold (recovery_step env) [0..<k] \<lparr>rc_op = p, rc_pc = Run_Begin, rc_daemon = s, rc_reply = Panic\<rparr>" for k
  have Suc: "R (Suc k) = recovery_step env k (R k)" for k by (simp add: R_def)
  have final: "recovery_run env p s = fold (recovery_step env) [k..<10] (R k)" if "k \<le> 10" for k
  proof -
    have split: "[0..<10] = [0..<k] @ [k..<10]" using upt_add_eq_append [of 0 k "10 - k"] that by simp
    show ?thesis unfolding recovery_run_def R_def split fold_append comp_apply ..
  qed
  have alive: "\<not> gave_up (R k)" if "k \<le> 10" for k
    using assms(3) not_given_up [of env "[k..<10]" "R k"] final [OF that] by simp
  have adv: "same_request ?lib p (rc_op (R (Suc k))) \<and> P (rc_pc (R (Suc k))) \<and> rc_daemon (R (Suc k)) = rc_daemon (R k)"
    if "goes_on ?lib p (R k) (recovery_step env k (R k)) P" "k < 10" for k P
    using that alive [of "Suc k"] by (simp add: goes_on_def Suc)
  have 0: "same_request ?lib p (rc_op (R 0))" "rc_pc (R 0) = Run_Begin" "rc_daemon (R 0) = s"
    using assms(1) by (simp_all add: R_def same_request_refl)
  note 1 = adv [OF stage_begin [OF 0(1,2)], simplified]
  obtain pf where 2: "same_request ?lib p (rc_op (R 2))" "rc_pc (R 2) = Confirm_Write pf" "rc_daemon (R 2) = s"
    using adv [OF stage_preflight, of 1] 1 0(3) by (auto simp: numeral_2_eq_2)
  have 3: "same_request ?lib p (rc_op (R 3))" "rc_pc (R 3) = Parse_Check" "rc_daemon (R 3) = s"
    using adv [OF stage_confirm [OF 2(1,2)]] 2(3) by (simp_all add: eval_nat_numeral)
  have 4: "same_request ?lib p (rc_op (R 4))" "rc_pc (R 4) = Parse_Write" "rc_daemon (R 4) = s"
    using adv [OF stage_check [OF 3(1,2)]] 3(3) by (simp_all add: eval_nat_numeral)
  have 5: "same_request ?lib p (rc_op (R 5))" "rc_pc (R 5) = Parse_Wait" "rc_daemon (R 5) = s"
    using adv [OF stage_write(1) [OF 4(1,2)]] 4(3) by (simp_all add: eval_nat_numeral)
  obtain pr where 6: "same_request ?lib p (rc_op (R 6))" "rc_pc (R 6) = Preview_Write pr" "rc_daemon (R 6) = s"
    and pr: "reply_of (decode_parse (rv_wire env)) (rc_reply (R 5)) = Result pr"
    using adv [OF stage_parse [OF 5(1,2)]] 5(3) by (auto simp: eval_nat_numeral)
  have 7: "same_request ?lib p (rc_op (R 7))" "rc_pc (R 7) = Exec_Begin (pa_ReverseSql pr)" "rc_daemon (R 7) = s"
    using adv [OF stage_preview [OF 6(1,2) assms(2)]] 6(3) by (simp_all add: eval_nat_numeral)
  have 8: "same_request ?lib p (rc_op (R 8))" "rc_pc (R 8) = Exec_Write (pa_ReverseSql pr)" "rc_daemon (R 8) = s"
    using adv [OF stage_exec_begin [OF 7(1,2)]] 7(3) by (simp_all add: eval_nat_numeral)
  have "R 5 = recovery_step env 4 (R 4)" using Suc [of 4] by simp
  moreover have "recovery_run env p s = recovery_step env 9 (recovery_step env 8 (R 8))" using final [of 8] by (simp add: upt_rec)
  ultimately show thesis using that [OF 4(3,2,1) _ 8(3,2)] pr by simp
qed

lemma completed_restores:
  assumes log: "logged_history w (rv_config env) (ws_command (rv_wire env) (rv_random env 4) (parse_command (rv_text env) p)) events D E"
    and w: "w = dw_world (rv_world env 4)"
    and wire: "\<forall>sql\<in>set (fst (ReverseSQLBatch (aw_show_float w) events [])). rv_wire env sql = sql"
    and db: "atomic_driver (ew_driver (dw_exec (rv_world env 8))) comm pend" "no_retryable (ew_driver (dw_exec (rv_world env 8)))"
    and p: "op_State p = StatePreflight" "op_Mode p \<noteq> ''preview''"
    and completed: "op_State (rc_op (recovery_run env p s)) = StateCompleted"
  shows "comm (dm_db (rc_daemon (recovery_run env p s))) = comm (dm_db s) @ fst (ReverseSQLBatch (aw_show_float w) events []) \<and>
    (\<exists>sts. ReverseSQLBatch (aw_show_float w) events [] = (map (render (aw_show_float w)) sts, None) \<and>
      (\<exists>D'. exec_all sts E D') \<and> {D'. exec_all sts E D'} \<subseteq> {D})"
proof -
  obtain R4 R8 pr where R4: "rc_pc R4 = Parse_Write" "same_request (rv_text env) p (rc_op R4)"
      "reply_of (decode_parse (rv_wire env)) (rc_reply (recovery_step env 4 R4)) = Result pr"
    and R8: "rc_daemon R8 = s" "rc_pc R8 = Exec_Write (pa_ReverseSql pr)"
      "recovery_run env p s = recovery_step env 9 (recovery_step env 8 R8)"
    by (rule completed_run [OF _ p(2) completed]) (simp_all add: p(1))
  from decoded_parse [OF R4(3) [unfolded stage_write(2) [OF R4(2,1)]]] obtain reply y where
    parsed: "handlePITRParse w (rv_config env) (ws_command (rv_wire env) (rv_random env 4) (parse_command (rv_text env) p)) = Ok reply"
      "rs_Result reply = Some y" and sqls: "pa_ReverseSql pr = map (rv_wire env) (yr_reverseSql y)"
    unfolding w by blast
  from logged_reply [OF log parsed] obtain sts where sts: "yr_reverseSql y = map (render (aw_show_float w)) sts"
    "\<exists>D'. exec_all sts E D'" "{D'. exec_all sts E D'} \<subseteq> {D}"
    and batch: "ReverseSQLBatch (aw_show_float w) events [] = (yr_reverseSql y, None)"
    by blast
  have same: "map (rv_wire env) (yr_reverseSql y) = yr_reverseSql y" using wire by (simp add: batch map_idI)
  obtain cmd xr s' where ex: "map_of (cm_Params cmd) ''sql'' = Some (JList (map JStr (yr_reverseSql y)))"
      "handlePITRExecute (dw_world (rv_world env 8)) (dw_exec (rv_world env 8)) (rv_config env) cmd s = (xr, s')"
      "rc_daemon (recovery_step env 8 R8) = s'" "rc_reply (recovery_step env 8 R8) = map_resp RExecute xr"
      "rc_pc (recovery_step env 8 R8) = Exec_Wait (yr_reverseSql y)"
    by (rule stage_exec_write [OF R8(2), of env 8]) (simp only: sqls same R8(1))
  have ended: "\<exists>x. reply_of (decode_execute (rv_wire env)) (map_resp RExecute xr) = Result x \<and> ex_Errors x = []"
      "rc_daemon (recovery_run env p s) = s'"
    using stage_exec_wait [OF ex(5), of env 9] completed by (simp_all add: R8(3) ex(3,4))
  then obtain xreply x where "xr = Ok xreply" "rs_Result xreply = Some x" "xr_errors x = []"
    using decoded_execute by blast
  moreover have "string_params (cm_Params cmd) ''sql'' = yr_reverseSql y"
    using string_params_strings [OF ex(1)] render_not_Nil sts(1) by (metis (no_types) imageE set_map)
  ultimately have "comm (dm_db s') = comm (dm_db s) @ yr_reverseSql y"
    using execution_commits_all [OF _ db] ex(2) by blast
  then show ?thesis using sts batch by (simp add: ended(2)) blast
qed


subsection \<open>A sample recovery\<close>

definition rescue_world :: agent_world where
  "rescue_world = (sample_world sample_text)\<lparr>aw_connect := Ok sample_server, aw_parse_time := (\<lambda>_. Some 0)\<rparr>"

definition rescue_env :: "(string list \<times> string list) recovery_env" where
  "rescue_env = \<lparr>rv_text = \<lparr>tl_rfc3339 = (\<lambda>_. ''t''), tl_quote = (\<lambda>s. s)\<rparr>, rv_wire = (\<lambda>s. s), rv_operator = ''o'',
     rv_config = sample_agent, rv_clock = (\<lambda>_. 0), rv_connected = (\<lambda>_. True), rv_random = (\<lambda>_. [171]),
     rv_world = (\<lambda>_. \<lparr>dw_agentID = ''a'', dw_started = 0, dw_now = 9,
       dw_durations = \<lparr>dl_round_hours = (\<lambda>_. []), dl_duration = (\<lambda>_. []), dl_rfc3339 = (\<lambda>_. []), dl_quot = (\<lambda>_ _. [])\<rparr>,
       dw_world = rescue_world, dw_exec = log_exec (\<lambda>_ _. None), dw_cancel = (\<lambda>c. c)\<rparr>)\<rparr>"

definition rescue_op :: operation where
  "rescue_op = \<lparr>op_ID = ''op'', op_OrgID = ''g'', op_AgentID = ''a'', op_TargetTable = ''d.t'', op_RecoveryTime = 0, op_Mode = ''execute'',
     op_State = StatePreflight, op_BinlogFiles = [''f''], op_StartTime = None, op_StartPos = None, op_StopPos = None,
     op_AgentConnected = True, op_PreflightRes = None, op_ParseRes = None, op_ExecRes = None, op_Progress = None, op_Error = [],
     op_CreatedAt = 0, op_UpdatedAt = 0\<rparr>"

definition rescue_cmd :: command where
  "rescue_cmd = \<lparr>cm_Cmd = ''parse-ab'', cm_Type = ''pitr_parse'', cm_Params = [(''operationId'', JStr ''op''), (''targetTable'', JStr ''d.t''),
     (''endTime'', JStr ''t''), (''binlogFiles'', JList [JStr ''f''])]\<rparr>"

definition rescue_opts :: binlog_parse_opts where
  "rescue_opts = sample_opts\<lparr>bo_EndTime := Some 0\<rparr>"

lemma rescue_command: "ws_command (rv_wire rescue_env) (rv_random rescue_env 4) (parse_command (rv_text rescue_env) rescue_op) = rescue_cmd"
  by code_simp

lemma rescue_facts:
  "buildBinlogParseOpts rescue_world (cm_Params rescue_cmd) sample_agent = Ok rescue_opts"
  "select_files rescue_world sample_agent rescue_cmd = Inr [''f'']" "binlog_dir rescue_world sample_agent = Ok ''b''"
  "SplitN2 (bo_TargetTable rescue_opts) ''.'' = [''d'', ''t'']"
  "fst (queryColumnNames (aw_query rescue_world) ''d'' ''t'') = [''id'']"
  "prints (aw_run rescue_world) (aw_local_time rescue_world) rescue_opts (binlogPaths ''b'' [''f'']) sample_text None"
proof -
  show "buildBinlogParseOpts rescue_world (cm_Params rescue_cmd) sample_agent = Ok rescue_opts"
    by (simp add: rescue_world_def sample_world_def) code_simp
  show "select_files rescue_world sample_agent rescue_cmd = Inr [''f'']"
    by (simp add: rescue_world_def sample_world_def) code_simp
  show "binlog_dir rescue_world sample_agent = Ok ''b''" by (simp add: binlog_dir_def sample_agent_def)
  show "SplitN2 (bo_TargetTable rescue_opts) ''.'' = [''d'', ''t'']" by code_simp
  show "fst (queryColumnNames (aw_query rescue_world) ''d'' ''t'') = [''id'']"
    by (simp add: rescue_world_def sample_world_def) code_simp
  show "prints (aw_run rescue_world) (aw_local_time rescue_world) rescue_opts (binlogPaths ''b'' [''f'']) sample_text None"
    by (simp add: prints_def rescue_world_def sample_world_def)
qed

lemma rescue_batch:
  "fst (ReverseSQLBatch (aw_show_float rescue_world) [makeRowEvent InsertEvent ''d'' ''t'' [VInt 1] [''id'']] [])
     = [''DELETE FROM `t` WHERE `id` = 1 LIMIT 1;'']"
  by (simp add: rescue_world_def sample_world_def) code_simp

lemma rescue_history:
  "logged_history rescue_world (rv_config rescue_env) rescue_cmd [makeRowEvent InsertEvent ''d'' ''t'' [VInt 1] [''id'']]
     (\<lambda>_. {#}) ((\<lambda>_. {#})(''t'' := {# [''id'' \<mapsto> VInt 1] #}))"
proof -
  have cfg: "rv_config rescue_env = sample_agent" by (simp add: rescue_env_def)
  have events: "[makeRowEvent InsertEvent ''d'' ''t'' [VInt 1] [''id'']] =
    map (change_event ''d'' ''t'' (fst (queryColumnNames (aw_query rescue_world) ''d'' ''t'')) \<circ> fst) [(TInsert [TInt 1], [''COMMIT''])]"
    unfolding rescue_facts(5) by (rule sample_events)
  have history: "table_history ''t'' (fst (queryColumnNames (aw_query rescue_world) ''d'' ''t'')) (map fst [(TInsert [TInt 1], [''COMMIT''])])
      (\<lambda>_. {#}) ((\<lambda>_. {#})(''t'' := {# [''id'' \<mapsto> VInt 1] #}))"
    unfolding rescue_facts(5) by (rule sample_history)
  show ?thesis
    unfolding logged_history_def cfg
    by (intro exI conjI)
      (rule rescue_facts(1), rule rescue_facts(2), rule rescue_facts(3), rule rescue_facts(4),
        rule rescue_facts(6) [unfolded sample_text_def], rule sample_lines, rule sample_pre, rule sample_stream, rule events,
        rule history)
qed

lemma rescue_parse:
  "handlePITRParse rescue_world sample_agent rescue_cmd = Ok (reply_to_parse rescue_world rescue_cmd sample_parsed)"
proof -
  let ?w = rescue_world
  have "parseBinlogWithMySQLBinlog (aw_quoted ?w) (aw_scan_float ?w) (aw_local_time ?w) (aw_query ?w) (aw_run ?w)
      (binlogPaths ''b'' [''f'']) rescue_opts = Ok sample_parsed"
    using history_parsed [OF rescue_facts(4) rescue_facts(5) [symmetric] rescue_facts(6) [unfolded sample_text_def]
      sample_lines sample_pre sample_stream sample_events sample_history, THEN conjunct1, folded sample_text_def]
    by (simp add: sample_parsed_def)
  with rescue_facts(1-3) show ?thesis by (simp add: handlePITRParse_def)
qed

definition rescue_start :: "(string list \<times> string list) recovery" where
  "rescue_start = \<lparr>rc_op = rescue_op, rc_pc = Run_Begin, rc_daemon = fresh_daemon, rc_reply = Panic\<rparr>"

definition rescue_parsing :: "(string list \<times> string list) recovery" where
  "rescue_parsing = \<lparr>rc_op = rescue_op\<lparr>op_State := StateParsing, op_PreflightRes :=
       Some \<lparr>ps_CheckedAt = 0, ps_BinlogFiles = [''binlog.000001''], ps_EarliestTime = zero_time, ps_EstimatedSize = 157\<rparr>\<rparr>,
     rc_pc = Parse_Wait, rc_daemon = fresh_daemon,
     rc_reply = map_resp RParse (Ok (reply_to_parse rescue_world rescue_cmd sample_parsed))\<rparr>"

lemma rescue_until_parsing: "fold (recovery_step rescue_env) [0..<5] rescue_start = rescue_parsing"
proof -
  let ?R = "fold (recovery_step rescue_env) [0..<4] rescue_start"
  have "(rc_pc ?R, rc_daemon ?R, rc_op ?R) = (Parse_Write, fresh_daemon, rc_op rescue_parsing\<lparr>op_State := StateConfirmed\<rparr>)"
    by code_simp
  then have R: "rc_pc ?R = Parse_Write" "rc_daemon ?R = fresh_daemon"
    "rc_op ?R = rc_op rescue_parsing\<lparr>op_State := StateConfirmed\<rparr>" by (simp_all only: prod.inject)
  have cmd: "ws_command (rv_wire rescue_env) (rv_random rescue_env 4)
      (parse_command (rv_text rescue_env) (rc_op rescue_parsing)) = rescue_cmd"
    by code_simp
  have env: "dw_world (rv_world rescue_env 4) = rescue_world" "rv_config rescue_env = sample_agent" "rv_clock rescue_env 4 = 0"
    by (simp_all add: rescue_env_def)
  have "recovery_step rescue_env 4 ?R = rescue_parsing"
    using R cmd rescue_parse
    by (simp add: recovery_step_def parse_write_def touch_def Let_def recovery_input_def env Dispatch_def quiet_dispatch rescue_parsing_def
      rescue_op_def rescue_cmd_def)
  moreover have "[0..<5] = [0..<4] @ [4]" by code_simp
  ultimately show ?thesis by simp
qed

lemma rescue_completes:
  "op_State (rc_op (recovery_run rescue_env rescue_op fresh_daemon)) = StateCompleted"
proof -
  have split: "[0..<10] = [0..<5] @ [5..<10]" by code_simp
  have "recovery_run rescue_env rescue_op fresh_daemon = fold (recovery_step rescue_env) [5..<10] rescue_parsing"
    unfolding rescue_until_parsing [symmetric] by (simp add: recovery_run_def rescue_start_def split fold_append)
  moreover have "op_State (rc_op (fold (recovery_step rescue_env) [5..<10] rescue_parsing)) = StateCompleted" by code_simp
  ultimately show ?thesis by simp
qed


end
