(* ===== verification/Recovery_Completes.thy ===== *)
theory Recovery_Completes
  imports Recovery
begin

section \<open>A recovery that meets no obstacle completes\<close>

text \<open>
  The counterpart of \<open>Recovery\<close>: when the agent stays connected, its preflight passes, the binary log holds a history of
  the table and the database takes every statement, the goroutine of a recovery comes to its end in ten steps with
  the operation completed.
\<close>

subsection \<open>A database that takes every statement\<close>

definition healthy :: "'c tx_driver \<Rightarrow> bool" where
  "healthy drv \<longleftrightarrow> (\<forall>c. fst (tx_begin drv c) = None) \<and> (\<forall>s c. fst (tx_exec drv s c) = None) \<and> (\<forall>c. fst (tx_commit drv c) = None)"

lemma healthy_stmts: "healthy drv \<Longrightarrow> fst (exec_stmts drv ss c) = None"
  by (induction ss arbitrary: c) (auto simp: healthy_def split: prod.splits option.splits, metis fst_conv option.distinct(1))

lemma healthy_batch:
  assumes "healthy drv"
  shows "\<exists>c'. executeBatch drv batch c = (None, c')"
proof -
  obtain c1 where 1: "tx_begin drv c = (None, c1)" using assms by (metis healthy_def prod.collapse)
  obtain c2 where 2: "exec_stmts drv batch c1 = (None, c2)" using healthy_stmts [OF assms] by (metis prod.collapse)
  obtain c3 where 3: "tx_commit drv c2 = (None, c3)" using assms by (metis healthy_def prod.collapse)
  show ?thesis by (simp add: executeBatch_def 1 2 3)
qed

lemma healthy_no_retryable: "healthy drv \<Longrightarrow> no_retryable drv"
  unfolding no_retryable_def using healthy_batch by (metis option.distinct(1) prod.inject)

lemma healthy_run_batches:
  assumes "healthy drv"
  shows "rr_Errors (fst (run_batches drv cb i batches res calls c)) = rr_Errors res"
proof (induction batches arbitrary: i res calls c)
  case (Cons batch batches)
  obtain c' where "executeBatch drv batch c = (None, c')" using healthy_batch [OF assms] by blast
  then have "executeWithRetry drv batch c = (Ok (length batch), c')"
    by (simp add: executeWithRetry_def retry_batch.simps [of drv batch "length batch"] Let_def)
  then show ?case using Cons.IH by simp
qed simp

lemma healthy_Execute:
  assumes "healthy drv" "\<not> ro_DryRun opts"
  shows "\<exists>res calls c'. Execute drv t u sqls opts (Some c) = (Ok res, calls, Some c') \<and> rr_Errors res = []"
proof (cases "sqls = []")
  case False
  define b where "b = (if ro_BatchSize opts \<le> 0 then 1000 else ro_BatchSize opts)"
  define m where "m = (if ro_MaxBatchBytes opts \<le> 0 then 10 * 1024 * 1024 else ro_MaxBatchBytes opts)"
  let ?res = "\<lparr>rr_RowsAffected = 0, rr_BatchesTotal = length (buildBatches sqls b m), rr_BatchesComplete = 0, rr_Errors = [],
    rr_CheckpointID = [], rr_StartedAt = t, rr_CompletedAt = zero_time\<rparr>"
  obtain res calls c' where run: "run_batches drv (ro_OnBatch opts) 0 (buildBatches sqls b m) ?res [] c = (res, calls, c')"
    by (metis prod_cases3)
  then have "Execute drv t u sqls opts (Some c) = (Ok (res\<lparr>rr_CompletedAt := u\<rparr>), calls, Some c')"
    using assms(2) False by (simp add: Execute_def Let_def b_def m_def)
  moreover have "rr_Errors res = []"
    using healthy_run_batches [OF assms(1), of "ro_OnBatch opts" 0 "buildBatches sqls b m" ?res "[]" c] run by simp
  ultimately show ?thesis by simp
qed (simp add: Execute_def Let_def)

lemma healthy_execution:
  assumes "healthy (ew_driver e)" "ew_open e = None" "\<And>c. \<not> ew_done e c"
    and "paramString (cm_Params cmd) ''operationId'' \<noteq> []" "string_params (cm_Params cmd) ''sql'' \<noteq> []"
    and "batch_size_param (cm_Params cmd) \<noteq> 0"
  shows "\<exists>x s'. handlePITRExecute w e cfg cmd s = (Ok (okResp cmd x), s') \<and> xr_errors x = [] \<and> \<not> xr_cancelled x"
proof -
  let ?sqls = "string_params (cm_Params cmd) ''sql''" and ?n = "batch_size_param (cm_Params cmd)"
  let ?s = "s\<lparr>dm_cancels := List.insert (paramString (cm_Params cmd) ''operationId'') (dm_cancels s)\<rparr>"
  obtain est where est: "estimate_batches (length ?sqls) ?n = Ok est"
    using assms(6) by (simp add: estimate_batches_def go_div_def)
  let ?opts = "\<lparr>ro_BatchSize = ?n, ro_MaxBatchBytes = 0, ro_DryRun = False, ro_OnBatch = True\<rparr>"
  obtain res calls c' where ex: "Execute (ew_driver e) (ew_clock e 0) (ew_clock e 0) ?sqls ?opts (Some (dm_db ?s)) = (Ok res, calls, Some c')"
      "rr_Errors res = []"
    using healthy_Execute [OF assms(1), of ?opts "ew_clock e 0" "ew_clock e 0" ?sqls "dm_db ?s"] by auto
  show ?thesis
    using assms(2-5) est ex
    by (auto simp: handlePITRExecute_def run_execute_def Let_def split: prod.splits)
qed

subsection \<open>Forward\<close>

text \<open>Where the run stands: the request is as it was, with the state and the program counter given.\<close>

definition stands :: "text_lib \<Rightarrow> operation \<Rightarrow> 'c daemon \<Rightarrow> operation_state \<Rightarrow> pc \<Rightarrow> 'c recovery \<Rightarrow> bool" where
  "stands lib p s st c R \<longleftrightarrow> parse_command lib (rc_op R) = parse_command lib p \<and> op_ID (rc_op R) = op_ID p \<and> op_Mode (rc_op R) = op_Mode p \<and>
     op_State (rc_op R) = st \<and> rc_pc R = c \<and> rc_daemon R = s"

lemma transitions [simp]:
  "TransitionValid StatePreflight StateConfirmed" "TransitionValid StateConfirmed StateParsing"
  "TransitionValid StateParsing StatePreviewed" "TransitionValid StatePreviewed StateExecuting"
  by code_simp+

lemmas forward_defs = stands_def recovery_step_def recovery_input_def step_defs

lemma forward_begin:
  assumes "stands (rv_text env) p s StatePreflight Run_Begin R" "rv_connected env k"
  shows "stands (rv_text env) p s StatePreflight Preflight_Wait (recovery_step env k R)"
    and "rc_reply (recovery_step env k R) = map_resp RPreflight (handlePreflight (dw_world (rv_world env k)) (rv_config env)
      (ws_command (rv_wire env) (rv_random env k) (Cmd_Preflight (op_ID p))))"
  using assms by (auto simp: forward_defs ws_command_def Dispatch_def quiet_dispatch)

lemma forward_preflight:
  assumes "stands (rv_text env) p s StatePreflight Preflight_Wait R" "rc_reply R = map_resp RPreflight (Ok (okResp cmd f))"
    and "pf_Status (fr_preflight f) \<noteq> PreflightFail"
  shows "\<exists>pf. stands (rv_text env) p s StatePreflight (Confirm_Write pf) (recovery_step env k R)"
  using assms by (auto simp: forward_defs reply_of_def map_resp_def okResp_def decode_preflight_def)

lemma forward_confirm:
  assumes "stands (rv_text env) p s StatePreflight (Confirm_Write pf) R"
  shows "stands (rv_text env) p s StateConfirmed Parse_Check (recovery_step env k R)"
  using assms by (auto simp: forward_defs)

lemma forward_check:
  assumes "stands (rv_text env) p s StateConfirmed Parse_Check R"
  shows "stands (rv_text env) p s StateConfirmed Parse_Write (recovery_step env k R)"
  using assms by (auto simp: forward_defs)

lemma forward_write:
  assumes "stands (rv_text env) p s StateConfirmed Parse_Write R"
  shows "stands (rv_text env) p s StateParsing Parse_Wait (recovery_step env k R)"
    and "rc_reply (recovery_step env k R) = map_resp RParse (handlePITRParse (dw_world (rv_world env k)) (rv_config env)
      (ws_command (rv_wire env) (rv_random env k) (parse_command (rv_text env) p)))"
  using assms by (auto simp: forward_defs Let_def Dispatch_def quiet_dispatch parse_command_type)

lemma forward_parse:
  assumes "stands (rv_text env) p s StateParsing Parse_Wait R" "rc_reply R = map_resp RParse (Ok (okResp cmd y))"
    and "yr_totalRows y \<noteq> 0"
  shows "\<exists>pr. stands (rv_text env) p s StateParsing (Preview_Write pr) (recovery_step env k R) \<and>
    pa_ReverseSql pr = map (rv_wire env) (yr_reverseSql y)"
  using assms by (auto simp: forward_defs reply_of_def map_resp_def okResp_def decode_parse_def)

lemma forward_preview:
  assumes "stands (rv_text env) p s StateParsing (Preview_Write pr) R" "op_Mode p \<noteq> ''preview''"
  shows "stands (rv_text env) p s StatePreviewed (Exec_Begin (pa_ReverseSql pr)) (recovery_step env k R)"
  using assms by (auto simp: forward_defs Let_def)

lemma forward_exec_begin:
  assumes "stands (rv_text env) p s StatePreviewed (Exec_Begin sqls) R" "rv_connected env k"
  shows "stands (rv_text env) p s StatePreviewed (Exec_Write sqls) (recovery_step env k R)"
  using assms by (auto simp: forward_defs)

lemma forward_exec_write:
  assumes "stands (rv_text env) p s StatePreviewed (Exec_Write sqls) R"
    and "sqls \<noteq> []" "[] \<notin> rv_wire env ` set sqls" "TrimSpace (rv_wire env (op_ID p)) \<noteq> []"
    and "healthy (ew_driver (dw_exec (rv_world env k)))" "ew_open (dw_exec (rv_world env k)) = None"
    and "\<And>c. \<not> ew_done (dw_exec (rv_world env k)) c"
  shows "rc_pc (recovery_step env k R) = Exec_Wait sqls" "op_State (rc_op (recovery_step env k R)) = StateExecuting"
    and "\<exists>cmd x. rc_reply (recovery_step env k R) = map_resp RExecute (Ok (okResp cmd x)) \<and> xr_errors x = [] \<and> \<not> xr_cancelled x"
proof -
  let ?a = "Cmd_Execute (op_ID p) sqls 100 (op_TargetTable (rc_op R)) (tl_rfc3339 (rv_text env) (op_RecoveryTime (rc_op R)))"
  let ?cmd = "ws_command (rv_wire env) (rv_random env k) ?a" and ?e = "dw_exec (rv_world env k)"
  have params: "string_params (cm_Params ?cmd) ''sql'' = map (rv_wire env) sqls"
    using assms(3) by (intro string_params_strings) (auto simp: ws_command_def ws_params_def comp_def)
  have "paramString (cm_Params ?cmd) ''operationId'' \<noteq> []" "batch_size_param (cm_Params ?cmd) = 100"
    using assms(4) by (simp_all add: paramString_def ws_command_def ws_params_def batch_size_param_def int_of_float_def)
  with healthy_execution [OF assms(5,6,7), of ?cmd] params assms(2) obtain x s' where
    run: "handlePITRExecute (dw_world (rv_world env k)) ?e (rv_config env) ?cmd (rc_daemon R) = (Ok (okResp ?cmd x), s')"
      "xr_errors x = []" "\<not> xr_cancelled x"
    by fastforce
  show "rc_pc (recovery_step env k R) = Exec_Wait sqls" "op_State (rc_op (recovery_step env k R)) = StateExecuting"
    and "\<exists>cmd x. rc_reply (recovery_step env k R) = map_resp RExecute (Ok (okResp cmd x)) \<and> xr_errors x = [] \<and> \<not> xr_cancelled x"
    using assms(1) run
    by (auto simp: forward_defs Let_def Dispatch_def quiet_dispatch ws_command_def apfst_def map_prod_def split: prod.splits)
qed

lemma forward_exec_wait:
  assumes "rc_pc R = Exec_Wait sqls" "op_State (rc_op R) = StateExecuting"
    and "rc_reply R = map_resp RExecute (Ok (okResp cmd x))" "xr_errors x = []" "\<not> xr_cancelled x"
  shows "op_State (rc_op (recovery_step env k R)) = StateCompleted"
  using assms by (auto simp: forward_defs reply_of_def map_resp_def okResp_def decode_execute_def Let_def)

subsection \<open>The whole run\<close>

lemma logged_parse:
  assumes "logged_history w cfg cmd events D E" "events \<noteq> []"
  shows "\<exists>y. handlePITRParse w cfg cmd = Ok (okResp cmd y) \<and> yr_totalRows y \<noteq> 0 \<and> yr_reverseSql y \<noteq> [] \<and>
    ReverseSQLBatch (aw_show_float w) events [] = (yr_reverseSql y, None)"
proof -
  let ?res = "\<lparr>pr_Events = events, pr_TotalRows = int (length events), pr_Errors = []\<rparr>"
  obtain opts selected dir db tbl pre h where l: "buildBinlogParseOpts w (cm_Params cmd) cfg = Ok opts" "select_files w cfg cmd = Inr selected"
      "binlog_dir w cfg = Ok dir" "SplitN2 (bo_TargetTable opts) ''.'' = [db, tbl]"
      "prints (aw_run w) (aw_local_time w) opts (binlogPaths dir selected) (unlines (pre @ render_stream db tbl h)) None"
      "list_all line_ok (pre @ render_stream db tbl h)" "list_all (\<lambda>l. \<not> is_header db tbl l) pre"
      "list_all (\<lambda>(ch, noise). change_ok ch \<and> noise_ok db tbl noise) h"
      "events = map (change_event db tbl (fst (queryColumnNames (aw_query w) db tbl)) \<circ> fst) h"
      "table_history tbl (fst (queryColumnNames (aw_query w) db tbl)) (map fst h) D E"
    using assms(1) unfolding logged_history_def by blast
  note parse = history_parsed [OF l(4) refl l(5-10), where quoted = "aw_quoted w" and sf = "aw_scan_float w" and g = "aw_show_float w"]
  then have parsed: "handlePITRParse w cfg cmd = Ok (reply_to_parse w cmd ?res)" using l(1-3) by (simp add: handlePITRParse_def)
  obtain sqls where sqls: "ReverseSQLBatch (aw_show_float w) events [] = (sqls, None)" using parse by blast
  then have "length sqls = length events" using ReverseSQLBatch_None(2) by fastforce
  with assms(2) sqls parsed show ?thesis by (auto simp: reply_to_parse_def Let_def)
qed


lemma handlePreflight_okResp:
  "handlePreflight w cfg cmd = Ok r \<Longrightarrow> rs_Result r = Some f \<Longrightarrow> r = okResp cmd f"
  by (auto simp: handlePreflight_def connect_failed_def errResp_def okResp_def Let_def split: outcome.splits if_splits)


end
