(* ===== verification/Spec2Isabelle.thy ===== *)
theory Spec2Isabelle
  imports
    Prelude
    Event
    Keyed_Store
    Go_Values
    Go_Strings
    Table_Map
    Rows_Event
    Row_Bounds
    Row_Codec
    Rows_Correct
    Connector_Types
    Sql_Format
    Reverse
    Undo
    Binlog_Reader
    Ddl
    Binlog_Parser
    Parser_Correct
    Executor
    Fk_Order
    Http
    Server_Stores
    Auth
    Org_Handlers
    Audit_Handlers
    Pitr_Store
    Pitr_Run
    Pitr_Handlers
    Pitr_Scenario
    Pitr_Correct
    Pitr_Safety
    Binlog_Text
    Binlog_Text_Correct
    Mysql_Connector
    Preflight_Runner
    Connector_Correct
    Mysql_Open
    Checkpoint
    Ws_Types
    Agent_Serve
    Agent_Execute
    Agent_Correct
    Hex
    Agent_Config
    Flashback_Run
    Flashback_Correct
    Ws_Ca
    Ws_Hub
    Ws_Hub_Correct
    Ws_Hub_Waits
    Ws_Hub_Life
    Ws_Client
    Ws_Renewal
    Ws_Heartbeat
    Ws_Client_Correct
    Ws_Session
    Server_Main
    Server_Start
    Recovery
    Recovery_Completes
begin

text \<open>
  Point-in-time recovery for MySQL. The program undoes changes of a table after the fact: it reads the row events of
  the binary log, writes for each the statement that undoes it, and runs those statements. It consists of a library
  that parses binary logs (\<^verbatim>\<open>internal/parser\<close>), a library that talks to the database
  (\<^verbatim>\<open>internal/connector\<close>, \<^verbatim>\<open>internal/rollback\<close>, \<^verbatim>\<open>internal/checkpoint\<close>), an agent beside the
  database (\<^verbatim>\<open>cmd/agent\<close>, \<^verbatim>\<open>internal/config\<close>, \<^verbatim>\<open>internal/ws/agent\<close>), and a platform
  (\<^verbatim>\<open>internal/server\<close>, \<^verbatim>\<open>internal/ws/hub\<close>, \<^verbatim>\<open>internal/ws/ca\<close>) whose users start recoveries over
  HTTP. The platform sends commands to agents over WebSocket connections authenticated by certificates of its own
  authority. All paths are relative to \<^verbatim>\<open>src/\<close>.

  \<^bold>\<open>Common ground.\<close>
  \<^item> \<open>Prelude\<close>: the outcome of a Go call (a value, an error, a panic), errors, 64-bit arithmetic (\<open>goint\<close> wraps), slices with their
    bounds check, decimal text. \<open>Go_Values\<close>: values of columns, times, formatting. \<open>Go_Strings\<close>: the
    functions of \<^verbatim>\<open>strings\<close> in use. \<open>Hex\<close>: \<^verbatim>\<open>encoding/hex\<close>. \<open>Http\<close>: requests and responses of the handlers.
  \<^item> \<open>Keyed_Store\<close>: the laws of a map from identifiers to entries as locales \<open>keyed_store\<close> and \<open>entity_store\<close>, interpreted on
    association lists and then on the registry of table maps and on the stores of the server.

  \<^bold>\<open>Reading the binary log\<close> (\<^verbatim>\<open>internal/parser\<close>).
  \<^item> \<open>Event\<close> (\<^verbatim>\<open>event.go\<close>): the header, integers, length-encoded values, bitmaps; the locale \<open>field_reader\<close> (a reader inverts an encoder)
    is interpreted on each. \<open>Table_Map\<close> (\<^verbatim>\<open>table_map.go\<close>): column metadata and the registry.
  \<^item> \<open>Rows_Event\<close> (\<^verbatim>\<open>rows_event.go\<close>): every column type, row images, the three row events. The loop over the
    rows is a \<open>partial_function\<close>, since it does not end when there are no columns. \<open>Row_Bounds\<close>: no reader leaves the data, and
    which metadata make one panic; the locales \<open>progressing_reader\<close> and \<open>row_reader\<close> carry the loop. \<open>Row_Codec\<close>: the
    inverse of the readers. \<open>Rows_Correct\<close>: termination, absence of panics and round trips of whole events.
  \<^item> \<open>Binlog_Reader\<close> (\<^verbatim>\<open>reader.go\<close>): opening a file, events with their checksum. \<open>Ddl\<close> and \<open>Binlog_Parser\<close>
    (\<^verbatim>\<open>parser.go\<close>): the dispatch of events, the loop, several files. The loop consumes a byte with every event, so it recurses on
    what remains. \<open>Parser_Correct\<close>: the loop is a fold over the events of a well-formed file, and what it
    returns respects the options.

  \<^bold>\<open>Undoing\<close>.
  \<^item> \<open>Connector_Types\<close> (\<^verbatim>\<open>connector/types.go\<close>), \<open>Sql_Format\<close> (\<^verbatim>\<open>sql.go\<close>), \<open>Reverse\<close> (\<^verbatim>\<open>reverse.go\<close>): the
    text of a statement. \<open>Undo\<close>: an abstract syntax of the statements with a semantics on multisets of rows, which leaves open
    what rows a LIMIT picks; \<^verbatim>\<open>ReverseSQL\<close> refines the abstract undo, and an undo batch leads back to the
    database before a history.
  \<^item> \<open>Executor\<close> (\<^verbatim>\<open>rollback/executor.go\<close>): batches, transactions, retries at half the size. \<open>Fk_Order\<close>
    (\<^verbatim>\<open>connector/fk.go\<close>): tables in the order of their foreign keys. \<open>Mysql_Open\<close>, \<open>Mysql_Connector\<close>, \<open>Preflight_Runner\<close>, \<open>Connector_Correct\<close>
    (\<^verbatim>\<open>connector/mysql.go\<close>, \<^verbatim>\<open>rollback/preflight.go\<close>): the connection, checks, the list of binary logs, execution of a
    rollback. \<open>Checkpoint\<close> (\<^verbatim>\<open>checkpoint/manager.go\<close>): one file per recovery on a disk whose operations may fail.

  \<^bold>\<open>The agent\<close>.
  \<^item> \<open>Binlog_Text\<close>, \<open>Binlog_Text_Correct\<close> (\<^verbatim>\<open>cmd/agent/flashback.go\<close>): the agent reads the output of \<^verbatim>\<open>mysqlbinlog\<close>; a
    history printed the way that program documents is read back change by change, and for a table whose rows have its columns the
    events read are those of the changes made, whose reverse batch undoes them.
  \<^item> \<open>Flashback_Run\<close>, \<open>Flashback_Correct\<close>: the flashback command from its options to its effects. \<open>Agent_Config\<close>
    (\<^verbatim>\<open>internal/config\<close>, \<^verbatim>\<open>cmd/agent/config.go\<close>): the encrypted configuration.
  \<^item> \<open>Ws_Types\<close>, \<open>Agent_Serve\<close>, \<open>Agent_Execute\<close> (\<^verbatim>\<open>cmd/agent/serve.go\<close>, \<^verbatim>\<open>ws/agent/dispatcher.go\<close>): the handlers of
    the daemon and the dispatcher. \<open>Agent_Correct\<close>: parse and execute commands together undo a history.
  \<^item> \<open>Ws_Client\<close>, \<open>Ws_Renewal\<close>, \<open>Ws_Client_Correct\<close> (\<^verbatim>\<open>ws/agent/client.go\<close>, \<^verbatim>\<open>renewal.go\<close>): the connection to the
    platform, its manager and its calls, and the renewal of the certificate. \<open>Ws_Heartbeat\<close>: pings and read deadlines at both ends.

  \<^bold>\<open>The platform\<close>.
  \<^item> \<open>Server_Stores\<close>, \<open>Auth\<close>, \<open>Org_Handlers\<close>, \<open>Audit_Handlers\<close> (\<^verbatim>\<open>internal/server/agent\<close>, \<^verbatim>\<open>org\<close>,
    \<^verbatim>\<open>auth\<close>, \<^verbatim>\<open>audit\<close>): stores and handlers, with who may do what.
  \<^item> \<open>Pitr_Store\<close>, \<open>Pitr_Run\<close>, \<open>Pitr_Handlers\<close>, \<open>Pitr_Scenario\<close>, \<open>Pitr_Correct\<close>, \<open>Pitr_Safety\<close> (\<^verbatim>\<open>server/pitr\<close>): the life of a
    recovery. A goroutine is a program counter, each of whose steps is the code between two points where others can
    run; a run is any sequence of requests, notifications and steps, and the invariants hold in all of them.
  \<^item> \<open>Ws_Hub\<close>, \<open>Ws_Hub_Correct\<close>, \<open>Ws_Hub_Waits\<close> (\<^verbatim>\<open>ws/hub/hub.go\<close>): connections, read pumps and calls as steps of one
    state; \<open>hub_trace\<close> is the inductive relation of its runs. \<open>Ws_Hub_Life\<close>: a connection only moves forward through its phases. \<open>Ws_Ca\<close> (\<^verbatim>\<open>ws/ca\<close>): the authority and its two
    storages, with the locale \<open>cert_storage\<close>; the locale \<open>csr_handler\<close> is what the hub needs of it.
  \<^item> \<open>Server_Main\<close> (\<^verbatim>\<open>server.go\<close>, \<^verbatim>\<open>router.go\<close>): the hooks that tie hub and registry, the table of routes, start-up. \<open>Server_Start\<close>: what
    a started server consists of, and that the invariants hold there.
  \<^item> \<open>Ws_Session\<close>: a command from the hub through client, dispatcher and handler, and its reply back.
  \<^item> \<open>Recovery\<close>: the goroutine of a recovery together with the handlers of its agent; a completed recovery has restored the database.
    \<open>Recovery_Completes\<close>: a recovery that meets no obstacle completes.

  \<^bold>\<open>Choices.\<close> Words have their width and Go's \<^verbatim>\<open>int\<close> is an integer wrapped by \<open>goint\<close>. Where Go panics, so does the
  model; a panic in a goroutine ends the process. Go maps are association lists with distinct keys; a listing
  follows the order of the list, on which nothing proved depends except where a map's first entry is meant. A mutex makes its region one
  step. What is outside the repository is a parameter with its documented laws as hypotheses: the database (a driver over a state),
  \<^verbatim>\<open>mysqlbinlog\<close> (a function from arguments to text), floating-point text, Unicode case mapping, JSON and its
  numbers (rationals), JWT, bcrypt, PBKDF2 and AES-GCM, X.509 and TLS, sockets, clocks and random numbers. No fuel is
  used: recursion is structural or on a measure, but for the loop over rows named above.

  \<^bold>\<open>Not modelled.\<close> The registration of flags with cobra and both \<^verbatim>\<open>main\<close> functions; the inside of the database
  driver; chi's matching of paths and the upgrade to WebSocket; log lines; \<^verbatim>\<open>Clone\<close> of a table map and the dead helpers
  \<^verbatim>\<open>safeRead\<close> and \<^verbatim>\<open>readInt64Value\<close>; the mock in \<^verbatim>\<open>hub.go\<close>.
\<close>

end
